(* ===== verification/Prelude.thy ===== *)
theory Prelude
  imports Main "HOL-Library.AList" "HOL-Library.Sublist"
begin

section \<open>Programs, results and their calculus\<close>

text \<open>
  Shared vocabulary of the development. A Rust function that returns \<open>Result<T>\<close> and touches
  the outside world is a function from a state to a result and the new state
  (\<open>prog\<close>); a pure one that can fail is a value of a sum type whose left side is the error.
  \<open>andThen\<close> is the \<open>?\<close> operator: an error returns early and keeps the state reached so far.
  \<open>attempt\<close> turns the result into a value, as \<open>match\<close> on a \<open>Result\<close> does, and \<open>ignore\<close>
  is \<open>let _ = ...\<close>. The weakest-precondition calculus \<open>wp\<close> executes a program symbolically:
  its equations are collected in \<open>wp_simps\<close>.
\<close>

named_theorems wp_simps \<open>equations that execute a program symbolically\<close>
named_theorems effects \<open>rules that bound the events a program can add to the trace\<close>

subsection \<open>Pure results\<close>

type_synonym ('e, 'a) result = "'e + 'a"

definition ok_or :: "'e \<Rightarrow> 'a option \<Rightarrow> ('e, 'a) result" where
  "ok_or e v = (case v of None \<Rightarrow> Inl e | Some a \<Rightarrow> Inr a)"

definition ensure :: "bool \<Rightarrow> 'e \<Rightarrow> ('e, unit) result" where
  "ensure b e = (if b then Inr () else Inl e)"

definition bindR :: "('e, 'a) result \<Rightarrow> ('a \<Rightarrow> ('e, 'b) result) \<Rightarrow> ('e, 'b) result" where
  "bindR r f = (case r of Inl e \<Rightarrow> Inl e | Inr a \<Rightarrow> f a)"

definition is_ok :: "('e, 'a) result \<Rightarrow> bool" where
  "is_ok r = (case r of Inl _ \<Rightarrow> False | Inr _ \<Rightarrow> True)"

lemma ok_or_simps [simp]: "ok_or e None = Inl e" "ok_or e (Some a) = Inr a"
  by (simp_all add: ok_or_def)

lemma ensure_simps [simp]: "ensure True e = Inr ()" "ensure False e = Inl e"
  by (simp_all add: ensure_def)

lemma bindR_simps [simp]: "bindR (Inl e) f = Inl e" "bindR (Inr a) f = f a"
  by (simp_all add: bindR_def)

lemma is_ok_simps [simp]: "is_ok (Inl e) = False" "is_ok (Inr a) = True"
  by (simp_all add: is_ok_def)

lemma ensure_eq_Inr [simp]: "ensure b e = Inr u \<longleftrightarrow> b"
  by (cases b) simp_all

lemma ensure_eq_Inl [simp]: "ensure b e = Inl e' \<longleftrightarrow> \<not> b \<and> e' = e"
  by (cases b) auto

lemma bindR_eq_Inr: "bindR r f = Inr b \<longleftrightarrow> (\<exists>a. r = Inr a \<and> f a = Inr b)"
  by (cases r) simp_all

lemma bindR_eq_Inl: "bindR r f = Inl e \<longleftrightarrow> r = Inl e \<or> (\<exists>a. r = Inr a \<and> f a = Inl e)"
  by (cases r) simp_all

lemma is_ok_bindR: "is_ok (bindR r f) \<longleftrightarrow> (\<exists>a. r = Inr a \<and> is_ok (f a))"
  by (cases r) simp_all

lemma is_ok_ensure [simp]: "is_ok (ensure b e) = b"
  by (cases b) simp_all

text \<open>A loop whose body checks one element and may return early.\<close>

fun check_all :: "('a \<Rightarrow> ('e, unit) result) \<Rightarrow> 'a list \<Rightarrow> ('e, unit) result" where
  "check_all f [] = Inr ()"
| "check_all f (x # xs) = bindR (f x) (\<lambda>_. check_all f xs)"

lemma is_ok_check_all [simp]: "is_ok (check_all f xs) \<longleftrightarrow> (\<forall>x\<in>set xs. is_ok (f x))"
  by (induction xs) (auto simp: is_ok_bindR is_ok_def split: sum.splits)

lemma unit_result_cases: "(r :: ('e, unit) result) = Inr () \<longleftrightarrow> is_ok r"
  by (cases r) simp_all

subsection \<open>Programs\<close>

type_synonym ('s, 'e, 'a) prog = "'s \<Rightarrow> ('e, 'a) result \<times> 's"

definition ret :: "'a \<Rightarrow> ('s, 'e, 'a) prog" where
  "ret a = (\<lambda>s. (Inr a, s))"

definition bail :: "'e \<Rightarrow> ('s, 'e, 'a) prog" where
  "bail e = (\<lambda>s. (Inl e, s))"

definition lift :: "('e, 'a) result \<Rightarrow> ('s, 'e, 'a) prog" where
  "lift r = (\<lambda>s. (r, s))"

definition andThen :: "('s, 'e, 'a) prog \<Rightarrow> ('a \<Rightarrow> ('s, 'e, 'b) prog) \<Rightarrow> ('s, 'e, 'b) prog" where
  "andThen m f = (\<lambda>s. case m s of (Inl e, s') \<Rightarrow> (Inl e, s') | (Inr a, s') \<Rightarrow> f a s')"

definition attempt :: "('s, 'e, 'a) prog \<Rightarrow> ('s, 'f, ('e, 'a) result) prog" where
  "attempt m = (\<lambda>s. case m s of (r, s') \<Rightarrow> (Inr r, s'))"

definition ignore :: "('s, 'e, 'a) prog \<Rightarrow> ('s, 'f, unit) prog" where
  "ignore m = (\<lambda>s. (Inr (), snd (m s)))"

definition mapErr :: "('e \<Rightarrow> 'f) \<Rightarrow> ('s, 'e, 'a) prog \<Rightarrow> ('s, 'f, 'a) prog" where
  "mapErr g m = (\<lambda>s. case m s of (Inl e, s') \<Rightarrow> (Inl (g e), s') | (Inr a, s') \<Rightarrow> (Inr a, s'))"

definition gets :: "('s \<Rightarrow> 'a) \<Rightarrow> ('s, 'e, 'a) prog" where
  "gets f = (\<lambda>s. (Inr (f s), s))"

definition modify :: "('s \<Rightarrow> 's) \<Rightarrow> ('s, 'e, unit) prog" where
  "modify f = (\<lambda>s. (Inr (), f s))"

definition unless :: "bool \<Rightarrow> ('s, 'e, unit) prog \<Rightarrow> ('s, 'e, unit) prog" where
  "unless b m = (if b then ret () else m)"

definition onlyIf :: "bool \<Rightarrow> ('s, 'e, unit) prog \<Rightarrow> ('s, 'e, unit) prog" where
  "onlyIf b m = (if b then m else ret ())"

fun forEach :: "('a \<Rightarrow> ('s, 'e, unit) prog) \<Rightarrow> 'a list \<Rightarrow> ('s, 'e, unit) prog" where
  "forEach f [] = ret ()"
| "forEach f (x # xs) = andThen (f x) (\<lambda>_. forEach f xs)"

fun foldEach :: "('b \<Rightarrow> 'a \<Rightarrow> ('s, 'e, 'b) prog) \<Rightarrow> 'b \<Rightarrow> 'a list \<Rightarrow> ('s, 'e, 'b) prog" where
  "foldEach f acc [] = ret acc"
| "foldEach f acc (x # xs) = andThen (f acc x) (\<lambda>acc'. foldEach f acc' xs)"

subsection \<open>Symbolic execution\<close>

definition wp :: "('s, 'e, 'a) prog \<Rightarrow> ('a \<Rightarrow> 's \<Rightarrow> bool) \<Rightarrow> ('e \<Rightarrow> 's \<Rightarrow> bool) \<Rightarrow> 's \<Rightarrow> bool" where
  "wp m Q R s = (case m s of (Inl e, s') \<Rightarrow> R e s' | (Inr a, s') \<Rightarrow> Q a s')"

lemma wp_ret [wp_simps]: "wp (ret a) Q R s = Q a s"
  by (simp add: wp_def ret_def)

lemma wp_bail [wp_simps]: "wp (bail e) Q R s = R e s"
  by (simp add: wp_def bail_def)

lemma wp_lift [wp_simps]: "wp (lift r) Q R s = (case r of Inl e \<Rightarrow> R e s | Inr a \<Rightarrow> Q a s)"
  by (simp add: wp_def lift_def)

lemma wp_andThen [wp_simps]: "wp (andThen m f) Q R s = wp m (\<lambda>a. wp (f a) Q R) R s"
  by (auto simp: wp_def andThen_def split: prod.splits sum.splits)

lemma wp_attempt [wp_simps]: "wp (attempt m) Q R s = wp m (\<lambda>a. Q (Inr a)) (\<lambda>e. Q (Inl e)) s"
  by (auto simp: wp_def attempt_def split: prod.splits sum.splits)

lemma wp_ignore [wp_simps]: "wp (ignore m) Q R s = wp m (\<lambda>_. Q ()) (\<lambda>_. Q ()) s"
  by (auto simp: wp_def ignore_def split: prod.splits sum.splits)

lemma wp_mapErr [wp_simps]: "wp (mapErr g m) Q R s = wp m Q (\<lambda>e. R (g e)) s"
  by (auto simp: wp_def mapErr_def split: prod.splits sum.splits)

lemma wp_gets [wp_simps]: "wp (gets f) Q R s = Q (f s) s"
  by (simp add: wp_def gets_def)

lemma wp_modify [wp_simps]: "wp (modify f) Q R s = Q () (f s)"
  by (simp add: wp_def modify_def)

lemma wp_onlyIf [wp_simps]: "wp (onlyIf b m) Q R s = (if b then wp m Q R s else Q () s)"
  by (simp add: onlyIf_def wp_ret)

lemma wp_unless [wp_simps]: "wp (unless b m) Q R s = (if b then Q () s else wp m Q R s)"
  by (simp add: unless_def wp_ret)

lemma wp_conseq:
  assumes "wp m Q R s"
    and "\<And>a s'. Q a s' \<Longrightarrow> Q' a s'"
    and "\<And>e s'. R e s' \<Longrightarrow> R' e s'"
  shows "wp m Q' R' s"
  using assms by (auto simp: wp_def split: prod.splits sum.splits)

lemma wp_True [simp]: "wp m (\<lambda>_ _. True) (\<lambda>_ _. True) s"
  by (simp add: wp_def split: prod.splits sum.splits)

lemma wp_result: "wp m (\<lambda>a s'. P (Inr a) s') (\<lambda>e s'. P (Inl e) s') s = P (fst (m s)) (snd (m s))"
  by (auto simp: wp_def split: prod.splits sum.splits)

lemma wp_ok: "m s = (Inr a, s') \<Longrightarrow> wp m Q R s \<Longrightarrow> Q a s'"
  by (simp add: wp_def)

lemma wp_err: "m s = (Inl e, s') \<Longrightarrow> wp m Q R s \<Longrightarrow> R e s'"
  by (simp add: wp_def)

text \<open>An invariant of the state that every iteration keeps, kept by the whole loop.\<close>

lemma wp_forEach_inv:
  assumes step: "\<And>x s. x \<in> set xs \<Longrightarrow> I s \<Longrightarrow> wp (f x) (\<lambda>_. I) (\<lambda>_. I) s"
    and "I s"
  shows "wp (forEach f xs) (\<lambda>_. I) (\<lambda>_. I) s"
  using assms
proof (induction xs arbitrary: s)
  case Nil
  then show ?case by (simp add: wp_ret)
next
  case (Cons x xs)
  have "wp (f x) (\<lambda>_. I) (\<lambda>_. I) s" using Cons.prems by simp
  moreover have "wp (forEach f xs) (\<lambda>_. I) (\<lambda>_. I) t" if "I t" for t
    using Cons.IH [of t] Cons.prems(1) that by simp
  ultimately show ?case by (auto simp: wp_andThen elim: wp_conseq)
qed

lemma wp_foldEach:
  assumes "\<And>acc x s. x \<in> set xs \<Longrightarrow> I acc s \<Longrightarrow> wp (f acc x) I (\<lambda>_ _. True) s" and "I acc s"
  shows "wp (foldEach f acc xs) I (\<lambda>_ _. True) s"
  using assms
proof (induction xs arbitrary: acc s)
  case (Cons x xs)
  have "wp (f acc x) I (\<lambda>_ _. True) s" using Cons.prems by simp
  moreover have "wp (foldEach f acc' xs) I (\<lambda>_ _. True) t" if "I acc' t" for acc' t
    using Cons.IH [of acc' t] Cons.prems(1) that by simp
  ultimately show ?case by (auto simp: wp_andThen elim: wp_conseq)
qed (simp add: wp_ret)

subsection \<open>What a program returns\<close>

text \<open>\<open>returns m Q\<close>: every value \<open>m\<close> returns normally satisfies \<open>Q\<close>, from whatever state.\<close>

definition returns :: "('s, 'e, 'a) prog \<Rightarrow> ('a \<Rightarrow> bool) \<Rightarrow> bool" where
  "returns m Q \<longleftrightarrow> (\<forall>s a s'. m s = (Inr a, s') \<longrightarrow> Q a)"

lemma returnsD: "returns m Q \<Longrightarrow> m s = (Inr a, s') \<Longrightarrow> Q a"
  by (auto simp: returns_def)

lemma returns_ret: "Q a \<Longrightarrow> returns (ret a) Q"
  by (simp add: returns_def ret_def)

lemma returns_bail: "returns (bail e) Q"
  by (simp add: returns_def bail_def)

lemma returns_lift: "(\<And>a. r = Inr a \<Longrightarrow> Q a) \<Longrightarrow> returns (lift r) Q"
  by (simp add: returns_def lift_def)

lemma returns_True: "returns m (\<lambda>_. True)"
  by (simp add: returns_def)

lemma returns_weaken: "returns m Q \<Longrightarrow> (\<And>a. Q a \<Longrightarrow> R a) \<Longrightarrow> returns m R"
  unfolding returns_def by blast

lemma returns_andThen:
  "returns m Q \<Longrightarrow> (\<And>a. Q a \<Longrightarrow> returns (f a) R) \<Longrightarrow> returns (andThen m f) R"
  unfolding returns_def andThen_def by (fastforce split: prod.splits sum.splits)

lemma returns_bind: "(\<And>a. returns (f a) R) \<Longrightarrow> returns (andThen m f) R"
  by (rule returns_andThen [OF returns_True])

lemma returns_mapErr: "returns m Q \<Longrightarrow> returns (mapErr g m) Q"
  unfolding returns_def mapErr_def by (fastforce split: prod.splits sum.splits)

lemma returns_attempt: "returns m Q \<Longrightarrow> returns (attempt m) (\<lambda>r. \<forall>a. r = Inr a \<longrightarrow> Q a)"
  unfolding returns_def attempt_def by (fastforce split: prod.splits)

lemma returns_if: "(b \<Longrightarrow> returns m Q) \<Longrightarrow> (\<not> b \<Longrightarrow> returns n Q) \<Longrightarrow> returns (if b then m else n) Q"
  by simp

lemma returns_case_option:
  "(v = None \<Longrightarrow> returns m Q) \<Longrightarrow> (\<And>a. v = Some a \<Longrightarrow> returns (f a) Q) \<Longrightarrow>
    returns (case v of None \<Rightarrow> m | Some a \<Rightarrow> f a) Q"
  by (cases v) simp_all

lemma returns_case_sum:
  "(\<And>e. v = Inl e \<Longrightarrow> returns (g e) Q) \<Longrightarrow> (\<And>a. v = Inr a \<Longrightarrow> returns (f a) Q) \<Longrightarrow>
    returns (case v of Inl e \<Rightarrow> g e | Inr a \<Rightarrow> f a) Q"
  by (cases v) simp_all

lemma returns_foldEach:
  assumes "\<And>acc x. x \<in> set xs \<Longrightarrow> Q acc \<Longrightarrow> returns (f acc x) Q" and "Q acc"
  shows "returns (foldEach f acc xs) Q"
  using assms
proof (induction xs arbitrary: acc)
  case (Cons x xs)
  show ?case unfolding foldEach.simps
    by (rule returns_andThen [of _ Q]) (use Cons in auto)
qed (simp add: returns_ret)

lemmas returns_rules = returns_ret returns_bail returns_mapErr returns_if returns_case_option
  returns_case_sum

subsection \<open>Execution equations\<close>

lemma run_simps:
  "ret a s = (Inr a, s)" "bail e s = (Inl e, s)" "lift r s = (r, s)"
  "gets f s = (Inr (f s), s)" "modify g s = (Inr (), g s)"
  by (simp_all add: ret_def bail_def lift_def gets_def modify_def)

lemma run_andThen:
  "andThen m f s = (case m s of (Inl e, s') \<Rightarrow> (Inl e, s') | (Inr a, s') \<Rightarrow> f a s')"
  by (simp add: andThen_def)

lemma run_attempt: "attempt m s = (case m s of (r, s') \<Rightarrow> (Inr r, s'))"
  by (simp add: attempt_def)

lemma run_ignore: "ignore m s = (Inr (), snd (m s))"
  by (simp add: ignore_def)

lemma run_mapErr:
  "mapErr g m s = (case m s of (Inl e, s') \<Rightarrow> (Inl (g e), s') | (Inr a, s') \<Rightarrow> (Inr a, s'))"
  by (simp add: mapErr_def)

lemma andThen_okE:
  assumes "andThen m f s = (Inr b, s')"
  obtains a s1 where "m s = (Inr a, s1)" "f a s1 = (Inr b, s')"
  using assms by (auto simp: andThen_def split: prod.splits sum.splits)

lemma andThen_lift [simp]: "andThen (lift (Inr a)) f = f a" "andThen (ret a) f = f a"
  by (auto simp: andThen_def lift_def ret_def)

lemmas run = run_simps run_andThen run_attempt run_ignore run_mapErr onlyIf_def unless_def

subsection \<open>Lists and maps\<close>

definition find_map :: "('a \<Rightarrow> 'b option) \<Rightarrow> 'a list \<Rightarrow> 'b option" where
  "find_map f xs = (case filter (\<lambda>x. f x \<noteq> None) xs of [] \<Rightarrow> None | x # _ \<Rightarrow> f x)"

text \<open>\<open>iter_mut().find(p)\<close> followed by an assignment through the reference it returns.\<close>

fun update_first :: "('a \<Rightarrow> bool) \<Rightarrow> ('a \<Rightarrow> 'a) \<Rightarrow> 'a list \<Rightarrow> 'a list" where
  "update_first p f [] = []"
| "update_first p f (x # xs) = (if p x then f x # xs else x # update_first p f xs)"

lemma length_update_first [simp]: "length (update_first p f xs) = length xs"
  by (induction xs) auto

lemma map_update_first:
  assumes "\<And>x. g (f x) = g x"
  shows "map g (update_first p f xs) = map g xs"
  using assms by (induction xs) auto

lemma find_update_first:
  assumes "\<And>x. p x \<Longrightarrow> p (f x)"
  shows "find p (update_first p f xs) = map_option f (find p xs)"
  using assms by (induction xs) auto

lemma update_first_none: "find p xs = None \<Longrightarrow> update_first p f xs = xs"
  by (induction xs) (auto split: if_splits)

lemma set_update_first: "x \<in> set (update_first p f xs) \<Longrightarrow> x \<in> set xs \<or> (\<exists>y\<in>set xs. p y \<and> x = f y)"
  by (induction xs) (auto split: if_splits)

lemma find_Some_set: "find p xs = Some x \<Longrightarrow> x \<in> set xs \<and> p x"
  by (induction xs) (auto split: if_splits)

lemma find_None_iff_all: "find p xs = None \<longleftrightarrow> (\<forall>x\<in>set xs. \<not> p x)"
  by (induction xs) auto

lemma filter_length_partition:
  "length (filter P xs) + length (filter (\<lambda>x. \<not> P x) xs) = length xs"
  by (induction xs) auto

end
