(* ===== verification/Rust_Strings.thy ===== *)
theory Rust_Strings
  imports Prelude "HOL-Library.Char_ord" "HOL-Library.List_Lexorder"
begin

section \<open>Rust strings\<close>

text \<open>
  A Rust \<open>String\<close> is a UTF-8 byte string; it is modelled as an Isabelle \<open>string\<close> whose
  characters are those bytes, so \<open>length\<close> is \<open>str::len\<close> and the lexicographic order of the list
  is \<open>Ord for str\<close>. Operations that the standard library defines on \<open>char\<close>s (trimming, splitting
  at white space, \<open>chars()\<close>) work on the segmentation of the bytes into code points
  (\<open>utf8_chars\<close>), so a multi-byte character counts once. The operations are those of
  \<open>std::str\<close> that the source uses, and no others.
\<close>

subsection \<open>Code points\<close>

definition byte_of :: "char \<Rightarrow> nat" where
  "byte_of c = of_char c"

definition continuation :: "char \<Rightarrow> bool" where
  "continuation c \<longleftrightarrow> 128 \<le> byte_of c \<and> byte_of c < 192"

function utf8_chars :: "string \<Rightarrow> string list" where
  "utf8_chars [] = []"
| "utf8_chars (c # cs) = (c # takeWhile continuation cs) # utf8_chars (dropWhile continuation cs)"
  by pat_completeness auto
termination
  by (relation "measure length") (auto simp: le_imp_less_Suc length_dropWhile_le)

definition lead_bits :: "nat \<Rightarrow> nat" where
  "lead_bits b = (if b < 128 then b else if b < 224 then b - 192 else if b < 240 then b - 224 else b - 240)"

definition code_point :: "string \<Rightarrow> nat" where
  "code_point g = (case g of [] \<Rightarrow> 0
     | c # cs \<Rightarrow> foldl (\<lambda>acc d. acc * 64 + byte_of d mod 64) (lead_bits (byte_of c)) cs)"

lemma concat_utf8_chars [simp]: "concat (utf8_chars s) = s"
  by (induction s rule: utf8_chars.induct) auto

lemma utf8_chars_nonempty: "g \<in> set (utf8_chars s) \<Longrightarrow> g \<noteq> []"
  by (induction s rule: utf8_chars.induct) auto

definition ascii :: "string \<Rightarrow> bool" where
  "ascii s \<longleftrightarrow> (\<forall>c\<in>set s. byte_of c < 128)"

lemma ascii_simps [simp]: "ascii []" "ascii (c # s) \<longleftrightarrow> byte_of c < 128 \<and> ascii s"
  by (auto simp: ascii_def)

lemma utf8_chars_ascii: "ascii s \<Longrightarrow> utf8_chars s = map (\<lambda>c. [c]) s"
proof (induction s)
  case Nil
  then show ?case by simp
next
  case (Cons c s)
  have "takeWhile continuation s = [] \<and> dropWhile continuation s = s"
    using Cons.prems by (cases s) (auto simp: continuation_def)
  then show ?case using Cons by simp
qed

lemma code_point_single: "byte_of c < 128 \<Longrightarrow> code_point [c] = byte_of c"
  by (simp add: code_point_def lead_bits_def)

subsection \<open>Character classes\<close>

text \<open>\<open>char::is_whitespace\<close> is the Unicode property White\_Space; \<open>char::is_control\<close> is category Cc.\<close>

definition is_whitespace :: "nat \<Rightarrow> bool" where
  "is_whitespace n \<longleftrightarrow> 9 \<le> n \<and> n \<le> 13 \<or> n = 32 \<or> n = 133 \<or> n = 160 \<or> n = 5760
     \<or> 8192 \<le> n \<and> n \<le> 8202 \<or> n = 8232 \<or> n = 8233 \<or> n = 8239 \<or> n = 8287 \<or> n = 12288"

definition is_control :: "nat \<Rightarrow> bool" where
  "is_control n \<longleftrightarrow> n < 32 \<or> 127 \<le> n \<and> n < 160"

definition is_ascii_lowercase :: "char \<Rightarrow> bool" where
  "is_ascii_lowercase c \<longleftrightarrow> 97 \<le> byte_of c \<and> byte_of c \<le> 122"

definition is_ascii_uppercase :: "char \<Rightarrow> bool" where
  "is_ascii_uppercase c \<longleftrightarrow> 65 \<le> byte_of c \<and> byte_of c \<le> 90"

definition is_ascii_digit :: "char \<Rightarrow> bool" where
  "is_ascii_digit c \<longleftrightarrow> 48 \<le> byte_of c \<and> byte_of c \<le> 57"

definition is_ascii_alphanumeric :: "char \<Rightarrow> bool" where
  "is_ascii_alphanumeric c \<longleftrightarrow> is_ascii_lowercase c \<or> is_ascii_uppercase c \<or> is_ascii_digit c"

definition ws_char :: "string \<Rightarrow> bool" where
  "ws_char g \<longleftrightarrow> is_whitespace (code_point g)"

lemmas ascii_class_defs =
  is_ascii_lowercase_def is_ascii_uppercase_def is_ascii_digit_def is_ascii_alphanumeric_def

lemma ascii_alphanumeric_ascii: "is_ascii_alphanumeric c \<Longrightarrow> byte_of c < 128"
  by (auto simp: ascii_class_defs)

subsection \<open>Trimming, splitting, searching\<close>

definition trim_start :: "string \<Rightarrow> string" where
  "trim_start s = concat (dropWhile ws_char (utf8_chars s))"

definition trim :: "string \<Rightarrow> string" where
  "trim s = concat (rev (dropWhile ws_char (rev (dropWhile ws_char (utf8_chars s)))))"

definition trim_matches :: "char list \<Rightarrow> string \<Rightarrow> string" where
  "trim_matches cs s = rev (dropWhile (\<lambda>c. c \<in> set cs) (rev (dropWhile (\<lambda>c. c \<in> set cs) s)))"

text \<open>\<open>str::split\<close> by a one-character pattern: a string with n separators gives n + 1 pieces.\<close>

fun split_at_char :: "char \<Rightarrow> string \<Rightarrow> string list" where
  "split_at_char d [] = [[]]"
| "split_at_char d (c # s) =
     (if c = d then [] # split_at_char d s
      else case split_at_char d s of [] \<Rightarrow> [[c]] | p # ps \<Rightarrow> (c # p) # ps)"

fun join_with :: "string \<Rightarrow> string list \<Rightarrow> string" where
  "join_with sep [] = []"
| "join_with sep [x] = x"
| "join_with sep (x # xs) = x @ sep @ join_with sep xs"

definition split_once :: "char \<Rightarrow> string \<Rightarrow> (string \<times> string) option" where
  "split_once d s = (if d \<in> set s
     then Some (takeWhile (\<lambda>c. c \<noteq> d) s, tl (dropWhile (\<lambda>c. c \<noteq> d) s)) else None)"

definition starts_with :: "string \<Rightarrow> string \<Rightarrow> bool" where
  "starts_with s p = prefix p s"

definition ends_with :: "string \<Rightarrow> string \<Rightarrow> bool" where
  "ends_with s p = suffix p s"

definition strip_prefix :: "string \<Rightarrow> string \<Rightarrow> string option" where
  "strip_prefix p s = (if prefix p s then Some (drop (length p) s) else None)"

definition strip_suffix :: "string \<Rightarrow> string \<Rightarrow> string option" where
  "strip_suffix p s = (if suffix p s then Some (take (length s - length p) s) else None)"

definition contains :: "string \<Rightarrow> string \<Rightarrow> bool" where
  "contains s p = sublist p s"

text \<open>\<open>str::lines\<close>: pieces ended by a newline, the empty piece after the last one dropped and
  one carriage return before each newline removed.\<close>

definition strip_cr :: "string \<Rightarrow> string" where
  "strip_cr l = (if l \<noteq> [] \<and> byte_of (last l) = 13 then butlast l else l)"

definition newline :: char where
  "newline = CHR 0x0A"

definition str_lines :: "string \<Rightarrow> string list" where
  "str_lines s = (let ps = split_at_char newline s
     in if last ps = [] then map strip_cr (butlast ps)
        else map strip_cr (butlast ps) @ [last ps])"

text \<open>\<open>str::replace\<close>: occurrences found left to right, not overlapping; the patterns of the source
  are never empty.\<close>

function str_replace :: "string \<Rightarrow> string \<Rightarrow> string \<Rightarrow> string" where
  "str_replace p r s =
     (if p = [] then s
      else if prefix p s then r @ str_replace p r (drop (length p) s)
      else case s of [] \<Rightarrow> [] | c # cs \<Rightarrow> c # str_replace p r cs)"
  by pat_completeness auto
termination
  by (relation "measure (\<lambda>(p, r, s). length s)") (auto simp: prefix_def)

declare str_replace.simps [simp del]

text \<open>Pieces of a string between the characters that satisfy a predicate on code points.\<close>

fun split_groups :: "(string \<Rightarrow> bool) \<Rightarrow> string list \<Rightarrow> string list" where
  "split_groups P [] = [[]]"
| "split_groups P (g # gs) =
     (if P g then [] # split_groups P gs
      else case split_groups P gs of [] \<Rightarrow> [g] | p # ps \<Rightarrow> (g @ p) # ps)"

definition split_where :: "(string \<Rightarrow> bool) \<Rightarrow> string \<Rightarrow> string list" where
  "split_where P s = split_groups P (utf8_chars s)"

definition split_whitespace :: "string \<Rightarrow> string list" where
  "split_whitespace s = filter (\<lambda>w. w \<noteq> []) (split_where ws_char s)"

definition to_ascii_lower :: "char \<Rightarrow> char" where
  "to_ascii_lower c = (if is_ascii_uppercase c then char_of (byte_of c + 32) else c)"

definition to_ascii_lowercase :: "string \<Rightarrow> string" where
  "to_ascii_lowercase s = map to_ascii_lower s"

subsection \<open>Numbers in decimal\<close>

fun show_digits :: "nat \<Rightarrow> string" where
  "show_digits n = (if n < 10 then [char_of (48 + n)]
     else show_digits (n div 10) @ [char_of (48 + n mod 10)])"

declare show_digits.simps [simp del]

definition digit_value :: "char \<Rightarrow> nat" where
  "digit_value c = byte_of c - 48"

definition read_digits :: "string \<Rightarrow> nat option" where
  "read_digits s = (if s \<noteq> [] \<and> (\<forall>c\<in>set s. is_ascii_digit c)
     then Some (foldl (\<lambda>acc c. acc * 10 + digit_value c) 0 s) else None)"

text \<open>\<open>str::parse::<u64>\<close>: an optional plus sign, digits, and no value above the type's maximum.\<close>

definition u64_max :: nat where
  "u64_max = 2 ^ 64 - 1"

definition parse_u64 :: "string \<Rightarrow> nat option" where
  "parse_u64 s = (let digits = (case s of c # cs \<Rightarrow> if c = CHR ''+'' then cs else s | [] \<Rightarrow> s)
     in case read_digits digits of
          Some n \<Rightarrow> if n \<le> u64_max then Some n else None
        | None \<Rightarrow> None)"

definition checked_mul_u64 :: "nat \<Rightarrow> nat \<Rightarrow> nat option" where
  "checked_mul_u64 a b = (if a * b \<le> u64_max then Some (a * b) else None)"

definition saturating_add_u64 :: "nat \<Rightarrow> nat \<Rightarrow> nat" where
  "saturating_add_u64 a b = min (a + b) u64_max"

subsection \<open>Lemmas\<close>

lemma split_at_char_nonempty [simp]: "split_at_char d s \<noteq> []"
  by (induction s) (auto split: list.splits)

lemma split_at_char_no_sep: "p \<in> set (split_at_char d s) \<Longrightarrow> d \<notin> set p"
  by (induction s arbitrary: p) (auto split: list.splits if_splits)

lemma join_split_at_char: "join_with [d] (split_at_char d s) = s"
proof (induction s)
  case Nil
  then show ?case by simp
next
  case (Cons c s)
  obtain p ps where "split_at_char d s = p # ps"
    by (meson list.exhaust split_at_char_nonempty)
  then show ?case using Cons by (cases ps) auto
qed

lemma split_at_char_absent: "d \<notin> set s \<Longrightarrow> split_at_char d s = [s]"
  by (induction s) auto

lemma split_at_char_append:
  "d \<notin> set a \<Longrightarrow> split_at_char d (a @ d # s) = a # split_at_char d s"
  by (induction a) auto

lemma split_join:
  assumes "xs \<noteq> []" and "\<forall>x\<in>set xs. d \<notin> set x"
  shows "split_at_char d (join_with [d] xs) = xs"
  using assms
proof (induction "[d]" xs rule: join_with.induct)
  case 1
  then show ?case by simp
next
  case (2 x)
  then show ?case by (simp add: split_at_char_absent)
next
  case (3 x y ys)
  then show ?case by (simp add: split_at_char_append)
qed

lemma strip_prefix_Some: "strip_prefix p s = Some r \<longleftrightarrow> s = p @ r"
  by (auto simp: strip_prefix_def prefix_def)

lemma strip_suffix_Some: "strip_suffix p s = Some r \<longleftrightarrow> s = r @ p"
  by (auto simp: strip_suffix_def suffix_def)

lemma split_once_Some: "split_once d s = Some (a, b) \<longleftrightarrow> s = a @ d # b \<and> d \<notin> set a"
proof
  assume h: "split_once d s = Some (a, b)"
  then have d: "d \<in> set s" and a: "a = takeWhile (\<lambda>c. c \<noteq> d) s"
    and b: "b = tl (dropWhile (\<lambda>c. c \<noteq> d) s)"
    by (auto simp: split_once_def split: if_splits)
  have ne: "dropWhile (\<lambda>c. c \<noteq> d) s \<noteq> []" using d by simp
  have "hd (dropWhile (\<lambda>c. c \<noteq> d) s) = d" using hd_dropWhile [OF ne] by simp
  then have "dropWhile (\<lambda>c. c \<noteq> d) s = d # b" using ne b by (metis list.collapse)
  moreover have "d \<notin> set a" using a by (auto dest: set_takeWhileD)
  ultimately show "s = a @ d # b \<and> d \<notin> set a"
    using a takeWhile_dropWhile_id [of "\<lambda>c. c \<noteq> d" s] by simp
next
  assume h: "s = a @ d # b \<and> d \<notin> set a"
  then have "dropWhile (\<lambda>c. c \<noteq> d) s = d # b" and "takeWhile (\<lambda>c. c \<noteq> d) s = a"
    by (auto simp: dropWhile_append takeWhile_append)
  then show "split_once d s = Some (a, b)" using h by (simp add: split_once_def)
qed

lemma show_digits_digits: "c \<in> set (show_digits n) \<Longrightarrow> is_ascii_digit c"
proof (induction n rule: show_digits.induct)
  case (1 n)
  have small: "is_ascii_digit (char_of (48 + k))" if "k < 10" for k :: nat
    using that by (simp add: is_ascii_digit_def byte_of_def)
  show ?case
  proof (cases "n < 10")
    case True
    then show ?thesis using "1.prems" small by (subst (asm) show_digits.simps) simp
  next
    case False
    then have "c \<in> set (show_digits (n div 10)) \<or> c = char_of (48 + n mod 10)"
      using "1.prems" by (subst (asm) show_digits.simps) auto
    then show ?thesis using "1.IH" False small by auto
  qed
qed

lemma show_digits_nonempty [simp]: "show_digits n \<noteq> []"
  by (subst show_digits.simps) simp

lemma read_show_digits: "foldl (\<lambda>acc c. acc * 10 + digit_value c) 0 (show_digits n) = n"
proof (induction n rule: show_digits.induct)
  case (1 n)
  have small: "digit_value (char_of (48 + k)) = k" if "k < 10" for k :: nat
    using that by (simp add: digit_value_def byte_of_def)
  show ?case
  proof (cases "n < 10")
    case True
    then show ?thesis by (subst show_digits.simps) (simp add: small)
  next
    case False
    then show ?thesis by (subst show_digits.simps) (simp add: "1.IH" small)
  qed
qed

lemma read_digits_show [simp]: "read_digits (show_digits n) = Some n"
  by (auto simp: read_digits_def read_show_digits dest: show_digits_digits)

lemma parse_u64_show: "n \<le> u64_max \<Longrightarrow> parse_u64 (show_digits n) = Some n"
proof -
  assume n: "n \<le> u64_max"
  obtain c cs where s: "show_digits n = c # cs" by (meson list.exhaust show_digits_nonempty)
  then have "is_ascii_digit c" using show_digits_digits [of c n] by simp
  then have "c \<noteq> CHR ''+''" by (auto simp: is_ascii_digit_def byte_of_def)
  then show ?thesis using n s read_digits_show [of n] by (simp add: parse_u64_def)
qed

lemma show_digits_inject: "show_digits m = show_digits n \<Longrightarrow> m = n"
  by (metis read_show_digits)

end
