(* ===== verification/Json.thy ===== *)
theory Json
  imports Rust_Strings
begin

section \<open>JSON values and keyed stores\<close>

text \<open>
  The requests of the local socket, the hook inputs and the provider's replies are JSON values
  (RFC 8259). An object keeps its members sorted by key and without duplicates, as the map behind
  \<open>serde_json::Value\<close> does, so equality of values is equality of objects. The accessors are the
  ones the source calls: \<open>get\<close>, \<open>as_str\<close>, \<open>as_bool\<close>, \<open>as_u64\<close>, \<open>as_array\<close>.
  The locale \<open>keyed_store\<close> states what a keyed store promises (lookup after put and delete);
  it is interpreted here on JSON objects and, in the theory of the outside world, on the file
  store.
\<close>

subsection \<open>The interface of a keyed store\<close>

locale keyed_store =
  fixes lookup :: "'m \<Rightarrow> 'k \<Rightarrow> 'v option"
    and put :: "'k \<Rightarrow> 'v \<Rightarrow> 'm \<Rightarrow> 'm"
    and del :: "'k \<Rightarrow> 'm \<Rightarrow> 'm"
  assumes lookup_put: "lookup (put k v m) k' = (if k' = k then Some v else lookup m k')"
    and lookup_del: "lookup (del k m) k' = (if k' = k then None else lookup m k')"
begin

lemma put_same: "lookup (put k v m) k = Some v"
  by (simp add: lookup_put)

lemma put_other: "k' \<noteq> k \<Longrightarrow> lookup (put k v m) k' = lookup m k'"
  by (simp add: lookup_put)

lemma del_same: "lookup (del k m) k = None"
  by (simp add: lookup_del)

lemma del_other: "k' \<noteq> k \<Longrightarrow> lookup (del k m) k' = lookup m k'"
  by (simp add: lookup_del)

lemma put_put: "lookup (put k v (put k w m)) = lookup (put k v m)"
  by (auto simp: lookup_put)

lemma del_put: "lookup (del k (put k v m)) = lookup (del k m)"
  by (auto simp: lookup_put lookup_del)

text \<open>A value moved from one key to another, as an atomic rename does it.\<close>

lemma move:
  assumes "lookup m a = Some v" and "a \<noteq> b"
  shows "lookup (del a (put b v m)) b = Some v" and "lookup (del a (put b v m)) a = None"
  using assms by (simp_all add: lookup_put lookup_del)

end

subsection \<open>Values\<close>

datatype json =
    JNull
  | JBool bool
  | JInt int
  | JFloat string
  | JStr string
  | JArr "json list"
  | JObj "(string \<times> json) list"

fun obj_insert :: "string \<Rightarrow> 'v \<Rightarrow> (string \<times> 'v) list \<Rightarrow> (string \<times> 'v) list" where
  "obj_insert k v [] = [(k, v)]"
| "obj_insert k v ((k', v') # m) =
     (if k < k' then (k, v) # (k', v') # m
      else if k = k' then (k, v) # m
      else (k', v') # obj_insert k v m)"

definition obj_remove :: "string \<Rightarrow> (string \<times> 'v) list \<Rightarrow> (string \<times> 'v) list" where
  "obj_remove k m = filter (\<lambda>p. fst p \<noteq> k) m"

lemma map_of_obj_remove: "map_of (obj_remove k m) k' = (if k' = k then None else map_of m k')"
  by (induction m) (auto simp: obj_remove_def)

lemma map_of_obj_insert: "map_of (obj_insert k v m) k' = (if k' = k then Some v else map_of m k')"
  by (induction m) auto

interpretation obj: keyed_store "map_of" "obj_insert" "obj_remove"
  by unfold_locales (simp_all add: map_of_obj_insert map_of_obj_remove)

definition obj_wf :: "(string \<times> 'v) list \<Rightarrow> bool" where
  "obj_wf m \<longleftrightarrow> sorted_wrt (\<lambda>a b. fst a < fst b) m"

lemma set_obj_insert: "x \<in> set (obj_insert k v m) \<Longrightarrow> x = (k, v) \<or> x \<in> set m"
  by (induction m) (auto split: if_splits)

lemma obj_wf_insert: "obj_wf m \<Longrightarrow> obj_wf (obj_insert k v m)"
proof (induction m)
  case Nil
  then show ?case by (simp add: obj_wf_def)
next
  case (Cons p m)
  obtain k' v' where p: "p = (k', v')" by (cases p)
  have wf: "obj_wf m" and lt: "\<forall>b\<in>set m. k' < fst b" using Cons.prems by (auto simp: obj_wf_def p)
  consider (lt) "k < k'" | (eq) "k = k'" | (gt) "k' < k" by (rule linorder_cases)
  then show ?case
  proof cases
    case lt
    then show ?thesis using Cons.prems by (auto simp: obj_wf_def p intro: less_trans)
  next
    case eq
    then show ?thesis using Cons.prems by (auto simp: obj_wf_def p)
  next
    case gt
    then have "obj_wf (obj_insert k v m)" using Cons.IH wf by simp
    moreover have "\<forall>b\<in>set (obj_insert k v m). k' < fst b"
      using lt gt by (auto dest: set_obj_insert)
    ultimately show ?thesis using gt by (auto simp: obj_wf_def p)
  qed
qed

fun jget :: "string \<Rightarrow> json \<Rightarrow> json option" where
  "jget k (JObj m) = map_of m k"
| "jget k _ = None"

fun as_str :: "json \<Rightarrow> string option" where
  "as_str (JStr s) = Some s"
| "as_str _ = None"

fun as_bool :: "json \<Rightarrow> bool option" where
  "as_bool (JBool b) = Some b"
| "as_bool _ = None"

fun as_u64 :: "json \<Rightarrow> nat option" where
  "as_u64 (JInt n) = (if 0 \<le> n \<and> nat n \<le> u64_max then Some (nat n) else None)"
| "as_u64 _ = None"

fun as_array :: "json \<Rightarrow> json list option" where
  "as_array (JArr xs) = Some xs"
| "as_array _ = None"

fun is_object :: "json \<Rightarrow> bool" where
  "is_object (JObj _) = True"
| "is_object _ = False"

text \<open>\<open>value[key] = v\<close>: a null becomes an object first; any other non-object panics, which the
  callers of the source exclude.\<close>

fun jset :: "string \<Rightarrow> json \<Rightarrow> json \<Rightarrow> json" where
  "jset k v (JObj m) = JObj (obj_insert k v m)"
| "jset k v JNull = JObj [(k, v)]"
| "jset k v j = j"

definition jobj :: "(string \<times> json) list \<Rightarrow> json" where
  "jobj ms = JObj (foldl (\<lambda>m (k, v). obj_insert k v m) [] ms)"

definition jget_str :: "string \<Rightarrow> json \<Rightarrow> string option" where
  "jget_str k j = Option.bind (jget k j) as_str"

definition jopt :: "string option \<Rightarrow> json" where
  "jopt v = (case v of None \<Rightarrow> JNull | Some s \<Rightarrow> JStr s)"

lemma jget_jset_obj [simp]:
  "jget k' (jset k v (JObj m)) = (if k' = k then Some v else map_of m k')"
  by (simp add: map_of_obj_insert)

lemma jget_jobj_Nil [simp]: "jget k (jobj []) = None"
  by (simp add: jobj_def)

end
