(* ===== verification/World.thy ===== *)
theory World
  imports Json
begin

section \<open>The outside world\<close>

text \<open>
  The state a program runs in: the files the program reads and writes through \<open>std::fs\<close>, the
  trace of the effects it caused, and an abstract rest (\<open>'x\<close>: Git repositories, working trees,
  the network, clocks). \<open>std::fs\<close> is modelled on the file store. What is not part of the
  repository or of the standard library is a field of \<open>env\<close>, a parameter of every definition
  that uses it: the process that is spawned (Git, the shell, ssh), HTTP, the clock and the
  RFC 3339 text of a time (in nanoseconds), UUIDs, temporary directories, SHA-256, URL and JSON
  text, random bytes and key pairs, symbolic-link resolution, environment variables. A spawned process may
  change files and the rest in any way and answer anything, so a theorem about all \<open>env\<close> needs
  no assumption about Git. \<open>io_fault\<close> decides whether a file operation fails with an I/O error
  other than the ones the file store determines. Effects are logged when they happen; a failed
  file operation has no effect and is not logged, a spawned process always is.
\<close>

subsection \<open>Paths\<close>

type_synonym path = string

definition slash :: char where
  "slash = CHR ''/''"

definition is_absolute :: "path \<Rightarrow> bool" where
  "is_absolute p \<longleftrightarrow> p \<noteq> [] \<and> hd p = slash"

definition path_join :: "path \<Rightarrow> path \<Rightarrow> path" where
  "path_join p q = (if is_absolute q then q
     else if p = [] \<or> last p = slash then p @ q else p @ slash # q)"

definition strip_slashes :: "path \<Rightarrow> path" where
  "strip_slashes p = rev (dropWhile (\<lambda>c. c = slash) (rev p))"

definition dir_part :: "path \<Rightarrow> path" where
  "dir_part p = rev (dropWhile (\<lambda>c. c \<noteq> slash) (rev p))"

definition name_part :: "path \<Rightarrow> string" where
  "name_part p = rev (takeWhile (\<lambda>c. c \<noteq> slash) (rev p))"

definition path_parent :: "path \<Rightarrow> path option" where
  "path_parent p = (let q = strip_slashes p in
     if q = [] then None
     else let d = dir_part q in
       Some (if d = [] then [] else if strip_slashes d = [] then [slash] else strip_slashes d))"

definition file_name :: "path \<Rightarrow> string option" where
  "file_name p = (let n = name_part (strip_slashes p) in
     if n = [] \<or> n = ''..'' then None else Some n)"

definition dot :: char where
  "dot = CHR ''.''"

definition stem_of :: "string \<Rightarrow> string" where
  "stem_of n = (let r = dropWhile (\<lambda>c. c \<noteq> dot) (rev n) in
     if length r \<le> 1 then n else rev (tl r))"

definition extension :: "path \<Rightarrow> string option" where
  "extension p = (case file_name p of None \<Rightarrow> None
     | Some n \<Rightarrow> if stem_of n = n then None else Some (drop (length (stem_of n) + 1) n))"

definition with_extension :: "string \<Rightarrow> path \<Rightarrow> path" where
  "with_extension e p = (case file_name p of None \<Rightarrow> p
     | Some n \<Rightarrow> dir_part (strip_slashes p) @ stem_of n @ (if e = [] then [] else dot # e))"

definition path_components :: "path \<Rightarrow> string list" where
  "path_components p = (if is_absolute p then [[slash]]
       else if hd (split_at_char slash p) = ''.'' then [''.''] else [])
     @ filter (\<lambda>c. c \<noteq> [] \<and> c \<noteq> ''.'') (split_at_char slash p)"

text \<open>\<open>Path == Path\<close> compares components, and so does the order of a \<open>BTreeSet<PathBuf>\<close>.\<close>

definition same_path :: "path \<Rightarrow> path \<Rightarrow> bool" where
  "same_path p q \<longleftrightarrow> path_components p = path_components q"

definition path_set_insert :: "path \<Rightarrow> path list \<Rightarrow> path list" where
  "path_set_insert p ps = (if (\<exists>q\<in>set ps. same_path p q) then ps else insort_key path_components p ps)"

definition path_starts_with :: "path \<Rightarrow> path \<Rightarrow> bool" where
  "path_starts_with p q = prefix (path_components q) (path_components p)"

fun ancestors :: "nat \<Rightarrow> path \<Rightarrow> path list" where
  "ancestors 0 p = []"
| "ancestors (Suc n) p = p # (case path_parent p of None \<Rightarrow> [] | Some d \<Rightarrow> if d = [] then [] else ancestors n d)"

subsection \<open>Events, files, options of a process\<close>

record run_options =
  ro_cwd :: "path option"
  ro_env :: "(string \<times> string) list"
  ro_input :: "string option"
  ro_allow_failure :: bool

definition default_options :: run_options where
  "default_options = \<lparr>ro_cwd = None, ro_env = [], ro_input = None, ro_allow_failure = False\<rparr>"

definition allow_failure_options :: run_options where
  "allow_failure_options = default_options\<lparr>ro_allow_failure := True\<rparr>"

record run_result =
  code :: int
  stdout :: string
  stderr :: string

record request =
  req_method :: string
  req_url :: string
  req_token :: "string option"
  req_body :: "json option"

record url =
  url_scheme :: string
  url_host :: "string option"
  url_origin :: string

record response =
  res_status :: nat
  res_text :: string

datatype event =
    Spawn string "string list" run_options
  | WriteFile path string nat
  | MakeDirs path
  | Chmod path nat
  | Sync path
  | Rename path path
  | RemoveFile path
  | RemoveDir path
  | RemoveDirAll path
  | MakeSymlink path path
  | CopyFile path path
  | ReadFile path
  | ReadDir path
  | Stat path
  | Http request
  | Message path string
  | Signal nat

datatype node = File string | Dir | Symlink path

type_synonym fs = "(path \<times> node) list"

definition fs_put :: "path \<Rightarrow> node \<Rightarrow> fs \<Rightarrow> fs" where
  "fs_put p n fs = AList.update p n fs"

definition fs_del :: "path \<Rightarrow> fs \<Rightarrow> fs" where
  "fs_del p fs = AList.delete p fs"

definition fs_get :: "fs \<Rightarrow> path \<Rightarrow> node option" where
  "fs_get fs p = map_of fs p"

interpretation fs: keyed_store fs_get fs_put fs_del
  by unfold_locales (simp_all add: fs_get_def fs_put_def fs_del_def update_conv' delete_conv')

lemmas fs_simps [simp] = fs.lookup_put fs.lookup_del

record 'x world =
  files :: fs
  trace :: "event list"
  ext :: 'x

record 'x env =
  spawn :: "string \<Rightarrow> string list \<Rightarrow> run_options \<Rightarrow> fs \<Rightarrow> 'x \<Rightarrow> (string, run_result) result \<times> fs \<times> 'x"
  http :: "request \<Rightarrow> 'x \<Rightarrow> (string, response) result \<times> 'x"
  io_fault :: "event \<Rightarrow> fs \<Rightarrow> 'x \<Rightarrow> string option"
  clock :: "'x \<Rightarrow> int \<times> 'x"
  rfc3339 :: "int \<Rightarrow> string"
  parse_rfc3339 :: "string \<Rightarrow> int option"
  uuid :: "'x \<Rightarrow> string \<times> 'x"
  temp_dir :: "'x \<Rightarrow> (string, path) result \<times> 'x"
  sha256 :: "string \<Rightarrow> string"
  realpath :: "path \<Rightarrow> fs \<Rightarrow> 'x \<Rightarrow> path option"
  var :: "string \<Rightarrow> string option"
  process_id :: nat
  current_dir :: "path option"
  parse_url :: "string \<Rightarrow> url option"
  url_join :: "string \<Rightarrow> string \<Rightarrow> string option"
  form_encode :: "string \<Rightarrow> string"
  parse_json :: "string \<Rightarrow> json option"
  print_json :: "json \<Rightarrow> string"
  random_bytes :: "nat \<Rightarrow> 'x \<Rightarrow> string \<times> 'x"
  base64_url :: "string \<Rightarrow> string"
  base64_std :: "string \<Rightarrow> string"
  key_pair :: "'x \<Rightarrow> (string, string \<times> string) result \<times> 'x"
  current_exe :: "path option"

text \<open>What \<open>serde_json\<close> does for one type: the pretty-printed text of a value and the value of a
  text, if it is one.\<close>

record 'a codec =
  enc :: "'a \<Rightarrow> string"
  dec :: "string \<Rightarrow> 'a option"

datatype io_error = NotFound | DirectoryNotEmpty | OtherIo string

fun io_message :: "io_error \<Rightarrow> string" where
  "io_message NotFound = ''No such file or directory''"
| "io_message DirectoryNotEmpty = ''Directory not empty''"
| "io_message (OtherIo e) = e"

subsection \<open>Primitive operations\<close>

definition file_op :: "'x env \<Rightarrow> event \<Rightarrow> (fs \<Rightarrow> (io_error, 'a \<times> fs) result) \<Rightarrow>
    (('x, 'z) world_scheme, io_error, 'a) prog" where
  "file_op E ev f = (\<lambda>s. case io_fault E ev (files s) (ext s) of
       Some e \<Rightarrow> (Inl (OtherIo e), s)
     | None \<Rightarrow> (case f (files s) of
         Inl e \<Rightarrow> (Inl e, s)
       | Inr (a, fs) \<Rightarrow> (Inr a, s\<lparr>files := fs, trace := trace s @ [ev]\<rparr>)))"

definition read_file :: "'x env \<Rightarrow> path \<Rightarrow> (('x, 'z) world_scheme, io_error, string) prog" where
  "read_file E p = file_op E (ReadFile p) (\<lambda>fs. case fs_get fs p of
       None \<Rightarrow> Inl NotFound
     | Some (File c) \<Rightarrow> Inr (c, fs)
     | Some _ \<Rightarrow> Inl (OtherIo ''not a regular file''))"

definition write_file :: "'x env \<Rightarrow> path \<Rightarrow> string \<Rightarrow> nat \<Rightarrow> (('x, 'z) world_scheme, io_error, unit) prog" where
  "write_file E p c mode = file_op E (WriteFile p c mode) (\<lambda>fs. case fs_get fs p of
       Some Dir \<Rightarrow> Inl (OtherIo ''Is a directory'')
     | _ \<Rightarrow> Inr ((), fs_put p (File c) fs))"

definition make_dir :: "path \<Rightarrow> fs \<Rightarrow> fs" where
  "make_dir d fs = (case fs_get fs d of None \<Rightarrow> fs_put d Dir fs | Some _ \<Rightarrow> fs)"

definition make_dirs :: "path \<Rightarrow> fs \<Rightarrow> fs" where
  "make_dirs d fs = foldr make_dir (ancestors (length d + 1) d) fs"

definition create_dir_all :: "'x env \<Rightarrow> path \<Rightarrow> (('x, 'z) world_scheme, io_error, unit) prog" where
  "create_dir_all E d = file_op E (MakeDirs d)
     (\<lambda>fs. Inr ((), make_dirs d fs))"

definition set_permissions :: "'x env \<Rightarrow> path \<Rightarrow> nat \<Rightarrow> (('x, 'z) world_scheme, io_error, unit) prog" where
  "set_permissions E p mode = file_op E (Chmod p mode) (\<lambda>fs. case fs_get fs p of
       None \<Rightarrow> Inl NotFound | Some _ \<Rightarrow> Inr ((), fs))"

definition sync_path :: "'x env \<Rightarrow> path \<Rightarrow> (('x, 'z) world_scheme, io_error, unit) prog" where
  "sync_path E p = file_op E (Sync p) (\<lambda>fs. Inr ((), fs))"

definition rename_file :: "'x env \<Rightarrow> path \<Rightarrow> path \<Rightarrow> (('x, 'z) world_scheme, io_error, unit) prog" where
  "rename_file E a b = file_op E (Rename a b) (\<lambda>fs. case fs_get fs a of
       None \<Rightarrow> Inl NotFound
     | Some n \<Rightarrow> Inr ((), if a = b then fs else fs_del a (fs_put b n fs)))"

definition remove_file :: "'x env \<Rightarrow> path \<Rightarrow> (('x, 'z) world_scheme, io_error, unit) prog" where
  "remove_file E p = file_op E (RemoveFile p) (\<lambda>fs. case fs_get fs p of
       None \<Rightarrow> Inl NotFound
     | Some Dir \<Rightarrow> Inl (OtherIo ''Is a directory'')
     | Some _ \<Rightarrow> Inr ((), fs_del p fs))"

text \<open>\<open>fs::copy\<close> of a regular file.\<close>

definition copy_file :: "'x env \<Rightarrow> path \<Rightarrow> path \<Rightarrow> (('x, 'z) world_scheme, io_error, unit) prog" where
  "copy_file E a b = file_op E (CopyFile a b) (\<lambda>fs. case fs_get fs a of
       None \<Rightarrow> Inl NotFound
     | Some (File c) \<Rightarrow> (if fs_get fs b = Some Dir then Inl (OtherIo ''Is a directory'') else Inr ((), fs_put b (File c) fs))
     | Some _ \<Rightarrow> Inl (OtherIo ''the source path is not an existing regular file''))"

definition children :: "path \<Rightarrow> fs \<Rightarrow> path list" where
  "children d fs = filter (\<lambda>p. path_parent p = Some d) (map fst fs)"

text \<open>\<open>fs::read_dir\<close>: the entries in an order the operating system chooses, here the order of the
  store, about which nothing is assumed.\<close>

definition read_dir :: "'x env \<Rightarrow> path \<Rightarrow> (('x, 'z) world_scheme, io_error, path list) prog" where
  "read_dir E d = file_op E (ReadDir d) (\<lambda>fs. case fs_get fs d of
       Some Dir \<Rightarrow> Inr (children d fs, fs)
     | None \<Rightarrow> Inl NotFound
     | Some _ \<Rightarrow> Inl (OtherIo ''Not a directory''))"

text \<open>\<open>fs::symlink_metadata\<close>, of which the source uses the file type only.\<close>

definition symlink_metadata :: "'x env \<Rightarrow> path \<Rightarrow> (('x, 'z) world_scheme, io_error, node) prog" where
  "symlink_metadata E p = file_op E (Stat p) (\<lambda>fs. case fs_get fs p of
       None \<Rightarrow> Inl NotFound | Some n \<Rightarrow> Inr (n, fs))"

definition remove_dir :: "'x env \<Rightarrow> path \<Rightarrow> (('x, 'z) world_scheme, io_error, unit) prog" where
  "remove_dir E d = file_op E (RemoveDir d) (\<lambda>fs. case fs_get fs d of
       None \<Rightarrow> Inl NotFound
     | Some Dir \<Rightarrow> if children d fs = [] then Inr ((), fs_del d fs) else Inl DirectoryNotEmpty
     | Some _ \<Rightarrow> Inl (OtherIo ''Not a directory''))"

definition remove_dir_all :: "'x env \<Rightarrow> path \<Rightarrow> (('x, 'z) world_scheme, io_error, unit) prog" where
  "remove_dir_all E d = file_op E (RemoveDirAll d) (\<lambda>fs. case fs_get fs d of
       None \<Rightarrow> Inl NotFound
     | Some _ \<Rightarrow> Inr ((), filter (\<lambda>p. \<not> path_starts_with (fst p) d) fs))"

definition path_exists :: "path \<Rightarrow> (('x, 'z) world_scheme, 'e, bool) prog" where
  "path_exists p = gets (\<lambda>s. fs_get (files s) p \<noteq> None)"

definition is_file :: "path \<Rightarrow> (('x, 'z) world_scheme, 'e, bool) prog" where
  "is_file p = gets (\<lambda>s. case fs_get (files s) p of Some (File _) \<Rightarrow> True | _ \<Rightarrow> False)"

definition is_dir :: "path \<Rightarrow> (('x, 'z) world_scheme, 'e, bool) prog" where
  "is_dir p = gets (\<lambda>s. fs_get (files s) p = Some Dir)"

definition make_symlink :: "'x env \<Rightarrow> path \<Rightarrow> path \<Rightarrow> (('x, 'z) world_scheme, io_error, unit) prog" where
  "make_symlink E original link = file_op E (MakeSymlink original link) (\<lambda>fs. case fs_get fs link of
       None \<Rightarrow> Inr ((), fs_put link (Symlink original) fs)
     | Some _ \<Rightarrow> Inl (OtherIo ''File exists''))"

text \<open>\<open>fs::canonicalize\<close>, whose result is the environment's; \<open>None\<close> is a path that does not exist.\<close>

definition canonicalize :: "'x env \<Rightarrow> path \<Rightarrow> (('x, 'z) world_scheme, io_error, path) prog" where
  "canonicalize E p = (\<lambda>s. case realpath E p (files s) (ext s) of
       None \<Rightarrow> (Inl NotFound, s) | Some q \<Rightarrow> (Inr q, s))"

text \<open>Calls of third-party code that only move the rest of the world.\<close>

definition ext_call :: "('x \<Rightarrow> ('e, 'a) result \<times> 'x) \<Rightarrow> (('x, 'z) world_scheme, 'e, 'a) prog" where
  "ext_call f = (\<lambda>s. case f (ext s) of (r, x) \<Rightarrow> (r, s\<lparr>ext := x\<rparr>))"

definition now :: "'x env \<Rightarrow> (('x, 'z) world_scheme, 'e, int) prog" where
  "now E = ext_call (\<lambda>x. case clock E x of (t, x') \<Rightarrow> (Inr t, x'))"

definition now_rfc3339 :: "'x env \<Rightarrow> (('x, 'z) world_scheme, 'e, string) prog" where
  "now_rfc3339 E = andThen (now E) (\<lambda>t. ret (rfc3339 E t))"

definition new_uuid :: "'x env \<Rightarrow> (('x, 'z) world_scheme, 'e, string) prog" where
  "new_uuid E = ext_call (\<lambda>x. case uuid E x of (u, x') \<Rightarrow> (Inr u, x'))"

definition tempdir :: "'x env \<Rightarrow> (('x, 'z) world_scheme, string, path) prog" where
  "tempdir E = ext_call (temp_dir E)"

definition http_send :: "'x env \<Rightarrow> request \<Rightarrow> (('x, 'z) world_scheme, string, response) prog" where
  "http_send E rq = (\<lambda>s. case http E rq (ext s) of
     (r, x) \<Rightarrow> (r, s\<lparr>ext := x, trace := trace s @ [Http rq]\<rparr>))"

definition spawn_process :: "'x env \<Rightarrow> string \<Rightarrow> string list \<Rightarrow> run_options \<Rightarrow>
    (('x, 'z) world_scheme, string, run_result) prog" where
  "spawn_process E p as opts = (\<lambda>s. case spawn E p as opts (files s) (ext s) of
     (r, fs, x) \<Rightarrow> (r, s\<lparr>files := fs, ext := x, trace := trace s @ [Spawn p as opts]\<rparr>))"

abbreviation io :: "('s, io_error, 'a) prog \<Rightarrow> ('s, string, 'a) prog" where
  "io m \<equiv> mapErr io_message m"

text \<open>\<open>match fs::remove_file(p)\<close> with a missing file accepted.\<close>

definition remove_if_present :: "'x env \<Rightarrow> path \<Rightarrow> (('x, 'z) world_scheme, string, unit) prog" where
  "remove_if_present E p = andThen (attempt (remove_file E p)) (\<lambda>r. case r of
       Inr _ \<Rightarrow> ret ()
     | Inl NotFound \<Rightarrow> ret ()
     | Inl e \<Rightarrow> bail (io_message e))"

subsection \<open>The events of a program\<close>

text \<open>
  \<open>new_events m s\<close> is what \<open>m\<close> adds to the trace when started in \<open>s\<close>; \<open>emits P m\<close> says that
  every event it can ever add satisfies \<open>P\<close> and that it never rewrites the past. The rules in
  \<open>effects\<close> follow the structure of a program.
\<close>

definition new_events :: "(('x, 'z) world_scheme, 'e, 'a) prog \<Rightarrow> ('x, 'z) world_scheme \<Rightarrow> event list" where
  "new_events m s = drop (length (trace s)) (trace (snd (m s)))"

definition emits :: "(event \<Rightarrow> bool) \<Rightarrow> (('x, 'z) world_scheme, 'e, 'a) prog \<Rightarrow> bool" where
  "emits P m \<longleftrightarrow> (\<forall>s. \<exists>es. trace (snd (m s)) = trace s @ es \<and> list_all P es)"

lemma emitsI: "(\<And>s. \<exists>es. trace (snd (m s)) = trace s @ es \<and> list_all P es) \<Longrightarrow> emits P m"
  by (simp add: emits_def)

lemma emitsE:
  assumes "emits P m"
  obtains es where "trace (snd (m s)) = trace s @ es" "list_all P es" "new_events m s = es"
  using assms unfolding emits_def new_events_def by (metis append_eq_conv_conj)

lemma emits_new_events: "emits P m \<Longrightarrow> e \<in> set (new_events m s) \<Longrightarrow> P e"
  by (erule emitsE [where s = s]) (simp add: list_all_iff)

lemma emits_trace: "emits P m \<Longrightarrow> trace (snd (m s)) = trace s @ new_events m s"
  by (erule emitsE [where s = s]) simp

lemma emits_mono: "emits P m \<Longrightarrow> (\<And>e. P e \<Longrightarrow> Q e) \<Longrightarrow> emits Q m"
  by (fastforce simp: emits_def list_all_iff)

lemma emits_silent: "(\<And>s. trace (snd (m s)) = trace s) \<Longrightarrow> emits P m"
  by (rule emitsI) simp

lemma emits_ret [effects, intro!]: "emits P (ret a)"
  by (rule emits_silent) (simp add: ret_def)

lemma emits_bail [effects, intro!]: "emits P (bail e)"
  by (rule emits_silent) (simp add: bail_def)

lemma emits_lift [effects, intro!]: "emits P (lift r)"
  by (rule emits_silent) (simp add: lift_def)

lemma emits_gets [effects, intro!]: "emits P (gets f)"
  by (rule emits_silent) (simp add: gets_def)

lemma emits_ext_call [effects, intro!]: "emits P (ext_call f)"
  by (rule emits_silent) (simp add: ext_call_def split: prod.splits)

lemma emits_andThen [effects, intro]:
  assumes m: "emits P m" and f: "\<And>a. emits P (f a)"
  shows "emits P (andThen m f)"
proof (rule emitsI)
  fix s :: "('a, 'b) world_scheme"
  obtain es where es: "trace (snd (m s)) = trace s @ es" "list_all P es"
    using m by (auto simp: emits_def)
  show "\<exists>es. trace (snd (andThen m f s)) = trace s @ es \<and> list_all P es"
  proof (cases "fst (m s)")
    case (Inl e)
    then show ?thesis using es by (auto simp: andThen_def split: prod.splits)
  next
    case (Inr a)
    obtain fs where "trace (snd (f a (snd (m s)))) = trace (snd (m s)) @ fs" "list_all P fs"
      using f [of a] by (auto simp: emits_def)
    then show ?thesis using es Inr
      by (auto simp: andThen_def split: prod.splits intro!: exI [of _ "es @ fs"])
  qed
qed

lemma emits_andThen_returns:
  assumes m: "emits P m" and q: "returns m Q" and f: "\<And>a. Q a \<Longrightarrow> emits P (f a)"
  shows "emits P (andThen m f)"
proof -
  have "andThen m f = andThen m (\<lambda>a. if Q a then f a else ret undefined)"
    using q by (fastforce simp: andThen_def returns_def split: prod.splits sum.splits)
  then show ?thesis using m f by (auto intro!: emits_andThen)
qed

lemma emits_attempt [effects, intro]: "emits P m \<Longrightarrow> emits P (attempt m)"
  by (simp add: emits_def attempt_def split: prod.splits) (metis snd_conv surj_pair)

lemma emits_ignore [effects, intro]: "emits P m \<Longrightarrow> emits P (ignore m)"
  by (simp add: emits_def ignore_def)

lemma emits_mapErr [effects, intro]: "emits P m \<Longrightarrow> emits P (mapErr g m)"
  by (auto simp: emits_def mapErr_def split: prod.splits sum.splits) (metis snd_conv surj_pair)+

lemma emits_onlyIf [effects, intro]: "(b \<Longrightarrow> emits P m) \<Longrightarrow> emits P (onlyIf b m)"
  by (auto simp: onlyIf_def)

lemma emits_unless [effects, intro]: "(\<not> b \<Longrightarrow> emits P m) \<Longrightarrow> emits P (unless b m)"
  by (auto simp: unless_def)

lemma emits_if [effects]: "(b \<Longrightarrow> emits P m) \<Longrightarrow> (\<not> b \<Longrightarrow> emits P n) \<Longrightarrow> emits P (if b then m else n)"
  by simp

lemma emits_case_option [effects]:
  "(v = None \<Longrightarrow> emits P m) \<Longrightarrow> (\<And>a. v = Some a \<Longrightarrow> emits P (f a)) \<Longrightarrow>
    emits P (case v of None \<Rightarrow> m | Some a \<Rightarrow> f a)"
  by (cases v) simp_all

lemma emits_case_sum [effects]:
  "(\<And>e. v = Inl e \<Longrightarrow> emits P (g e)) \<Longrightarrow> (\<And>a. v = Inr a \<Longrightarrow> emits P (f a)) \<Longrightarrow>
    emits P (case v of Inl e \<Rightarrow> g e | Inr a \<Rightarrow> f a)"
  by (cases v) simp_all

lemma emits_case_prod [effects]:
  "(\<And>a b. v = (a, b) \<Longrightarrow> emits P (f a b)) \<Longrightarrow> emits P (case v of (a, b) \<Rightarrow> f a b)"
  by (cases v) simp_all

lemma emits_case_io_error [effects]:
  "emits P m \<Longrightarrow> emits P n \<Longrightarrow> (\<And>t. emits P (f t)) \<Longrightarrow>
    emits P (case e of NotFound \<Rightarrow> m | DirectoryNotEmpty \<Rightarrow> n | OtherIo t \<Rightarrow> f t)"
  by (cases e) simp_all

lemma emits_forEach [effects, intro]:
  "(\<And>x. x \<in> set xs \<Longrightarrow> emits P (f x)) \<Longrightarrow> emits P (forEach f xs)"
  by (induction xs) auto

lemma emits_foldEach [effects, intro]:
  "(\<And>acc x. x \<in> set xs \<Longrightarrow> emits P (f acc x)) \<Longrightarrow> emits P (foldEach f acc xs)"
  by (induction xs arbitrary: acc) auto

lemma emits_file_op [effects]: "P ev \<Longrightarrow> emits P (file_op E ev f)"
  by (rule emitsI) (auto simp: file_op_def split: option.splits sum.splits)

lemma emits_spawn [effects]: "P (Spawn p as opts) \<Longrightarrow> emits P (spawn_process E p as opts)"
  by (rule emitsI) (auto simp: spawn_process_def split: prod.splits)

lemma emits_http [effects]: "P (Http rq) \<Longrightarrow> emits P (http_send E rq)"
  by (rule emitsI) (auto simp: http_send_def split: prod.splits)

lemma emits_files [effects]:
  "P (ReadFile p) \<Longrightarrow> emits P (read_file E p)"
  "P (WriteFile p c mode) \<Longrightarrow> emits P (write_file E p c mode)"
  "P (MakeDirs p) \<Longrightarrow> emits P (create_dir_all E p)"
  "P (Chmod p mode) \<Longrightarrow> emits P (set_permissions E p mode)"
  "P (Sync p) \<Longrightarrow> emits P (sync_path E p)"
  "P (Rename p q) \<Longrightarrow> emits P (rename_file E p q)"
  "P (RemoveFile p) \<Longrightarrow> emits P (remove_file E p)"
  "P (ReadDir p) \<Longrightarrow> emits P (read_dir E p)"
  "P (Stat p) \<Longrightarrow> emits P (symlink_metadata E p)"
  "P (RemoveDir p) \<Longrightarrow> emits P (remove_dir E p)"
  "P (RemoveDirAll p) \<Longrightarrow> emits P (remove_dir_all E p)"
  "P (MakeSymlink p q) \<Longrightarrow> emits P (make_symlink E p q)"
  "P (CopyFile p q) \<Longrightarrow> emits P (copy_file E p q)"
  by (simp_all add: copy_file_def read_file_def write_file_def create_dir_all_def set_permissions_def
      sync_path_def rename_file_def remove_file_def read_dir_def symlink_metadata_def remove_dir_def
      remove_dir_all_def make_symlink_def emits_file_op)

lemma emits_canonicalize [effects]: "emits P (canonicalize E p)"
  by (rule emits_silent) (simp add: canonicalize_def split: option.splits)

lemma emits_queries [effects]:
  "emits P (path_exists p)" "emits P (is_file p)" "emits P (is_dir p)"
  "emits P (now E)" "emits P (now_rfc3339 E)" "emits P (new_uuid E)" "emits P (tempdir E)"
  by (auto simp: path_exists_def is_file_def is_dir_def now_def now_rfc3339_def new_uuid_def tempdir_def)

subsection \<open>Replaying file events\<close>

text \<open>The effect of a logged file event on the store, for statements about the store at every point
  of a run: what a crash between two events would leave behind.\<close>

fun replay1 :: "event \<Rightarrow> fs \<Rightarrow> fs" where
  "replay1 (WriteFile p c m) fs = fs_put p (File c) fs"
| "replay1 (MakeDirs d) fs = make_dirs d fs"
| "replay1 (Rename a b) fs = (case fs_get fs a of None \<Rightarrow> fs
     | Some n \<Rightarrow> if a = b then fs else fs_del a (fs_put b n fs))"
| "replay1 (RemoveFile p) fs = fs_del p fs"
| "replay1 (RemoveDir p) fs = fs_del p fs"
| "replay1 (RemoveDirAll d) fs = filter (\<lambda>p. \<not> path_starts_with (fst p) d) fs"
| "replay1 (CopyFile a b) fs = (case fs_get fs a of None \<Rightarrow> fs | Some n \<Rightarrow> fs_put b n fs)"
| "replay1 (MakeSymlink a b) fs = fs_put b (Symlink a) fs"
| "replay1 _ fs = fs"

definition replay :: "event list \<Rightarrow> fs \<Rightarrow> fs" where
  "replay es fs = fold replay1 es fs"

lemma replay_simps [simp]:
  "replay [] fs = fs" "replay (e # es) fs = replay es (replay1 e fs)"
  "replay (es @ es') fs = replay es' (replay es fs)"
  by (simp_all add: replay_def)

lemma path_parent_shorter: "path_parent p = Some d \<Longrightarrow> length d < length p"
proof -
  assume h: "path_parent p = Some d"
  define q where "q = strip_slashes p"
  have lq: "length q \<le> length p" unfolding q_def strip_slashes_def
    by (metis length_dropWhile_le length_rev)
  have q: "q \<noteq> []" using h by (auto simp: path_parent_def Let_def q_def)
  have hq: "hd (rev q) \<noteq> slash"
    using q hd_dropWhile [of "\<lambda>c. c = slash" "rev p"] by (auto simp: q_def strip_slashes_def)
  have "length (dropWhile (\<lambda>c. c \<noteq> slash) (rev q)) < length (rev q)"
    using q hq by (cases "rev q") (auto simp: le_imp_less_Suc length_dropWhile_le)
  then have ld: "length (dir_part q) < length q" by (simp add: dir_part_def)
  have "length (strip_slashes (dir_part q)) \<le> length (dir_part q)" unfolding strip_slashes_def
    by (metis length_dropWhile_le length_rev)
  then show ?thesis using h ld lq q
    by (auto simp: path_parent_def Let_def q_def [symmetric] split: if_splits)
      (metis One_nat_def Suc_leI length_greater_0_conv less_le_trans le_less_trans)+
qed

lemma ancestors_length: "a \<in> set (ancestors n p) \<Longrightarrow> length a \<le> length p"
proof (induction n p rule: ancestors.induct)
  case (2 n p)
  show ?case
  proof (cases "path_parent p")
    case None
    then show ?thesis using 2 by simp
  next
    case (Some d)
    then show ?thesis using 2 path_parent_shorter [OF Some] by (auto split: if_splits)
  qed
qed simp

lemma fs_get_make_dirs_list:
  "p \<notin> set ds \<Longrightarrow> fs_get (foldr make_dir ds fs) p = fs_get fs p"
  by (induction ds) (auto simp: make_dir_def split: option.splits)

lemma fs_get_make_dirs: "length d < length p \<Longrightarrow> fs_get (make_dirs d fs) p = fs_get fs p"
  unfolding make_dirs_def by (rule fs_get_make_dirs_list) (meson ancestors_length not_less)

text \<open>
  \<open>script L m\<close>: \<open>m\<close> is straight-line code for the events \<open>L\<close>: every run logs a prefix of \<open>L\<close>,
  and a run that returns normally logs all of it. \<open>replays m\<close>: the file store after \<open>m\<close> is the
  replay of what it logged (true of programs that spawn no process).
\<close>

definition script :: "event list \<Rightarrow> (('x, 'z) world_scheme, 'e, 'a) prog \<Rightarrow> bool" where
  "script L m \<longleftrightarrow> (\<forall>s. \<exists>n. trace (snd (m s)) = trace s @ take n L \<and> (is_ok (fst (m s)) \<longrightarrow> n = length L))"

definition replays :: "(('x, 'z) world_scheme, 'e, 'a) prog \<Rightarrow> bool" where
  "replays m \<longleftrightarrow> (\<forall>s. \<exists>es. trace (snd (m s)) = trace s @ es \<and> files (snd (m s)) = replay es (files s))"

named_theorems scripts \<open>rules for straight-line programs and for replayed stores\<close>

lemma script_ret [scripts]: "script [] (ret a)"
  by (simp add: script_def ret_def)

lemma script_file_op [scripts]: "script [ev] (file_op E ev f)"
  unfolding script_def
proof
  fix s :: "('a, 'b) world_scheme"
  show "\<exists>n. trace (snd (file_op E ev f s)) = trace s @ take n [ev]
      \<and> (is_ok (fst (file_op E ev f s)) \<longrightarrow> n = length [ev])"
    by (rule exI [of _ "if is_ok (fst (file_op E ev f s)) then 1 else 0"])
      (auto simp: file_op_def split: option.splits sum.splits)
qed

lemma script_andThen [scripts]:
  assumes m: "script L m" and f: "\<And>a. script L' (f a)"
  shows "script (L @ L') (andThen m f)"
  unfolding script_def
proof
  fix s :: "('a, 'b) world_scheme"
  obtain n where n: "trace (snd (m s)) = trace s @ take n L" "is_ok (fst (m s)) \<Longrightarrow> n = length L"
    using m by (auto simp: script_def)
  show "\<exists>n. trace (snd (andThen m f s)) = trace s @ take n (L @ L')
      \<and> (is_ok (fst (andThen m f s)) \<longrightarrow> n = length (L @ L'))"
  proof (cases "fst (m s)")
    case (Inl e)
    then show ?thesis using n
      by (auto simp: andThen_def take_append min_def split: prod.splits
          intro!: exI [of _ "min n (length L)"])
  next
    case (Inr a)
    obtain n' where "trace (snd (f a (snd (m s)))) = trace (snd (m s)) @ take n' L'"
      "is_ok (fst (f a (snd (m s)))) \<Longrightarrow> n' = length L'"
      using f [of a] by (auto simp: script_def)
    then show ?thesis using n Inr
      by (auto simp: andThen_def split: prod.splits intro!: exI [of _ "length L + n'"])
  qed
qed

lemma script_mapErr [scripts]: "script L m \<Longrightarrow> script L (mapErr g m)"
  by (simp add: script_def mapErr_def is_ok_def split: prod.splits sum.splits)
    (metis fst_conv snd_conv surj_pair)

lemma script_eq: "script L m \<Longrightarrow> L = L' \<Longrightarrow> script L' m"
  by simp

lemma script_emits: "script L m \<Longrightarrow> \<forall>e\<in>set L. P e \<Longrightarrow> emits P m"
  unfolding script_def emits_def list_all_iff by (meson in_set_takeD)

lemma script_new_events: "script L m \<Longrightarrow> prefix (new_events m s) L"
  unfolding script_def new_events_def by (metis append_eq_conv_conj take_is_prefix)

lemma script_new_events_ok: "script L m \<Longrightarrow> m s = (Inr a, s') \<Longrightarrow> new_events m s = L"
  unfolding script_def new_events_def
  by (metis append_eq_conv_conj fst_conv is_ok_simps(2) snd_conv take_all_iff order_refl)

text \<open>\<open>logs m R\<close>: every run appends events that stand in the relation \<open>R\<close> with its result.\<close>

definition logs :: "(('x, 'z) world_scheme, 'e, 'a) prog \<Rightarrow> (('e, 'a) result \<Rightarrow> event list \<Rightarrow> bool) \<Rightarrow> bool" where
  "logs m R \<longleftrightarrow> (\<forall>s. \<exists>es. trace (snd (m s)) = trace s @ es \<and> R (fst (m s)) es)"

lemma logsD: "logs m R \<Longrightarrow> R (fst (m s)) (new_events m s)"
  unfolding logs_def new_events_def by (metis append_eq_conv_conj)

lemma logs_weaken: "logs m R \<Longrightarrow> (\<And>r es. R r es \<Longrightarrow> S r es) \<Longrightarrow> logs m S"
  unfolding logs_def by blast

lemma logs_emits: "emits P m \<Longrightarrow> logs m (\<lambda>_. list_all P)"
  by (simp add: logs_def emits_def)

lemma logs_returns: "logs m R \<Longrightarrow> returns m Q \<Longrightarrow> logs m (\<lambda>r es. R r es \<and> (\<forall>a. r = Inr a \<longrightarrow> Q a))"
  unfolding logs_def returns_def by (metis prod.collapse)

lemma logs_script: "script L m \<Longrightarrow> logs m (\<lambda>r es. prefix es L \<and> (is_ok r \<longrightarrow> es = L))"
  unfolding logs_def script_def by (metis order_refl take_all_iff take_is_prefix)

lemma logs_ret: "R (Inr a) [] \<Longrightarrow> logs (ret a) R"
  by (simp add: logs_def ret_def)

lemma logs_bail: "R (Inl e) [] \<Longrightarrow> logs (bail e) R"
  by (simp add: logs_def bail_def)

lemma logs_lift: "R r [] \<Longrightarrow> logs (lift r) R"
  by (simp add: logs_def lift_def)

lemma logs_andThen:
  assumes m: "logs m R" and f: "\<And>a es. R (Inr a) es \<Longrightarrow> logs (f a) (S a)"
    and err: "\<And>e es. R (Inl e) es \<Longrightarrow> T (Inl e) es"
    and ok: "\<And>a r es es'. R (Inr a) es \<Longrightarrow> S a r es' \<Longrightarrow> T r (es @ es')"
  shows "logs (andThen m f) T"
  unfolding logs_def
proof
  fix s :: "('a, 'b) world_scheme"
  obtain es where es: "trace (snd (m s)) = trace s @ es" "R (fst (m s)) es"
    using m by (auto simp: logs_def)
  show "\<exists>es. trace (snd (andThen m f s)) = trace s @ es \<and> T (fst (andThen m f s)) es"
  proof (cases "fst (m s)")
    case (Inl e)
    then show ?thesis using es err by (auto simp: andThen_def split: prod.splits)
  next
    case (Inr a)
    obtain fs where "trace (snd (f a (snd (m s)))) = trace (snd (m s)) @ fs"
      "S a (fst (f a (snd (m s)))) fs"
      using f [of a es] es(2) Inr by (auto simp: logs_def)
    then show ?thesis using es Inr ok
      by (auto simp: andThen_def split: prod.splits intro!: exI [of _ "es @ fs"])
  qed
qed

lemma logs_after_safe:
  assumes "emits P m" and "\<And>a. logs (f a) R"
    and "\<And>e es. list_all P es \<Longrightarrow> R (Inl e) es"
    and "\<And>r es es'. list_all P es \<Longrightarrow> R r es' \<Longrightarrow> R r (es @ es')"
  shows "logs (andThen m f) R"
  by (rule logs_andThen [OF logs_emits [OF assms(1)] assms(2)]) (auto intro: assms)

definition emits_at :: "(event \<Rightarrow> bool) \<Rightarrow> (('x, 'z) world_scheme, 'e, 'a) prog \<Rightarrow> ('x, 'z) world_scheme \<Rightarrow> bool" where
  "emits_at P m s \<longleftrightarrow> (\<exists>es. trace (snd (m s)) = trace s @ es \<and> list_all P es)"

lemma emits_at: "emits P m \<Longrightarrow> emits_at P m s"
  by (simp add: emits_def emits_at_def)

lemma emits_at_new_events: "emits_at P m s \<Longrightarrow> ev \<in> set (new_events m s) \<Longrightarrow> P ev"
  by (auto simp: emits_at_def new_events_def list_all_iff)

lemma emits_at_andThen:
  assumes m: "emits_at P m s" and f: "\<And>a s'. m s = (Inr a, s') \<Longrightarrow> emits_at P (f a) s'"
  shows "emits_at P (andThen m f) s"
proof (cases "m s")
  case (Pair r s')
  then show ?thesis using m f
    by (cases r) (fastforce simp: emits_at_def andThen_def)+
qed

lemma replays_ret [scripts]: "replays (ret a)"
  by (simp add: replays_def ret_def)

lemma replays_file_op:
  "(\<And>fs a fs'. f fs = Inr (a, fs') \<Longrightarrow> fs' = replay1 ev fs) \<Longrightarrow> replays (file_op E ev f)"
  by (auto simp: replays_def file_op_def split: option.splits sum.splits)

lemma replays_andThen [scripts]:
  assumes m: "replays m" and f: "\<And>a. replays (f a)"
  shows "replays (andThen m f)"
  unfolding replays_def
proof
  fix s :: "('a, 'b) world_scheme"
  obtain es where es: "trace (snd (m s)) = trace s @ es" "files (snd (m s)) = replay es (files s)"
    using m by (auto simp: replays_def)
  show "\<exists>es. trace (snd (andThen m f s)) = trace s @ es
      \<and> files (snd (andThen m f s)) = replay es (files s)"
  proof (cases "fst (m s)")
    case (Inl e)
    then show ?thesis using es by (auto simp: andThen_def split: prod.splits)
  next
    case (Inr a)
    obtain fs where "trace (snd (f a (snd (m s)))) = trace (snd (m s)) @ fs"
      "files (snd (f a (snd (m s)))) = replay fs (files (snd (m s)))"
      using f [of a] by (auto simp: replays_def)
    then show ?thesis using es Inr
      by (auto simp: andThen_def split: prod.splits intro!: exI [of _ "es @ fs"])
  qed
qed

lemma replays_mapErr [scripts]: "replays m \<Longrightarrow> replays (mapErr g m)"
  by (auto simp: replays_def mapErr_def split: prod.splits sum.splits) (metis snd_conv surj_pair)+

lemma replays_files [scripts]:
  "replays (read_file E p)" "replays (write_file E p c mode)" "replays (create_dir_all E p)"
  "replays (set_permissions E p mode)" "replays (sync_path E p)" "replays (rename_file E p q)"
  "replays (remove_file E p)" "replays (make_symlink E p q)" "replays (copy_file E p q)"
  unfolding copy_file_def read_file_def write_file_def create_dir_all_def set_permissions_def sync_path_def
    rename_file_def remove_file_def make_symlink_def
  by (rule replays_file_op, auto split: option.splits node.splits if_splits)+

lemma script_files [scripts]:
  "script [ReadFile p] (read_file E p)" "script [WriteFile p c mode] (write_file E p c mode)"
  "script [MakeDirs p] (create_dir_all E p)" "script [Chmod p mode] (set_permissions E p mode)"
  "script [Sync p] (sync_path E p)" "script [Rename p q] (rename_file E p q)"
  "script [RemoveFile p] (remove_file E p)" "script [MakeSymlink p q] (make_symlink E p q)"
  "script [CopyFile p q] (copy_file E p q)"
  unfolding copy_file_def read_file_def write_file_def create_dir_all_def set_permissions_def sync_path_def
    rename_file_def remove_file_def make_symlink_def
  by (rule script_file_op)+

lemma replays_new_events: "replays m \<Longrightarrow> files (snd (m s)) = replay (new_events m s) (files s)"
  unfolding replays_def new_events_def by (metis append_eq_conv_conj)

lemma emits_remove_if_present [effects]:
  "P (RemoveFile p) \<Longrightarrow> emits P (remove_if_present E p)"
  by (auto simp: remove_if_present_def intro!: effects split: sum.splits)

end
