(* ===== verification/Process.thy ===== *)
theory Process
  imports World
begin

section \<open>Running processes\<close>

text \<open>
  \<open>src/src/process.rs\<close>: \<open>run\<close> starts a program, feeds it its input and turns a non-zero exit
  code into an error unless the caller allows failure; \<open>git\<close> is \<open>run\<close> with the repository as
  the working directory.
\<close>

definition failure_detail :: "run_result \<Rightarrow> string" where
  "failure_detail res = (if trim (stderr res) \<noteq> [] then trim (stderr res)
     else if trim (stdout res) \<noteq> [] then trim (stdout res)
     else ''process exited unsuccessfully'')"

definition run_process :: "'x env \<Rightarrow> string \<Rightarrow> string list \<Rightarrow> run_options \<Rightarrow>
    (('x, 'z) world_scheme, string, run_result) prog" where
  "run_process E program args opts =
     andThen (mapErr (\<lambda>e. ''failed to start '' @ program @ '': '' @ e) (spawn_process E program args opts))
       (\<lambda>res. if code res \<noteq> 0 \<and> \<not> ro_allow_failure opts
          then bail (program @ '' '' @ join_with '' '' args @ '' failed: '' @ failure_detail res)
          else ret res)"

definition git :: "'x env \<Rightarrow> path \<Rightarrow> string list \<Rightarrow> run_options \<Rightarrow>
    (('x, 'z) world_scheme, string, run_result) prog" where
  "git E cwd args opts = run_process E ''git'' args (opts\<lparr>ro_cwd := Some cwd\<rparr>)"

text \<open>\<open>git(...)?.stdout.trim().to_owned()\<close>, the form most callers use.\<close>

definition git_text :: "'x env \<Rightarrow> path \<Rightarrow> string list \<Rightarrow> run_options \<Rightarrow>
    (('x, 'z) world_scheme, string, string) prog" where
  "git_text E cwd args opts = andThen (git E cwd args opts) (\<lambda>res. ret (trim (stdout res)))"

abbreviation git_event :: "path \<Rightarrow> string list \<Rightarrow> run_options \<Rightarrow> event" where
  "git_event cwd args opts \<equiv> Spawn ''git'' args (opts\<lparr>ro_cwd := Some cwd\<rparr>)"

lemma emits_run_process [effects]:
  "P (Spawn program args opts) \<Longrightarrow> emits P (run_process E program args opts)"
  by (auto simp: run_process_def intro!: effects)

lemma emits_git [effects]: "P (git_event cwd args opts) \<Longrightarrow> emits P (git E cwd args opts)"
  by (simp add: git_def emits_run_process)

lemma emits_git_text [effects]: "P (git_event cwd args opts) \<Longrightarrow> emits P (git_text E cwd args opts)"
  by (auto simp: git_text_def intro!: effects)

lemma script_git [scripts]: "script [git_event cwd args opts] (git E cwd args opts)"
proof -
  have one: "trace (snd (git E cwd args opts s)) = trace s @ [git_event cwd args opts]" for s
    by (auto simp: git_def run_process_def spawn_process_def run split: prod.splits sum.splits)
  show ?thesis unfolding script_def by (rule allI, rule exI [of _ 1]) (simp add: one)
qed

text \<open>A process that allows failure never turns an exit code into an error, and one that does
  not only returns after exit code zero.\<close>

lemma run_process_ok:
  "run_process E program args opts s = (Inr res, s') \<Longrightarrow> code res = 0 \<or> ro_allow_failure opts"
  by (auto simp: run_process_def run split: prod.splits sum.splits if_splits)

lemma wp_run_process:
  assumes "\<And>res fs x. code res = 0 \<or> ro_allow_failure opts \<Longrightarrow>
      Q res (s\<lparr>files := fs, ext := x, trace := trace s @ [Spawn program args opts]\<rparr>)"
    and "\<And>e fs x. R e (s\<lparr>files := fs, ext := x, trace := trace s @ [Spawn program args opts]\<rparr>)"
  shows "wp (run_process E program args opts) Q R s"
  using assms by (auto simp: wp_def run_process_def spawn_process_def run split: prod.splits sum.splits)

lemma wp_git:
  assumes "\<And>res fs x. code res = 0 \<or> ro_allow_failure opts \<Longrightarrow>
      Q res (s\<lparr>files := fs, ext := x, trace := trace s @ [git_event cwd args opts]\<rparr>)"
    and "\<And>e fs x. R e (s\<lparr>files := fs, ext := x, trace := trace s @ [git_event cwd args opts]\<rparr>)"
  shows "wp (git E cwd args opts) Q R s"
  unfolding git_def by (rule wp_run_process) (use assms in auto)

lemma wp_git_text:
  assumes "\<And>t fs x. Q t (s\<lparr>files := fs, ext := x, trace := trace s @ [git_event cwd args opts]\<rparr>)"
    and "\<And>e fs x. R e (s\<lparr>files := fs, ext := x, trace := trace s @ [git_event cwd args opts]\<rparr>)"
  shows "wp (git_text E cwd args opts) Q R s"
  unfolding git_text_def wp_simps by (rule wp_git) (use assms in auto)

end
