(* ===== verification/Local_State.thy ===== *)
theory Local_State
  imports Process
begin

section \<open>Local state files\<close>

text \<open>
  \<open>src/src/state.rs\<close>: the layout of the state directory, reading and atomically replacing JSON
  documents, and the records the daemon and the command line share. Branch heads
  (\<open>BTreeMap<String, String>\<close>) are association lists sorted by branch name, changed with
  \<open>obj_insert\<close> and \<open>obj_remove\<close>.
\<close>

subsection \<open>The state directory\<close>

record state_paths =
  sp_root :: path
  sp_config :: path
  sp_credentials :: path
  sp_keys :: path
  sp_catalog :: path
  sp_transactions :: path
  sp_named_lease_receipts :: path
  sp_daemon_lock :: path
  sp_socket :: path

definition absolute_path :: "'x env \<Rightarrow> path \<Rightarrow> path" where
  "absolute_path E p = (if is_absolute p then p
     else path_join (case current_dir E of None \<Rightarrow> ''.'' | Some d \<Rightarrow> d) p)"

text \<open>The Linux branch of the source; macOS uses another directory below the home.\<close>

definition state_directory :: "'x env \<Rightarrow> path" where
  "state_directory E = (case var E ''RESYNC_STATE_DIR'' of
       Some p \<Rightarrow> absolute_path E p
     | None \<Rightarrow> path_join (case var E ''HOME'' of None \<Rightarrow> ''.'' | Some h \<Rightarrow> h) ''.local/state/resync'')"

definition paths_below :: "path \<Rightarrow> path \<Rightarrow> state_paths" where
  "paths_below root socket =
     \<lparr>sp_root = root,
      sp_config = path_join root ''config.json'',
      sp_credentials = path_join root ''credentials.json'',
      sp_keys = path_join root ''keys'',
      sp_catalog = path_join root ''catalog.json'',
      sp_transactions = path_join root ''transactions'',
      sp_named_lease_receipts = path_join root ''named-leases'',
      sp_daemon_lock = path_join root ''daemon.lock'',
      sp_socket = socket\<rparr>"

definition state_paths_of :: "'x env \<Rightarrow> state_paths" where
  "state_paths_of E = (let root = state_directory E in
     paths_below root (case var E ''RESYNC_SOCKET'' of Some p \<Rightarrow> p | None \<Rightarrow> path_join root ''daemon.sock''))"

subsection \<open>JSON documents\<close>

definition read_json :: "'x env \<Rightarrow> 'a codec \<Rightarrow> path \<Rightarrow> 'a \<Rightarrow> (('x, 'z) world_scheme, string, 'a) prog" where
  "read_json E C p fallback =
     andThen (attempt (read_file E p)) (\<lambda>r. case r of
       Inr bytes \<Rightarrow> (case dec C bytes of
           Some v \<Rightarrow> ret v
         | None \<Rightarrow> bail (''invalid JSON in '' @ p))
     | Inl NotFound \<Rightarrow> ret fallback
     | Inl e \<Rightarrow> bail (''read '' @ p @ '': '' @ io_message e))"

definition temporary_path :: "'x env \<Rightarrow> path \<Rightarrow> path" where
  "temporary_path E p = with_extension (show_digits (process_id E) @ ''.tmp'') p"

definition json_text :: "'a codec \<Rightarrow> 'a \<Rightarrow> string" where
  "json_text C v = enc C v @ [newline]"

text \<open>The permission bits of the source: 0700, 0600, 0644 and 0755.\<close>

definition directory_mode :: nat where "directory_mode = 448"
definition private_mode :: nat where "private_mode = 384"
definition shared_mode :: nat where "shared_mode = 420"
definition executable_mode :: nat where "executable_mode = 493"

definition prepare_parent :: "'x env \<Rightarrow> path \<Rightarrow> (('x, 'z) world_scheme, io_error, unit) prog" where
  "prepare_parent E p = (case path_parent p of
       None \<Rightarrow> ret ()
     | Some parent \<Rightarrow> andThen (create_dir_all E parent) (\<lambda>_. set_permissions E parent directory_mode))"

definition sync_parent :: "'x env \<Rightarrow> path \<Rightarrow> (('x, 'z) world_scheme, io_error, unit) prog" where
  "sync_parent E p = (case path_parent p of None \<Rightarrow> ret () | Some parent \<Rightarrow> sync_path E parent)"

definition write_json :: "'x env \<Rightarrow> 'a codec \<Rightarrow> path \<Rightarrow> 'a \<Rightarrow> nat \<Rightarrow> (('x, 'z) world_scheme, string, unit) prog" where
  "write_json E C p v mode = io (
     andThen (prepare_parent E p) (\<lambda>_.
     let temporary = temporary_path E p in
     andThen (write_file E temporary (json_text C v) mode) (\<lambda>_.
     andThen (sync_path E temporary) (\<lambda>_.
     andThen (set_permissions E temporary mode) (\<lambda>_.
     andThen (rename_file E temporary p) (\<lambda>_.
     sync_parent E p))))))"

subsection \<open>Configuration, catalog\<close>

record provider_config =
  pc_origin :: string
  pc_service_id :: "string option"
  pc_device_id :: "string option"
  pc_device_name :: "string option"
  pc_public_key_path :: "path option"
  pc_logged_in_at :: "string option"

definition default_provider_config :: provider_config where
  "default_provider_config = \<lparr>pc_origin = [], pc_service_id = None, pc_device_id = None,
     pc_device_name = None, pc_public_key_path = None, pc_logged_in_at = None\<rparr>"

record config =
  cfg_protocol :: string
  cfg_active_provider :: "string option"
  cfg_providers :: "(string \<times> provider_config) list"
  cfg_server :: "string option"
  cfg_token :: "string option"

definition protocol_version :: string where
  "protocol_version = ''resync.v1''"

definition default_config :: config where
  "default_config = \<lparr>cfg_protocol = protocol_version, cfg_active_provider = None,
     cfg_providers = [], cfg_server = None, cfg_token = None\<rparr>"

record conflict =
  cf_kind :: string
  cf_detail :: string
  cf_paths :: "string list"

type_synonym heads = "(string \<times> string) list"

record local_project =
  lp_project_id :: string
  lp_local_path :: path
  lp_remote_url :: string
  lp_remote_name :: string
  lp_default_branch :: string
  lp_server_generation :: nat
  lp_advertised_heads :: heads
  lp_last_applied_heads :: heads
  lp_active_branch :: "string option"
  lp_workspace_generation :: nat
  lp_state :: string
  lp_durability :: string
  lp_conflict :: "conflict option"
  lp_last_error :: "string option"
  lp_service :: "string option"
  lp_checkout_id :: "string option"
  lp_extra :: "(string \<times> json) list"

record local_catalog =
  lc_catalog_generation :: nat
  lc_projects :: "local_project list"

definition default_catalog :: local_catalog where
  "default_catalog = \<lparr>lc_catalog_generation = 0, lc_projects = []\<rparr>"

text \<open>The legacy \<open>server\<close> entry of a configuration becomes its active provider.\<close>

definition migrate_config :: "'x env \<Rightarrow> config \<Rightarrow> (string, config) result" where
  "migrate_config E config =
     (case (cfg_active_provider config, cfg_server config) of
       (None, Some server) \<Rightarrow>
         (case parse_url E server of
            None \<Rightarrow> Inl ''relative URL without a base''
          | Some u \<Rightarrow> let origin = url_origin u in
              Inr (config\<lparr>cfg_active_provider := Some origin,
                cfg_providers := obj_insert origin
                  (default_provider_config\<lparr>pc_origin := origin, pc_device_name := Some ''legacy device''\<rparr>)
                  (cfg_providers config)\<rparr>))
     | _ \<Rightarrow> Inr config)"

definition load_config_raw :: "'x env \<Rightarrow> config codec \<Rightarrow> (('x, 'z) world_scheme, string, config) prog" where
  "load_config_raw E C =
     andThen (read_json E C (sp_config (state_paths_of E)) default_config) (\<lambda>config.
     lift (migrate_config E config))"

definition load_catalog :: "'x env \<Rightarrow> local_catalog codec \<Rightarrow> (('x, 'z) world_scheme, string, local_catalog) prog" where
  "load_catalog E C = read_json E C (sp_catalog (state_paths_of E)) default_catalog"

subsection \<open>Events of the document operations\<close>

lemma emits_read_json [effects]: "P (ReadFile p) \<Longrightarrow> emits P (read_json E C p d)"
  by (auto simp: read_json_def intro!: effects)

definition document_event :: "'x env \<Rightarrow> path \<Rightarrow> event \<Rightarrow> bool" where
  "document_event E p ev = (case ev of
       WriteFile q _ _ \<Rightarrow> q = temporary_path E p
     | Sync q \<Rightarrow> True
     | Chmod q _ \<Rightarrow> True
     | MakeDirs q \<Rightarrow> path_parent p = Some q
     | Rename q r \<Rightarrow> q = temporary_path E p \<and> r = p
     | _ \<Rightarrow> False)"

lemma emits_write_json_document: "emits (document_event E p) (write_json E C p v mode)"
  by (auto simp: write_json_def prepare_parent_def sync_parent_def document_event_def Let_def
      intro!: effects)

lemma emits_write_json [effects]:
  "(\<And>ev. document_event E p ev \<Longrightarrow> P ev) \<Longrightarrow> emits P (write_json E C p v mode)"
  using emits_mono [OF emits_write_json_document] .

subsection \<open>Atomic replacement\<close>

definition document_script :: "'x env \<Rightarrow> path \<Rightarrow> string \<Rightarrow> nat \<Rightarrow> event list" where
  "document_script E p text mode =
     (case path_parent p of None \<Rightarrow> [] | Some d \<Rightarrow> [MakeDirs d, Chmod d directory_mode])
     @ [WriteFile (temporary_path E p) text mode, Sync (temporary_path E p),
        Chmod (temporary_path E p) mode, Rename (temporary_path E p) p]
     @ (case path_parent p of None \<Rightarrow> [] | Some d \<Rightarrow> [Sync d])"

lemma script_prepare_parent [scripts]:
  "script (case path_parent p of None \<Rightarrow> [] | Some d \<Rightarrow> [MakeDirs d, Chmod d directory_mode]) (prepare_parent E p)"
  using script_andThen [OF script_files(3) script_files(4)]
  by (auto simp: prepare_parent_def script_ret split: option.splits)

lemma script_sync_parent [scripts]:
  "script (case path_parent p of None \<Rightarrow> [] | Some d \<Rightarrow> [Sync d]) (sync_parent E p)"
  by (auto simp: sync_parent_def script_ret script_files split: option.splits)

lemma script_write_json [scripts]:
  "script (document_script E p (json_text C v) mode) (write_json E C p v mode)"
  unfolding write_json_def Let_def document_script_def
  by (rule script_mapErr, rule script_eq, (rule scripts)+) simp

lemma replays_write_json [scripts]: "replays (write_json E C p v mode)"
  by (auto simp: write_json_def prepare_parent_def sync_parent_def Let_def intro!: scripts
      split: option.splits)

text \<open>Every prefix of the document script leaves the old document or the complete new one.\<close>

lemma document_script_prefix:
  assumes pre: "prefix es (document_script E p text mode)"
    and tmp: "temporary_path E p \<noteq> p"
  shows "fs_get (replay es fs) p \<in> {fs_get fs p, Some (File text)}"
proof -
  obtain n where es: "es = take n (document_script E p text mode)"
    using pre by (metis append_eq_conv_conj prefix_def)
  show ?thesis
  proof (cases "path_parent p")
    case None
    then show ?thesis using tmp
      by (auto simp: es document_script_def take_Cons' split: option.splits)
  next
    case (Some d)
    then have "fs_get (make_dirs d fs) p = fs_get fs p"
      by (simp add: fs_get_make_dirs path_parent_shorter)
    then show ?thesis using tmp Some
      by (auto simp: es document_script_def take_Cons' split: option.splits)
  qed
qed

lemma write_json_document:
  assumes run: "write_json E C p v mode s = (Inr (), s')"
    and tmp: "temporary_path E p \<noteq> p"
  shows "fs_get (files s') p = Some (File (json_text C v))"
    and "trace s' = trace s @ document_script E p (json_text C v) mode"
proof -
  have ev: "new_events (write_json E C p v mode) s = document_script E p (json_text C v) mode"
    by (rule script_new_events_ok [OF script_write_json run])
  have fs: "files s' = replay (document_script E p (json_text C v) mode) (files s)"
    using replays_new_events [OF replays_write_json, of E C p v mode s] run ev by simp
  show "fs_get (files s') p = Some (File (json_text C v))"
    unfolding fs using tmp by (auto simp: document_script_def split: option.splits)
  show "trace s' = trace s @ document_script E p (json_text C v) mode"
    using emits_trace [OF emits_write_json_document [of E p C v mode], of s] run ev by simp
qed

text \<open>What the replaced document leaves in the store: either write fails or the new text is there.\<close>

lemma read_back:
  assumes "fs_get (files s) p = Some (File (json_text C v))"
    and "\<And>w. dec C (json_text C w) = Some w"
    and "io_fault E (ReadFile p) (files s) (ext s) = None"
  shows "fst (read_json E C p d s) = Inr v"
  using assms by (simp add: read_json_def read_file_def file_op_def run)

end
