(* ===== verification/Scripted_World.thy ===== *)
theory Scripted_World
  imports Local_State
begin

section \<open>A scripted world\<close>

text \<open>
  A closed instance of the environment, for the examples: every process and every HTTP request takes
  the next of the canned answers in the rest of the world, no file operation fails, the clock stands
  still and a time is written in unary. \<open>executes\<close> and \<open>lazy\<close> run a program in the simplifier: the
  continuation of a step is not looked at before the step has its result.
\<close>

definition says :: "string \<Rightarrow> run_result" where
  "says t = \<lparr>code = 0, stdout = t, stderr = []\<rparr>"

definition fails :: "string \<Rightarrow> run_result" where
  "fails t = \<lparr>code = 1, stdout = [], stderr = t\<rparr>"

definition unary_time :: "int \<Rightarrow> string" where
  "unary_time t = (if t < 0 then CHR ''-'' else CHR ''+'') # replicate (nat \<bar>t\<bar>) CHR ''1''"

definition read_unary_time :: "string \<Rightarrow> int option" where
  "read_unary_time s = (case s of [] \<Rightarrow> None
     | c # cs \<Rightarrow> Some (if c = CHR ''-'' then - int (length cs) else int (length cs)))"

lemma read_unary_time: "read_unary_time (unary_time t) = Some t"
  by (simp add: read_unary_time_def unary_time_def)

definition next_result :: "run_result list \<Rightarrow> fs \<Rightarrow> (string, run_result) result \<times> fs \<times> run_result list" where
  "next_result xs fs = (case xs of [] \<Rightarrow> (Inr (says []), fs, []) | x # xs' \<Rightarrow> (Inr x, fs, xs'))"

definition next_response :: "run_result list \<Rightarrow> (string, response) result \<times> run_result list" where
  "next_response xs = (case xs of [] \<Rightarrow> (Inl ''connection refused'', [])
     | x # xs' \<Rightarrow> (Inr \<lparr>res_status = nat (code x), res_text = stdout x\<rparr>, xs'))"

definition scripted_env :: "run_result list env" where
  "scripted_env = \<lparr>
     spawn = (\<lambda>p args opts fs xs. next_result xs fs), http = (\<lambda>rq xs. next_response xs),
     io_fault = (\<lambda>ev fs xs. None),
     clock = (\<lambda>xs. (0, xs)), rfc3339 = unary_time, parse_rfc3339 = read_unary_time,
     uuid = (\<lambda>xs. (''u1'', xs)), temp_dir = (\<lambda>xs. (Inr ''/tmp/t1'', xs)),
     sha256 = (\<lambda>s. ''d''), realpath = (\<lambda>p fs xs. Some p), var = (\<lambda>v. if v = ''RESYNC_STATE_DIR'' then Some ''/s'' else None), process_id = 7,
     current_dir = Some ''/home'', parse_url = (\<lambda>u. Some \<lparr>url_scheme = ''https'', url_host = Some u, url_origin = u\<rparr>),
     url_join = (\<lambda>a b. Some (a @ b)),
     form_encode = (\<lambda>s. s), parse_json = (\<lambda>s. Some (JStr s)), print_json = (\<lambda>v. ''{}''),
     random_bytes = (\<lambda>n xs. (replicate n CHR ''r'', xs)), base64_url = (\<lambda>s. s), base64_std = (\<lambda>s. s),
     key_pair = (\<lambda>xs. (Inr (''private'', ''public''), xs)), current_exe = Some ''/bin/resync''\<rparr>"

lemma scripted_env_simps [simp]:
  "spawn scripted_env p args opts fs xs = next_result xs fs"
  "http scripted_env rq xs = next_response xs"
  "io_fault scripted_env ev fs xs = None"
  "clock scripted_env xs = (0, xs)"
  "rfc3339 scripted_env t = unary_time t"
  "parse_rfc3339 scripted_env v = read_unary_time v"
  "uuid scripted_env xs = (''u1'', xs)"
  "temp_dir scripted_env xs = (Inr ''/tmp/t1'', xs)"
  "sha256 scripted_env v = ''d''"
  "realpath scripted_env p fs xs = Some p"
  "var scripted_env v = (if v = ''RESYNC_STATE_DIR'' then Some ''/s'' else None)"
  "process_id scripted_env = 7"
  "parse_url scripted_env u = Some \<lparr>url_scheme = ''https'', url_host = Some u, url_origin = u\<rparr>"
  "url_join scripted_env u v = Some (u @ v)"
  "form_encode scripted_env v = v"
  "parse_json scripted_env v = Some (JStr v)"
  "print_json scripted_env j = ''{}''"
  "random_bytes scripted_env n xs = (replicate n CHR ''r'', xs)"
  by (simp_all add: scripted_env_def)

definition scripted_world :: "fs \<Rightarrow> run_result list \<Rightarrow> run_result list world" where
  "scripted_world fs answers = \<lparr>files = fs, trace = [], ext = answers\<rparr>"

lemma executes:
  "andThen m f s = (case m s of (r, s') \<Rightarrow> (case r of Inl e \<Rightarrow> (Inl e, s') | Inr a \<Rightarrow> f a s'))"
  "mapErr g m s = (case m s of (r, s') \<Rightarrow> (case r of Inl e \<Rightarrow> (Inl (g e), s') | Inr a \<Rightarrow> (Inr a, s')))"
  "attempt m s = (case m s of (r, s') \<Rightarrow> (Inr r, s'))"
  "ignore m s = (case m s of (r, s') \<Rightarrow> (Inr (), s'))"
  "ret a s = (Inr a, s)" "bail e s = (Inl e, s)" "lift q s = (q, s)"
  "gets h s = (Inr (h s), s)" "modify k s = (Inr (), k s)"
  "onlyIf b n s = (if b then n s else (Inr (), s))" "unless b n s = (if b then (Inr (), s) else n s)"
  by (auto simp: andThen_def mapErr_def attempt_def ignore_def ret_def bail_def lift_def gets_def modify_def
      onlyIf_def unless_def split: prod.splits sum.splits)

text \<open>Congruence rules without premises: the arguments stay as they are.\<close>

lemma lazy:
  "andThen m f s = andThen m f s" "mapErr g m s = mapErr g m s" "attempt m s = attempt m s"
  "ignore m s = ignore m s" "onlyIf b n s = onlyIf b n s" "unless b n s = unless b n s"
  "Let a k = Let a k"
  by (rule refl)+

lemma digit_chars:
  "char_of (48::nat) = CHR ''0''" "char_of (49::nat) = CHR ''1''" "char_of (50::nat) = CHR ''2''"
  "char_of (51::nat) = CHR ''3''" "char_of (52::nat) = CHR ''4''" "char_of (53::nat) = CHR ''5''"
  "char_of (54::nat) = CHR ''6''" "char_of (55::nat) = CHR ''7''" "char_of (56::nat) = CHR ''8''"
  "char_of (57::nat) = CHR ''9''"
  by (simp_all add: char_of_def bit_0)

lemmas string_steps = digit_chars trim_def ws_char_def utf8_chars.simps continuation_def byte_of_def code_point_def
  lead_bits_def is_whitespace_def starts_with_def newline_def show_digits.simps

lemmas path_steps = path_join_def is_absolute_def slash_def path_parent_def dir_part_def strip_slashes_def
  name_part_def file_name_def stem_of_def extension_def with_extension_def dot_def
  make_dirs_def make_dir_def temporary_path_def

lemmas file_steps = file_op_def read_file_def write_file_def create_dir_all_def
  set_permissions_def sync_path_def rename_file_def remove_file_def remove_if_present_def
  path_exists_def is_file_def fs_put_def fs_del_def fs_get_def read_dir_def children_def
  symlink_metadata_def

lemmas world_steps = git_text_def git_def run_process_def spawn_process_def tempdir_def ext_call_def now_def
  now_rfc3339_def new_uuid_def http_send_def scripted_world_def next_result_def next_response_def says_def
  fails_def Let_def

lemmas document_steps = write_json_def read_json_def prepare_parent_def sync_parent_def
  json_text_def

text \<open>A run: these equations and those of the program; \<open>path_steps\<close> where paths have to be computed.\<close>

lemmas running = executes string_steps file_steps world_steps document_steps

lemma new_events_run: "m s = (r, s') \<Longrightarrow> new_events m s = drop (length (trace s)) (trace s')"
  by (simp add: new_events_def)

end
