(* ===== verification/Protocol.thy ===== *)
theory Protocol
  imports Local_State
begin

section \<open>Messages of the provider protocol\<close>

text \<open>
  \<open>src/src/protocol.rs\<close>: the outcomes of a named-lease mutation and their spelling, the leases and
  lease listings of the provider, the project catalog with the migration of its older form, and
  the checks that a reply must pass before anything acts on it. The derived \<open>Deserialize\<close>
  instances are the \<open>decode_\<close> functions: a struct is read from an object or, field by field, from
  an array. Times are nanoseconds; the parser of their text is the parameter \<open>T\<close>.
\<close>

subsection \<open>Spelled values\<close>

text \<open>What a pair of printer and parser of an enumeration promises: exactly the printed texts are
  read, and each as the value it came from.\<close>

locale spelling =
  fixes print :: "'a \<Rightarrow> string" and parse :: "string \<Rightarrow> ('e, 'a) result"
  assumes parse_print: "parse (print a) = Inr a"
    and parsed_is_printed: "parse s = Inr a \<Longrightarrow> s = print a"
begin

lemma print_inject: "print a = print b \<longleftrightarrow> a = b"
  by (metis parse_print sum.inject(2))

lemma parse_iff: "parse s = Inr a \<longleftrightarrow> s = print a"
  using parse_print parsed_is_printed by blast

lemma rejected_iff: "\<not> is_ok (parse s) \<longleftrightarrow> s \<notin> range print"
  by (metis is_ok_simps(1) is_ok_simps(2) old.sum.exhaust parse_iff rangeE rangeI)

end

subsection \<open>Named-lease outcomes\<close>

datatype named_lease_outcome =
    Acquired | Held | Renewed | Released | LeaseExpired | NotHolder | NotFoundOutcome
  | InvalidResourceKey | InvalidTtl | RequestIdReused

fun outcome_as_str :: "named_lease_outcome \<Rightarrow> string" where
  "outcome_as_str Acquired = ''ACQUIRED''"
| "outcome_as_str Held = ''HELD''"
| "outcome_as_str Renewed = ''RENEWED''"
| "outcome_as_str Released = ''RELEASED''"
| "outcome_as_str LeaseExpired = ''LEASE_EXPIRED''"
| "outcome_as_str NotHolder = ''NOT_HOLDER''"
| "outcome_as_str NotFoundOutcome = ''NOT_FOUND''"
| "outcome_as_str InvalidResourceKey = ''INVALID_RESOURCE_KEY''"
| "outcome_as_str InvalidTtl = ''INVALID_TTL''"
| "outcome_as_str RequestIdReused = ''REQUEST_ID_REUSED''"

definition carries_lease :: "named_lease_outcome \<Rightarrow> bool" where
  "carries_lease out \<longleftrightarrow> out \<in> {Acquired, Held, Renewed, Released}"

definition outcome_from_str :: "string \<Rightarrow> (string, named_lease_outcome) result" where
  "outcome_from_str value =
     (if value = ''ACQUIRED'' then Inr Acquired
      else if value = ''HELD'' then Inr Held
      else if value = ''RENEWED'' then Inr Renewed
      else if value = ''RELEASED'' then Inr Released
      else if value = ''LEASE_EXPIRED'' then Inr LeaseExpired
      else if value = ''NOT_HOLDER'' then Inr NotHolder
      else if value = ''NOT_FOUND'' then Inr NotFoundOutcome
      else if value = ''INVALID_RESOURCE_KEY'' then Inr InvalidResourceKey
      else if value = ''INVALID_TTL'' then Inr InvalidTtl
      else if value = ''REQUEST_ID_REUSED'' then Inr RequestIdReused
      else Inl (''unknown named-lease outcome '' @ value))"

interpretation outcome: spelling outcome_as_str outcome_from_str
proof
  show "outcome_from_str (outcome_as_str a) = Inr a" for a
    by (cases a) (simp_all add: outcome_from_str_def)
  show "s = outcome_as_str a" if "outcome_from_str s = Inr a" for s a
    using that by (auto simp: outcome_from_str_def split: if_splits)
qed

subsection \<open>Leases\<close>

record named_lease_policy =
  np_default_ttl_seconds :: nat
  np_min_ttl_seconds :: nat
  np_max_ttl_seconds :: nat

definition validate_policy :: "named_lease_policy \<Rightarrow> (string, unit) result" where
  "validate_policy p =
     (if np_min_ttl_seconds p = 0 \<or> np_min_ttl_seconds p > np_default_ttl_seconds p
         \<or> np_default_ttl_seconds p > np_max_ttl_seconds p
      then Inl ''provider advertised an invalid named-lease TTL policy'' else Inr ())"

record named_lease =
  nl_lease_id :: string
  nl_project_id :: string
  nl_resource_key :: string
  nl_holder_device_id :: string
  nl_holder_device_name :: "string option"
  nl_holder_id :: string
  nl_generation :: nat
  nl_acquired_at :: int
  nl_expires_at :: int

definition validate_lease :: "named_lease \<Rightarrow> (string, unit) result" where
  "validate_lease l =
     bindR (check_all (\<lambda>(field, value). ensure (value \<noteq> []) (''named lease is missing '' @ field))
       [(''lease_id'', nl_lease_id l), (''project_id'', nl_project_id l),
        (''resource_key'', nl_resource_key l), (''holder_device_id'', nl_holder_device_id l),
        (''holder_id'', nl_holder_id l)]) (\<lambda>_.
     bindR (ensure (nl_generation l \<noteq> 0) ''named lease generation must be greater than zero'') (\<lambda>_.
     ensure (nl_acquired_at l < nl_expires_at l) ''named lease expiry must be after acquisition''))"

definition validate_lease_for_resource :: "string \<Rightarrow> string \<Rightarrow> named_lease \<Rightarrow> (string, unit) result" where
  "validate_lease_for_resource project_id resource_key l =
     bindR (validate_lease l) (\<lambda>_.
     ensure (nl_project_id l = project_id \<and> nl_resource_key l = resource_key)
       ''provider returned a named lease for a different project or resource'')"

definition validate_lease_for_lease :: "string \<Rightarrow> string \<Rightarrow> named_lease \<Rightarrow> (string, unit) result" where
  "validate_lease_for_lease project_id lease_id l =
     bindR (validate_lease l) (\<lambda>_.
     ensure (nl_project_id l = project_id \<and> nl_lease_id l = lease_id)
       ''provider returned a different named lease than requested'')"

record mutation_response =
  mr_outcome :: named_lease_outcome
  mr_lease :: "named_lease option"

definition validate_response_with :: "(named_lease \<Rightarrow> (string, unit) result) \<Rightarrow> mutation_response \<Rightarrow>
    (string, unit) result" where
  "validate_response_with check r =
     bindR (ensure (carries_lease (mr_outcome r) = (mr_lease r \<noteq> None))
       ''named-lease response has an invalid lease payload for its outcome'') (\<lambda>_.
     case mr_lease r of None \<Rightarrow> Inr () | Some l \<Rightarrow> bindR (validate_lease l) (\<lambda>_. check l))"

definition validate_response :: "mutation_response \<Rightarrow> (string, unit) result" where
  "validate_response r = validate_response_with (\<lambda>_. Inr ()) r"

definition validate_response_for_resource :: "string \<Rightarrow> string \<Rightarrow> mutation_response \<Rightarrow> (string, unit) result" where
  "validate_response_for_resource project_id resource_key =
     validate_response_with (validate_lease_for_resource project_id resource_key)"

definition validate_response_for_lease :: "string \<Rightarrow> string \<Rightarrow> mutation_response \<Rightarrow> (string, unit) result" where
  "validate_response_for_lease project_id lease_id =
     validate_response_with (validate_lease_for_lease project_id lease_id)"

text \<open>The loop over a listing, with the identities and keys seen so far.\<close>

fun validate_listing :: "string \<Rightarrow> string list \<Rightarrow> string list \<Rightarrow> named_lease list \<Rightarrow> (string, unit) result" where
  "validate_listing project_id lease_ids resource_keys [] = Inr ()"
| "validate_listing project_id lease_ids resource_keys (l # ls) =
     bindR (validate_lease l) (\<lambda>_.
     bindR (ensure (nl_project_id l = project_id) ''provider returned a named lease for a different project'') (\<lambda>_.
     bindR (ensure (nl_lease_id l \<notin> set lease_ids \<and> nl_resource_key l \<notin> set resource_keys)
       ''provider returned duplicate live named leases'') (\<lambda>_.
     validate_listing project_id (nl_lease_id l # lease_ids) (nl_resource_key l # resource_keys) ls)))"

definition validate_list_for_project :: "string \<Rightarrow> named_lease list \<Rightarrow> (string, unit) result" where
  "validate_list_for_project project_id leases = validate_listing project_id [] [] leases"

subsection \<open>Reading structs from JSON\<close>

definition struct_fields :: "string list \<Rightarrow> json \<Rightarrow> (string \<times> json) list option" where
  "struct_fields names j = (case j of
       JObj m \<Rightarrow> Some m
     | JArr xs \<Rightarrow> if length xs \<le> length names then Some (zip names xs) else None
     | _ \<Rightarrow> None)"

definition req_str :: "string \<Rightarrow> (string \<times> json) list \<Rightarrow> string option" where
  "req_str k m = Option.bind (map_of m k) as_str"

definition default_str :: "string \<Rightarrow> (string \<times> json) list \<Rightarrow> string option" where
  "default_str k m = (case map_of m k of None \<Rightarrow> Some [] | Some v \<Rightarrow> as_str v)"

definition optional_str :: "string \<Rightarrow> (string \<times> json) list \<Rightarrow> string option option" where
  "optional_str k m = (case map_of m k of None \<Rightarrow> Some None | Some JNull \<Rightarrow> Some None
     | Some v \<Rightarrow> map_option Some (as_str v))"

definition req_u64 :: "string \<Rightarrow> (string \<times> json) list \<Rightarrow> nat option" where
  "req_u64 k m = Option.bind (map_of m k) as_u64"

definition default_u64 :: "string \<Rightarrow> (string \<times> json) list \<Rightarrow> nat option" where
  "default_u64 k m = (case map_of m k of None \<Rightarrow> Some 0 | Some v \<Rightarrow> as_u64 v)"

definition req_bool :: "string \<Rightarrow> (string \<times> json) list \<Rightarrow> bool option" where
  "req_bool k m = Option.bind (map_of m k) as_bool"

fun decode_all :: "('a \<Rightarrow> 'b option) \<Rightarrow> 'a list \<Rightarrow> 'b list option" where
  "decode_all f [] = Some []"
| "decode_all f (x # xs) = (case f x of None \<Rightarrow> None | Some y \<Rightarrow> map_option (\<lambda>ys. y # ys) (decode_all f xs))"

definition lease_fields :: "string list" where
  "lease_fields = [''lease_id'', ''project_id'', ''resource_key'', ''holder_device_id'',
     ''holder_device_name'', ''holder_id'', ''generation'', ''acquired_at'', ''expires_at'']"

definition decode_lease :: "(string \<Rightarrow> int option) \<Rightarrow> json \<Rightarrow> named_lease option" where
  "decode_lease T j =
     Option.bind (struct_fields lease_fields j) (\<lambda>m.
     Option.bind (req_str ''lease_id'' m) (\<lambda>lease_id.
     Option.bind (req_str ''project_id'' m) (\<lambda>project_id.
     Option.bind (req_str ''resource_key'' m) (\<lambda>resource_key.
     Option.bind (req_str ''holder_device_id'' m) (\<lambda>holder_device_id.
     Option.bind (optional_str ''holder_device_name'' m) (\<lambda>holder_device_name.
     Option.bind (req_str ''holder_id'' m) (\<lambda>holder_id.
     Option.bind (req_u64 ''generation'' m) (\<lambda>generation.
     Option.bind (Option.bind (req_str ''acquired_at'' m) T) (\<lambda>acquired_at.
     Option.bind (Option.bind (req_str ''expires_at'' m) T) (\<lambda>expires_at.
     Some \<lparr>nl_lease_id = lease_id, nl_project_id = project_id, nl_resource_key = resource_key,
       nl_holder_device_id = holder_device_id, nl_holder_device_name = holder_device_name,
       nl_holder_id = holder_id, nl_generation = generation, nl_acquired_at = acquired_at,
       nl_expires_at = expires_at\<rparr>))))))))))"

definition decode_response :: "(string \<Rightarrow> int option) \<Rightarrow> json \<Rightarrow> mutation_response option" where
  "decode_response T j =
     Option.bind (struct_fields [''outcome'', ''lease''] j) (\<lambda>m.
     Option.bind (req_str ''outcome'' m) (\<lambda>text.
     case outcome_from_str text of
       Inl _ \<Rightarrow> None
     | Inr out \<Rightarrow> (case map_of m ''lease'' of
           None \<Rightarrow> Some \<lparr>mr_outcome = out, mr_lease = None\<rparr>
         | Some JNull \<Rightarrow> Some \<lparr>mr_outcome = out, mr_lease = None\<rparr>
         | Some l \<Rightarrow> map_option (\<lambda>l. \<lparr>mr_outcome = out, mr_lease = Some l\<rparr>) (decode_lease T l))))"

definition decode_listing :: "(string \<Rightarrow> int option) \<Rightarrow> json \<Rightarrow> named_lease list option" where
  "decode_listing T j =
     Option.bind (struct_fields [''leases''] j) (\<lambda>m.
     Option.bind (Option.bind (map_of m ''leases'') as_array) (decode_all (decode_lease T)))"

subsection \<open>The catalog\<close>

record advertised_head =
  ah_name :: string
  ah_oid :: string

record catalog_project =
  cp_project_id :: string
  cp_name :: string
  cp_remote_url :: string
  cp_default_branch :: string
  cp_advertised_heads :: "advertised_head list"
  cp_project_generation :: nat
  cp_extra :: "(string \<times> json) list"

record catalog =
  ct_protocol :: string
  ct_catalog_generation :: nat
  ct_projects :: "catalog_project list"

definition decode_head :: "json \<Rightarrow> advertised_head option" where
  "decode_head j =
     Option.bind (struct_fields [''name'', ''oid''] j) (\<lambda>m.
     Option.bind (req_str ''name'' m) (\<lambda>name.
     Option.bind (req_str ''oid'' m) (\<lambda>oid.
     Some \<lparr>ah_name = name, ah_oid = oid\<rparr>)))"

definition project_fields :: "string list" where
  "project_fields = [''project_id'', ''name'', ''remote_url'', ''default_branch'',
     ''advertised_heads'', ''project_generation'']"

text \<open>A struct with a flattened rest is read from an object only.\<close>

definition decode_project :: "json \<Rightarrow> catalog_project option" where
  "decode_project j = (case j of
       JObj m \<Rightarrow>
         Option.bind (req_str ''project_id'' m) (\<lambda>project_id.
         Option.bind (default_str ''name'' m) (\<lambda>name.
         Option.bind (req_str ''remote_url'' m) (\<lambda>remote_url.
         Option.bind (default_str ''default_branch'' m) (\<lambda>default_branch.
         Option.bind (case map_of m ''advertised_heads'' of None \<Rightarrow> Some []
             | Some v \<Rightarrow> Option.bind (as_array v) (decode_all decode_head)) (\<lambda>heads.
         Option.bind (default_u64 ''project_generation'' m) (\<lambda>generation.
         Some \<lparr>cp_project_id = project_id, cp_name = name, cp_remote_url = remote_url,
           cp_default_branch = default_branch, cp_advertised_heads = heads,
           cp_project_generation = generation,
           cp_extra = filter (\<lambda>p. fst p \<notin> set project_fields) m\<rparr>))))))
     | _ \<Rightarrow> None)"

definition decode_catalog :: "(string \<times> json) list \<Rightarrow> catalog option" where
  "decode_catalog m =
     Option.bind (req_str ''protocol'' m) (\<lambda>protocol.
     Option.bind (req_u64 ''catalog_generation'' m) (\<lambda>generation.
     Option.bind (Option.bind (map_of m ''projects'') as_array) (\<lambda>items.
     Option.bind (decode_all decode_project items) (\<lambda>projects.
     Some \<lparr>ct_protocol = protocol, ct_catalog_generation = generation, ct_projects = projects\<rparr>))))"

definition is_oid :: "string \<Rightarrow> bool" where
  "is_oid s \<longleftrightarrow> 40 \<le> length s \<and> length s \<le> 64
     \<and> (\<forall>c\<in>set s. is_ascii_digit c \<or> 97 \<le> byte_of c \<and> byte_of c \<le> 102)"

fun validate_heads :: "string list \<Rightarrow> advertised_head list \<Rightarrow> (string, unit) result" where
  "validate_heads names [] = Inr ()"
| "validate_heads names (h # hs) =
     bindR (ensure (ah_name h \<noteq> [] \<and> ah_name h \<notin> set names)
       ''catalog project has an invalid or duplicate branch name'') (\<lambda>_.
     bindR (ensure (is_oid (ah_oid h)) ''catalog project has an invalid advertised head OID'') (\<lambda>_.
     validate_heads (ah_name h # names) hs))"

definition validate_project :: "catalog_project \<Rightarrow> (string, unit) result" where
  "validate_project p =
     bindR (check_all (\<lambda>(field, value). ensure (value \<noteq> []) (''catalog project is missing '' @ field))
       [(''project_id'', cp_project_id p), (''remote_url'', cp_remote_url p),
        (''default_branch'', cp_default_branch p)]) (\<lambda>_.
     validate_heads [] (cp_advertised_heads p))"

definition validate_catalog :: "catalog \<Rightarrow> (string, unit) result" where
  "validate_catalog c = check_all validate_project (ct_projects c)"

subsection \<open>Migration of the older catalog\<close>

definition migrate_default_branch :: "(string \<times> json) list \<Rightarrow> (string \<times> json) list" where
  "migrate_default_branch item =
     (if (case Option.bind (map_of item ''default_branch'') as_str of None \<Rightarrow> True | Some b \<Rightarrow> b = [])
      then (case map_of item ''sync_branch'' of
          Some v \<Rightarrow> obj_insert ''default_branch'' v item
        | None \<Rightarrow> item)
      else item)"

definition legacy_heads :: "(string \<times> json) list \<Rightarrow> json list" where
  "legacy_heads item = (case Option.bind (map_of item ''advertised_head_oid'') as_str of
       None \<Rightarrow> []
     | Some oid \<Rightarrow> [jobj [(''name'', JStr (case Option.bind (map_of item ''default_branch'') as_str of
           None \<Rightarrow> [] | Some b \<Rightarrow> b)), (''oid'', JStr oid)]])"

definition migrate_heads :: "(string \<times> json) list \<Rightarrow> (string \<times> json) list" where
  "migrate_heads item = (if map_of item ''advertised_heads'' = None
     then obj_insert ''advertised_heads'' (JArr (legacy_heads item)) item else item)"

definition migrate_project :: "json \<Rightarrow> (string, json) result" where
  "migrate_project project = (case project of
       JObj item \<Rightarrow> Inr (JObj (obj_remove ''advertised_head_oid'' (obj_remove ''sync_branch''
         (migrate_heads (migrate_default_branch item)))))
     | _ \<Rightarrow> Inl ''catalog project must be an object'')"

fun migrate_projects :: "json list \<Rightarrow> (string, json list) result" where
  "migrate_projects [] = Inr []"
| "migrate_projects (p # ps) =
     bindR (migrate_project p) (\<lambda>q. bindR (migrate_projects ps) (\<lambda>qs. Inr (q # qs)))"

definition catalog_from_value :: "json \<Rightarrow> (string, catalog) result" where
  "catalog_from_value v = (case v of
       JObj m \<Rightarrow>
         if Option.bind (map_of m ''protocol'') as_str \<noteq> Some protocol_version
            \<or> Option.bind (map_of m ''catalog_generation'') as_u64 = None
         then Inl ''server returned an incompatible catalog''
         else
         bindR (ok_or ''catalog.projects must be an array'' (Option.bind (map_of m ''projects'') as_array)) (\<lambda>ps.
         bindR (migrate_projects ps) (\<lambda>qs.
         bindR (ok_or ''invalid catalog'' (decode_catalog (obj_insert ''projects'' (JArr qs) m))) (\<lambda>c.
         bindR (validate_catalog c) (\<lambda>_. Inr c))))
     | _ \<Rightarrow> Inl ''server returned an incompatible catalog'')"

subsection \<open>What the checks accept\<close>

definition well_formed_lease :: "named_lease \<Rightarrow> bool" where
  "well_formed_lease l \<longleftrightarrow> nl_lease_id l \<noteq> [] \<and> nl_project_id l \<noteq> [] \<and> nl_resource_key l \<noteq> []
     \<and> nl_holder_device_id l \<noteq> [] \<and> nl_holder_id l \<noteq> []
     \<and> 0 < nl_generation l \<and> nl_acquired_at l < nl_expires_at l"

lemma is_ok_validate_lease: "is_ok (validate_lease l) \<longleftrightarrow> well_formed_lease l"
  by (auto simp: validate_lease_def well_formed_lease_def is_ok_bindR ensure_eq_Inr unit_result_cases)

lemma validate_lease_ok [simp]: "validate_lease l = Inr u \<longleftrightarrow> well_formed_lease l"
  using is_ok_validate_lease [of l] by (cases "validate_lease l") auto

lemma validate_listing_iff:
  "is_ok (validate_listing p ids keys ls) \<longleftrightarrow>
    (\<forall>l\<in>set ls. well_formed_lease l \<and> nl_project_id l = p)
    \<and> distinct (map nl_lease_id ls) \<and> distinct (map nl_resource_key ls)
    \<and> set (map nl_lease_id ls) \<inter> set ids = {} \<and> set (map nl_resource_key ls) \<inter> set keys = {}"
  by (induction p ids keys ls rule: validate_listing.induct)
    (auto simp: is_ok_bindR unit_result_cases ensure_eq_Inr is_ok_validate_lease)

text \<open>A lease listing is accepted exactly if all leases are well formed and of the requested
  project and no lease id and no resource key occurs twice.\<close>

theorem validate_list_iff:
  "is_ok (validate_list_for_project project_id leases) \<longleftrightarrow>
    (\<forall>l\<in>set leases. well_formed_lease l \<and> nl_project_id l = project_id)
    \<and> distinct (map nl_lease_id leases) \<and> distinct (map nl_resource_key leases)"
  by (simp add: validate_list_for_project_def validate_listing_iff)

lemma validate_response_for_resource_ok:
  "is_ok (validate_response_for_resource project_id resource_key r) \<longleftrightarrow>
    (case mr_lease r of None \<Rightarrow> \<not> carries_lease (mr_outcome r)
     | Some l \<Rightarrow> carries_lease (mr_outcome r) \<and> well_formed_lease l
         \<and> nl_project_id l = project_id \<and> nl_resource_key l = resource_key)"
  by (cases "mr_lease r") (auto simp: validate_response_for_resource_def validate_response_with_def
    validate_lease_for_resource_def is_ok_bindR)

lemma validate_response_for_lease_ok:
  "is_ok (validate_response_for_lease project_id lease_id r) \<longleftrightarrow>
    (case mr_lease r of None \<Rightarrow> \<not> carries_lease (mr_outcome r)
     | Some l \<Rightarrow> carries_lease (mr_outcome r) \<and> well_formed_lease l
         \<and> nl_project_id l = project_id \<and> nl_lease_id l = lease_id)"
  by (cases "mr_lease r") (auto simp: validate_response_for_lease_def validate_response_with_def
    validate_lease_for_lease_def is_ok_bindR)

lemma validate_heads_iff:
  "is_ok (validate_heads names hs) \<longleftrightarrow>
    (\<forall>h\<in>set hs. ah_name h \<noteq> [] \<and> is_oid (ah_oid h)) \<and> distinct (map ah_name hs)
    \<and> set (map ah_name hs) \<inter> set names = {}"
  by (induction names hs rule: validate_heads.induct) (auto simp: is_ok_bindR ensure_eq_Inr)

definition well_formed_project :: "catalog_project \<Rightarrow> bool" where
  "well_formed_project p \<longleftrightarrow> cp_project_id p \<noteq> [] \<and> cp_remote_url p \<noteq> [] \<and> cp_default_branch p \<noteq> []
     \<and> (\<forall>h\<in>set (cp_advertised_heads p). ah_name h \<noteq> [] \<and> is_oid (ah_oid h))
     \<and> distinct (map ah_name (cp_advertised_heads p))"

lemma is_ok_validate_catalog:
  "is_ok (validate_catalog c) \<longleftrightarrow> (\<forall>p\<in>set (ct_projects c). well_formed_project p)"
  by (auto simp: validate_catalog_def validate_project_def well_formed_project_def is_ok_bindR
    unit_result_cases validate_heads_iff)

subsection \<open>Migration\<close>

lemma map_of_migrate_default_branch:
  "map_of (migrate_default_branch item) k =
    (if k = ''default_branch'' \<and> (\<forall>b. Option.bind (map_of item ''default_branch'') as_str = Some b \<longrightarrow> b = [])
        \<and> map_of item ''sync_branch'' \<noteq> None
     then map_of item ''sync_branch'' else map_of item k)"
  by (auto simp: migrate_default_branch_def map_of_obj_insert split: option.splits)

lemma migrate_project_keys:
  assumes "migrate_project p = Inr q"
  shows "jget ''sync_branch'' q = None" "jget ''advertised_head_oid'' q = None"
    "jget ''advertised_heads'' q \<noteq> None"
  using assms by (auto simp: migrate_project_def map_of_obj_remove migrate_heads_def map_of_obj_insert
    split: json.splits)

lemma obj_remove_absent: "map_of m k = None \<Longrightarrow> obj_remove k m = m"
  by (induction m) (auto simp: obj_remove_def split: if_splits)

lemma migrate_project_idempotent:
  assumes "migrate_project p = Inr q"
  shows "migrate_project q = Inr q"
proof -
  obtain m where q: "q = JObj m" using assms by (auto simp: migrate_project_def split: json.splits)
  have "map_of m ''sync_branch'' = None" "map_of m ''advertised_head_oid'' = None"
    "map_of m ''advertised_heads'' \<noteq> None"
    using migrate_project_keys [OF assms] by (simp_all add: q)
  moreover from this have "migrate_default_branch m = m" "migrate_heads m = m"
    by (auto simp: migrate_default_branch_def migrate_heads_def split: option.splits)
  ultimately show ?thesis by (simp add: q migrate_project_def obj_remove_absent)
qed

lemma migrate_projects_idempotent: "migrate_projects ps = Inr qs \<Longrightarrow> migrate_projects qs = Inr qs"
  by (induction ps arbitrary: qs) (auto simp: bindR_eq_Inr dest: migrate_project_idempotent)

lemma obj_insert_twice: "obj_insert k v (obj_insert k w m) = obj_insert k v m"
  by (induction m) auto

lemma decode_all_set: "decode_all f xs = Some ys \<Longrightarrow> y \<in> set ys \<Longrightarrow> \<exists>x\<in>set xs. f x = Some y"
  by (induction xs arbitrary: ys) (auto split: option.splits)

lemma migrate_projects_set: "migrate_projects ps = Inr qs \<Longrightarrow> q \<in> set qs \<Longrightarrow> \<exists>p\<in>set ps. migrate_project p = Inr q"
  by (induction ps arbitrary: qs) (auto simp: bindR_eq_Inr)

lemma decode_project_extra:
  assumes "decode_project q = Some p" and "jget k q = None"
  shows "map_of (cp_extra p) k = None"
  using assms
  by (auto simp: decode_project_def map_of_eq_None_iff split: json.splits bind_splits)

lemma decode_catalogD:
  assumes "decode_catalog m = Some c"
  shows "map_of m ''protocol'' = Some (JStr (ct_protocol c))"
    "\<exists>items. map_of m ''projects'' = Some (JArr items) \<and> decode_all decode_project items = Some (ct_projects c)"
  using assms by (auto simp: decode_catalog_def req_str_def bind_eq_Some_conv elim!: as_str.elims as_array.elims)

text \<open>C23. A catalog that is accepted from JSON has the protocol version, only well-formed projects
  and no legacy fields, and migrating it again changes nothing.\<close>

theorem catalog_from_value_accepts:
  assumes "catalog_from_value v = Inr c"
  shows "ct_protocol c = protocol_version \<and> (\<forall>p\<in>set (ct_projects c). well_formed_project p
      \<and> map_of (cp_extra p) ''sync_branch'' = None \<and> map_of (cp_extra p) ''advertised_head_oid'' = None)
    \<and> (\<exists>m ps qs. v = JObj m \<and> map_of m ''projects'' = Some (JArr ps) \<and> migrate_projects ps = Inr qs
        \<and> catalog_from_value (JObj (obj_insert ''projects'' (JArr qs) m)) = Inr c)"
proof -
  obtain m ps qs where v: "v = JObj m" and ps: "map_of m ''projects'' = Some (JArr ps)"
    and qs: "migrate_projects ps = Inr qs" and dec: "decode_catalog (obj_insert ''projects'' (JArr qs) m) = Some c"
    and ok: "validate_catalog c = Inr ()" and proto: "map_of m ''protocol'' = Some (JStr protocol_version)"
    using assms
    by (auto simp: catalog_from_value_def bindR_eq_Inr ok_or_def bind_eq_Some_conv
        split: json.splits if_splits option.splits elim!: as_str.elims as_array.elims)
  have again: "catalog_from_value (JObj (obj_insert ''projects'' (JArr qs) m)) = Inr c"
    using assms v ps qs dec migrate_projects_idempotent [OF qs]
    by (auto simp: catalog_from_value_def map_of_obj_insert obj_insert_twice split: if_splits)
  have "ct_protocol c = protocol_version"
    using decode_catalogD(1) [OF dec] proto by (simp add: map_of_obj_insert)
  moreover have "map_of (cp_extra p) ''sync_branch'' = None \<and> map_of (cp_extra p) ''advertised_head_oid'' = None"
    if p: "p \<in> set (ct_projects c)" for p
  proof -
    have "decode_all decode_project qs = Some (ct_projects c)"
      using decode_catalogD(2) [OF dec] by (simp add: map_of_obj_insert)
    then obtain q where "q \<in> set qs" and q: "decode_project q = Some p" using p by (blast dest: decode_all_set)
    then obtain r where r: "migrate_project r = Inr q" using migrate_projects_set [OF qs] by blast
    show ?thesis using decode_project_extra [OF q] migrate_project_keys(1,2) [OF r] by blast
  qed
  moreover have "\<forall>p\<in>set (ct_projects c). well_formed_project p"
    using ok is_ok_validate_catalog [of c] by simp
  ultimately show ?thesis using v ps qs again by blast
qed

definition legacy_project :: json where
  "legacy_project = jobj [(''project_id'', JStr ''p''), (''remote_url'', JStr ''ssh://git''),
     (''sync_branch'', JStr ''main''), (''advertised_head_oid'', JStr (replicate 40 CHR ''a''))]"

definition legacy_value :: json where
  "legacy_value = jobj [(''protocol'', JStr ''resync.v1''), (''catalog_generation'', JInt 1),
     (''projects'', JArr [legacy_project])]"

definition legacy_catalog :: catalog where
  "legacy_catalog = \<lparr>ct_protocol = ''resync.v1'', ct_catalog_generation = 1, ct_projects =
     [\<lparr>cp_project_id = ''p'', cp_name = [], cp_remote_url = ''ssh://git'', cp_default_branch = ''main'',
       cp_advertised_heads = [\<lparr>ah_name = ''main'', ah_oid = replicate 40 CHR ''a''\<rparr>],
       cp_project_generation = 0, cp_extra = []\<rparr>]\<rparr>"

lemma legacy_accepted: "catalog_from_value legacy_value = Inr legacy_catalog"
  by (simp add: legacy_value_def legacy_project_def legacy_catalog_def catalog_from_value_def jobj_def
      protocol_version_def migrate_project_def migrate_heads_def migrate_default_branch_def
      legacy_heads_def obj_remove_def decode_catalog_def req_str_def req_u64_def decode_project_def
      default_str_def default_u64_def decode_head_def struct_fields_def project_fields_def
      validate_catalog_def validate_project_def is_oid_def u64_max_def byte_of_def Cons_less_Cons
      less_char_def)

theorem catalog_from_value_accepts_witness:
  "ct_protocol legacy_catalog = protocol_version \<and> (\<exists>p\<in>set (ct_projects legacy_catalog). well_formed_project p)"
  using catalog_from_value_accepts [OF legacy_accepted] by (simp add: legacy_catalog_def)

text \<open>Migration of a project's JSON is idempotent, removes the legacy fields, takes the default
  branch and head from them where the new fields are missing, and keeps every other field.\<close>

theorem migrate_project_fields:
  "\<exists>m'. migrate_project (JObj m) = Inr (JObj m') \<and> migrate_project (JObj m') = Inr (JObj m')
    \<and> map_of m' ''sync_branch'' = None \<and> map_of m' ''advertised_head_oid'' = None
    \<and> map_of m' ''default_branch'' = map_of (migrate_default_branch m) ''default_branch''
    \<and> map_of m' ''advertised_heads'' = (case map_of m ''advertised_heads'' of Some v \<Rightarrow> Some v
         | None \<Rightarrow> Some (JArr (legacy_heads (migrate_default_branch m))))
    \<and> (\<forall>k. k \<notin> {''sync_branch'', ''advertised_head_oid'', ''default_branch'', ''advertised_heads''}
         \<longrightarrow> map_of m' k = map_of m k)"
proof -
  define m' where "m' = obj_remove ''advertised_head_oid'' (obj_remove ''sync_branch''
    (migrate_heads (migrate_default_branch m)))"
  have m: "migrate_project (JObj m) = Inr (JObj m')" by (simp add: migrate_project_def m'_def)
  have look: "map_of m' k = (if k \<in> {''sync_branch'', ''advertised_head_oid''} then None
      else map_of (migrate_heads (migrate_default_branch m)) k)" for k
    by (simp add: m'_def map_of_obj_remove)
  show ?thesis
    by (rule exI [of _ m'], intro conjI m migrate_project_idempotent [OF m])
      (auto simp: look migrate_heads_def map_of_obj_insert map_of_migrate_default_branch split: option.splits)
qed

text \<open>The names of the named-lease outcomes are distinct, parse back to the outcome, and nothing
  else parses.\<close>

theorem outcome_spelling:
  "outcome_from_str (outcome_as_str out) = Inr out
    \<and> (outcome_from_str s = Inr out \<longleftrightarrow> s = outcome_as_str out)
    \<and> (outcome_as_str out = outcome_as_str out' \<longleftrightarrow> out = out')"
  using outcome.parse_iff outcome.print_inject by auto

end
