(* ===== verification/Credentials.thy ===== *)
theory Credentials
  imports Local_State
begin

section \<open>Credentials and device keys\<close>

text \<open>
  \<open>src/src/credentials.rs\<close>: the canonical origin of a provider, the credential helper program,
  the credential file keyed by origin, and the key files of a device. The SHA-256 digest, URL
  parsing, key generation and JSON text are the environment's.
\<close>

subsection \<open>Origins\<close>

definition is_local_url :: "url \<Rightarrow> bool" where
  "is_local_url u \<longleftrightarrow> url_scheme u = ''http''
     \<and> url_host u \<in> {Some ''localhost'', Some ''127.0.0.1'', Some ''::1''}"

definition canonical_origin :: "'x env \<Rightarrow> string \<Rightarrow> (string, string) result" where
  "canonical_origin E value = (case parse_url E value of
       None \<Rightarrow> Inl (''invalid provider URL '' @ value)
     | Some u \<Rightarrow> if url_scheme u \<noteq> ''https'' \<and> \<not> is_local_url u
         then Inl ''RepoSync providers must use HTTPS except on localhost''
         else Inr (url_origin u))"

subsection \<open>The helper program\<close>

definition helper_input :: "'x env \<Rightarrow> string \<Rightarrow> string \<Rightarrow> json \<Rightarrow> string" where
  "helper_input E operation origin v =
     print_json E (jobj [(''operation'', JStr operation), (''origin'', JStr origin), (''value'', v)]) @ [newline]"

definition show_code :: "int \<Rightarrow> string" where
  "show_code n = (if n < 0 then CHR ''-'' # show_digits (nat (- n)) else show_digits (nat n))"

text \<open>\<open>None\<close>: there is no helper, or it has no token; an operation other than \<open>get\<close> answers with
  an empty text.\<close>

definition helper :: "'x env \<Rightarrow> string \<Rightarrow> string \<Rightarrow> json \<Rightarrow> (('x, 'z) world_scheme, string, string option) prog" where
  "helper E operation origin v =
     (case var E ''RESYNC_CREDENTIAL_HELPER'' of
       None \<Rightarrow> ret None
     | Some command \<Rightarrow>
         andThen (run_process E ''/bin/sh'' [''-c'', command]
           (allow_failure_options\<lparr>ro_input := Some (helper_input E operation origin v)\<rparr>)) (\<lambda>res.
         if code res \<noteq> 0
         then bail (''credential helper failed: ''
           @ (if trim (stderr res) = [] then ''exit '' @ show_code (code res) else trim (stderr res)))
         else if operation \<noteq> ''get'' then ret (Some [])
         else if trim (stdout res) = [] then ret None
         else andThen (lift (ok_or ''invalid helper response'' (parse_json E (trim (stdout res))))) (\<lambda>reply.
           ret (jget_str ''token'' reply))))"

subsection \<open>The credential file\<close>

record stored_credential =
  sc_token :: string
  sc_updated_at :: string

record credential_file =
  cr_version :: nat
  cr_providers :: "(string \<times> stored_credential) list"

definition default_credentials :: credential_file where
  "default_credentials = \<lparr>cr_version = 0, cr_providers = []\<rparr>"

text \<open>A token from the environment counts for every provider unless one is named.\<close>

definition environment_token :: "'x env \<Rightarrow> string \<Rightarrow> (string, string option) result" where
  "environment_token E origin = (case var E ''RESYNC_TOKEN'' of
       None \<Rightarrow> Inr None
     | Some token \<Rightarrow> (case var E ''RESYNC_PROVIDER'' of
           None \<Rightarrow> Inr (Some token)
         | Some provider \<Rightarrow> bindR (canonical_origin E provider) (\<lambda>v.
             Inr (if v = origin then Some token else None))))"

definition load_credential :: "'x env \<Rightarrow> credential_file codec \<Rightarrow> string \<Rightarrow>
    (('x, 'z) world_scheme, string, string option) prog" where
  "load_credential E C provider =
     andThen (lift (canonical_origin E provider)) (\<lambda>origin.
     andThen (helper E ''get'' origin JNull) (\<lambda>external. case external of
       Some token \<Rightarrow> ret (if token \<noteq> [] then Some token else None)
     | None \<Rightarrow>
         andThen (lift (environment_token E origin)) (\<lambda>found. case found of
           Some token \<Rightarrow> ret (Some token)
         | None \<Rightarrow>
             andThen (read_json E C (sp_credentials (state_paths_of E)) default_credentials) (\<lambda>credentials.
             ret (map_option sc_token (map_of (cr_providers credentials) origin))))))"

definition store_credential :: "'x env \<Rightarrow> credential_file codec \<Rightarrow> string \<Rightarrow> string \<Rightarrow>
    (('x, 'z) world_scheme, string, unit) prog" where
  "store_credential E C provider token =
     andThen (lift (canonical_origin E provider)) (\<lambda>origin.
     if token = [] then bail ''cannot store an empty credential''
     else
     andThen (helper E ''store'' origin (jobj [(''token'', JStr token)])) (\<lambda>handled.
     if handled \<noteq> None then ret ()
     else
     andThen (read_json E C (sp_credentials (state_paths_of E)) default_credentials) (\<lambda>credentials.
     andThen (now_rfc3339 E) (\<lambda>t.
     write_json E C (sp_credentials (state_paths_of E))
       (credentials\<lparr>cr_providers := obj_insert origin \<lparr>sc_token = token, sc_updated_at = t\<rparr>
          (cr_providers credentials)\<rparr>) private_mode))))"

definition erase_credential :: "'x env \<Rightarrow> credential_file codec \<Rightarrow> string \<Rightarrow>
    (('x, 'z) world_scheme, string, unit) prog" where
  "erase_credential E C provider =
     andThen (lift (canonical_origin E provider)) (\<lambda>origin.
     andThen (helper E ''erase'' origin JNull) (\<lambda>handled.
     if handled \<noteq> None then ret ()
     else
     andThen (read_json E C (sp_credentials (state_paths_of E)) default_credentials) (\<lambda>credentials.
     write_json E C (sp_credentials (state_paths_of E))
       (credentials\<lparr>cr_providers := obj_remove origin (cr_providers credentials)\<rparr>) private_mode)))"

subsection \<open>Device keys\<close>

record device_identity =
  di_name :: string
  di_private_key_path :: path
  di_public_key_path :: path
  di_public_key :: string

text \<open>\<open>fs::write\<close> creates a file with mode 0666; the mode is narrowed afterwards.\<close>

definition created_mode :: nat where
  "created_mode = 438"

definition generate_device_identity :: "'x env \<Rightarrow> string \<Rightarrow> (('x, 'z) world_scheme, string, device_identity) prog" where
  "generate_device_identity E name =
     andThen (new_uuid E) (\<lambda>u.
     let directory = sp_keys (state_paths_of E);
         private_path = path_join directory (''key_'' @ u @ ''.pem'');
         public_path = path_join directory (''key_'' @ u @ ''.pub.pem'') in
     andThen (io (create_dir_all E directory)) (\<lambda>_.
     andThen (io (set_permissions E directory directory_mode)) (\<lambda>_.
     andThen (ext_call (key_pair E)) (\<lambda>(private_key, public_key).
     andThen (io (write_file E private_path private_key created_mode)) (\<lambda>_.
     andThen (io (write_file E public_path public_key created_mode)) (\<lambda>_.
     andThen (io (set_permissions E private_path private_mode)) (\<lambda>_.
     andThen (io (set_permissions E public_path shared_mode)) (\<lambda>_.
     ret \<lparr>di_name = name, di_private_key_path = private_path, di_public_key_path = public_path,
        di_public_key = public_key\<rparr>))))))))"

definition remove_device_identity :: "'x env \<Rightarrow> path option \<Rightarrow> (('x, 'z) world_scheme, string, unit) prog" where
  "remove_device_identity E public_key_path = (case public_key_path of
       None \<Rightarrow> ret ()
     | Some public \<Rightarrow>
         andThen (remove_if_present E public) (\<lambda>_.
         case strip_suffix ''.pub.pem'' public of
           Some base \<Rightarrow> remove_if_present E (base @ ''.pem'')
         | None \<Rightarrow> ret ()))"

end
