(* ===== verification/Provider.thy ===== *)
theory Provider
  imports Protocol Credentials
begin

section \<open>Talking to the provider\<close>

text \<open>
  \<open>src/src/provider.rs\<close>: service discovery, authenticated requests whose failures keep the status
  and the body of the reply, enrolment with a bootstrap token and the login it stores. The errors
  of \<open>anyhow\<close> that callers downcast are constructors of \<open>failure\<close>.
\<close>

datatype failure =
    Msg string
  | HttpFailure nat json
  | OutcomeFailure nat mutation_response

definition http_message :: "nat \<Rightarrow> json \<Rightarrow> string" where
  "http_message status body = (case jget_str ''error'' body of
       Some m \<Rightarrow> m
     | None \<Rightarrow> ''provider request failed ('' @ show_digits status @ '')'')"

fun failure_message :: "failure \<Rightarrow> string" where
  "failure_message (Msg m) = m"
| "failure_message (HttpFailure status body) = http_message status body"
| "failure_message (OutcomeFailure status r) = ''provider returned named-lease outcome ''
     @ outcome_as_str (mr_outcome r) @ '' ('' @ show_digits status @ '')''"

definition status_ok :: "nat \<Rightarrow> bool" where
  "status_ok status \<longleftrightarrow> 200 \<le> status \<and> status < 300"

text \<open>The body of a reply: an empty text is null, a text that is not JSON becomes an error object.\<close>

definition reply_value :: "'x env \<Rightarrow> string \<Rightarrow> json" where
  "reply_value E text = (if text = [] then JNull else (case parse_json E text of
       Some v \<Rightarrow> v
     | None \<Rightarrow> jobj [(''error'', JStr (concat (take 500 (utf8_chars text))))]))"

definition provider_request :: "'x env \<Rightarrow> string \<Rightarrow> string option \<Rightarrow> string \<Rightarrow> json option \<Rightarrow>
    (('x, 'z) world_scheme, failure, nat \<times> json) prog" where
  "provider_request E url token request_method body =
     andThen (mapErr Msg (http_send E \<lparr>req_method = request_method, req_url = url, req_token = token,
       req_body = body\<rparr>)) (\<lambda>res.
     let v = reply_value E (res_text res) in
     if \<not> status_ok (res_status res) then bail (HttpFailure (res_status res) v)
     else ret (res_status res, v))"

definition provider_fetch :: "'x env \<Rightarrow> string \<Rightarrow> string option \<Rightarrow> string \<Rightarrow> json option \<Rightarrow>
    (('x, 'z) world_scheme, string, json) prog" where
  "provider_fetch E url token request_method body =
     mapErr failure_message (andThen (provider_request E url token request_method body) (\<lambda>r. ret (snd r)))"

subsection \<open>Discovery\<close>

record discovery =
  ds_protocol :: string
  ds_service_id :: string
  ds_auth_methods :: "string list"
  ds_capabilities :: "string list"
  ds_endpoints :: "(string \<times> string) list"
  ds_named_lease_policy :: "named_lease_policy option"
  ds_origin :: string

definition decode_policy :: "json \<Rightarrow> named_lease_policy option" where
  "decode_policy j =
     Option.bind (struct_fields [''default_ttl_seconds'', ''min_ttl_seconds'', ''max_ttl_seconds''] j) (\<lambda>m.
     Option.bind (req_u64 ''default_ttl_seconds'' m) (\<lambda>d.
     Option.bind (req_u64 ''min_ttl_seconds'' m) (\<lambda>lo.
     Option.bind (req_u64 ''max_ttl_seconds'' m) (\<lambda>hi.
     Some \<lparr>np_default_ttl_seconds = d, np_min_ttl_seconds = lo, np_max_ttl_seconds = hi\<rparr>))))"

definition default_strings :: "string \<Rightarrow> (string \<times> json) list \<Rightarrow> string list option" where
  "default_strings k m = (case map_of m k of None \<Rightarrow> Some []
     | Some v \<Rightarrow> Option.bind (as_array v) (decode_all as_str))"

definition decode_string_map :: "json \<Rightarrow> (string \<times> string) list option" where
  "decode_string_map j = (case j of
       JObj m \<Rightarrow> decode_all (\<lambda>(k, v). map_option (\<lambda>s. (k, s)) (as_str v)) m
     | _ \<Rightarrow> None)"

definition discovery_fields :: "string list" where
  "discovery_fields = [''protocol'', ''service_id'', ''auth_methods'', ''capabilities'', ''endpoints'',
     ''named_lease_policy'']"

definition decode_discovery :: "json \<Rightarrow> discovery option" where
  "decode_discovery j =
     Option.bind (struct_fields discovery_fields j) (\<lambda>m.
     Option.bind (req_str ''protocol'' m) (\<lambda>protocol.
     Option.bind (req_str ''service_id'' m) (\<lambda>service_id.
     Option.bind (default_strings ''auth_methods'' m) (\<lambda>auth_methods.
     Option.bind (default_strings ''capabilities'' m) (\<lambda>capabilities.
     Option.bind (Option.bind (map_of m ''endpoints'') decode_string_map) (\<lambda>endpoints.
     Option.bind (case map_of m ''named_lease_policy'' of None \<Rightarrow> Some None | Some JNull \<Rightarrow> Some None
         | Some p \<Rightarrow> map_option Some (decode_policy p)) (\<lambda>policy.
     Some \<lparr>ds_protocol = protocol, ds_service_id = service_id, ds_auth_methods = auth_methods,
       ds_capabilities = capabilities, ds_endpoints = endpoints, ds_named_lease_policy = policy,
       ds_origin = []\<rparr>)))))))"

definition default_provider :: "'x env \<Rightarrow> string" where
  "default_provider E = (case var E ''RESYNC_DEFAULT_PROVIDER'' of
       Some p \<Rightarrow> p | None \<Rightarrow> ''https://resync-hosted-production.up.railway.app'')"

fun join_endpoints :: "'x env \<Rightarrow> string \<Rightarrow> (string \<times> string) list \<Rightarrow> (string, (string \<times> string) list) result" where
  "join_endpoints E origin [] = Inr []"
| "join_endpoints E origin ((k, v) # es) =
     bindR (ok_or ''invalid endpoint URL'' (url_join E origin v)) (\<lambda>u.
     bindR (join_endpoints E origin es) (\<lambda>us. Inr ((k, u) # us)))"

definition check_discovery :: "'x env \<Rightarrow> string \<Rightarrow> discovery \<Rightarrow> (string, discovery) result" where
  "check_discovery E origin d =
     (if ds_protocol d \<noteq> protocol_version \<or> ds_endpoints d = []
      then Inl ''provider does not advertise a compatible resync.v1 service''
      else
      bindR (case ds_named_lease_policy d of None \<Rightarrow> Inr () | Some p \<Rightarrow> validate_policy p) (\<lambda>_.
      bindR (join_endpoints E origin (ds_endpoints d)) (\<lambda>es.
      Inr (d\<lparr>ds_endpoints := es, ds_origin := origin\<rparr>))))"

definition discover :: "'x env \<Rightarrow> string option \<Rightarrow> (('x, 'z) world_scheme, string, discovery) prog" where
  "discover E provider =
     andThen (lift (canonical_origin E (case provider of Some p \<Rightarrow> p | None \<Rightarrow> default_provider E))) (\<lambda>origin.
     andThen (lift (ok_or ''invalid discovery URL'' (url_join E origin ''/.well-known/resync''))) (\<lambda>url.
     andThen (http_send E \<lparr>req_method = ''GET'', req_url = url, req_token = None, req_body = None\<rparr>) (\<lambda>res.
     if \<not> status_ok (res_status res)
     then bail (''provider discovery failed ('' @ show_digits (res_status res) @ '')'')
     else
     andThen (lift (ok_or ''invalid discovery document''
       (Option.bind (parse_json E (res_text res)) decode_discovery))) (\<lambda>document.
     lift (check_discovery E origin document)))))"

subsection \<open>Enrolment\<close>

definition endpoint :: "string \<Rightarrow> discovery \<Rightarrow> (string, string) result" where
  "endpoint name d = ok_or (''provider discovery is missing '' @ name @ '' endpoint'') (map_of (ds_endpoints d) name)"

definition device_config :: "'x env \<Rightarrow> discovery \<Rightarrow> json \<Rightarrow> device_identity \<Rightarrow> string \<Rightarrow> provider_config" where
  "device_config E d enrollment key t = (let device = (case jget ''device'' enrollment of None \<Rightarrow> JNull | Some v \<Rightarrow> v) in
     \<lparr>pc_origin = ds_origin d, pc_service_id = Some (ds_service_id d), pc_device_id = jget_str ''id'' device,
      pc_device_name = jget_str ''name'' device, pc_public_key_path = Some (di_public_key_path key),
      pc_logged_in_at = Some t\<rparr>)"

definition store_provider_login :: "'x env \<Rightarrow> credential_file codec \<Rightarrow> config codec \<Rightarrow> discovery \<Rightarrow> json \<Rightarrow>
    device_identity \<Rightarrow> (('x, 'z) world_scheme, string, unit) prog" where
  "store_provider_login E CC CF d enrollment key =
     andThen (lift (ok_or ''enrollment token missing'' (jget_str ''token'' enrollment))) (\<lambda>token.
     andThen (store_credential E CC (ds_origin d) token) (\<lambda>_.
     andThen (load_config_raw E CF) (\<lambda>config.
     andThen (now_rfc3339 E) (\<lambda>t.
     write_json E CF (sp_config (state_paths_of E))
       (config\<lparr>cfg_server := None, cfg_token := None, cfg_active_provider := Some (ds_origin d),
          cfg_providers := obj_insert (ds_origin d) (device_config E d enrollment key t) (cfg_providers config)\<rparr>)
       private_mode))))"

definition enrolled_projects :: "json \<Rightarrow> json list" where
  "enrolled_projects v = (case Option.bind (jget ''projects'' v) as_array of None \<Rightarrow> []
     | Some items \<Rightarrow> List.map_filter (jget ''project_id'') items)"

text \<open>A provider that does not enrol devices still lists its catalog for the bootstrap token.\<close>

definition enroll_device :: "'x env \<Rightarrow> string \<Rightarrow> string \<Rightarrow> string \<Rightarrow> string \<Rightarrow> device_identity \<Rightarrow>
    (('x, 'z) world_scheme, string, json) prog" where
  "enroll_device E enroll catalog_url bootstrap_token device_name key =
     andThen (attempt (provider_fetch E enroll (Some bootstrap_token) ''POST''
       (Some (jobj [(''device_name'', JStr device_name), (''public_key'', JStr (di_public_key key))])))) (\<lambda>reply.
     case reply of
       Inr v \<Rightarrow> ret v
     | Inl _ \<Rightarrow>
         andThen (provider_fetch E catalog_url (Some bootstrap_token) ''GET'' None) (\<lambda>v.
         ret (jobj [(''device'', jobj [(''id'', JNull), (''name'', JStr device_name),
             (''project_ids'', JArr (enrolled_projects v))]), (''token'', JStr bootstrap_token)])))"

definition enroll_with_token :: "'x env \<Rightarrow> credential_file codec \<Rightarrow> config codec \<Rightarrow> string option \<Rightarrow> string \<Rightarrow>
    string \<Rightarrow> (('x, 'z) world_scheme, string, json) prog" where
  "enroll_with_token E CC CF provider bootstrap_token device_name =
     andThen (discover E provider) (\<lambda>d.
     andThen (generate_device_identity E device_name) (\<lambda>key.
     andThen (lift (endpoint ''enroll'' d)) (\<lambda>enroll.
     andThen (lift (endpoint ''catalog'' d)) (\<lambda>catalog_url.
     andThen (enroll_device E enroll catalog_url bootstrap_token device_name key) (\<lambda>enrollment.
     andThen (lift (ok_or ''provider enrollment returned no token'' (jget_str ''token'' enrollment))) (\<lambda>token.
     andThen (provider_fetch E catalog_url (Some token) ''GET'' None) (\<lambda>_.
     andThen (store_provider_login E CC CF d enrollment key) (\<lambda>_.
     ret (jobj [(''provider'', JStr (ds_origin d)),
        (''device'', case jget ''device'' enrollment of None \<Rightarrow> JNull | Some v \<Rightarrow> v),
        (''authMethods'', JArr (map JStr (ds_auth_methods d)))])))))))))"

end
