(* ===== verification/Identity.thy ===== *)
theory Identity
  imports Credentials
begin

section \<open>The identity of a checkout\<close>

text \<open>
  \<open>src/src/identity.rs\<close>: the provider, project and checkout a working tree belongs to, kept in its
  local Git configuration.
\<close>

record identity =
  id_root :: path
  id_service :: "string option"
  id_project_id :: "string option"
  id_checkout_id :: "string option"

definition repository_root :: "'x env \<Rightarrow> path \<Rightarrow> (('x, 'z) world_scheme, string, path) prog" where
  "repository_root E p =
     andThen (git E p [''rev-parse'', ''--show-toplevel''] allow_failure_options) (\<lambda>res.
     if code res \<noteq> 0 then bail ''this command must run inside a Git worktree''
     else ret (trim (stdout res)))"

definition local_config :: "'x env \<Rightarrow> path \<Rightarrow> string \<Rightarrow> (('x, 'z) world_scheme, string, string option) prog" where
  "local_config E root key =
     andThen (git E root [''config'', ''--local'', ''--get'', key] allow_failure_options) (\<lambda>res.
     ret (if code res = 0 then Some (trim (stdout res)) else None))"

definition canonical_option :: "'x env \<Rightarrow> string option \<Rightarrow> (string, string option) result" where
  "canonical_option E service = (case service of None \<Rightarrow> Inr None
     | Some v \<Rightarrow> bindR (canonical_origin E v) (\<lambda>origin. Inr (Some origin)))"

definition read_identity :: "'x env \<Rightarrow> path \<Rightarrow> (('x, 'z) world_scheme, string, identity) prog" where
  "read_identity E p =
     andThen (repository_root E p) (\<lambda>root.
     andThen (local_config E root ''resync.service'') (\<lambda>service.
     andThen (local_config E root ''resync.projectId'') (\<lambda>project_id.
     andThen (local_config E root ''resync.checkoutId'') (\<lambda>checkout_id.
     if (service \<noteq> None) \<noteq> (project_id \<noteq> None)
     then bail ''incomplete RepoSync identity in local Git configuration''
     else andThen (lift (canonical_option E service)) (\<lambda>origin.
       ret \<lparr>id_root = root, id_service = origin, id_project_id = project_id, id_checkout_id = checkout_id\<rparr>)))))"

definition new_checkout_id :: "'x env \<Rightarrow> string option \<Rightarrow> (('x, 'z) world_scheme, 'e, string) prog" where
  "new_checkout_id E checkout_id = (case checkout_id of
       Some c \<Rightarrow> ret c
     | None \<Rightarrow> andThen (new_uuid E) (\<lambda>u. ret (''chk_'' @ filter (\<lambda>c. c \<noteq> CHR ''-'') u)))"

definition write_identity :: "'x env \<Rightarrow> path \<Rightarrow> string \<Rightarrow> string \<Rightarrow> string option \<Rightarrow>
    (('x, 'z) world_scheme, string, identity) prog" where
  "write_identity E p service project_id checkout_id =
     andThen (repository_root E p) (\<lambda>root.
     andThen (lift (canonical_origin E service)) (\<lambda>origin.
     andThen (new_checkout_id E checkout_id) (\<lambda>checkout.
     andThen (forEach (\<lambda>(key, v).
         andThen (git E root [''config'', ''--local'', key, v] default_options) (\<lambda>_. ret ()))
       [(''resync.service'', origin), (''resync.projectId'', project_id), (''resync.checkoutId'', checkout)]) (\<lambda>_.
     ret \<lparr>id_root = root, id_service = Some origin, id_project_id = Some project_id,
        id_checkout_id = Some checkout\<rparr>))))"

definition clear_identity :: "'x env \<Rightarrow> path \<Rightarrow> (('x, 'z) world_scheme, string, unit) prog" where
  "clear_identity E p =
     andThen (repository_root E p) (\<lambda>root.
     forEach (\<lambda>key. andThen (git E root [''config'', ''--local'', ''--unset-all'', key] allow_failure_options)
         (\<lambda>_. ret ()))
       [''resync.service'', ''resync.projectId'', ''resync.checkoutId''])"

definition same_project :: "'x env \<Rightarrow> identity \<Rightarrow> identity \<Rightarrow> (string, bool) result" where
  "same_project E l r =
     (case (id_service l, id_project_id l, id_service r, id_project_id r) of
       (Some a, Some b, Some c, Some d) \<Rightarrow>
         bindR (canonical_origin E a) (\<lambda>oa. bindR (canonical_origin E c) (\<lambda>oc. Inr (oa = oc \<and> b = d)))
     | _ \<Rightarrow> Inr False)"

end
