(* ===== verification/Hook_Dispatcher.thy ===== *)
theory Hook_Dispatcher
  imports Local_State
begin

section \<open>Hook dispatchers\<close>

text \<open>
  \<open>src/src/hook_dispatcher.rs\<close>: the small shell scripts that stand between the Codex hooks and the
  RepoSync executable, the symbolic link each of them runs, the quoting of a shell word and the
  recognition of RepoSync's own hook commands.
\<close>

subsection \<open>Quoting\<close>

definition quote :: char where
  "quote = CHR 0x27"

definition double_quote :: char where
  "double_quote = CHR 0x22"

definition backslash :: char where
  "backslash = CHR 0x5C"

definition shell_quote :: "string \<Rightarrow> string" where
  "shell_quote value = [quote] @ str_replace [quote] [quote, backslash, quote, quote] value @ [quote]"

subsection \<open>Dispatcher files\<close>

definition hex_digit :: "nat \<Rightarrow> char" where
  "hex_digit n = (if n < 10 then char_of (48 + n) else char_of (87 + n))"

definition hex_text :: "string \<Rightarrow> string" where
  "hex_text bytes = concat (map (\<lambda>c. [hex_digit (byte_of c div 16), hex_digit (byte_of c mod 16)]) bytes)"

definition dispatcher_script :: "string \<Rightarrow> string \<Rightarrow> string" where
  "dispatcher_script description arguments =
     ''#!/bin/sh'' @ [newline] @ ''# '' @ description @ [newline]
     @ ''exec '' @ [double_quote] @ ''$0.resync'' @ [double_quote] @ '' '' @ arguments @ [newline]"

definition dispatcher_path :: "'x env \<Rightarrow> path \<Rightarrow> string \<Rightarrow> string \<Rightarrow> path" where
  "dispatcher_path E state_root kind identity =
     path_join (path_join state_root ''hook-dispatchers'') (kind @ ''-'' @ hex_text (sha256 E identity))"

definition dispatcher_target :: "path \<Rightarrow> path" where
  "dispatcher_target dispatcher = with_extension ''resync'' dispatcher"

definition ensure_dispatcher :: "'x env \<Rightarrow> path \<Rightarrow> string \<Rightarrow> string \<Rightarrow> string \<Rightarrow> string \<Rightarrow> path \<Rightarrow>
    (('x, 'z) world_scheme, string, path) prog" where
  "ensure_dispatcher E state_root kind identity description arguments executable =
     (let directory = path_join state_root ''hook-dispatchers'';
          dispatcher = dispatcher_path E state_root kind identity;
          script = dispatcher_script description arguments;
          target = dispatcher_target dispatcher;
          temporary = with_extension (''resync.tmp.'' @ show_digits (process_id E)) target in
     andThen (io (create_dir_all E directory)) (\<lambda>_.
     andThen (io (set_permissions E directory directory_mode)) (\<lambda>_.
     andThen (attempt (read_file E dispatcher)) (\<lambda>present.
     andThen (onlyIf (present \<noteq> Inr script) (io (write_file E dispatcher script 438))) (\<lambda>_.
     andThen (io (set_permissions E dispatcher directory_mode)) (\<lambda>_.
     andThen (remove_if_present E temporary) (\<lambda>_.
     andThen (io (make_symlink E executable temporary)) (\<lambda>_.
     andThen (io (rename_file E temporary target)) (\<lambda>_.
     ret dispatcher)))))))))"

definition ensure_project_dispatcher :: "'x env \<Rightarrow> path \<Rightarrow> string \<Rightarrow> path \<Rightarrow> (('x, 'z) world_scheme, string, path) prog" where
  "ensure_project_dispatcher E state_root project_id executable =
     ensure_dispatcher E state_root ''codex'' project_id ''RepoSync Codex hook dispatcher v1''
       (''codex-hook '' @ shell_quote project_id) executable"

definition ensure_workspace_dispatcher :: "'x env \<Rightarrow> path \<Rightarrow> path \<Rightarrow> path \<Rightarrow> (('x, 'z) world_scheme, string, path) prog" where
  "ensure_workspace_dispatcher E state_root manifest_path executable =
     ensure_dispatcher E state_root ''codex-workspace'' manifest_path
       ''RepoSync Codex workspace hook dispatcher v1''
       (''codex-workspace-hook '' @ shell_quote manifest_path) executable"

subsection \<open>Recognising RepoSync's commands\<close>

definition unquoted :: "string \<Rightarrow> string" where
  "unquoted value = trim_matches [quote, double_quote] (trim value)"

definition is_dispatcher_command :: "string \<Rightarrow> string \<Rightarrow> bool" where
  "is_dispatcher_command command kind = (let p = unquoted command in
     case file_name p of
       None \<Rightarrow> False
     | Some name \<Rightarrow> starts_with name kind
         \<and> Option.bind (path_parent p) file_name = Some ''hook-dispatchers'')"

definition invokes_resync_subcommand :: "string \<Rightarrow> string \<Rightarrow> bool" where
  "invokes_resync_subcommand command sub = (case split_whitespace command of
       executable # word # _ \<Rightarrow> file_name (unquoted executable) = Some ''resync'' \<and> word = sub
     | _ \<Rightarrow> False)"

definition is_reposync_project_command :: "string \<Rightarrow> bool" where
  "is_reposync_project_command command \<longleftrightarrow>
     (is_dispatcher_command command ''codex-'' \<and> \<not> is_dispatcher_command command ''codex-workspace-'')
     \<or> invokes_resync_subcommand command ''codex-hook''"

definition is_reposync_workspace_command :: "string \<Rightarrow> bool" where
  "is_reposync_workspace_command command \<longleftrightarrow>
     is_dispatcher_command command ''codex-workspace-''
     \<or> invokes_resync_subcommand command ''codex-workspace-hook''"

end
