(* ===== verification/Named_Lease.thy ===== *)
theory Named_Lease
  imports Provider Identity Hook_Dispatcher
begin

section \<open>Named leases\<close>

text \<open>
  \<open>src/src/named_lease.rs\<close>: leases on named resources that the provider grants. A receipt is
  written before the request that needs it, so an answer that is lost can be asked for again
  with the same request identity; it is removed when the provider has answered definitely.
  Errors are the \<open>failure\<close> of \<open>Provider\<close>; times are nanoseconds.
\<close>

subsection \<open>Records\<close>

record named_lease_project =
  np_provider_origin :: string
  np_project_id :: string
  np_token :: string
  np_endpoint :: string
  np_policy :: named_lease_policy

datatype receipt_state = ReceiptPending | ReceiptActive

record pending_mutation =
  pm_operation :: string
  pm_request_id :: string
  pm_ttl_seconds :: "nat option"

record receipt =
  rc_version :: nat
  rc_state :: receipt_state
  rc_provider_origin :: string
  rc_project_id :: string
  rc_request_id :: string
  rc_resource_key :: string
  rc_holder_id :: string
  rc_holder_secret :: string
  rc_requested_ttl_seconds :: nat
  rc_lease :: "named_lease option"
  rc_pending_mutation :: "pending_mutation option"
  rc_authority_recorded_at :: "int option"

subsection \<open>Validation\<close>

definition valid_segment_byte :: "char \<Rightarrow> bool" where
  "valid_segment_byte c \<longleftrightarrow> is_ascii_lowercase c \<or> is_ascii_digit c \<or> c \<in> {CHR ''.'', CHR ''_'', CHR ''-''}"

definition valid_resource_segment :: "string \<Rightarrow> bool" where
  "valid_resource_segment v \<longleftrightarrow> v \<noteq> [] \<and> length v \<le> 63 \<and> v \<noteq> ''.'' \<and> v \<noteq> ''..''
     \<and> (is_ascii_lowercase (hd v) \<or> is_ascii_digit (hd v)) \<and> (\<forall>c\<in>set v. valid_segment_byte c)"

definition validate_resource_key :: "string \<Rightarrow> (string, unit) result" where
  "validate_resource_key v =
     (if v = [] \<or> length v > 255 \<or> starts_with v [slash] \<or> ends_with v [slash]
         \<or> \<not> (\<forall>seg\<in>set (split_at_char slash v). valid_resource_segment seg)
      then Inl ''invalid named-lease resource key'' else Inr ())"

definition validate_resource_prefix :: "string \<Rightarrow> (string, unit) result" where
  "validate_resource_prefix v = (case strip_suffix [slash] v of
       None \<Rightarrow> Inl ''named-lease prefix must end at a slash boundary''
     | Some key \<Rightarrow> if length v > 255 then Inl ''named-lease prefix is too long''
         else validate_resource_key key)"

definition validate_holder_id :: "string \<Rightarrow> (string, unit) result" where
  "validate_holder_id v =
     (if v = [] \<or> length v > 255 \<or> (\<exists>g\<in>set (utf8_chars v). is_control (code_point g) \<or> ws_char g)
      then Inl ''invalid named-lease holder ID'' else Inr ())"

definition validate_identifier :: "string \<Rightarrow> string \<Rightarrow> string \<Rightarrow> (string, unit) result" where
  "validate_identifier v field start =
     (if \<not> starts_with v start \<or> length v > 100 \<or> \<not> (\<forall>c\<in>set v. is_ascii_alphanumeric c \<or> c = CHR ''_'')
      then Inl (''invalid named-lease '' @ field @ '' ID'') else Inr ())"

definition validate_ttl :: "named_lease_policy \<Rightarrow> nat \<Rightarrow> (string, unit) result" where
  "validate_ttl policy ttl =
     (if ttl < np_min_ttl_seconds policy \<or> ttl > np_max_ttl_seconds policy
      then Inl (''named-lease TTL must be '' @ show_digits (np_min_ttl_seconds policy) @ ''-''
        @ show_digits (np_max_ttl_seconds policy) @ '' seconds'')
      else Inr ())"

subsection \<open>Files of the receipts\<close>

fun be_bytes :: "nat \<Rightarrow> nat \<Rightarrow> string" where
  "be_bytes 0 n = []"
| "be_bytes (Suc k) n = be_bytes k (n div 256) @ [char_of (n mod 256)]"

text \<open>What is fed to SHA-256: each field after its length in eight bytes.\<close>

definition framed :: "string list \<Rightarrow> string" where
  "framed parts = concat (map (\<lambda>f. be_bytes 8 (length f) @ f) parts)"

definition receipt_hash :: "'x env \<Rightarrow> string list \<Rightarrow> string" where
  "receipt_hash E parts = hex_text (sha256 E (framed parts))"

definition receipt_project_directory :: "'x env \<Rightarrow> named_lease_project \<Rightarrow> path" where
  "receipt_project_directory E project =
     path_join (path_join (sp_named_lease_receipts (state_paths_of E))
       (receipt_hash E [np_provider_origin project])) (np_project_id project)"

definition pending_receipt_path :: "'x env \<Rightarrow> path \<Rightarrow> receipt \<Rightarrow> path" where
  "pending_receipt_path E directory r = path_join directory
     (''pending-'' @ receipt_hash E [rc_project_id r, rc_resource_key r, rc_holder_id r] @ ''.json'')"

definition active_receipt_path :: "'x env \<Rightarrow> path \<Rightarrow> string \<Rightarrow> string \<Rightarrow> path" where
  "active_receipt_path E directory lease_id holder_id =
     path_join directory (lease_id @ ''-'' @ receipt_hash E [holder_id] @ ''.json'')"

definition is_pending_name :: "path \<Rightarrow> bool" where
  "is_pending_name p = (case file_name p of None \<Rightarrow> False
     | Some n \<Rightarrow> starts_with n ''pending-'' \<and> ends_with n ''.json'')"

definition matches_acquisition :: "string \<Rightarrow> string \<Rightarrow> string \<Rightarrow> string option \<Rightarrow> receipt \<Rightarrow> bool" where
  "matches_acquisition provider_origin project_id resource_key holder_id r \<longleftrightarrow>
     rc_state r = ReceiptPending \<and> rc_provider_origin r = provider_origin
     \<and> rc_project_id r = project_id \<and> rc_resource_key r = resource_key
     \<and> (case holder_id of None \<Rightarrow> True | Some h \<Rightarrow> rc_holder_id r = h)"

definition collect_pending :: "'x env \<Rightarrow> receipt codec \<Rightarrow> string \<Rightarrow> string \<Rightarrow> string \<Rightarrow> string option \<Rightarrow>
    (path \<times> receipt) list \<Rightarrow> path \<Rightarrow> (('x, 'z) world_scheme, string, (path \<times> receipt) list) prog" where
  "collect_pending E C provider_origin project_id resource_key holder_id found path =
     (if \<not> is_pending_name path then ret found
      else
      andThen (io (read_file E path)) (\<lambda>contents.
      andThen (lift (ok_or ''invalid named-lease receipt'' (dec C contents))) (\<lambda>r.
      ret (if matches_acquisition provider_origin project_id resource_key holder_id r
        then found @ [(path, r)] else found))))"

definition find_pending_receipt :: "'x env \<Rightarrow> receipt codec \<Rightarrow> path \<Rightarrow> string \<Rightarrow> string \<Rightarrow> string \<Rightarrow>
    string option \<Rightarrow> (('x, 'z) world_scheme, string, (path \<times> receipt) option) prog" where
  "find_pending_receipt E C directory provider_origin project_id resource_key holder_id =
     andThen (attempt (read_dir E directory)) (\<lambda>entries. case entries of
       Inl NotFound \<Rightarrow> ret None
     | Inl e \<Rightarrow> bail (io_message e)
     | Inr paths \<Rightarrow>
         andThen (foldEach (collect_pending E C provider_origin project_id resource_key holder_id) [] paths) (\<lambda>found.
         if length found > 1 then bail ''multiple pending named-lease receipts match this acquisition''
         else ret (case found of [] \<Rightarrow> None | _ \<Rightarrow> Some (last found))))"

definition validate_receipt_binding :: "receipt \<Rightarrow> named_lease_project \<Rightarrow> string \<Rightarrow> string \<Rightarrow> (string, unit) result" where
  "validate_receipt_binding r project lease_id holder_id =
     bindR (ok_or ''active receipt has no lease'' (rc_lease r)) (\<lambda>lease.
     if rc_version r \<noteq> 1 \<or> rc_state r \<noteq> ReceiptActive
        \<or> rc_provider_origin r \<noteq> np_provider_origin project \<or> rc_project_id r \<noteq> np_project_id project
        \<or> rc_holder_id r \<noteq> holder_id \<or> nl_lease_id lease \<noteq> lease_id
     then Inl ''named-lease receipt does not match the requested authority''
     else validate_lease_for_lease (np_project_id project) lease_id lease)"

definition active_receipt :: "'x env \<Rightarrow> receipt option codec \<Rightarrow> named_lease_project \<Rightarrow> string \<Rightarrow> string \<Rightarrow>
    (('x, 'z) world_scheme, string, receipt option) prog" where
  "active_receipt E C project lease_id holder_id =
     andThen (lift (validate_identifier lease_id ''lease'' ''nls_'')) (\<lambda>_.
     andThen (lift (validate_holder_id holder_id)) (\<lambda>_.
     andThen (read_json E C (active_receipt_path E (receipt_project_directory E project) lease_id holder_id) None) (\<lambda>found.
     case found of
       None \<Rightarrow> ret None
     | Some r \<Rightarrow> andThen (lift (validate_receipt_binding r project lease_id holder_id)) (\<lambda>_. ret (Some r)))))"

subsection \<open>Resolving the project\<close>

definition encoded_project_template :: "string \<Rightarrow> bool" where
  "encoded_project_template template \<longleftrightarrow>
     contains template ''{project_id}'' \<or> contains template ''%7Bproject_id%7D''"

definition resolve_discovered_project :: "'x env \<Rightarrow> credential_file codec \<Rightarrow> local_project \<Rightarrow> string \<Rightarrow>
    discovery \<Rightarrow> (('x, 'z) world_scheme, string, named_lease_project) prog" where
  "resolve_discovered_project E CC project origin d =
     andThen (lift (validate_identifier (lp_project_id project) ''project'' ''prj_'')) (\<lambda>_.
     if ''project-named-leases-v1'' \<notin> set (ds_capabilities d)
     then bail ''provider does not support project-named-leases-v1''
     else
     andThen (lift (ok_or ''provider omitted named_lease_policy'' (ds_named_lease_policy d))) (\<lambda>policy.
     andThen (lift (validate_policy policy)) (\<lambda>_.
     andThen (lift (ok_or ''provider omitted the named_leases endpoint'' (map_of (ds_endpoints d) ''named_leases''))) (\<lambda>template.
     if \<not> encoded_project_template template
     then bail ''provider named_leases endpoint omits the project_id template''
     else
     let encoded = form_encode E (lp_project_id project) in
     andThen (load_credential E CC origin) (\<lambda>token.
     andThen (lift (ok_or (''not logged in to '' @ origin) token)) (\<lambda>token.
     ret \<lparr>np_provider_origin = origin, np_project_id = lp_project_id project, np_token = token,
        np_endpoint = str_replace ''%7Bproject_id%7D'' encoded (str_replace ''{project_id}'' encoded template),
        np_policy = policy\<rparr>))))))"

definition select_project :: "'x env \<Rightarrow> config codec \<Rightarrow> local_catalog \<Rightarrow> string option \<Rightarrow> path \<Rightarrow>
    (('x, 'z) world_scheme, string, local_project \<times> string) prog" where
  "select_project E CF catalog project_id dir = (case project_id of
       Some pid \<Rightarrow>
         andThen (lift (ok_or (''project '' @ pid @ '' is not in the local catalog'')
           (find (\<lambda>p. lp_project_id p = pid) (lc_projects catalog)))) (\<lambda>project.
         andThen (load_config_raw E CF) (\<lambda>config.
         andThen (lift (ok_or ''project has no provider and no active provider is configured''
           (case lp_service project of Some v \<Rightarrow> Some v | None \<Rightarrow> cfg_active_provider config))) (\<lambda>origin.
         andThen (lift (canonical_origin E origin)) (\<lambda>canonical. ret (project, canonical)))))
     | None \<Rightarrow>
         andThen (read_identity E dir) (\<lambda>identity.
         andThen (lift (ok_or ''current checkout is not enrolled with RepoSync'' (id_project_id identity))) (\<lambda>pid.
         andThen (lift (ok_or ''current checkout has no RepoSync service'' (id_service identity))) (\<lambda>origin.
         andThen (lift (ok_or ''current project is no longer in the local catalog''
           (find (\<lambda>p. lp_project_id p = pid) (lc_projects catalog)))) (\<lambda>project.
         andThen (lift (canonical_origin E origin)) (\<lambda>canonical. ret (project, canonical)))))))"

definition resolve_project :: "'x env \<Rightarrow> local_catalog codec \<Rightarrow> config codec \<Rightarrow> credential_file codec \<Rightarrow>
    string option \<Rightarrow> path \<Rightarrow> (('x, 'z) world_scheme, string, named_lease_project) prog" where
  "resolve_project E CL CF CC project_id dir =
     andThen (load_catalog E CL) (\<lambda>catalog.
     andThen (select_project E CF catalog project_id dir) (\<lambda>(project, origin).
     andThen (discover E (Some origin)) (\<lambda>d.
     resolve_discovered_project E CC project origin d)))"

subsection \<open>Requests\<close>

definition mutation_status :: "named_lease_outcome \<Rightarrow> nat" where
  "mutation_status out = (case out of
       Acquired \<Rightarrow> 201 | Renewed \<Rightarrow> 200 | Released \<Rightarrow> 200
     | Held \<Rightarrow> 409 | LeaseExpired \<Rightarrow> 409 | RequestIdReused \<Rightarrow> 409
     | NotHolder \<Rightarrow> 403 | NotFoundOutcome \<Rightarrow> 404 | InvalidResourceKey \<Rightarrow> 400 | InvalidTtl \<Rightarrow> 400)"

definition mutation_request :: "'x env \<Rightarrow> named_lease_project \<Rightarrow> string \<Rightarrow> json \<Rightarrow>
    (('x, 'z) world_scheme, failure, mutation_response) prog" where
  "mutation_request E project url body =
     andThen (attempt (provider_request E url (Some (np_token project)) ''POST'' (Some body))) (\<lambda>reply. case reply of
       Inr (status, v) \<Rightarrow> lift (ok_or (Msg ''invalid named-lease response'') (decode_response (parse_rfc3339 E) v))
     | Inl (HttpFailure status v) \<Rightarrow>
         andThen (lift (ok_or (Msg ''invalid named-lease response'') (decode_response (parse_rfc3339 E) v))) (\<lambda>r.
         andThen (mapErr Msg (lift (validate_response r))) (\<lambda>_.
         bail (OutcomeFailure status r)))
     | Inl e \<Rightarrow> bail e)"

definition remove_receipt :: "'x env \<Rightarrow> path \<Rightarrow> (('x, 'z) world_scheme, string, unit) prog" where
  "remove_receipt E p = remove_if_present E p"

definition random_secret :: "'x env \<Rightarrow> (('x, 'z) world_scheme, 'e, string) prog" where
  "random_secret E = ext_call (\<lambda>x. case random_bytes E 32 x of (b, x') \<Rightarrow> (Inr (base64_url E b), x'))"

definition simple_id :: "string \<Rightarrow> string" where
  "simple_id u = filter (\<lambda>c. c \<noteq> CHR ''-'') u"

subsection \<open>Acquiring\<close>

definition new_receipt :: "'x env \<Rightarrow> named_lease_project \<Rightarrow> string \<Rightarrow> string option \<Rightarrow> nat \<Rightarrow>
    (('x, 'z) world_scheme, string, receipt) prog" where
  "new_receipt E project resource_key holder_id ttl =
     andThen (case holder_id of Some h \<Rightarrow> ret h
       | None \<Rightarrow> andThen (new_uuid E) (\<lambda>u. ret (''holder_'' @ simple_id u))) (\<lambda>holder.
     andThen (lift (validate_holder_id holder)) (\<lambda>_.
     andThen (new_uuid E) (\<lambda>u.
     andThen (random_secret E) (\<lambda>secret.
     ret \<lparr>rc_version = 1, rc_state = ReceiptPending, rc_provider_origin = np_provider_origin project,
        rc_project_id = np_project_id project, rc_request_id = ''req_'' @ simple_id u,
        rc_resource_key = resource_key, rc_holder_id = holder, rc_holder_secret = secret,
        rc_requested_ttl_seconds = ttl, rc_lease = None, rc_pending_mutation = None,
        rc_authority_recorded_at = None\<rparr>))))"

text \<open>The receipt of the acquisition: the one an unanswered request left behind, or a new one that
  is on disk before it is used.\<close>

definition pending_receipt :: "'x env \<Rightarrow> receipt codec \<Rightarrow> named_lease_project \<Rightarrow> string \<Rightarrow> string option \<Rightarrow> nat \<Rightarrow>
    (('x, 'z) world_scheme, string, path \<times> receipt) prog" where
  "pending_receipt E C project resource_key holder_id ttl =
     (let directory = receipt_project_directory E project in
     andThen (find_pending_receipt E C directory (np_provider_origin project) (np_project_id project)
       resource_key holder_id) (\<lambda>existing. case existing of
       Some (p, r) \<Rightarrow> if rc_requested_ttl_seconds r \<noteq> ttl
         then bail ''pending named-lease acquisition uses a different TTL'' else ret (p, r)
     | None \<Rightarrow>
         andThen (new_receipt E project resource_key holder_id ttl) (\<lambda>r.
         let p = pending_receipt_path E directory r in
         andThen (write_json E C p r private_mode) (\<lambda>_. ret (p, r)))))"

definition acquire_body :: "receipt \<Rightarrow> json" where
  "acquire_body r = jobj [(''request_id'', JStr (rc_request_id r)), (''resource_key'', JStr (rc_resource_key r)),
     (''holder_id'', JStr (rc_holder_id r)), (''holder_secret'', JStr (rc_holder_secret r)),
     (''ttl_seconds'', JInt (int (rc_requested_ttl_seconds r)))]"

text \<open>What is done with the reply: a definite refusal removes the pending receipt, a lease makes it
  active, anything else leaves it for the next attempt.\<close>

definition settle_acquisition :: "'x env \<Rightarrow> receipt codec \<Rightarrow> named_lease_project \<Rightarrow> string \<Rightarrow> path \<Rightarrow> receipt \<Rightarrow>
    (failure, mutation_response) result \<Rightarrow> (('x, 'z) world_scheme, failure, mutation_response) prog" where
  "settle_acquisition E C project resource_key pending_path r reply = (case reply of
       Inl (OutcomeFailure status refusal) \<Rightarrow>
         andThen (mapErr Msg (remove_receipt E pending_path)) (\<lambda>_. bail (OutcomeFailure status refusal))
     | Inl e \<Rightarrow> bail e
     | Inr response \<Rightarrow>
         andThen (mapErr Msg (lift (validate_response_for_resource (np_project_id project) resource_key response))) (\<lambda>_.
         if mr_outcome response \<noteq> Acquired
         then andThen (mapErr Msg (remove_receipt E pending_path)) (\<lambda>_.
           bail (OutcomeFailure (mutation_status (mr_outcome response)) response))
         else
         andThen (lift (ok_or (Msg ''ACQUIRED response omitted its lease'') (mr_lease response))) (\<lambda>lease.
         andThen (mapErr Msg (lift (validate_identifier (nl_lease_id lease) ''lease'' ''nls_''))) (\<lambda>_.
         andThen (now E) (\<lambda>t.
         let active = r\<lparr>rc_state := ReceiptActive, rc_lease := Some lease, rc_authority_recorded_at := Some t\<rparr> in
         andThen (mapErr Msg (write_json E C (active_receipt_path E (receipt_project_directory E project)
           (nl_lease_id lease) (rc_holder_id active)) active private_mode)) (\<lambda>_.
         andThen (mapErr Msg (remove_receipt E pending_path)) (\<lambda>_.
         ret response)))))))"

definition acquire_lease :: "'x env \<Rightarrow> receipt codec \<Rightarrow> named_lease_project \<Rightarrow> string \<Rightarrow> string option \<Rightarrow>
    nat option \<Rightarrow> (('x, 'z) world_scheme, failure, mutation_response) prog" where
  "acquire_lease E C project resource_key holder_id ttl_seconds =
     andThen (mapErr Msg (lift (validate_resource_key resource_key))) (\<lambda>_.
     let ttl = (case ttl_seconds of Some t \<Rightarrow> t | None \<Rightarrow> np_default_ttl_seconds (np_policy project)) in
     andThen (mapErr Msg (lift (validate_ttl (np_policy project) ttl))) (\<lambda>_.
     andThen (mapErr Msg (pending_receipt E C project resource_key holder_id ttl)) (\<lambda>(pending_path, r).
     andThen (attempt (mutation_request E project (np_endpoint project) (acquire_body r))) (\<lambda>reply.
     settle_acquisition E C project resource_key pending_path r reply))))"

subsection \<open>Renewing and releasing\<close>

definition pending_request :: "'x env \<Rightarrow> receipt \<Rightarrow> string \<Rightarrow> nat option \<Rightarrow>
    (('x, 'z) world_scheme, string, pending_mutation) prog" where
  "pending_request E r operation ttl_seconds = (case rc_pending_mutation r of
       Some p \<Rightarrow> if pm_operation p = operation \<and> pm_ttl_seconds p = ttl_seconds then ret p
         else bail ''a different named-lease mutation is awaiting an unambiguous response''
     | None \<Rightarrow> andThen (new_uuid E) (\<lambda>u.
         ret \<lparr>pm_operation = operation, pm_request_id = ''req_'' @ simple_id u, pm_ttl_seconds = ttl_seconds\<rparr>))"

definition mutation_body :: "named_lease_project \<Rightarrow> receipt \<Rightarrow> pending_mutation \<Rightarrow> string \<Rightarrow> nat option \<Rightarrow> json" where
  "mutation_body project r request operation ttl_seconds =
     (let body = jobj [(''request_id'', JStr (pm_request_id request)),
        (''holder_secret'', JStr (rc_holder_secret r))] in
      if operation = ''renew''
      then jset ''ttl_seconds'' (JInt (int (case ttl_seconds of Some t \<Rightarrow> t
        | None \<Rightarrow> np_default_ttl_seconds (np_policy project)))) body
      else body)"

definition settle_mutation :: "'x env \<Rightarrow> receipt option codec \<Rightarrow> named_lease_project \<Rightarrow> string \<Rightarrow> path \<Rightarrow> receipt \<Rightarrow>
    (failure, mutation_response) result \<Rightarrow> (('x, 'z) world_scheme, failure, mutation_response) prog" where
  "settle_mutation E C project lease_id path r reply = (case reply of
       Inl (OutcomeFailure status refusal) \<Rightarrow>
         andThen (onlyIf (mr_outcome refusal \<in> {LeaseExpired, NotHolder})
           (mapErr Msg (remove_receipt E path))) (\<lambda>_. bail (OutcomeFailure status refusal))
     | Inl e \<Rightarrow> bail e
     | Inr response \<Rightarrow>
         andThen (mapErr Msg (lift (validate_response_for_lease (np_project_id project) lease_id response))) (\<lambda>_.
         if mr_outcome response = Renewed
         then andThen (now E) (\<lambda>t.
           andThen (mapErr Msg (write_json E C path (Some (r\<lparr>rc_lease := mr_lease response,
             rc_pending_mutation := None, rc_authority_recorded_at := Some t\<rparr>)) private_mode)) (\<lambda>_.
           ret response))
         else if mr_outcome response = Released
         then andThen (mapErr Msg (remove_receipt E path)) (\<lambda>_. ret response)
         else andThen (mapErr Msg (remove_receipt E path)) (\<lambda>_.
           bail (OutcomeFailure (mutation_status (mr_outcome response)) response))))"

text \<open>The receipt of the lease with the mutation recorded, on disk before the request.\<close>

definition record_mutation :: "'x env \<Rightarrow> receipt option codec \<Rightarrow> named_lease_project \<Rightarrow> string \<Rightarrow> string \<Rightarrow>
    string \<Rightarrow> nat option \<Rightarrow> (('x, 'z) world_scheme, string, path \<times> receipt \<times> pending_mutation) prog" where
  "record_mutation E C project lease_id holder_id operation ttl_seconds =
     (let path = active_receipt_path E (receipt_project_directory E project) lease_id holder_id in
     andThen (read_json E C path None) (\<lambda>found.
     andThen (lift (ok_or ''no active named-lease receipt matches that lease and holder'' found)) (\<lambda>r.
     andThen (lift (validate_receipt_binding r project lease_id holder_id)) (\<lambda>_.
     andThen (pending_request E r operation ttl_seconds) (\<lambda>request.
     let recorded = r\<lparr>rc_pending_mutation := Some request\<rparr> in
     andThen (write_json E C path (Some recorded) private_mode) (\<lambda>_.
     ret (path, recorded, request)))))))"

definition mutate_active_receipt :: "'x env \<Rightarrow> receipt option codec \<Rightarrow> named_lease_project \<Rightarrow> string \<Rightarrow> string \<Rightarrow>
    string \<Rightarrow> nat option \<Rightarrow> (('x, 'z) world_scheme, failure, mutation_response) prog" where
  "mutate_active_receipt E C project lease_id holder_id operation ttl_seconds =
     andThen (mapErr Msg (lift (validate_holder_id holder_id))) (\<lambda>_.
     andThen (mapErr Msg (lift (validate_identifier lease_id ''lease'' ''nls_''))) (\<lambda>_.
     andThen (if operation = ''renew''
       then mapErr Msg (lift (validate_ttl (np_policy project) (case ttl_seconds of Some t \<Rightarrow> t
         | None \<Rightarrow> np_default_ttl_seconds (np_policy project)))) else ret ()) (\<lambda>_.
     andThen (mapErr Msg (record_mutation E C project lease_id holder_id operation ttl_seconds)) (\<lambda>(path, r, request).
     andThen (attempt (mutation_request E project
       (np_endpoint project @ ''/'' @ form_encode E lease_id @ ''/'' @ operation)
       (mutation_body project r request operation ttl_seconds))) (\<lambda>reply.
     settle_mutation E C project lease_id path r reply)))))"

definition renew_lease :: "'x env \<Rightarrow> receipt option codec \<Rightarrow> named_lease_project \<Rightarrow> string \<Rightarrow> string \<Rightarrow> nat option \<Rightarrow>
    (('x, 'z) world_scheme, failure, mutation_response) prog" where
  "renew_lease E C project lease_id holder_id ttl_seconds =
     mutate_active_receipt E C project lease_id holder_id ''renew'' ttl_seconds"

definition release_lease :: "'x env \<Rightarrow> receipt option codec \<Rightarrow> named_lease_project \<Rightarrow> string \<Rightarrow> string \<Rightarrow>
    (('x, 'z) world_scheme, failure, mutation_response) prog" where
  "release_lease E C project lease_id holder_id =
     mutate_active_receipt E C project lease_id holder_id ''release'' None"

subsection \<open>Observing\<close>

definition get_lease :: "'x env \<Rightarrow> named_lease_project \<Rightarrow> string \<Rightarrow>
    (('x, 'z) world_scheme, failure, named_lease option) prog" where
  "get_lease E project resource_key =
     andThen (mapErr Msg (lift (validate_resource_key resource_key))) (\<lambda>_.
     andThen (attempt (provider_request E (np_endpoint project @ ''?resource_key='' @ form_encode E resource_key)
       (Some (np_token project)) ''GET'' None)) (\<lambda>reply. case reply of
       Inr (status, v) \<Rightarrow>
         andThen (lift (ok_or (Msg ''provider response omitted lease'') (jget ''lease'' v))) (\<lambda>j.
         andThen (lift (ok_or (Msg ''invalid lease'') (decode_lease (parse_rfc3339 E) j))) (\<lambda>lease.
         andThen (mapErr Msg (lift (validate_lease_for_resource (np_project_id project) resource_key lease))) (\<lambda>_.
         ret (Some lease))))
     | Inl (HttpFailure status v) \<Rightarrow>
         if status = 404 \<and> jget ''outcome'' v = Some (JStr ''NOT_FOUND'') then ret None
         else bail (HttpFailure status v)
     | Inl e \<Rightarrow> bail e))"

definition list_leases :: "'x env \<Rightarrow> named_lease_project \<Rightarrow> string \<Rightarrow>
    (('x, 'z) world_scheme, failure, named_lease list) prog" where
  "list_leases E project start =
     andThen (mapErr Msg (lift (validate_resource_prefix start))) (\<lambda>_.
     andThen (provider_request E (np_endpoint project @ ''?prefix='' @ form_encode E start)
       (Some (np_token project)) ''GET'' None) (\<lambda>(status, v).
     andThen (lift (ok_or (Msg ''invalid named-lease listing'') (decode_listing (parse_rfc3339 E) v))) (\<lambda>leases.
     andThen (mapErr Msg (lift (validate_list_for_project (np_project_id project) leases))) (\<lambda>_.
     if \<exists>l\<in>set leases. \<not> starts_with (nl_resource_key l) start
     then bail (Msg ''provider returned a named lease outside the requested prefix'')
     else ret leases))))"

definition receipt_is_locally_expired :: "receipt \<Rightarrow> int \<Rightarrow> bool" where
  "receipt_is_locally_expired r t = (case rc_lease r of None \<Rightarrow> False | Some l \<Rightarrow> nl_expires_at l \<le> t)"

subsection \<open>The time of the next renewal\<close>

text \<open>\<open>num_milliseconds\<close> truncates towards zero.\<close>

definition num_milliseconds :: "int \<Rightarrow> int" where
  "num_milliseconds ns = (if 0 \<le> ns then ns div 1000000 else - ((- ns) div 1000000))"

definition from_be_bytes :: "string \<Rightarrow> nat" where
  "from_be_bytes bs = foldl (\<lambda>acc c. acc * 256 + byte_of c) 0 bs"

definition renewal_delay_ms :: "int \<Rightarrow> nat \<Rightarrow> int" where
  "renewal_delay_ms lifetime_ns sample =
     (let lifetime_millis = max 1 (num_milliseconds lifetime_ns);
          jitter_window = max 1 (lifetime_millis div 15);
          jitter = int sample mod jitter_window
      in lifetime_millis div 3 + jitter)"

definition next_renewal_at :: "'x env \<Rightarrow> receipt \<Rightarrow> (string, int) result" where
  "next_renewal_at E r =
     bindR (ok_or ''receipt has no lease'' (rc_lease r)) (\<lambda>lease.
     bindR (ok_or ''receipt has no authority observation time'' (rc_authority_recorded_at r)) (\<lambda>observed_at.
     Inr (observed_at + renewal_delay_ms (nl_expires_at lease - observed_at)
        (from_be_bytes (take 8 (sha256 E (nl_lease_id lease)))) * 1000000)))"

subsection \<open>Facts about names and times\<close>

lemma length_be_bytes [simp]: "length (be_bytes k n) = k"
  by (induction k arbitrary: n) auto

lemma be_bytes_inject: "m < 256 ^ k \<Longrightarrow> n < 256 ^ k \<Longrightarrow> be_bytes k m = be_bytes k n \<longleftrightarrow> m = n"
proof (induction k arbitrary: m n)
  case (Suc k)
  have "m div 256 < 256 ^ k" "n div 256 < 256 ^ k" using Suc.prems by (auto simp: less_mult_imp_div_less mult.commute)
  moreover have "char_of (m mod 256) = (char_of (n mod 256) :: char) \<longleftrightarrow> m mod 256 = n mod 256"
    by (metis char_of_mod_256 of_char_of)
  ultimately show ?case using Suc.IH by (auto) (metis div_mult_mod_eq)
qed auto

text \<open>The framing of the fields that name a receipt file is injective: different field lists
  never give the same bytes to the digest.\<close>

theorem framed_inject:
  assumes "\<forall>f\<in>set xs. length f < 2 ^ 64" and "\<forall>f\<in>set ys. length f < 2 ^ 64" and "framed xs = framed ys"
  shows "xs = ys"
  using assms
proof (induction xs arbitrary: ys)
  case Nil
  then show ?case by (cases ys) (auto simp: framed_def dest: arg_cong [of _ _ length])
next
  case (Cons x xs)
  obtain y ys' where ys: "ys = y # ys'" using Cons.prems
    by (cases ys) (auto simp: framed_def dest: arg_cong [of _ _ length])
  have eq: "be_bytes 8 (length x) @ (x @ framed xs) = be_bytes 8 (length y) @ (y @ framed ys')"
    using Cons.prems by (simp add: framed_def ys)
  then have "be_bytes 8 (length x) = be_bytes 8 (length y)" and rest: "x @ framed xs = y @ framed ys'"
    using append_eq_append_conv [of "be_bytes 8 (length x)" "be_bytes 8 (length y)"] by simp_all
  then have "length x = length y"
    using Cons.prems by (simp add: be_bytes_inject ys)
  then show ?case using rest Cons by (simp add: ys)
qed

text \<open>C19. For leases of at least three milliseconds the next renewal lies between a third of the
  lifetime (up to rounding) and two fifths of it after the observation, so always before the
  expiry.\<close>

theorem next_renewal_window:
  assumes "rc_lease r = Some lease" and "rc_authority_recorded_at r = Some observed"
    and "3 * 1000000 \<le> nl_expires_at lease - observed"
  shows "\<exists>t. next_renewal_at E r = Inr t \<and> observed + 1000000 \<le> t
    \<and> 5 * (t - observed) \<le> 2 * (nl_expires_at lease - observed)
    \<and> nl_expires_at lease - observed < 3 * (t - observed) + 3 * 1000000"
proof -
  define life where "life = nl_expires_at lease - observed"
  define ms where "ms = life div 1000000"
  define sample where "sample = from_be_bytes (take 8 (sha256 E (nl_lease_id lease)))"
  define jitter where "jitter = int sample mod max 1 (ms div 15)"
  have ms: "3 \<le> ms" "ms * 1000000 \<le> life" "life < (ms + 1) * 1000000"
    using assms(3) by (auto simp: ms_def life_def)
  have d: "renewal_delay_ms life sample = ms div 3 + jitter"
    using ms assms(3) by (simp add: renewal_delay_ms_def num_milliseconds_def jitter_def ms_def [symmetric] life_def [symmetric] max_def)
  have j: "0 \<le> jitter" "jitter < max 1 (ms div 15)" by (auto simp: jitter_def)
  have lo: "1 \<le> ms div 3 + jitter" using ms j by linarith
  have hi: "5 * (ms div 3 + jitter) \<le> 2 * ms" using ms j by (auto simp: max_def split: if_splits)
  have low: "ms < 3 * (ms div 3 + jitter) + 3"
  proof -
    have "ms = 3 * q + x \<Longrightarrow> x < 3 \<Longrightarrow> ms < 3 * (q + jitter) + 3" for q x
      using j(1) by simp
    from this [of "ms div 3" "ms mod 3"] show ?thesis by simp
  qed
  show ?thesis using assms ms lo hi low
    by (auto simp: next_renewal_at_def d life_def [symmetric] sample_def [symmetric])
qed

lemma split_at_char_snoc: "split_at_char d (a @ [d]) = split_at_char d a @ [[]]"
  by (induction a) (auto split: list.splits)

lemma valid_segment_no_slash: "valid_resource_segment seg \<Longrightarrow> slash \<notin> set seg"
  by (auto simp: valid_resource_segment_def valid_segment_byte_def slash_def ascii_class_defs byte_of_def)

text \<open>C22. The resource-key check accepts exactly the texts of at most 255 bytes that are a
  slash-separated list of one or more valid segments.\<close>

theorem resource_key_iff:
  "is_ok (validate_resource_key v) \<longleftrightarrow>
    length v \<le> 255 \<and> (\<exists>segs. segs \<noteq> [] \<and> v = join_with [slash] segs
      \<and> (\<forall>seg\<in>set segs. valid_resource_segment seg))"
proof -
  have nonempty: "\<not> valid_resource_segment []" by (simp add: valid_resource_segment_def)
  have edges: "v \<noteq> [] \<and> \<not> starts_with v [slash] \<and> \<not> ends_with v [slash]"
    if "\<forall>seg\<in>set (split_at_char slash v). valid_resource_segment seg"
    using that nonempty
    by (auto simp: starts_with_def ends_with_def prefix_def suffix_def split_at_char_snoc)
  have "is_ok (validate_resource_key v) \<longleftrightarrow>
      length v \<le> 255 \<and> (\<forall>seg\<in>set (split_at_char slash v). valid_resource_segment seg)"
    using edges by (auto simp: validate_resource_key_def)
  also have "(\<forall>seg\<in>set (split_at_char slash v). valid_resource_segment seg) \<longleftrightarrow>
      (\<exists>segs. segs \<noteq> [] \<and> v = join_with [slash] segs \<and> (\<forall>seg\<in>set segs. valid_resource_segment seg))"
    using join_split_at_char [of slash v] split_at_char_nonempty [of slash v]
      split_join [of _ slash] valid_segment_no_slash by metis
  finally show ?thesis .
qed

lemma resource_prefix_iff:
  "is_ok (validate_resource_prefix v) \<longleftrightarrow>
    (\<exists>key. v = key @ [slash] \<and> length v \<le> 255 \<and> is_ok (validate_resource_key key))"
  by (auto simp: validate_resource_prefix_def strip_suffix_Some is_ok_def split: option.splits sum.splits if_splits)
    (auto simp: strip_suffix_def suffix_def)

subsection \<open>Receipts and requests\<close>

lemma hex_text_no_slash: "slash \<notin> set (hex_text b)"
proof -
  have "byte_of (hex_digit k) = (if k < 10 then 48 + k else 87 + k)" if "k < 16" for k
    using that by (simp add: hex_digit_def byte_of_def)
  note digit = this
  have "byte_of slash = 47" by (simp add: slash_def byte_of_def)
  note slash47 = this
  have "hex_digit k \<noteq> slash" if "k < 16" for k
  proof
    assume "hex_digit k = slash"
    then have "(if k < 10 then 48 + k else 87 + k) = 47"
      using digit [OF that] slash47 by metis
    then show False by (simp split: if_splits)
  qed
  note clean = this
  have "byte_of c div 16 < 16" "byte_of c mod 16 < 16" for c
    using nat_of_char_less_256 [of c] by (simp_all add: byte_of_def div_less_iff_less_mult)
  then have "hex_digit (byte_of c div 16) \<noteq> slash" "hex_digit (byte_of c mod 16) \<noteq> slash" for c
    using clean by blast+
  then show ?thesis by (simp add: hex_text_def) metis
qed

text \<open>The temporary file beside a JSON document is another file.\<close>

lemma file_name_join_json:
  assumes "slash \<notin> set n"
  shows "file_name (path_join d (n @ ''.json'')) = Some (n @ ''.json'')"
    and "dir_part (strip_slashes (path_join d (n @ ''.json''))) @ n @ ''.json'' = path_join d (n @ ''.json'')"
proof -
  let ?m = "n @ ''.json''"
  have m: "slash \<notin> set ?m" "?m \<noteq> []" "?m \<noteq> ''..''" using assms by (auto simp: slash_def)
  define e where "e = (if d = [] \<or> last d = slash then d else d @ [slash])"
  have "hd ?m \<noteq> slash" using m by (metis hd_in_set)
  then have p: "path_join d ?m = e @ ?m" by (simp add: path_join_def is_absolute_def e_def)
  have e: "e = [] \<or> last e = slash" by (auto simp: e_def)
  have strip: "strip_slashes (e @ ?m) = e @ ?m"
    by (simp add: strip_slashes_def slash_def)
  have all: "\<forall>c\<in>set (rev ?m). c \<noteq> slash" using m by auto
  have tw: "takeWhile (\<lambda>c. c \<noteq> slash) (rev ?m @ rev e) = rev ?m"
    and dw: "dropWhile (\<lambda>c. c \<noteq> slash) (rev ?m @ rev e) = rev e"
    using all e by (cases e rule: rev_cases; auto simp: takeWhile_append dropWhile_append)+
  have name: "name_part (e @ ?m) = ?m" and dir: "dir_part (e @ ?m) = e"
    unfolding name_part_def dir_part_def rev_append [of e] tw dw by simp_all
  show "file_name (path_join d ?m) = Some ?m"
    unfolding file_name_def p strip name using m by (simp add: Let_def)
  show "dir_part (strip_slashes (path_join d ?m)) @ n @ ''.json'' = path_join d ?m"
    unfolding p strip dir by simp
qed

lemma stem_of_json: "n \<noteq> [] \<Longrightarrow> stem_of (n @ ''.json'') = n"
  by (simp add: stem_of_def dot_def)

lemma temporary_path_json:
  assumes "slash \<notin> set n" and "n \<noteq> []"
  shows "temporary_path E (path_join d (n @ ''.json'')) \<noteq> path_join d (n @ ''.json'')"
proof
  let ?p = "path_join d (n @ ''.json'')"
  assume "temporary_path E ?p = ?p"
  then have "dir_part (strip_slashes ?p) @ n @ dot # (show_digits (process_id E) @ ''.tmp'')
      = dir_part (strip_slashes ?p) @ n @ ''.json''"
    using file_name_join_json [OF assms(1), of d] stem_of_json [OF assms(2)]
    by (simp add: temporary_path_def with_extension_def)
  then have "show_digits (process_id E) @ ''.tmp'' = ''json''" by (simp add: dot_def)
  then have "length (show_digits (process_id E)) = 0" by (metis add_right_cancel length_append length_Cons list.size(3) add_0)
  then show False by simp
qed


text \<open>\<open>receipt_on_disk C fs p r\<close>: the file \<open>p\<close> holds the receipt \<open>r\<close>.\<close>

definition receipt_on_disk :: "receipt codec \<Rightarrow> fs \<Rightarrow> path \<Rightarrow> receipt \<Rightarrow> bool" where
  "receipt_on_disk C fs p r \<longleftrightarrow> (\<exists>text. fs_get fs p = Some (File text) \<and> (dec C text = Some r \<or> text = json_text C r))"

lemma wp_collect_pending:
  assumes "files s = fs \<and> (\<forall>(p, r)\<in>set found. receipt_on_disk C fs p r \<and> matches_acquisition origin pid key holder r)"
  shows "wp (collect_pending E C origin pid key holder found path)
    (\<lambda>found s. files s = fs \<and> (\<forall>(p, r)\<in>set found. receipt_on_disk C fs p r \<and> matches_acquisition origin pid key holder r))
    (\<lambda>_ _. True) s"
  using assms
  by (auto simp: collect_pending_def wp_def run read_file_def file_op_def ok_or_def receipt_on_disk_def
      split: option.splits prod.splits sum.splits node.splits if_splits)

lemma find_pending_on_disk:
  assumes "find_pending_receipt E C dir origin pid key holder s = (Inr (Some (p, r)), s1)"
  shows "files s1 = files s \<and> receipt_on_disk C (files s) p r \<and> matches_acquisition origin pid key holder r"
proof -
  have fold: "wp (foldEach (collect_pending E C origin pid key holder) [] paths)
      (\<lambda>found t. files t = files s \<and> (\<forall>(p, r)\<in>set found. receipt_on_disk C (files s) p r \<and> matches_acquisition origin pid key holder r))
      (\<lambda>_ _. True) t" if "files t = files s" for paths t
    by (rule wp_foldEach, rule wp_collect_pending) (use that in auto)
  obtain paths t where "read_dir E dir s = (Inr paths, t)" and t: "files t = files s"
    and rest: "andThen (foldEach (collect_pending E C origin pid key holder) [] paths) (\<lambda>found.
         if length found > 1 then bail ''multiple pending named-lease receipts match this acquisition''
         else ret (case found of [] \<Rightarrow> None | _ \<Rightarrow> Some (last found))) t = (Inr (Some (p, r)), s1)"
    using assms
    by (auto simp: find_pending_receipt_def run read_dir_def file_op_def
        split: option.splits prod.splits sum.splits node.splits if_splits io_error.splits)
  obtain found u where found: "foldEach (collect_pending E C origin pid key holder) [] paths t = (Inr found, u)"
    and last: "found \<noteq> []" "last found = (p, r)" "s1 = u"
    using andThen_okE [OF rest] by (fastforce simp: run_simps split: if_splits list.splits)
  show ?thesis
    using wp_ok [OF found fold [OF t]] last last_in_set [of found] by auto
qed

lemma pending_receipt_on_disk:
  assumes "pending_receipt E C project key holder ttl s = (Inr (p, r), s1)"
  shows "receipt_on_disk C (files s1) p r \<and> rc_requested_ttl_seconds r = ttl \<and> rc_resource_key r = key
    \<and> rc_provider_origin r = np_provider_origin project \<and> rc_project_id r = np_project_id project"
proof -
  obtain existing t where ex: "find_pending_receipt E C (receipt_project_directory E project)
      (np_provider_origin project) (np_project_id project) key holder s = (Inr existing, t)"
    and rest: "(case existing of
       Some (p, r) \<Rightarrow> if rc_requested_ttl_seconds r \<noteq> ttl
         then bail ''pending named-lease acquisition uses a different TTL'' else ret (p, r)
     | None \<Rightarrow>
         andThen (new_receipt E project key holder ttl) (\<lambda>r.
         andThen (write_json E C (pending_receipt_path E (receipt_project_directory E project) r) r private_mode)
           (\<lambda>_. ret (pending_receipt_path E (receipt_project_directory E project) r, r)))) t = (Inr (p, r), s1)"
    using assms unfolding pending_receipt_def Let_def by (rule andThen_okE)
  show ?thesis
  proof (cases existing)
    case (Some pr)
    then show ?thesis using rest ex find_pending_on_disk [of E C _ _ _ key holder s p r t]
      by (auto simp: run_simps matches_acquisition_def split: if_splits prod.splits)
  next
    case None
    obtain t2 where new: "new_receipt E project key holder ttl t = (Inr r, t2)"
      and w: "write_json E C p r private_mode t2 = (Inr (), s1)"
      and p: "p = pending_receipt_path E (receipt_project_directory E project) r"
      using rest unfolding None by (auto simp: run_simps elim!: andThen_okE)
    have "slash \<notin> set (''pending-'' @ receipt_hash E xs)" for xs
      by (auto simp: receipt_hash_def hex_text_no_slash) (simp_all add: slash_def)
    then have "temporary_path E p \<noteq> p"
      unfolding p pending_receipt_path_def
      using temporary_path_json [of "''pending-'' @ receipt_hash E [rc_project_id r, rc_resource_key r, rc_holder_id r]"]
      by simp
    then have "fs_get (files s1) p = Some (File (json_text C r))"
      by (rule write_json_document(1) [OF w])
    note written = this
    have "returns (new_receipt E project key holder ttl) (\<lambda>r. rc_requested_ttl_seconds r = ttl
        \<and> rc_resource_key r = key \<and> rc_provider_origin r = np_provider_origin project
        \<and> rc_project_id r = np_project_id project)"
      unfolding new_receipt_def by (intro returns_bind returns_ret) simp
    from returnsD [OF this new] written show ?thesis by (auto simp: receipt_on_disk_def)
  qed
qed


lemma document_event_http [simp]: "\<not> document_event E q (Http rq)"
  by (simp add: document_event_def)

lemma document_event_remove [simp]: "\<not> document_event E q (RemoveFile p)"
  by (simp add: document_event_def)

lemma emits_pending_receipt:
  assumes "\<And>ev. (\<forall>rq. ev \<noteq> Http rq) \<Longrightarrow> (\<forall>q. ev \<noteq> RemoveFile q) \<Longrightarrow> P ev"
  shows "emits P (pending_receipt E C project key holder ttl)"
proof -
  have "P ev" if "document_event E q ev" for q ev
    using that by (auto simp: document_event_def intro!: assms split: event.splits)
  then show ?thesis
    by (auto simp: pending_receipt_def find_pending_receipt_def collect_pending_def new_receipt_def random_secret_def Let_def
        intro!: effects emits_write_json assms split: option.splits)
qed

lemma emits_mutation_request:
  "P (Http \<lparr>req_method = ''POST'', req_url = url, req_token = Some (np_token project), req_body = Some body\<rparr>) \<Longrightarrow>
    emits P (mutation_request E project url body)"
  by (auto simp: mutation_request_def provider_request_def Let_def intro!: effects split: failure.splits)

lemma emits_settle_acquisition:
  assumes "\<And>ev. (\<forall>rq. ev \<noteq> Http rq) \<Longrightarrow> P ev"
  shows "emits P (settle_acquisition E C project key p r reply)"
proof -
  have "P ev" if "document_event E q ev" for q ev
    using that by (auto simp: document_event_def intro!: assms split: event.splits)
  then show ?thesis
    by (auto simp: settle_acquisition_def remove_receipt_def Let_def
        intro!: effects emits_write_json assms split: sum.splits failure.splits option.splits)
qed

text \<open>C17. A named-lease acquisition is sent only when a pending receipt with the same request
  identity, key, holder and secret is on disk, with a TTL inside the provider's policy and a
  valid resource key.\<close>

theorem acquire_request_has_receipt:
  assumes ev: "Http rq \<in> set (new_events (acquire_lease E C project key holder ttl) s)"
  shows "\<exists>p r s1 ttl'. pending_receipt E C project key holder ttl' s = (Inr (p, r), s1)
    \<and> receipt_on_disk C (files s1) p r
    \<and> req_body rq = Some (acquire_body r) \<and> rc_resource_key r = key \<and> rc_project_id r = np_project_id project
    \<and> np_min_ttl_seconds (np_policy project) \<le> rc_requested_ttl_seconds r
    \<and> rc_requested_ttl_seconds r \<le> np_max_ttl_seconds (np_policy project)
    \<and> is_ok (validate_resource_key key)"
proof -
  define t where "t = (case ttl of Some t \<Rightarrow> t | None \<Rightarrow> np_default_ttl_seconds (np_policy project))"
  define P where "P ev \<longleftrightarrow> (\<forall>rq. ev = Http rq \<longrightarrow> (\<exists>p r s1.
    pending_receipt E C project key holder t s = (Inr (p, r), s1) \<and> req_body rq = Some (acquire_body r)
    \<and> is_ok (validate_resource_key key) \<and> is_ok (validate_ttl (np_policy project) t)))" for ev
  have quiet: "(\<forall>rq. ev \<noteq> Http rq) \<Longrightarrow> P ev" for ev by (auto simp: P_def)
  have step: "emits P (andThen (attempt (mutation_request E project (np_endpoint project) (acquire_body r))) (\<lambda>reply.
      settle_acquisition E C project key p r reply))"
    if "pending_receipt E C project key holder t s = (Inr (p, r), s1)"
      "is_ok (validate_resource_key key)" "is_ok (validate_ttl (np_policy project) t)" for p r s1
    by (rule emits_andThen, rule emits_attempt, rule emits_mutation_request)
      (use that in \<open>auto simp: P_def intro!: emits_settle_acquisition\<close>)
  have "emits_at P (acquire_lease E C project key holder ttl) s"
    unfolding acquire_lease_def Let_def t_def [symmetric]
    by (rule emits_at_andThen, (rule emits_at, (intro effects)),
        rule emits_at_andThen, (rule emits_at, (intro effects)),
        rule emits_at_andThen, (rule emits_at, (intro effects emits_pending_receipt quiet), assumption))
      (auto simp: mapErr_def lift_def split: prod.splits sum.splits intro!: emits_at step)
  then have "P (Http rq)" using ev by (rule emits_at_new_events)
  then obtain p r s1 where run: "pending_receipt E C project key holder t s = (Inr (p, r), s1)"
    and rq: "req_body rq = Some (acquire_body r)" "is_ok (validate_resource_key key)"
    and ok: "is_ok (validate_ttl (np_policy project) t)" by (auto simp: P_def)
  have "np_min_ttl_seconds (np_policy project) \<le> t \<and> t \<le> np_max_ttl_seconds (np_policy project)"
    using ok by (auto simp: validate_ttl_def split: if_splits)
  then show ?thesis using run rq pending_receipt_on_disk [OF run]
    by (intro exI [of _ p] exI [of _ r] exI [of _ s1] exI [of _ t]) auto
qed


definition refused :: "(failure, 'a) result \<Rightarrow> bool" where
  "refused r \<longleftrightarrow> (\<exists>status refusal. r = Inl (OutcomeFailure status refusal))"

definition removes_only_if_definite :: "(failure, 'a) result \<Rightarrow> event list \<Rightarrow> bool" where
  "removes_only_if_definite r es \<longleftrightarrow> ((\<exists>q. RemoveFile q \<in> set es) \<longrightarrow> is_ok r \<or> refused r)"

definition keeps_files :: "event \<Rightarrow> bool" where
  "keeps_files ev \<longleftrightarrow> (\<forall>q. ev \<noteq> RemoveFile q)"

lemma keeps_files_iff: "list_all keeps_files es \<longleftrightarrow> (\<forall>q. RemoveFile q \<notin> set es)"
  by (auto simp: list_all_iff keeps_files_def)

lemma keeps_files_document: "document_event E q ev \<Longrightarrow> keeps_files ev"
  by (auto simp: keeps_files_def)

lemma logs_remove_then:
  assumes "\<And>s. is_ok (fst (k s)) \<or> refused (fst (k s))" and "\<And>s. trace (snd (k s)) = trace s"
  shows "logs (andThen (mapErr Msg (remove_receipt E p)) (\<lambda>_. k)) removes_only_if_definite"
  unfolding logs_def
proof
  fix s :: "('a, 'b) world_scheme"
  show "\<exists>es. trace (snd (andThen (mapErr Msg (remove_receipt E p)) (\<lambda>_. k) s)) = trace s @ es
      \<and> removes_only_if_definite (fst (andThen (mapErr Msg (remove_receipt E p)) (\<lambda>_. k) s)) es"
    using assms
    by (auto simp: remove_receipt_def remove_if_present_def run remove_file_def file_op_def
        removes_only_if_definite_def split: option.splits sum.splits prod.splits node.splits io_error.splits)
qed

lemma logs_keeps_files:
  assumes "emits keeps_files m" and "\<And>a. logs (f a) removes_only_if_definite"
  shows "logs (andThen m f) removes_only_if_definite"
  by (rule logs_after_safe [OF assms]) (auto simp: removes_only_if_definite_def keeps_files_iff)


lemma logs_quiet: "emits keeps_files m \<Longrightarrow> logs m removes_only_if_definite"
  by (rule logs_weaken [OF logs_emits]) (auto simp: removes_only_if_definite_def keeps_files_iff)

lemma logs_settle_acquisition:
  "logs (settle_acquisition E C project key p r reply) removes_only_if_definite"
proof (cases reply)
  case (Inl e)
  have quiet: "logs (bail e' :: (_, failure, mutation_response) prog) removes_only_if_definite" for e'
    by (intro logs_quiet effects)
  show ?thesis
    by (cases e) (auto simp: settle_acquisition_def Inl refused_def run_simps quiet intro!: logs_remove_then)
next
  case (Inr response)
  have remove: "logs (andThen (mapErr Msg (remove_receipt E p)) (\<lambda>_. ret response)) removes_only_if_definite"
    "logs (andThen (mapErr Msg (remove_receipt E p)) (\<lambda>_. bail (OutcomeFailure n response)))
      (removes_only_if_definite :: (failure, mutation_response) result \<Rightarrow> _)" for n
    by (rule logs_remove_then; simp add: run_simps refused_def)+
  show ?thesis
    unfolding settle_acquisition_def Inr sum.case Let_def
    by (rule logs_keeps_files, (intro effects), cases "mr_outcome response = Acquired")
      (auto simp: keeps_files_document intro!: remove logs_keeps_files effects emits_write_json)
qed

text \<open>An acquisition whose answer is lost or not definite removes no receipt, so the same request
  can be retried.\<close>

theorem acquire_indefinite_keeps_receipts:
  assumes "fst (acquire_lease E C project key holder ttl s) = Inl e"
    and "\<And>status refusal. e \<noteq> OutcomeFailure status refusal"
  shows "RemoveFile q \<notin> set (new_events (acquire_lease E C project key holder ttl) s)"
proof -
  have pending: "emits keeps_files (mapErr Msg (pending_receipt E C project key holder t))" for t
    by (intro effects emits_pending_receipt) (simp add: keeps_files_def)
  have req: "emits keeps_files (attempt (mutation_request E project url body))" for url body
    by (intro effects emits_mutation_request) (simp add: keeps_files_def)
  have "logs (acquire_lease E C project key holder ttl) removes_only_if_definite"
    unfolding acquire_lease_def Let_def
    by (rule logs_keeps_files, (intro effects), rule logs_keeps_files, (intro effects),
        rule logs_keeps_files [OF pending], simp only: split_beta,
        rule logs_keeps_files [OF req logs_settle_acquisition])
  from logsD [OF this, of s] show ?thesis
    using assms by (auto simp: removes_only_if_definite_def refused_def)
qed

text \<open>recorded.\<close>

lemma record_mutation_facts:
  assumes "record_mutation E C project lease_id holder_id operation ttl s = (Inr (p, r, request), s1)"
    and "slash \<notin> set lease_id"
  shows "fs_get (files s1) p = Some (File (json_text C (Some r))) \<and> rc_pending_mutation r = Some request
    \<and> pm_operation request = operation \<and> pm_ttl_seconds request = ttl
    \<and> validate_receipt_binding r project lease_id holder_id = Inr ()"
proof -
  have bound: "validate_receipt_binding (r\<lparr>rc_pending_mutation := m\<rparr>) project lease_id holder_id
      = validate_receipt_binding r project lease_id holder_id" for r :: receipt and m
    by (simp add: validate_receipt_binding_def)
  have tmp: "temporary_path E (active_receipt_path E d lease_id holder_id) \<noteq> active_receipt_path E d lease_id holder_id" for d
    using temporary_path_json [of "lease_id @ ''-'' @ receipt_hash E [holder_id]" E d] assms(2)
    by (auto simp: active_receipt_path_def receipt_hash_def hex_text_no_slash [unfolded slash_def] slash_def)
  have req: "returns (pending_request E r operation ttl) (\<lambda>m. pm_operation m = operation \<and> pm_ttl_seconds m = ttl)" for r
    by (auto simp: pending_request_def intro!: returns_rules returns_bind split: option.splits)
  show ?thesis using assms(1) unfolding record_mutation_def Let_def
    by (elim andThen_okE) (auto simp: run_simps ok_or_def bound
      dest!: returnsD [OF req] dest: write_json_document(1) [OF _ tmp] split: option.splits)
qed

lemma identifier_no_slash: "validate_identifier v f start = Inr u \<Longrightarrow> slash \<notin> set v"
  by (auto simp: validate_identifier_def slash_def ascii_class_defs byte_of_def split: if_splits)


text \<open>C18. A renewal or release is sent only after its request identity has been written into the
  active receipt of that lease and holder.\<close>

theorem mutation_is_recorded_first:
  assumes ev: "Http rq \<in> set (new_events (mutate_active_receipt E C project lease_id holder_id operation ttl) s)"
  shows "\<exists>p r request s1. record_mutation E C project lease_id holder_id operation ttl s = (Inr (p, r, request), s1)
    \<and> fs_get (files s1) p = Some (File (json_text C (Some r))) \<and> rc_pending_mutation r = Some request
    \<and> pm_operation request = operation \<and> pm_ttl_seconds request = ttl
    \<and> validate_receipt_binding r project lease_id holder_id = Inr ()
    \<and> req_body rq = Some (mutation_body project r request operation ttl)"
proof -
  define P where "P ev \<longleftrightarrow> (\<forall>rq. ev = Http rq \<longrightarrow> (\<exists>p r request s1.
    record_mutation E C project lease_id holder_id operation ttl s = (Inr (p, r, request), s1)
    \<and> req_body rq = Some (mutation_body project r request operation ttl) \<and> slash \<notin> set lease_id))" for ev
  have quiet: "(\<forall>rq. ev \<noteq> Http rq) \<Longrightarrow> P ev" for ev by (auto simp: P_def)
  have doc: "document_event E q ev \<Longrightarrow> P ev" for q ev by (auto simp: P_def)
  have recording: "emits P (record_mutation E C project lease_id holder_id operation ttl)"
    by (auto simp: record_mutation_def pending_request_def Let_def intro!: effects emits_write_json [OF doc] quiet split: option.splits)
  have settle: "emits P (settle_mutation E C project lease_id p r reply)" for p r reply
    by (auto simp: settle_mutation_def remove_receipt_def Let_def
        intro!: effects emits_write_json [OF doc] quiet split: sum.splits failure.splits)
  have step: "emits P (andThen (attempt (mutation_request E project url (mutation_body project r request op ttl)))
      (\<lambda>reply. settle_mutation E C project lease_id p r reply))"
    if "record_mutation E C project lease_id holder_id op ttl s = (Inr (p, r, request), s1)"
      "slash \<notin> set lease_id" "operation = op" for p r request s1 url op
    by (rule emits_andThen, rule emits_attempt, rule emits_mutation_request)
      (use that settle in \<open>auto simp: P_def\<close>)
  have "emits_at P (mutate_active_receipt E C project lease_id holder_id operation ttl) s"
    unfolding mutate_active_receipt_def Let_def
    by (rule emits_at_andThen, (rule emits_at, (intro effects)),
        rule emits_at_andThen, (rule emits_at, (intro effects)),
        rule emits_at_andThen, (rule emits_at, (intro effects)),
        rule emits_at_andThen, (rule emits_at, (intro effects recording)))
      (auto simp: mapErr_def lift_def run_simps split: prod.splits sum.splits if_splits
        dest!: identifier_no_slash intro!: emits_at step)
  then have "P (Http rq)" using ev by (rule emits_at_new_events)
  then show ?thesis unfolding P_def by (metis record_mutation_facts)
qed

text \<open>A definite refusal other than LEASE_EXPIRED and NOT_HOLDER keeps the recorded mutation, so
  a later operation of another kind on the same lease fails before any request.\<close>

theorem definite_refusal_blocks_other_mutation:
  assumes "rc_pending_mutation r = Some request"
    and "mr_outcome refusal \<notin> {LeaseExpired, NotHolder}"
    and "pm_operation request \<noteq> operation \<or> pm_ttl_seconds request \<noteq> ttl"
  shows "settle_mutation E C project lease_id p r (Inl (OutcomeFailure status refusal)) s
      = (Inl (OutcomeFailure status refusal), s)
    \<and> pending_request E r operation ttl s
      = (Inl ''a different named-lease mutation is awaiting an unambiguous response'', s)"
  using assms by (auto simp: settle_mutation_def pending_request_def run onlyIf_def)

end
