(* ===== verification/Publication.thy ===== *)
theory Publication
  imports Protocol
begin

section \<open>Publications\<close>

text \<open>
  \<open>src/src/publication.rs\<close>: the record of a commit that waits to be pushed and acknowledged, the
  durable queue of these records, and the request that asks the provider for a durable
  acknowledgement. \<open>Publication::new\<close>, \<open>due\<close> and \<open>record_failure\<close> read the clock of the
  environment, in nanoseconds.
\<close>

subsection \<open>Records\<close>

record publication_ack =
  pa_publication_id :: string
  pa_attempt :: nat
  pa_project_id :: string
  pa_branch :: string
  pa_accepted_oid :: string
  pa_remote_head :: string
  pa_project_generation :: nat
  pa_durable :: bool

record publication =
  pub_id :: string
  pub_project_id :: string
  pub_checkout_id :: "string option"
  pub_branch :: string
  pub_source_commit_oid :: string
  pub_candidate_commit_oid :: string
  pub_expected_remote_oid :: "string option"
  pub_attempt :: nat
  pub_state :: string
  pub_created_at :: string
  pub_last_attempt_at :: "string option"
  pub_next_attempt_at :: "string option"
  pub_last_error :: "string option"
  pub_ack :: "publication_ack option"

definition PENDING :: string where
  "PENDING = ''PENDING''"

definition ACKNOWLEDGED :: string where
  "ACKNOWLEDGED = ''ACKNOWLEDGED''"

text \<open>The twenty first digits of a UUID without its hyphens.\<close>

definition simple_uuid :: "string \<Rightarrow> string" where
  "simple_uuid u = filter (\<lambda>c. c \<noteq> CHR ''-'') u"

definition new_publication :: "'x env \<Rightarrow> string \<Rightarrow> string option \<Rightarrow> string \<Rightarrow> string \<Rightarrow> string option \<Rightarrow>
    (('x, 'z) world_scheme, 'e, publication) prog" where
  "new_publication E project_id checkout_id branch commit_oid expected_remote_oid =
     andThen (new_uuid E) (\<lambda>u.
     andThen (now_rfc3339 E) (\<lambda>created_at.
     andThen (now_rfc3339 E) (\<lambda>next_attempt_at.
     ret \<lparr>pub_id = ''pub_'' @ take 20 (simple_uuid u), pub_project_id = project_id,
        pub_checkout_id = checkout_id, pub_branch = branch, pub_source_commit_oid = commit_oid,
        pub_candidate_commit_oid = commit_oid, pub_expected_remote_oid = expected_remote_oid,
        pub_attempt = 1, pub_state = PENDING, pub_created_at = created_at, pub_last_attempt_at = None,
        pub_next_attempt_at = Some next_attempt_at, pub_last_error = None, pub_ack = None\<rparr>)))"

definition pending :: "publication \<Rightarrow> bool" where
  "pending p \<longleftrightarrow> pub_state p \<noteq> ACKNOWLEDGED"

text \<open>\<open>due\<close> at the time \<open>t\<close>; an absent or unreadable time is due at once.\<close>

definition due_at :: "'x env \<Rightarrow> publication \<Rightarrow> int \<Rightarrow> bool" where
  "due_at E p t \<longleftrightarrow> pending p \<and>
     (case Option.bind (pub_next_attempt_at p) (parse_rfc3339 E) of None \<Rightarrow> True | Some v \<Rightarrow> v \<le> t)"

definition due :: "'x env \<Rightarrow> publication \<Rightarrow> (('x, 'z) world_scheme, 'e, bool) prog" where
  "due E p = andThen (now E) (\<lambda>t. ret (due_at E p t))"

text \<open>\<open>chrono::Duration::from_std\<close>: at most \<open>i64::MAX\<close> milliseconds; the fallback is a minute.\<close>

definition max_chrono_ns :: int where
  "max_chrono_ns = (2 ^ 63 - 1) * 1000000"

definition chrono_duration :: "int \<Rightarrow> int" where
  "chrono_duration retry_ns = (if retry_ns \<le> max_chrono_ns then retry_ns else 60 * 1000000000)"

definition record_failure_at :: "'x env \<Rightarrow> int \<Rightarrow> string \<Rightarrow> int \<Rightarrow> publication \<Rightarrow> publication" where
  "record_failure_at E t message retry_ns p =
     p\<lparr>pub_state := PENDING, pub_last_attempt_at := Some (rfc3339 E t),
       pub_next_attempt_at := Some (rfc3339 E (t + chrono_duration retry_ns)),
       pub_last_error := Some message\<rparr>"

definition record_failure :: "'x env \<Rightarrow> string \<Rightarrow> int \<Rightarrow> publication \<Rightarrow>
    (('x, 'z) world_scheme, 'e, publication) prog" where
  "record_failure E message retry_ns p =
     andThen (now E) (\<lambda>t. ret (record_failure_at E t message retry_ns p))"

subsection \<open>The queue\<close>

record publication_queue =
  pq_version :: nat
  pq_publications :: "publication list"

definition default_queue :: publication_queue where
  "default_queue = \<lparr>pq_version = 1, pq_publications = []\<rparr>"

definition queue_path :: "state_paths \<Rightarrow> path" where
  "queue_path paths = path_join (sp_root paths) ''publications.json''"

definition load_queue :: "'x env \<Rightarrow> publication_queue codec \<Rightarrow> state_paths \<Rightarrow>
    (('x, 'z) world_scheme, string, publication_queue) prog" where
  "load_queue E C paths = read_json E C (queue_path paths) default_queue"

definition persist_queue :: "'x env \<Rightarrow> publication_queue codec \<Rightarrow> state_paths \<Rightarrow> publication_queue \<Rightarrow>
    (('x, 'z) world_scheme, string, unit) prog" where
  "persist_queue E C paths q = write_json E C (queue_path paths) q private_mode"

text \<open>\<open>retain\<close> with a counter: the first \<open>remove\<close> completed publications go.\<close>

fun retain_after :: "nat \<Rightarrow> publication list \<Rightarrow> publication list" where
  "retain_after remove [] = []"
| "retain_after remove (p # ps) =
     (if 0 < remove \<and> \<not> pending p then retain_after (remove - 1) ps else p # retain_after remove ps)"

definition compact :: "publication_queue \<Rightarrow> publication_queue" where
  "compact q =
     (let completed = length (filter (\<lambda>p. \<not> pending p) (pq_publications q)) in
      if completed \<le> 256 then q
      else q\<lparr>pq_publications := retain_after (completed - 256) (pq_publications q)\<rparr>)"

subsection \<open>Acknowledgement\<close>

datatype provider_publication =
    Acknowledged publication_ack
  | RemoteAdvanced "string option" nat

definition ack_fields :: "string list" where
  "ack_fields = [''publication_id'', ''attempt'', ''project_id'', ''branch'', ''accepted_oid'',
     ''remote_head'', ''project_generation'', ''durable'']"

definition decode_ack :: "json \<Rightarrow> publication_ack option" where
  "decode_ack j =
     Option.bind (struct_fields ack_fields j) (\<lambda>m.
     Option.bind (req_str ''publication_id'' m) (\<lambda>publication_id.
     Option.bind (req_u64 ''attempt'' m) (\<lambda>attempt.
     Option.bind (req_str ''project_id'' m) (\<lambda>project_id.
     Option.bind (req_str ''branch'' m) (\<lambda>branch.
     Option.bind (req_str ''accepted_oid'' m) (\<lambda>accepted_oid.
     Option.bind (req_str ''remote_head'' m) (\<lambda>remote_head.
     Option.bind (req_u64 ''project_generation'' m) (\<lambda>generation.
     Option.bind (req_bool ''durable'' m) (\<lambda>durable.
     Some \<lparr>pa_publication_id = publication_id, pa_attempt = attempt, pa_project_id = project_id,
       pa_branch = branch, pa_accepted_oid = accepted_oid, pa_remote_head = remote_head,
       pa_project_generation = generation, pa_durable = durable\<rparr>)))))))))"

definition publication_request :: "publication \<Rightarrow> json" where
  "publication_request p = jobj [(''publication_id'', JStr (pub_id p)), (''attempt'', JInt (int (pub_attempt p))),
     (''branch'', JStr (pub_branch p)), (''candidate_oid'', JStr (pub_candidate_commit_oid p)),
     (''expected_remote_oid'', jopt (pub_expected_remote_oid p))]"

definition ack_matches :: "publication \<Rightarrow> publication_ack \<Rightarrow> bool" where
  "ack_matches p a \<longleftrightarrow> pa_durable a \<and> pa_publication_id a = pub_id p \<and> pa_attempt a = pub_attempt p
     \<and> pa_project_id a = pub_project_id p \<and> pa_branch a = pub_branch p
     \<and> pa_accepted_oid a = pub_candidate_commit_oid p"

definition is_success :: "nat \<Rightarrow> bool" where
  "is_success status \<longleftrightarrow> 200 \<le> status \<and> status < 300"

definition read_publication_reply :: "publication \<Rightarrow> nat \<Rightarrow> json \<Rightarrow> (string, provider_publication) result" where
  "read_publication_reply p status body =
     (if is_success status then
        (case decode_ack body of
           None \<Rightarrow> Inl ''invalid acknowledgement''
         | Some a \<Rightarrow> if ack_matches p a then Inr (Acknowledged a)
             else Inl ''provider returned an invalid durability ACK'')
      else if status = 409 \<and> jget_str ''outcome'' body = Some ''REMOTE_ADVANCED''
      then Inr (RemoteAdvanced (jget_str ''remote_head'' body)
        (case Option.bind (jget ''project_generation'' body) as_u64 of None \<Rightarrow> 0 | Some n \<Rightarrow> n))
      else Inl (case jget_str ''error'' body of None \<Rightarrow> ''provider rejected publication'' | Some e \<Rightarrow> e))"

definition publications_url_path :: "publication \<Rightarrow> string" where
  "publications_url_path p = ''/v1/projects/'' @ pub_project_id p @ ''/publications''"

definition acknowledge_with_provider :: "'x env \<Rightarrow> string \<Rightarrow> string \<Rightarrow> publication \<Rightarrow>
    (('x, 'z) world_scheme, string, provider_publication) prog" where
  "acknowledge_with_provider E service token p =
     andThen (lift (ok_or ''invalid service URL'' (parse_url E service))) (\<lambda>_.
     andThen (lift (ok_or ''invalid service URL''
       (url_join E service (publications_url_path p)))) (\<lambda>url.
     andThen (http_send E \<lparr>req_method = ''POST'', req_url = url, req_token = Some token,
       req_body = Some (publication_request p)\<rparr>) (\<lambda>res.
     andThen (lift (ok_or ''provider returned an invalid publication response'' (parse_json E (res_text res)))) (\<lambda>body.
     lift (read_publication_reply p (res_status res) body)))))"

subsection \<open>Facts\<close>

lemma pending_retain_after:
  "filter pending (retain_after n ps) = filter pending ps"
  by (induction n ps rule: retain_after.induct) auto

lemma completed_retain_after:
  "filter (\<lambda>p. \<not> pending p) (retain_after n ps) = drop n (filter (\<lambda>p. \<not> pending p) ps)"
  by (induction n ps rule: retain_after.induct) (auto simp: drop_Cons' split: nat.splits)

lemma subseq_retain_after: "subseq (retain_after n ps) ps"
  by (induction n ps rule: retain_after.induct) auto

text \<open>Compacting the queue keeps every pending publication and the newest 256 completed ones, in
  their order, and is idempotent.\<close>

theorem compact_keeps_pending_and_newest:
  "filter pending (pq_publications (compact q)) = filter pending (pq_publications q)
    \<and> filter (\<lambda>p. \<not> pending p) (pq_publications (compact q))
      = (let completed = filter (\<lambda>p. \<not> pending p) (pq_publications q) in drop (length completed - 256) completed)
    \<and> length (filter (\<lambda>p. \<not> pending p) (pq_publications (compact q))) \<le> 256
    \<and> subseq (pq_publications (compact q)) (pq_publications q)
    \<and> compact (compact q) = compact q"
proof -
  let ?done = "filter (\<lambda>p. \<not> pending p) (pq_publications q)"
  have completed: "filter (\<lambda>p. \<not> pending p) (pq_publications (compact q)) = drop (length ?done - 256) ?done"
    by (simp add: compact_def Let_def completed_retain_after)
  then have le: "length (filter (\<lambda>p. \<not> pending p) (pq_publications (compact q))) \<le> 256" by simp
  moreover have "compact (compact q) = compact q"
    using le by (subst (1) compact_def) (simp add: Let_def)
  ultimately show ?thesis using completed
    by (auto simp: compact_def Let_def pending_retain_after subseq_retain_after)
qed

text \<open>C16. The provider client reports an acknowledgement only for one success reply whose
  publication, attempt, project, branch and commit are those of the request and that is marked
  durable.\<close>

theorem acknowledged_only_by_matching_ack:
  assumes "acknowledge_with_provider E service token p s = (Inr (Acknowledged a), s')"
  shows "ack_matches p a \<and> (\<exists>rq res. new_events (acknowledge_with_provider E service token p) s = [Http rq]
    \<and> req_body rq = Some (publication_request p) \<and> req_token rq = Some token
    \<and> fst (http E rq (ext s)) = Inr res \<and> is_success (res_status res))"
proof -
  obtain u url where u: "parse_url E service = Some u"
    "url_join E service (publications_url_path p) = Some url"
    using assms by (auto simp: acknowledge_with_provider_def andThen_def lift_def ok_or_def
        split: option.splits)
  define rq where "rq = \<lparr>req_method = ''POST'', req_url = url, req_token = Some token,
    req_body = Some (publication_request p)\<rparr>"
  have run: "acknowledge_with_provider E service token p
      = andThen (http_send E rq) (\<lambda>res.
          andThen (lift (ok_or ''provider returned an invalid publication response'' (parse_json E (res_text res))))
            (\<lambda>body. lift (read_publication_reply p (res_status res) body)))"
    by (simp add: acknowledge_with_provider_def u rq_def)
  obtain res body where res: "fst (http E rq (ext s)) = Inr res"
    "read_publication_reply p (res_status res) body = Inr (Acknowledged a)"
    using assms unfolding run
    by (auto simp: andThen_def http_send_def lift_def ok_or_def split: prod.splits sum.splits option.splits)
  then have ok: "is_success (res_status res)" "ack_matches p a"
    by (auto simp: read_publication_reply_def split: if_splits option.splits)
  have "new_events (acknowledge_with_provider E service token p) s = [Http rq]"
    unfolding run by (auto simp: new_events_def andThen_def http_send_def lift_def split: prod.splits sum.splits)
  then show ?thesis using ok res by (auto simp: rq_def)
qed

text \<open>A recorded failure leaves the publication pending with its identity and attempt and makes
  it due exactly when the retry delay (a minute where the delay does not fit) has passed.\<close>

theorem failure_delays_retry:
  assumes clock: "\<And>x. parse_rfc3339 E (rfc3339 E x) = Some x"
  shows "pending (record_failure_at E t message retry_ns p)
    \<and> (due_at E (record_failure_at E t message retry_ns p) u \<longleftrightarrow>
        (if retry_ns \<le> max_chrono_ns then t + retry_ns \<le> u else t + 60 * 1000000000 \<le> u))
    \<and> pub_candidate_commit_oid (record_failure_at E t message retry_ns p) = pub_candidate_commit_oid p
    \<and> pub_attempt (record_failure_at E t message retry_ns p) = pub_attempt p
    \<and> pub_id (record_failure_at E t message retry_ns p) = pub_id p"
  using clock by (simp add: record_failure_at_def due_at_def pending_def PENDING_def ACKNOWLEDGED_def
      chrono_duration_def)

end
