(* ===== verification/Provider_Examples.thy ===== *)
theory Provider_Examples
  imports Scripted_World Named_Lease Publication
begin

section \<open>Examples of the provider's protocol\<close>

text \<open>Concrete runs of \<open>Protocol\<close>, \<open>Publication\<close> and \<open>Named_Lease\<close> in the scripted world.\<close>

subsection \<open>Listings and legacy projects\<close>

definition example_lease :: named_lease where
  "example_lease = \<lparr>nl_lease_id = ''nls_1'', nl_project_id = ''prj_1'', nl_resource_key = ''db'',
     nl_holder_device_id = ''dev'', nl_holder_device_name = None, nl_holder_id = ''me'', nl_generation = 1,
     nl_acquired_at = 0, nl_expires_at = 60000000000\<rparr>"

theorem validate_list_iff_witness:
  "is_ok (validate_list_for_project ''prj_1'' [example_lease])
     \<and> \<not> is_ok (validate_list_for_project ''prj_1'' [example_lease, example_lease])"
  using validate_list_iff [of "''prj_1''" "[example_lease]"]
    validate_list_iff [of "''prj_1''" "[example_lease, example_lease]"]
  by (simp add: example_lease_def well_formed_lease_def)

theorem migrate_project_fields_witness:
  "\<exists>m'. migrate_project (JObj [(''sync_branch'', JStr ''trunk'')]) = Inr (JObj m')
     \<and> map_of m' ''sync_branch'' = None"
  using migrate_project_fields [of "[(''sync_branch'', JStr ''trunk'')]"] by blast

subsection \<open>A publication and its acknowledgement\<close>

definition example_publication :: publication where
  "example_publication = \<lparr>pub_id = ''pub_1'', pub_project_id = ''prj_1'', pub_checkout_id = None,
     pub_branch = ''main'', pub_source_commit_oid = ''c'', pub_candidate_commit_oid = ''c'',
     pub_expected_remote_oid = Some ''b'', pub_attempt = 1, pub_state = PENDING, pub_created_at = ''+'',
     pub_last_attempt_at = None, pub_next_attempt_at = Some ''+'', pub_last_error = None, pub_ack = None\<rparr>"

definition example_ack :: publication_ack where
  "example_ack = \<lparr>pa_publication_id = ''pub_1'', pa_attempt = 1, pa_project_id = ''prj_1'', pa_branch = ''main'',
     pa_accepted_oid = ''c'', pa_remote_head = ''c'', pa_project_generation = 3, pa_durable = True\<rparr>"

definition example_ack_json :: json where
  "example_ack_json = JArr [JStr ''pub_1'', JInt 1, JStr ''prj_1'', JStr ''main'', JStr ''c'', JStr ''c'', JInt 3, JBool True]"

definition acknowledging_env :: "run_result list env" where
  "acknowledging_env = scripted_env\<lparr>parse_json := \<lambda>t. Some example_ack_json\<rparr>"

definition answered :: "run_result list world" where
  "answered = scripted_world [] [\<lparr>code = 200, stdout = ''ack'', stderr = []\<rparr>]"

lemma example_acknowledged:
  "\<exists>s'. acknowledge_with_provider acknowledging_env ''https://h'' ''token'' example_publication answered
     = (Inr (Acknowledged example_ack), s')"
  by (simp add: running acknowledge_with_provider_def acknowledging_env_def answered_def read_publication_reply_def
      decode_ack_def example_ack_json_def struct_fields_def ack_fields_def req_str_def req_u64_def req_bool_def
      ack_matches_def example_publication_def example_ack_def is_success_def ok_or_def u64_max_def cong: lazy)

theorem acknowledged_only_by_matching_ack_witness: "ack_matches example_publication example_ack"
proof -
  obtain s' where "acknowledge_with_provider acknowledging_env ''https://h'' ''token'' example_publication answered
     = (Inr (Acknowledged example_ack), s')"
    using example_acknowledged by blast
  from acknowledged_only_by_matching_ack [OF this] show ?thesis by blast
qed

theorem failure_delays_retry_witness:
  "due_at scripted_env (record_failure_at scripted_env 0 ''offline'' 5 example_publication) 5
     \<and> \<not> due_at scripted_env (record_failure_at scripted_env 0 ''offline'' 5 example_publication) 4"
proof -
  have "\<And>x. parse_rfc3339 scripted_env (rfc3339 scripted_env x) = Some x"
    by (simp add: read_unary_time)
  from failure_delays_retry [OF this] show ?thesis by (simp add: max_chrono_ns_def)
qed

subsection \<open>Named leases\<close>

theorem framed_inject_witness: "framed [''ab'', ''c''] \<noteq> framed [''a'', ''bc'']"
  using framed_inject [of "[''ab'', ''c'']" "[''a'', ''bc'']"] by auto

theorem resource_key_iff_witness: "is_ok (validate_resource_key ''db/main'')"
proof -
  have "''db/main'' = join_with [slash] [''db'', ''main'']" by (simp add: slash_def)
  moreover have "\<forall>seg\<in>set [''db'', ''main'']. valid_resource_segment seg"
    by (simp add: valid_resource_segment_def valid_segment_byte_def is_ascii_lowercase_def byte_of_def)
  moreover have "length ''db/main'' \<le> 255" by simp
  ultimately show ?thesis unfolding resource_key_iff by blast
qed

definition example_np :: named_lease_project where
  "example_np = \<lparr>np_provider_origin = ''https://h'', np_project_id = ''prj_1'', np_token = ''token'',
     np_endpoint = ''https://h/leases'', np_policy = \<lparr>np_default_ttl_seconds = 60, np_min_ttl_seconds = 30, np_max_ttl_seconds = 90\<rparr>\<rparr>"

definition example_receipt :: receipt where
  "example_receipt = \<lparr>rc_version = 1, rc_state = ReceiptActive, rc_provider_origin = ''https://h'',
     rc_project_id = ''prj_1'', rc_request_id = ''req_1'', rc_resource_key = ''db'', rc_holder_id = ''me'',
     rc_holder_secret = ''secret'', rc_requested_ttl_seconds = 60, rc_lease = Some example_lease,
     rc_pending_mutation = None, rc_authority_recorded_at = Some 0\<rparr>"

theorem next_renewal_window_witness:
  "\<exists>t. next_renewal_at scripted_env example_receipt = Inr t \<and> 1000000 \<le> t \<and> 5 * t \<le> 2 * 60000000000"
  using next_renewal_window [of example_receipt example_lease 0 scripted_env]
  by (auto simp: example_receipt_def example_lease_def)

definition receipts :: "receipt codec" where
  "receipts = \<lparr>enc = (\<lambda>r. ''r''), dec = (\<lambda>t. Some example_receipt)\<rparr>"

definition active_receipts :: "receipt option codec" where
  "active_receipts = \<lparr>enc = (\<lambda>r. ''r''), dec = (\<lambda>t. Some (Some example_receipt))\<rparr>"

lemmas lease_steps = acquire_lease_def validate_resource_key_def valid_resource_segment_def valid_segment_byte_def
  is_ascii_lowercase_def is_ascii_digit_def ends_with_def validate_ttl_def pending_receipt_def find_pending_receipt_def
  new_receipt_def validate_holder_id_def is_control_def random_secret_def mutation_request_def provider_request_def
  settle_acquisition_def receipt_project_directory_def pending_receipt_path_def receipt_hash_def hex_text_def
  hex_digit_def state_paths_of_def state_directory_def paths_below_def example_np_def simple_id_def receipts_def

lemma example_directory: "receipt_project_directory scripted_env example_np = ''/s/named-leases/64/prj_1''"
  by (simp add: receipt_project_directory_def receipt_hash_def hex_text_def hex_digit_def state_paths_of_def
      state_directory_def paths_below_def example_np_def absolute_path_def path_steps string_steps Let_def)

lemma example_pending_path:
  "pending_receipt_path scripted_env ''/s/named-leases/64/prj_1'' r = ''/s/named-leases/64/prj_1/pending-64.json''"
  by (simp add: pending_receipt_path_def receipt_hash_def hex_text_def hex_digit_def path_steps string_steps)

lemma example_file: "path_parent ''/s/named-leases/64/prj_1/pending-64.json'' = Some ''/s/named-leases/64/prj_1''"
  "temporary_path scripted_env ''/s/named-leases/64/prj_1/pending-64.json'' = ''/s/named-leases/64/prj_1/pending-64.7.tmp''"
  by (simp_all add: path_steps temporary_path_def string_steps Let_def)

lemma example_dirs: "make_dirs ''/s/named-leases/64/prj_1'' [] =
    [(''/'', Dir), (''/s'', Dir), (''/s/named-leases'', Dir), (''/s/named-leases/64'', Dir), (''/s/named-leases/64/prj_1'', Dir)]"
  by (simp add: make_dirs_def make_dir_def path_steps fs_get_def fs_put_def)

lemma example_np_simps:
  "np_provider_origin example_np = ''https://h''" "np_project_id example_np = ''prj_1''"
  "np_endpoint example_np = ''https://h/leases''" "np_min_ttl_seconds (np_policy example_np) = 30"
  "np_max_ttl_seconds (np_policy example_np) = 90" "np_default_ttl_seconds (np_policy example_np) = 60"
  by (simp_all add: example_np_def)

lemmas example_paths = example_np_simps example_directory example_pending_path example_file example_dirs

lemma example_acquire:
  "\<exists>rq s'. acquire_lease scripted_env receipts example_np ''db'' (Some ''me'') None (scripted_world [] [])
     = (Inl (Msg ''connection refused''), s') \<and> Http rq \<in> set (trace s')"
  by (simp add: running example_paths acquire_lease_def validate_resource_key_def valid_resource_segment_def
      valid_segment_byte_def is_ascii_lowercase_def is_ascii_digit_def ends_with_def validate_ttl_def
      pending_receipt_def find_pending_receipt_def new_receipt_def validate_holder_id_def is_control_def
      random_secret_def mutation_request_def provider_request_def settle_acquisition_def slash_def
      suffix_to_prefix receipts_def cong: lazy)

lemma example_acquire_requests:
  "\<exists>rq. Http rq \<in> set (new_events (acquire_lease scripted_env receipts example_np ''db'' (Some ''me'') None) (scripted_world [] []))"
proof -
  obtain rq s' where "acquire_lease scripted_env receipts example_np ''db'' (Some ''me'') None (scripted_world [] [])
     = (Inl (Msg ''connection refused''), s')" and "Http rq \<in> set (trace s')"
    using example_acquire by blast
  then show ?thesis by (auto simp: new_events_def scripted_world_def)
qed

theorem acquire_request_has_receipt_witness:
  "\<exists>p r s1 ttl. pending_receipt scripted_env receipts example_np ''db'' (Some ''me'') ttl (scripted_world [] []) = (Inr (p, r), s1)
     \<and> receipt_on_disk receipts (files s1) p r \<and> rc_resource_key r = ''db''"
proof -
  obtain rq where "Http rq \<in> set (new_events (acquire_lease scripted_env receipts example_np ''db'' (Some ''me'') None)
      (scripted_world [] []))"
    using example_acquire_requests by blast
  from acquire_request_has_receipt [OF this] show ?thesis by blast
qed

theorem acquire_indefinite_keeps_receipts_witness:
  "RemoveFile ''/s/named-leases/64/prj_1/pending-64.json''
     \<notin> set (new_events (acquire_lease scripted_env receipts example_np ''db'' (Some ''me'') None) (scripted_world [] []))"
  by (rule acquire_indefinite_keeps_receipts [where e = "Msg ''connection refused''"])
    (use example_acquire in auto)

text \<open>A renewal whose answer is lost.\<close>

definition leased :: "run_result list world" where
  "leased = scripted_world [(''/s/named-leases/64/prj_1/nls_1-64.json'', File ''r'')] []"

lemma example_active_path:
  "active_receipt_path scripted_env ''/s/named-leases/64/prj_1'' ''nls_1'' ''me'' = ''/s/named-leases/64/prj_1/nls_1-64.json''"
  "path_parent ''/s/named-leases/64/prj_1/nls_1-64.json'' = Some ''/s/named-leases/64/prj_1''"
  "temporary_path scripted_env ''/s/named-leases/64/prj_1/nls_1-64.json'' = ''/s/named-leases/64/prj_1/nls_1-64.7.tmp''"
  "make_dirs ''/s/named-leases/64/prj_1'' [(''/s/named-leases/64/prj_1/nls_1-64.json'', File ''r'')] =
    [(''/s/named-leases/64/prj_1/nls_1-64.json'', File ''r''), (''/'', Dir), (''/s'', Dir), (''/s/named-leases'', Dir),
     (''/s/named-leases/64'', Dir), (''/s/named-leases/64/prj_1'', Dir)]"
  by (simp_all add: active_receipt_path_def receipt_hash_def hex_text_def hex_digit_def path_steps string_steps Let_def
      fs_get_def fs_put_def)

lemma example_renewal:
  "\<exists>rq s'. mutate_active_receipt scripted_env active_receipts example_np ''nls_1'' ''me'' ''renew'' None leased
     = (Inl (Msg ''connection refused''), s') \<and> Http rq \<in> set (trace s')"
  by (simp add: running example_paths example_active_path mutate_active_receipt_def validate_holder_id_def
      validate_identifier_def is_ascii_alphanumeric_def is_ascii_lowercase_def is_ascii_uppercase_def is_ascii_digit_def
      is_control_def validate_ttl_def record_mutation_def validate_receipt_binding_def pending_request_def
      mutation_request_def provider_request_def settle_mutation_def leased_def active_receipts_def example_receipt_def
      example_lease_def validate_lease_for_lease_def validate_lease_def cong: lazy)

theorem mutation_is_recorded_first_witness:
  "\<exists>p r request s1. record_mutation scripted_env active_receipts example_np ''nls_1'' ''me'' ''renew'' None leased
       = (Inr (p, r, request), s1)
     \<and> fs_get (files s1) p = Some (File (json_text active_receipts (Some r))) \<and> rc_pending_mutation r = Some request"
proof -
  obtain rq s' where "mutate_active_receipt scripted_env active_receipts example_np ''nls_1'' ''me'' ''renew'' None leased
     = (Inl (Msg ''connection refused''), s')" and "Http rq \<in> set (trace s')"
    using example_renewal by blast
  then have "Http rq \<in> set (new_events (mutate_active_receipt scripted_env active_receipts example_np ''nls_1'' ''me''
      ''renew'' None) leased)"
    by (auto simp: new_events_def leased_def scripted_world_def)
  from mutation_is_recorded_first [OF this] show ?thesis by blast
qed

theorem definite_refusal_blocks_other_mutation_witness:
  "pending_request scripted_env (example_receipt\<lparr>rc_pending_mutation :=
       Some \<lparr>pm_operation = ''renew'', pm_request_id = ''req_1'', pm_ttl_seconds = Some 5\<rparr>\<rparr>) ''release'' None leased
     = (Inl ''a different named-lease mutation is awaiting an unambiguous response'', leased)"
  using definite_refusal_blocks_other_mutation [where operation = "''release''" and ttl = None and s = leased
      and r = "example_receipt\<lparr>rc_pending_mutation :=
         Some \<lparr>pm_operation = ''renew'', pm_request_id = ''req_1'', pm_ttl_seconds = Some 5\<rparr>\<rparr>"
      and refusal = "\<lparr>mr_outcome = InvalidTtl, mr_lease = None\<rparr>" and E = scripted_env]
  by simp

end
