(* ===== verification/Git_State.thy ===== *)
theory Git_State
  imports Process
begin

section \<open>Workspace snapshots\<close>

text \<open>
  \<open>src/src/git_state.rs\<close>: the snapshot of a workspace (HEAD, the tree of the index, the tree of
  the tracked working files written through a private index), the two synthetic commits that
  preserve it, and the search for untracked files that an incoming tree would overwrite.
\<close>

record workspace_snapshot =
  sn_head :: string
  sn_index_tree :: string
  sn_working_tree :: string

record synthetic_chain =
  ch_index_commit :: string
  ch_working_commit :: string

definition rev_verify :: "'x env \<Rightarrow> path \<Rightarrow> string \<Rightarrow> (('x, 'z) world_scheme, string, string) prog" where
  "rev_verify E project_path name = git_text E project_path [''rev-parse'', ''--verify'', name] default_options"

definition current_branch :: "'x env \<Rightarrow> path \<Rightarrow> (('x, 'z) world_scheme, string, string) prog" where
  "current_branch E project_path = git_text E project_path [''symbolic-ref'', ''--short'', ''HEAD''] default_options"

definition index_options :: "path \<Rightarrow> run_options" where
  "index_options index = default_options\<lparr>ro_env := [(''GIT_INDEX_FILE'', index)]\<rparr>"

definition temporary_index :: "'x env \<Rightarrow> path \<Rightarrow> string \<Rightarrow> bool \<Rightarrow>
    (('x, 'z) world_scheme, string, string) prog" where
  "temporary_index E project_path seed_tree update_tracked =
     andThen (tempdir E) (\<lambda>directory.
     let opts = index_options (path_join directory ''index'') in
     andThen (git E project_path [''read-tree'', seed_tree] opts) (\<lambda>_.
     andThen (onlyIf update_tracked
       (andThen (git E project_path [''add'', ''-u'', ''--'', ''.''] opts) (\<lambda>_. ret ()))) (\<lambda>_.
     git_text E project_path [''write-tree''] opts)))"

definition capture_workspace :: "'x env \<Rightarrow> path \<Rightarrow> (('x, 'z) world_scheme, string, workspace_snapshot) prog" where
  "capture_workspace E project_path =
     andThen (rev_verify E project_path ''HEAD'') (\<lambda>head.
     andThen (git_text E project_path [''write-tree''] default_options) (\<lambda>index_tree.
     andThen (temporary_index E project_path index_tree True) (\<lambda>working_tree.
     ret \<lparr>sn_head = head, sn_index_tree = index_tree, sn_working_tree = working_tree\<rparr>)))"

definition recovery_env :: "(string \<times> string) list" where
  "recovery_env =
     [(''GIT_AUTHOR_NAME'', ''RepoSync Recovery''), (''GIT_AUTHOR_EMAIL'', ''recovery@reposync.local''),
      (''GIT_COMMITTER_NAME'', ''RepoSync Recovery''), (''GIT_COMMITTER_EMAIL'', ''recovery@reposync.local'')]"

definition create_synthetic_chain :: "'x env \<Rightarrow> path \<Rightarrow> workspace_snapshot \<Rightarrow>
    (('x, 'z) world_scheme, string, synthetic_chain) prog" where
  "create_synthetic_chain E project_path snapshot =
     (let opts = default_options\<lparr>ro_env := recovery_env\<rparr> in
     andThen (git_text E project_path [''commit-tree'', sn_index_tree snapshot, ''-p'', sn_head snapshot]
       (opts\<lparr>ro_input := Some (''RepoSync synthetic index'' @ [newline])\<rparr>)) (\<lambda>index_commit.
     andThen (git_text E project_path [''commit-tree'', sn_working_tree snapshot, ''-p'', index_commit]
       (opts\<lparr>ro_input := Some (''RepoSync synthetic working tree'' @ [newline])\<rparr>)) (\<lambda>working_commit.
     ret \<lparr>ch_index_commit = index_commit, ch_working_commit = working_commit\<rparr>)))"

definition nul :: char where
  "nul = CHR 0x00"

definition nul_separated :: "string \<Rightarrow> string list" where
  "nul_separated out = filter (\<lambda>p. p \<noteq> []) (split_at_char nul out)"

definition tree_paths :: "'x env \<Rightarrow> path \<Rightarrow> string \<Rightarrow> (('x, 'z) world_scheme, string, string list) prog" where
  "tree_paths E project_path tree =
     andThen (git E project_path [''ls-tree'', ''-r'', ''--name-only'', ''-z'', tree] default_options)
       (\<lambda>res. ret (nul_separated (stdout res)))"

subsection \<open>Untracked collisions\<close>

text \<open>The proper ancestors of a tracked path, shortest first.\<close>

definition proper_ancestors :: "string \<Rightarrow> string list" where
  "proper_ancestors candidate = (let pieces = split_at_char slash candidate in
     map (\<lambda>i. join_with [slash] (take i pieces)) [1..<length pieces])"

text \<open>The first ancestor that exists, is not a directory and is not tracked.\<close>

fun ancestor_collision :: "'x env \<Rightarrow> path \<Rightarrow> string list \<Rightarrow> string list \<Rightarrow>
    (('x, 'z) world_scheme, string, string option) prog" where
  "ancestor_collision E project_path tracked [] = ret None"
| "ancestor_collision E project_path tracked (ancestor # rest) =
     andThen (attempt (symlink_metadata E (path_join project_path ancestor))) (\<lambda>metadata.
       if (case metadata of Inr n \<Rightarrow> n \<noteq> Dir \<and> ancestor \<notin> set tracked | Inl _ \<Rightarrow> False)
       then ret (Some ancestor)
       else ancestor_collision E project_path tracked rest)"

definition candidate_collision :: "'x env \<Rightarrow> path \<Rightarrow> string list \<Rightarrow> string \<Rightarrow>
    (('x, 'z) world_scheme, string, string option) prog" where
  "candidate_collision E project_path tracked candidate =
     andThen (ancestor_collision E project_path tracked (proper_ancestors candidate)) (\<lambda>ancestor.
     if ancestor \<noteq> None then ret ancestor
     else if candidate \<in> set tracked then ret None
     else andThen (attempt (symlink_metadata E (path_join project_path candidate))) (\<lambda>metadata.
       case metadata of
         Inl _ \<Rightarrow> ret None
       | Inr n \<Rightarrow>
           if n \<noteq> Dir then ret (Some candidate)
           else if \<not> (\<exists>path\<in>set tracked. starts_with path (candidate @ [slash])) then ret (Some candidate)
           else andThen (git E project_path [''ls-files'', ''--others'', ''-z'', ''--'', candidate] default_options)
             (\<lambda>res. ret (if stdout res \<noteq> [] then Some candidate else None))))"

definition find_untracked_collisions :: "'x env \<Rightarrow> path \<Rightarrow> string list \<Rightarrow>
    (('x, 'z) world_scheme, string, string list) prog" where
  "find_untracked_collisions E project_path candidate_tracked =
     andThen (git E project_path [''ls-files'', ''--cached'', ''-z''] default_options) (\<lambda>current.
     let tracked = nul_separated (stdout current) in
     andThen (foldEach (\<lambda>collisions candidate.
         andThen (candidate_collision E project_path tracked candidate) (\<lambda>c.
         ret (case c of None \<Rightarrow> collisions | Some p \<Rightarrow> collisions @ [p]))) [] candidate_tracked) (\<lambda>collisions.
     ret (sort (remdups collisions))))"

definition read_head_ref :: "'x env \<Rightarrow> path \<Rightarrow> (('x, 'z) world_scheme, string, string) prog" where
  "read_head_ref E project_path = git_text E project_path [''symbolic-ref'', ''HEAD''] default_options"

definition git_dir :: "'x env \<Rightarrow> path \<Rightarrow> (('x, 'z) world_scheme, string, path) prog" where
  "git_dir E project_path =
     andThen (git_text E project_path [''rev-parse'', ''--git-dir''] default_options) (\<lambda>raw.
     ret (if is_absolute raw then raw else path_join project_path raw))"

subsection \<open>Commands that leave the workspace alone\<close>

text \<open>
  \<open>workspace_safe p ev\<close>: the event cannot change the visible working tree, the index or the HEAD
  of the checkout at \<open>p\<close>. A process that runs elsewhere is safe; in the checkout only Git is, and
  only the commands that read, that write objects, that work on a private index
  (\<open>GIT_INDEX_FILE\<close>), that move a ref of RepoSync's own namespace, or that add and remove a
  separate worktree and its candidate branch. A file operation is safe: the source writes its own
  state with those.
\<close>

fun subcommand :: "string list \<Rightarrow> string list" where
  "subcommand (a # b # as) = (if a = ''-c'' then subcommand as else a # b # as)"
| "subcommand as = as"

definition reading_commands :: "string list" where
  "reading_commands = [''ls-files'', ''rev-parse'', ''write-tree'', ''merge-base'',
     ''rev-list'', ''commit-tree'', ''diff'', ''ls-tree'', ''for-each-ref'']"

definition recovery_namespace :: string where
  "recovery_namespace = ''refs/resync/''"

fun own_ref_update :: "string list \<Rightarrow> bool" where
  "own_ref_update (a # r # _) =
     (if a = ''-d'' then starts_with r recovery_namespace else starts_with a recovery_namespace)"
| "own_ref_update _ = False"

definition safe_git :: "string list \<Rightarrow> run_options \<Rightarrow> bool" where
  "safe_git args opts = (case subcommand args of
       [] \<Rightarrow> False
     | c # rest \<Rightarrow>
         c \<in> set reading_commands
       \<or> (c \<in> {''read-tree'', ''add''} \<and> map_of (ro_env opts) ''GIT_INDEX_FILE'' \<noteq> None)
       \<or> (c = ''symbolic-ref'' \<and> rest \<in> {[''HEAD''], [''--short'', ''HEAD'']})
       \<or> (c = ''update-ref'' \<and> own_ref_update rest)
       \<or> (c = ''worktree'' \<and> rest \<noteq> [] \<and> hd rest \<in> {''add'', ''remove''})
       \<or> (c = ''branch'' \<and> length rest = 2 \<and> hd rest = ''-D'' \<and> starts_with (rest ! 1) ''resync-candidate-''))"

definition workspace_safe :: "path \<Rightarrow> event \<Rightarrow> bool" where
  "workspace_safe project ev = (case ev of
       Spawn program args opts \<Rightarrow>
         ro_cwd opts \<noteq> Some project \<or> (program = ''git'' \<and> safe_git args opts)
     | _ \<Rightarrow> True)"

lemma workspace_safe_simps [simp]:
  "workspace_safe p (WriteFile q c m)" "workspace_safe p (MakeDirs q)" "workspace_safe p (Chmod q m)"
  "workspace_safe p (Sync q)" "workspace_safe p (Rename q r)" "workspace_safe p (RemoveFile q)"
  "workspace_safe p (ReadFile q)" "workspace_safe p (ReadDir q)" "workspace_safe p (Stat q)"
  "workspace_safe p (RemoveDir q)" "workspace_safe p (Http rq)"
  by (simp_all add: workspace_safe_def)

lemma workspace_safe_git:
  "workspace_safe p (git_event q args opts) \<longleftrightarrow> q \<noteq> p \<or> safe_git args opts"
  by (simp add: workspace_safe_def safe_git_def split: list.splits)

lemmas safe_git_simps = workspace_safe_git safe_git_def reading_commands_def

lemma emits_onlyIf_git [effects]:
  "(b \<Longrightarrow> emits P m) \<Longrightarrow> emits P (onlyIf b (andThen m (\<lambda>_. ret ())))"
  by (auto simp: onlyIf_def)

lemma emits_rev_verify: "emits (workspace_safe p) (rev_verify E q name)"
  by (auto simp: rev_verify_def safe_git_simps intro!: effects)

lemma emits_current_branch: "emits (workspace_safe p) (current_branch E q)"
  by (auto simp: current_branch_def safe_git_simps intro!: effects)

lemma emits_read_head_ref: "emits (workspace_safe p) (read_head_ref E q)"
  by (auto simp: read_head_ref_def safe_git_simps intro!: effects)

lemma emits_temporary_index: "emits (workspace_safe p) (temporary_index E q seed b)"
  by (auto simp: temporary_index_def index_options_def safe_git_simps Let_def intro!: effects)

lemma emits_capture_workspace: "emits (workspace_safe p) (capture_workspace E q)"
  by (auto simp: capture_workspace_def safe_git_simps
      intro!: effects emits_rev_verify emits_temporary_index)

lemma emits_create_synthetic_chain: "emits (workspace_safe p) (create_synthetic_chain E q sn)"
  by (auto simp: create_synthetic_chain_def Let_def safe_git_simps intro!: effects)

lemma emits_tree_paths: "emits (workspace_safe p) (tree_paths E q t)"
  by (auto simp: tree_paths_def safe_git_simps intro!: effects)

lemma emits_ancestor_collision: "emits (workspace_safe p) (ancestor_collision E q tracked as)"
  by (induction as) (auto intro!: effects)

lemma emits_candidate_collision: "emits (workspace_safe p) (candidate_collision E q tracked c)"
  by (auto simp: candidate_collision_def safe_git_simps
      intro!: effects emits_ancestor_collision split: sum.splits)

lemma emits_find_untracked_collisions: "emits (workspace_safe p) (find_untracked_collisions E q cs)"
  by (auto simp: find_untracked_collisions_def Let_def safe_git_simps
      intro!: effects emits_candidate_collision)

lemmas emits_git_state = emits_rev_verify emits_current_branch emits_read_head_ref
  emits_temporary_index emits_capture_workspace emits_create_synthetic_chain emits_tree_paths
  emits_find_untracked_collisions

end
