(* ===== verification/Transaction.thy ===== *)
theory Transaction
  imports Git_State Local_State
begin

section \<open>Reconciliation transactions\<close>

text \<open>
  \<open>src/src/transaction.rs\<close>: preparing a reconciliation in an isolated worktree, installing a
  prepared candidate under a journal record, recovering an interrupted installation. Phases are
  the strings of the source. Every definition takes the environment \<open>E\<close> and the codec \<open>C\<close> of
  transaction records; Rust's \<open>&mut Transaction\<close> is returned.
\<close>

subsection \<open>Records\<close>

record candidate =
  cd_working_commit :: string
  cd_index_commit :: string
  cd_real_head :: string
  cd_working_tree :: string
  cd_index_tree :: string

record transaction_conflict =
  tc_kind :: string
  tc_paths :: "string list"
  tc_detail :: string

record transaction =
  tx_id :: string
  tx_project_path :: path
  tx_previous_remote_oid :: string
  tx_target_remote_oid :: string
  tx_snapshot :: workspace_snapshot
  tx_recovery_ref :: string
  tx_head_ref :: string
  tx_phase :: string
  tx_created_at :: string
  tx_path :: path
  tx_candidate :: "candidate option"
  tx_conflict :: "transaction_conflict option"
  tx_completed_at :: "string option"
  tx_recovered_at :: "string option"

record transaction_retention =
  debug_history :: bool

definition default_retention :: transaction_retention where
  "default_retention = \<lparr>debug_history = False\<rparr>"

record prepared_install =
  pi_project_path :: path
  pi_previous_remote_oid :: string
  pi_target_remote_oid :: string
  pi_transaction :: transaction
  pi_retention :: transaction_retention

record reconcile_result =
  rr_outcome :: string
  rr_transaction_id :: "string option"
  rr_recovery_ref :: "string option"
  rr_head :: "string option"
  rr_old_head :: "string option"
  rr_new_head :: "string option"
  rr_changed_paths :: "string list"
  rr_detail :: "string option"
  rr_paths :: "string list"

datatype prepared_reconciliation = Complete reconcile_result | Ready prepared_install

definition empty_result :: reconcile_result where
  "empty_result = \<lparr>rr_outcome = [], rr_transaction_id = None, rr_recovery_ref = None, rr_head = None,
     rr_old_head = None, rr_new_head = None, rr_changed_paths = [], rr_detail = None, rr_paths = []\<rparr>"

definition debug_history_max_records :: nat where
  "debug_history_max_records = 128"

definition debug_history_max_bytes :: nat where
  "debug_history_max_bytes = 256 * 1024 * 1024"

definition read_retention :: "path \<Rightarrow> (('x, 'z) world_scheme, 'e, transaction_retention) prog" where
  "read_retention state_root =
     andThen (is_file (path_join state_root ''transaction-debug'')) (\<lambda>b. ret \<lparr>debug_history = b\<rparr>)"

subsection \<open>Small Git helpers\<close>

definition is_ancestor :: "'x env \<Rightarrow> path \<Rightarrow> string \<Rightarrow> string \<Rightarrow> (('x, 'z) world_scheme, string, bool) prog" where
  "is_ancestor E project_path ancestor descendant =
     andThen (git E project_path [''merge-base'', ''--is-ancestor'', ancestor, descendant] allow_failure_options)
       (\<lambda>res. ret (code res = 0))"

definition changed_paths :: "'x env \<Rightarrow> path \<Rightarrow> string \<Rightarrow> string \<Rightarrow> (('x, 'z) world_scheme, string, string list) prog" where
  "changed_paths E project_path old_oid new_oid =
     andThen (git E project_path [''diff'', ''--name-only'', ''-z'', old_oid, new_oid] default_options)
       (\<lambda>res. ret (nul_separated (stdout res)))"

definition rev_parse :: "'x env \<Rightarrow> path \<Rightarrow> string \<Rightarrow> (('x, 'z) world_scheme, string, string) prog" where
  "rev_parse E p v = git_text E p [''rev-parse'', v] default_options"

definition recovery_prefix :: string where
  "recovery_prefix = ''refs/resync/recovery/''"

definition validate_recovery_ref :: "string \<Rightarrow> (string, unit) result" where
  "validate_recovery_ref reference =
     (if \<not> starts_with reference recovery_prefix \<or> (\<exists>g\<in>set (utf8_chars reference). ws_char g)
      then Inl (''refusing to operate on invalid recovery ref '' @ reference) else Inr ())"

definition write_recovery_refs :: "'x env \<Rightarrow> path \<Rightarrow> string \<Rightarrow> workspace_snapshot \<Rightarrow> synthetic_chain \<Rightarrow>
    (('x, 'z) world_scheme, string, string) prog" where
  "write_recovery_refs E project_path txid snapshot chain =
     (let base = recovery_prefix @ txid in
     andThen (forEach (\<lambda>(suffix, oid).
         andThen (git E project_path [''update-ref'', base @ ''/'' @ suffix, oid] default_options) (\<lambda>_. ret ()))
       [(''head'', sn_head snapshot), (''index'', ch_index_commit chain), (''working'', ch_working_commit chain)])
     (\<lambda>_. ret base))"

definition delete_recovery_refs :: "'x env \<Rightarrow> path \<Rightarrow> string \<Rightarrow> (('x, 'z) world_scheme, string, unit) prog" where
  "delete_recovery_refs E project_path base =
     forEach (\<lambda>suffix.
         andThen (git E project_path [''update-ref'', ''-d'', base @ ''/'' @ suffix] default_options) (\<lambda>_. ret ()))
       [''head'', ''index'', ''working'', ''candidate'']"

definition remove_transaction_artifacts :: "'x env \<Rightarrow> transaction \<Rightarrow> (('x, 'z) world_scheme, string, unit) prog" where
  "remove_transaction_artifacts E transaction =
     andThen (delete_recovery_refs E (tx_project_path transaction) (tx_recovery_ref transaction)) (\<lambda>_.
     remove_if_present E (tx_path transaction))"

subsection \<open>Diagnostic history\<close>

text \<open>A stable sort by a key, largest first: \<open>sort_by(|l, r| r.cmp(l))\<close>.\<close>

definition sort_desc :: "('a \<Rightarrow> 'k::linorder) \<Rightarrow> 'a list \<Rightarrow> 'a list" where
  "sort_desc f xs = List.rev (sort_key f (List.rev xs))"

definition is_json_path :: "path \<Rightarrow> bool" where
  "is_json_path p = (extension p = Some ''json'')"

text \<open>The records of a directory that may be pruned, with their size in bytes.\<close>

definition history_record :: "'x env \<Rightarrow> transaction codec \<Rightarrow> string option \<Rightarrow> (nat \<times> transaction) list \<Rightarrow> path \<Rightarrow>
    (('x, 'z) world_scheme, string, (nat \<times> transaction) list) prog" where
  "history_record E C protected_id history path =
     (if \<not> is_json_path path then ret history
      else andThen (io (read_file E path)) (\<lambda>contents.
        case dec C contents of
          None \<Rightarrow> ret history
        | Some transaction \<Rightarrow>
            if tx_phase transaction \<in> {''INSTALLING'', ''CONFLICTED''} \<or> protected_id = Some (tx_id transaction)
            then ret history
            else andThen (io (symlink_metadata E path)) (\<lambda>_.
              ret (history @ [(length contents, transaction)]))))"

text \<open>The loop over the history, newest first: a record is kept while the budget lasts and removed
  otherwise.\<close>

fun prune_loop :: "'x env \<Rightarrow> nat \<Rightarrow> nat \<Rightarrow> (nat \<times> transaction) list \<Rightarrow> (('x, 'z) world_scheme, string, unit) prog" where
  "prune_loop E retained_count retained_bytes [] = ret ()"
| "prune_loop E retained_count retained_bytes ((bytes, transaction) # rest) =
     (if retained_count < debug_history_max_records
         \<and> saturating_add_u64 retained_bytes bytes \<le> debug_history_max_bytes
      then prune_loop E (retained_count + 1) (retained_bytes + bytes) rest
      else andThen (remove_transaction_artifacts E transaction) (\<lambda>_.
        prune_loop E retained_count retained_bytes rest))"

definition prune_debug_history :: "'x env \<Rightarrow> transaction codec \<Rightarrow> path \<Rightarrow> string option \<Rightarrow>
    (('x, 'z) world_scheme, string, unit) prog" where
  "prune_debug_history E C root protected_id =
     andThen (attempt (read_dir E root)) (\<lambda>entries. case entries of
       Inl _ \<Rightarrow> ret ()
     | Inr paths \<Rightarrow>
         andThen (foldEach (history_record E C protected_id) [] paths) (\<lambda>history.
         prune_loop E (if protected_id \<noteq> None then 1 else 0) 0
           (sort_desc (\<lambda>h. tx_created_at (snd h)) history)))"

definition persist_debug_transaction :: "'x env \<Rightarrow> transaction codec \<Rightarrow> transaction \<Rightarrow>
    (('x, 'z) world_scheme, string, unit) prog" where
  "persist_debug_transaction E C transaction =
     andThen (write_json E C (tx_path transaction) transaction private_mode) (\<lambda>_.
     prune_debug_history E C (case path_parent (tx_path transaction) of None \<Rightarrow> ''.'' | Some d \<Rightarrow> d)
       (Some (tx_id transaction)))"

text \<open>\<open>if retention.debug_history { persist } else { remove }\<close>, the end of every transaction.\<close>

definition settle_transaction :: "'x env \<Rightarrow> transaction codec \<Rightarrow> transaction_retention \<Rightarrow> transaction \<Rightarrow>
    (('x, 'z) world_scheme, string, unit) prog" where
  "settle_transaction E C retention transaction =
     (if debug_history retention then persist_debug_transaction E C transaction
      else remove_transaction_artifacts E transaction)"

definition clear_resolved_conflicts :: "'x env \<Rightarrow> transaction codec \<Rightarrow> path \<Rightarrow> path \<Rightarrow> transaction_retention \<Rightarrow>
    (('x, 'z) world_scheme, string, unit) prog" where
  "clear_resolved_conflicts E C root project_path retention =
     (if debug_history retention then prune_debug_history E C root None
      else andThen (attempt (read_dir E root)) (\<lambda>entries. case entries of
        Inl _ \<Rightarrow> ret ()
      | Inr paths \<Rightarrow> forEach (\<lambda>path.
          if \<not> is_json_path path then ret ()
          else andThen (io (read_file E path)) (\<lambda>contents.
            case dec C contents of
              None \<Rightarrow> bail (''invalid transaction record '' @ path)
            | Some transaction \<Rightarrow>
                onlyIf (same_path (tx_project_path transaction) project_path \<and> tx_phase transaction = ''CONFLICTED'')
                  (remove_transaction_artifacts E transaction))) paths))"

subsection \<open>Installing a candidate\<close>

definition install_rejected_detail :: string where
  "install_rejected_detail =
     ''workspace changed while reconciliation was prepared; retry at a new lease boundary''"

text \<open>The three commands that change the workspace, in the order of the source.\<close>

definition reset_worktree_args :: "string \<Rightarrow> string list" where
  "reset_worktree_args tree = [''read-tree'', ''--reset'', ''-u'', tree]"

definition read_index_args :: "string \<Rightarrow> string list" where
  "read_index_args tree = [''read-tree'', tree]"

definition move_head_args :: "transaction \<Rightarrow> candidate \<Rightarrow> string list" where
  "move_head_args transaction cand =
     [''update-ref'', tx_head_ref transaction, cd_real_head cand, sn_head (tx_snapshot transaction)]"

text \<open>The checks at the install boundary: the workspace is still the one of the snapshot and no
  untracked file is in the way.\<close>

definition install_precheck :: "'x env \<Rightarrow> path \<Rightarrow> transaction \<Rightarrow> candidate \<Rightarrow>
    (('x, 'z) world_scheme, string, transaction_conflict option) prog" where
  "install_precheck E project_path transaction cand =
     andThen (capture_workspace E project_path) (\<lambda>latest.
     if latest \<noteq> tx_snapshot transaction
     then ret (Some \<lparr>tc_kind = ''install-rejected'', tc_paths = [], tc_detail = install_rejected_detail\<rparr>)
     else
     andThen (tree_paths E project_path (cd_working_tree cand)) (\<lambda>tracked.
     andThen (find_untracked_collisions E project_path tracked) (\<lambda>collisions.
     ret (if collisions \<noteq> []
       then Some \<lparr>tc_kind = ''untracked-collision'', tc_paths = collisions,
         tc_detail = ''incoming tracked paths collide with untracked files: '' @ join_with '', '' collisions\<rparr>
       else None))))"

text \<open>The journal record, then the three commands.\<close>

definition apply_candidate :: "'x env \<Rightarrow> transaction codec \<Rightarrow> path \<Rightarrow> transaction \<Rightarrow> candidate \<Rightarrow>
    (('x, 'z) world_scheme, string, unit) prog" where
  "apply_candidate E C project_path installing cand =
     andThen (write_json E C (tx_path installing) installing private_mode) (\<lambda>_.
     andThen (git E project_path (reset_worktree_args (cd_working_tree cand)) default_options) (\<lambda>_.
     andThen (git E project_path (read_index_args (cd_index_tree cand)) default_options) (\<lambda>_.
     andThen (git E project_path (move_head_args installing cand) default_options) (\<lambda>_.
     ret ()))))"

definition install_candidate :: "'x env \<Rightarrow> transaction codec \<Rightarrow> path \<Rightarrow> transaction \<Rightarrow> candidate \<Rightarrow>
    transaction_retention \<Rightarrow> (('x, 'z) world_scheme, string, transaction \<times> transaction_conflict option) prog" where
  "install_candidate E C project_path transaction cand retention =
     andThen (install_precheck E project_path transaction cand) (\<lambda>conflict.
     if conflict \<noteq> None then ret (transaction, conflict)
     else
     let installing = transaction\<lparr>tx_phase := ''INSTALLING''\<rparr> in
     andThen (apply_candidate E C project_path installing cand) (\<lambda>_.
     andThen (now_rfc3339 E) (\<lambda>t.
     let completed = installing\<lparr>tx_phase := ''COMPLETED'', tx_completed_at := Some t\<rparr> in
     andThen (settle_transaction E C retention completed) (\<lambda>_.
     ret (completed, None)))))"

subsection \<open>Preparing a candidate\<close>

definition last_chars :: "nat \<Rightarrow> string \<Rightarrow> string" where
  "last_chars n s = concat (List.rev (take n (List.rev (utf8_chars s))))"

definition rebase_env :: "(string \<times> string) list" where
  "rebase_env = [(''GIT_SEQUENCE_EDITOR'', '':''), (''GIT_EDITOR'', '':''),
     (''GIT_COMMITTER_NAME'', ''RepoSync Reconciler''), (''GIT_COMMITTER_EMAIL'', ''reconcile@reposync.local'')]"

definition no_hooks :: "string list" where
  "no_hooks = [''-c'', ''core.hooksPath=/dev/null'']"

text \<open>The closure of \<open>prepare_reconciliation_with_retention\<close>: rebase the synthetic chain in a
  temporary worktree and read the candidate off the result.\<close>

definition rebase_candidate :: "'x env \<Rightarrow> transaction codec \<Rightarrow> path \<Rightarrow> string \<Rightarrow> string \<Rightarrow> transaction_retention \<Rightarrow>
    transaction \<Rightarrow> synthetic_chain \<Rightarrow> path \<Rightarrow> string \<Rightarrow> (('x, 'z) world_scheme, string, prepared_reconciliation) prog" where
  "rebase_candidate E C project_path previous_remote_oid target_remote_oid retention transaction chain temporary branch =
     andThen (git E project_path (no_hooks @ [''worktree'', ''add'', ''--detach'', temporary, ch_working_commit chain])
       default_options) (\<lambda>_.
     andThen (git E temporary (no_hooks @ [''switch'', ''-c'', branch]) default_options) (\<lambda>_.
     andThen (git E temporary (no_hooks @ [''rebase'', ''--keep-empty'', ''--onto'', target_remote_oid,
         previous_remote_oid, branch]) (allow_failure_options\<lparr>ro_env := rebase_env\<rparr>)) (\<lambda>result.
     if code result \<noteq> 0
     then andThen (git E temporary (no_hooks @ [''rebase'', ''--abort'']) allow_failure_options) (\<lambda>_.
          let detail = trim (last_chars 4000 (stderr result));
              conflicted = transaction\<lparr>tx_phase := ''CONFLICTED'',
                tx_conflict := Some \<lparr>tc_kind = ''git-rebase'', tc_paths = [], tc_detail = detail\<rparr>\<rparr> in
          andThen (write_json E C (tx_path conflicted) conflicted private_mode) (\<lambda>_.
          ret (Complete (empty_result\<lparr>rr_outcome := ''conflict'',
             rr_transaction_id := Some (tx_id transaction),
             rr_recovery_ref := Some (tx_recovery_ref transaction),
             rr_detail := Some detail\<rparr>))))
     else
     andThen (rev_parse E temporary ''HEAD'') (\<lambda>working_commit.
     andThen (rev_parse E temporary ''HEAD^'') (\<lambda>index_commit.
     andThen (rev_parse E temporary ''HEAD^^'') (\<lambda>real_head.
     andThen (rev_parse E temporary (working_commit @ ''^{tree}'')) (\<lambda>working_tree.
     andThen (rev_parse E temporary (index_commit @ ''^{tree}'')) (\<lambda>index_tree.
     let cand = \<lparr>cd_working_commit = working_commit, cd_index_commit = index_commit,
           cd_real_head = real_head, cd_working_tree = working_tree, cd_index_tree = index_tree\<rparr>;
         ready = transaction\<lparr>tx_candidate := Some cand\<rparr> in
     andThen (onlyIf (debug_history retention) (persist_debug_transaction E C ready)) (\<lambda>_.
     andThen (git E project_path [''update-ref'', tx_recovery_ref transaction @ ''/candidate'', cd_working_commit cand]
       default_options) (\<lambda>_.
     ret (Ready \<lparr>pi_project_path = project_path, pi_previous_remote_oid = previous_remote_oid,
        pi_target_remote_oid = target_remote_oid, pi_transaction = ready, pi_retention = retention\<rparr>)))))))))))"

definition candidate_branch :: "string \<Rightarrow> string" where
  "candidate_branch txid = ''resync-candidate-'' @ txid"

definition show_int :: "int \<Rightarrow> string" where
  "show_int n = (if n < 0 then CHR ''-'' # show_digits (nat (- n)) else show_digits (nat n))"

text \<open>The clock counts nanoseconds; a transaction is named by its milliseconds and a UUID.\<close>

definition new_transaction_id :: "'x env \<Rightarrow> (('x, 'z) world_scheme, string, string) prog" where
  "new_transaction_id E = andThen (now E) (\<lambda>t. andThen (new_uuid E) (\<lambda>u.
     ret (show_int (t div 1000000) @ ''-'' @ u)))"

text \<open>The checks before anything is written, up to the snapshot.\<close>

definition prepare_checks :: "'x env \<Rightarrow> path \<Rightarrow> string \<Rightarrow> string \<Rightarrow> (('x, 'z) world_scheme, string, workspace_snapshot) prog" where
  "prepare_checks E project_path previous_remote_oid target_remote_oid =
     (if previous_remote_oid = [] \<or> target_remote_oid = []
      then bail ''previousRemoteOid and targetRemoteOid are required''
      else
      andThen (mapErr (\<lambda>_. ''detached or unborn HEAD is unsupported in RepoSync V1'')
        (current_branch E project_path)) (\<lambda>_.
      andThen (git E project_path [''ls-files'', ''--unmerged''] default_options) (\<lambda>unresolved.
      if trim (stdout unresolved) \<noteq> []
      then bail ''an unmerged index is unsupported; resolve or abort the existing Git operation first''
      else capture_workspace E project_path)))"

definition prepare_ancestry :: "'x env \<Rightarrow> path \<Rightarrow> string \<Rightarrow> string \<Rightarrow> workspace_snapshot \<Rightarrow>
    (('x, 'z) world_scheme, string, unit) prog" where
  "prepare_ancestry E project_path previous_remote_oid target_remote_oid snapshot =
     andThen (is_ancestor E project_path previous_remote_oid (sn_head snapshot)) (\<lambda>local_base.
     if \<not> local_base then bail ''local HEAD does not descend from the last applied remote revision'' else
     andThen (is_ancestor E project_path previous_remote_oid target_remote_oid) (\<lambda>remote_base.
     if \<not> remote_base then bail ''remote branch was rewritten or does not descend from the last applied revision'' else
     andThen (git E project_path [''rev-list'', ''--merges'', previous_remote_oid @ ''..'' @ sn_head snapshot]
       default_options) (\<lambda>merges.
     if trim (stdout merges) \<noteq> []
     then bail ''merge commits in unpublished local history are unsupported in RepoSync V1''
     else ret ())))"

text \<open>The identity, the synthetic commits, the recovery references and the first record.\<close>

definition open_transaction :: "'x env \<Rightarrow> path \<Rightarrow> string \<Rightarrow> string \<Rightarrow> path option \<Rightarrow> workspace_snapshot \<Rightarrow>
    (('x, 'z) world_scheme, string, transaction \<times> synthetic_chain) prog" where
  "open_transaction E project_path previous_remote_oid target_remote_oid transaction_root snapshot =
     andThen (new_transaction_id E) (\<lambda>txid.
     andThen (create_synthetic_chain E project_path snapshot) (\<lambda>chain.
     andThen (write_recovery_refs E project_path txid snapshot chain) (\<lambda>recovery_ref.
     let root = (case transaction_root of Some r \<Rightarrow> r | None \<Rightarrow> sp_transactions (state_paths_of E)) in
     andThen (io (create_dir_all E root)) (\<lambda>_.
     andThen (read_head_ref E project_path) (\<lambda>head_ref.
     andThen (now_rfc3339 E) (\<lambda>created_at.
     ret (\<lparr>tx_id = txid, tx_project_path = project_path,
           tx_previous_remote_oid = previous_remote_oid, tx_target_remote_oid = target_remote_oid,
           tx_snapshot = snapshot, tx_recovery_ref = recovery_ref, tx_head_ref = head_ref,
           tx_phase = ''PREPARING'', tx_created_at = created_at, tx_path = path_join root (txid @ ''.json''),
           tx_candidate = None, tx_conflict = None, tx_completed_at = None, tx_recovered_at = None\<rparr>,
          chain)))))))"

text \<open>The rebase in a temporary worktree, which is removed whatever the outcome.\<close>

definition prepare_candidate :: "'x env \<Rightarrow> transaction codec \<Rightarrow> transaction_retention \<Rightarrow> transaction \<Rightarrow>
    synthetic_chain \<Rightarrow> (('x, 'z) world_scheme, string, prepared_reconciliation) prog" where
  "prepare_candidate E C retention transaction chain =
     (let project_path = tx_project_path transaction; branch = candidate_branch (tx_id transaction) in
     andThen (onlyIf (debug_history retention) (persist_debug_transaction E C transaction)) (\<lambda>_.
     andThen (tempdir E) (\<lambda>temporary.
     andThen (attempt (rebase_candidate E C project_path (tx_previous_remote_oid transaction)
         (tx_target_remote_oid transaction) retention transaction chain temporary branch)) (\<lambda>outcome.
     andThen (ignore (git E project_path [''worktree'', ''remove'', ''--force'', temporary] allow_failure_options)) (\<lambda>_.
     andThen (ignore (git E project_path [''branch'', ''-D'', branch] allow_failure_options)) (\<lambda>_.
     andThen (onlyIf (\<not> is_ok outcome \<and> \<not> debug_history retention)
       (ignore (remove_transaction_artifacts E transaction))) (\<lambda>_.
     lift outcome)))))))"

definition prepare_reconciliation :: "'x env \<Rightarrow> transaction codec \<Rightarrow> path \<Rightarrow> string \<Rightarrow> string \<Rightarrow> path option \<Rightarrow>
    transaction_retention \<Rightarrow> (('x, 'z) world_scheme, string, prepared_reconciliation) prog" where
  "prepare_reconciliation E C project_path previous_remote_oid target_remote_oid transaction_root retention =
     andThen (prepare_checks E project_path previous_remote_oid target_remote_oid) (\<lambda>snapshot.
     if previous_remote_oid = target_remote_oid
     then ret (Complete (empty_result\<lparr>rr_outcome := ''current'', rr_head := Some (sn_head snapshot)\<rparr>))
     else
     andThen (prepare_ancestry E project_path previous_remote_oid target_remote_oid snapshot) (\<lambda>_.
     andThen (open_transaction E project_path previous_remote_oid target_remote_oid transaction_root snapshot)
       (\<lambda>(transaction, chain). prepare_candidate E C retention transaction chain)))"

subsection \<open>Installing and discarding what was prepared\<close>

definition install_prepared :: "'x env \<Rightarrow> transaction codec \<Rightarrow> prepared_install \<Rightarrow>
    (('x, 'z) world_scheme, string, reconcile_result) prog" where
  "install_prepared E C prepared =
     (let transaction = pi_transaction prepared; retention = pi_retention prepared in
     andThen (lift (ok_or ''prepared reconciliation has no candidate'' (tx_candidate transaction))) (\<lambda>cand.
     andThen (install_candidate E C (pi_project_path prepared) transaction cand retention) (\<lambda>(transaction', conflict).
     case conflict of
       Some conflict \<Rightarrow>
         if tc_kind conflict = ''install-rejected''
         then andThen (now_rfc3339 E) (\<lambda>t.
              andThen (settle_transaction E C retention
                (transaction'\<lparr>tx_phase := ''RETRY'', tx_completed_at := Some t\<rparr>)) (\<lambda>_.
              ret (empty_result\<lparr>rr_outcome := ''retry'', rr_transaction_id := Some (tx_id transaction),
                 rr_detail := Some (tc_detail conflict)\<rparr>)))
         else let conflicted = transaction'\<lparr>tx_phase := ''CONFLICTED'', tx_conflict := Some conflict\<rparr> in
              andThen (write_json E C (tx_path conflicted) conflicted private_mode) (\<lambda>_.
              ret (empty_result\<lparr>rr_outcome := ''conflict'', rr_transaction_id := Some (tx_id transaction),
                 rr_recovery_ref := Some (tx_recovery_ref transaction),
                 rr_detail := Some (tc_detail conflict), rr_paths := tc_paths conflict\<rparr>))
     | None \<Rightarrow>
         andThen (changed_paths E (pi_project_path prepared) (pi_previous_remote_oid prepared)
           (pi_target_remote_oid prepared)) (\<lambda>paths.
         ret (empty_result\<lparr>rr_outcome := ''applied'', rr_transaction_id := Some (tx_id transaction),
            rr_old_head := Some (sn_head (tx_snapshot transaction)),
            rr_new_head := Some (cd_real_head cand), rr_changed_paths := paths\<rparr>)))))"

fun install_prepared_reconciliation :: "'x env \<Rightarrow> transaction codec \<Rightarrow> prepared_reconciliation \<Rightarrow>
    (('x, 'z) world_scheme, string, reconcile_result) prog" where
  "install_prepared_reconciliation E C (Complete result) = ret result"
| "install_prepared_reconciliation E C (Ready prepared) = install_prepared E C prepared"

fun discard_prepared_reconciliation :: "'x env \<Rightarrow> transaction codec \<Rightarrow> prepared_reconciliation \<Rightarrow>
    (('x, 'z) world_scheme, string, unit) prog" where
  "discard_prepared_reconciliation E C (Complete result) = ret ()"
| "discard_prepared_reconciliation E C (Ready prepared) =
     andThen (now_rfc3339 E) (\<lambda>t.
     settle_transaction E C (pi_retention prepared)
       ((pi_transaction prepared)\<lparr>tx_phase := ''RETRY'', tx_completed_at := Some t\<rparr>))"

definition reconcile_workspace_with_retention :: "'x env \<Rightarrow> transaction codec \<Rightarrow> path \<Rightarrow> string \<Rightarrow> string \<Rightarrow>
    path option \<Rightarrow> transaction_retention \<Rightarrow> (('x, 'z) world_scheme, string, reconcile_result) prog" where
  "reconcile_workspace_with_retention E C project_path previous_remote_oid target_remote_oid transaction_root retention =
     andThen (prepare_reconciliation E C project_path previous_remote_oid target_remote_oid transaction_root retention)
       (install_prepared_reconciliation E C)"

definition reconcile_workspace :: "'x env \<Rightarrow> transaction codec \<Rightarrow> path \<Rightarrow> string \<Rightarrow> string \<Rightarrow> path option \<Rightarrow>
    (('x, 'z) world_scheme, string, reconcile_result) prog" where
  "reconcile_workspace E C project_path previous_remote_oid target_remote_oid transaction_root =
     reconcile_workspace_with_retention E C project_path previous_remote_oid target_remote_oid transaction_root
       default_retention"

subsection \<open>Recovering an interrupted installation\<close>

definition rollback_workspace :: "'x env \<Rightarrow> transaction \<Rightarrow> (('x, 'z) world_scheme, string, unit) prog" where
  "rollback_workspace E transaction =
     andThen (git E (tx_project_path transaction)
       (reset_worktree_args (sn_working_tree (tx_snapshot transaction))) default_options) (\<lambda>_.
     andThen (git E (tx_project_path transaction)
       (read_index_args (sn_index_tree (tx_snapshot transaction))) default_options) (\<lambda>_. ret ()))"

definition recover_installing :: "'x env \<Rightarrow> transaction codec \<Rightarrow> transaction_retention \<Rightarrow> path \<Rightarrow> transaction \<Rightarrow>
    (('x, 'z) world_scheme, string, transaction) prog" where
  "recover_installing E C retention path transaction =
     andThen (capture_workspace E (tx_project_path transaction)) (\<lambda>current.
     andThen (lift (ok_or ''installing transaction has no candidate'' (tx_candidate transaction))) (\<lambda>cand.
     if sn_head current = cd_real_head cand
     then andThen (now_rfc3339 E) (\<lambda>t.
          let completed = transaction\<lparr>tx_phase := ''COMPLETED'', tx_recovered_at := Some t\<rparr> in
          andThen (settle_transaction E C retention completed) (\<lambda>_. ret completed))
     else if sn_head current = sn_head (tx_snapshot transaction)
     then andThen (rollback_workspace E transaction) (\<lambda>_.
          andThen (now_rfc3339 E) (\<lambda>t.
          let rolled_back = transaction\<lparr>tx_phase := ''ROLLED_BACK'', tx_recovered_at := Some t\<rparr> in
          andThen (settle_transaction E C retention rolled_back) (\<lambda>_. ret rolled_back)))
     else bail (''transaction '' @ (case file_name path of None \<Rightarrow> [] | Some n \<Rightarrow> n)
            @ '' needs manual recovery; HEAD matches neither preserved state'')))"

definition recover_transaction :: "'x env \<Rightarrow> transaction codec \<Rightarrow> path \<Rightarrow> transaction_retention \<Rightarrow>
    (('x, 'z) world_scheme, string, transaction) prog" where
  "recover_transaction E C path retention =
     andThen (io (read_file E path)) (\<lambda>contents.
     andThen (lift (ok_or ''invalid transaction record'' (dec C contents))) (\<lambda>transaction.
     if tx_phase transaction \<in> {''PREPARING'', ''CONFLICTED''} then ret transaction
     else if tx_phase transaction \<in> {''COMPLETED'', ''ROLLED_BACK''}
     then andThen (settle_transaction E C retention transaction) (\<lambda>_. ret transaction)
     else if tx_phase transaction \<noteq> ''INSTALLING''
     then bail (''unknown transaction phase '' @ tx_phase transaction)
     else recover_installing E C retention path transaction))"

end
