(* ===== verification/Transaction_Safety.thy ===== *)
theory Transaction_Safety
  imports Transaction
begin

section \<open>Transactions leave the workspace alone or install it completely\<close>

text \<open>
  The events of \<open>Transaction\<close>: preparing, discarding and settling are \<open>workspace_safe\<close>; an
  installation is harmless except for the journal record and the three commands, in that order.
\<close>

subsection \<open>What a transaction can do to the workspace\<close>

text \<open>
  \<open>own_record t\<close>: the recovery references of \<open>t\<close> lie in RepoSync's namespace, as every record
  written by \<open>open_transaction\<close> has them. \<open>own_records\<close> asks it of the records found on disk, which
  only the diagnostic history reads back.
\<close>

definition own_record :: "transaction \<Rightarrow> bool" where
  "own_record t \<longleftrightarrow> starts_with (tx_recovery_ref t) recovery_namespace"

definition own_records :: "transaction codec \<Rightarrow> transaction_retention \<Rightarrow> bool" where
  "own_records C retention \<longleftrightarrow> (debug_history retention \<longrightarrow> (\<forall>c t. dec C c = Some t \<longrightarrow> own_record t))"

lemma starts_with_append: "starts_with a p \<Longrightarrow> starts_with (a @ b) p"
  by (auto simp: starts_with_def)

lemma own_record_update [simp]:
  "own_record (t\<lparr>tx_phase := ph\<rparr>) = own_record t"
  "own_record (t\<lparr>tx_completed_at := c\<rparr>) = own_record t"
  "own_record (t\<lparr>tx_recovered_at := c\<rparr>) = own_record t"
  "own_record (t\<lparr>tx_conflict := cf\<rparr>) = own_record t"
  "own_record (t\<lparr>tx_candidate := cd\<rparr>) = own_record t"
  by (simp_all add: own_record_def)

lemma workspace_safe_document: "document_event E q ev \<Longrightarrow> workspace_safe p ev"
  by (auto simp: document_event_def split: event.splits)

lemma emits_write_json_safe: "emits (workspace_safe p) (write_json E C q v m)"
  by (rule emits_write_json) (rule workspace_safe_document)

lemma set_sort_desc [simp]: "set (sort_desc f xs) = set xs"
  by (simp add: sort_desc_def)

lemma emits_is_ancestor: "emits (workspace_safe p) (is_ancestor E q a b)"
  by (auto simp: is_ancestor_def safe_git_simps intro!: effects)

lemma emits_changed_paths: "emits (workspace_safe p) (changed_paths E q a b)"
  by (auto simp: changed_paths_def safe_git_simps intro!: effects)

lemma emits_rev_parse: "emits (workspace_safe p) (rev_parse E q v)"
  by (auto simp: rev_parse_def safe_git_simps intro!: effects)

lemma emits_write_recovery_refs: "emits (workspace_safe p) (write_recovery_refs E q t sn ch)"
  by (auto simp: write_recovery_refs_def safe_git_simps recovery_prefix_def recovery_namespace_def
      starts_with_def Let_def intro!: effects)

lemma returns_write_recovery_refs:
  "returns (write_recovery_refs E q t sn ch) (\<lambda>r. r = recovery_prefix @ t)"
  by (auto simp: write_recovery_refs_def Let_def intro!: returns_bind returns_ret)

lemma emits_delete_recovery_refs:
  "starts_with r recovery_namespace \<Longrightarrow> emits (workspace_safe p) (delete_recovery_refs E q r)"
  by (auto simp: delete_recovery_refs_def safe_git_simps starts_with_append intro!: effects)

lemma emits_remove_transaction_artifacts:
  "own_record t \<Longrightarrow> emits (workspace_safe p) (remove_transaction_artifacts E t)"
  by (auto simp: remove_transaction_artifacts_def own_record_def
      intro!: effects emits_delete_recovery_refs)

lemma emits_history_record: "emits (workspace_safe p) (history_record E C i h q)"
  by (auto simp: history_record_def intro!: effects split: option.splits)

lemma returns_history_record:
  assumes "\<forall>c t. dec C c = Some t \<longrightarrow> own_record t" and "\<forall>h\<in>set hist. own_record (snd h)"
  shows "returns (history_record E C i hist q) (\<lambda>h'. \<forall>h\<in>set h'. own_record (snd h))"
  using assms by (auto simp: history_record_def intro!: returns_rules returns_bind)

lemma emits_prune_loop:
  "\<forall>h\<in>set hs. own_record (snd h) \<Longrightarrow> emits (workspace_safe p) (prune_loop E n b hs)"
  by (induction E n b hs rule: prune_loop.induct)
    (auto intro!: effects emits_remove_transaction_artifacts)

lemma emits_prune_debug_history:
  assumes "\<forall>c t. dec C c = Some t \<longrightarrow> own_record t"
  shows "emits (workspace_safe p) (prune_debug_history E C root i)"
proof -
  have "emits (workspace_safe p) (andThen (foldEach (history_record E C i) [] paths) (\<lambda>history.
         prune_loop E n 0 (sort_desc (\<lambda>h. tx_created_at (snd h)) history)))" for paths n
    by (rule emits_andThen_returns [OF _ returns_foldEach [where Q = "\<lambda>h'. \<forall>h\<in>set h'. own_record (snd h)"]])
      (auto intro!: emits_foldEach emits_history_record returns_history_record assms emits_prune_loop
        simp: assms)
  note loop = this
  show ?thesis
    unfolding prune_debug_history_def
  proof (rule emits_andThen, goal_cases)
    case 1
    show ?case by (auto intro!: effects)
  next
    case (2 entries)
    show ?case by (cases entries) (simp_all only: sum.case loop emits_ret)
  qed
qed

lemma emits_persist_debug_transaction:
  assumes "\<forall>c t. dec C c = Some t \<longrightarrow> own_record t"
  shows "emits (workspace_safe p) (persist_debug_transaction E C t)"
  using assms unfolding persist_debug_transaction_def
  by (auto intro!: emits_write_json_safe effects emits_prune_debug_history)

lemma emits_settle_transaction:
  assumes "own_records C retention" and "own_record t"
  shows "emits (workspace_safe p) (settle_transaction E C retention t)"
  using assms unfolding settle_transaction_def own_records_def
  by (auto intro!: emits_persist_debug_transaction emits_remove_transaction_artifacts)

lemma emits_prepare_checks: "emits (workspace_safe p) (prepare_checks E q a b)"
  by (auto simp: prepare_checks_def safe_git_simps intro!: effects emits_git_state)

lemma emits_prepare_ancestry: "emits (workspace_safe p) (prepare_ancestry E q a b sn)"
  by (auto simp: prepare_ancestry_def safe_git_simps intro!: effects emits_is_ancestor)

lemma emits_new_transaction_id: "emits P (new_transaction_id E)"
  by (auto simp: new_transaction_id_def intro!: effects)

lemma emits_rebase_candidate:
  assumes "own_records C retention" and "own_record t" and "temporary \<noteq> q"
  shows "emits (workspace_safe q) (rebase_candidate E C q a b retention t chain temporary branch)"
  using assms unfolding rebase_candidate_def
  by (auto simp: own_records_def own_record_def safe_git_simps no_hooks_def Let_def starts_with_append
      intro!: emits_write_json_safe effects emits_rev_parse emits_persist_debug_transaction)


text \<open>What never changes in the life of a transaction.\<close>

definition same_transaction :: "transaction \<Rightarrow> transaction \<Rightarrow> bool" where
  "same_transaction t u \<longleftrightarrow> tx_id u = tx_id t \<and> tx_project_path u = tx_project_path t
     \<and> tx_previous_remote_oid u = tx_previous_remote_oid t \<and> tx_target_remote_oid u = tx_target_remote_oid t
     \<and> tx_snapshot u = tx_snapshot t \<and> tx_recovery_ref u = tx_recovery_ref t
     \<and> tx_head_ref u = tx_head_ref t \<and> tx_created_at u = tx_created_at t \<and> tx_path u = tx_path t"

lemma rebase_candidate_ready:
  "returns (rebase_candidate E C q a b retention t chain temporary branch)
     (\<lambda>r. \<forall>p. r = Ready p \<longrightarrow> pi_project_path p = q \<and> pi_retention p = retention
        \<and> pi_previous_remote_oid p = a \<and> pi_target_remote_oid p = b
        \<and> tx_candidate (pi_transaction p) \<noteq> None
        \<and> tx_phase (pi_transaction p) = tx_phase t \<and> same_transaction t (pi_transaction p))"
  by (auto simp: rebase_candidate_def same_transaction_def Let_def intro!: returns_rules returns_bind)

definition fresh_tempdir :: "'x env \<Rightarrow> path \<Rightarrow> bool" where
  "fresh_tempdir E project_path \<longleftrightarrow> (\<forall>x. fst (temp_dir E x) \<noteq> Inr project_path)"

lemma returns_tempdir: "fresh_tempdir E p \<Longrightarrow> returns (tempdir E) (\<lambda>t. t \<noteq> p)"
  by (auto simp: fresh_tempdir_def returns_def tempdir_def ext_call_def split: prod.splits)
    (metis fst_conv)



lemma emits_open_transaction: "emits (workspace_safe p) (open_transaction E q a b root sn)"
  by (auto simp: open_transaction_def Let_def
      intro!: effects emits_new_transaction_id emits_write_recovery_refs emits_git_state)

lemma returns_open_transaction:
  "returns (open_transaction E q a b root sn)
     (\<lambda>(t, chain). own_record t \<and> tx_project_path t = q \<and> tx_snapshot t = sn \<and> tx_phase t = ''PREPARING''
        \<and> tx_previous_remote_oid t = a \<and> tx_target_remote_oid t = b)"
proof -
  have own: "starts_with (recovery_prefix @ t) recovery_namespace" for t
    by (simp add: starts_with_def recovery_prefix_def recovery_namespace_def)
  show ?thesis unfolding open_transaction_def Let_def own_record_def
    by (intro returns_bind returns_andThen [OF returns_write_recovery_refs] returns_ret) (simp add: own)
qed

lemma emits_prepare_candidate:
  assumes "own_records C retention" and "own_record t" and "fresh_tempdir E (tx_project_path t)"
  shows "emits (workspace_safe (tx_project_path t)) (prepare_candidate E C retention t chain)"
  unfolding prepare_candidate_def Let_def candidate_branch_def
proof (rule emits_andThen)
  show "emits (workspace_safe (tx_project_path t))
      (onlyIf (debug_history retention) (persist_debug_transaction E C t))"
    using assms(1) by (auto simp: own_records_def intro!: emits_onlyIf emits_persist_debug_transaction)
next
  fix u
  show "emits (workspace_safe (tx_project_path t)) (andThen (tempdir E) (\<lambda>temporary.
     andThen (attempt (rebase_candidate E C (tx_project_path t) (tx_previous_remote_oid t)
         (tx_target_remote_oid t) retention t chain temporary (''resync-candidate-'' @ tx_id t))) (\<lambda>outcome.
     andThen (ignore (git E (tx_project_path t) [''worktree'', ''remove'', ''--force'', temporary] allow_failure_options)) (\<lambda>_.
     andThen (ignore (git E (tx_project_path t) [''branch'', ''-D'', ''resync-candidate-'' @ tx_id t] allow_failure_options)) (\<lambda>_.
     andThen (onlyIf (\<not> is_ok outcome \<and> \<not> debug_history retention)
       (ignore (remove_transaction_artifacts E t))) (\<lambda>_.
     lift outcome))))))"
    by (rule emits_andThen_returns [OF _ returns_tempdir [OF assms(3)]])
      (auto simp: safe_git_simps starts_with_def assms
        intro!: effects emits_rebase_candidate emits_remove_transaction_artifacts)
qed

lemma returns_prepare_candidate:
  "returns (prepare_candidate E C retention t chain)
     (\<lambda>r. \<forall>p. r = Ready p \<longrightarrow> pi_project_path p = tx_project_path t \<and> pi_retention p = retention
        \<and> pi_previous_remote_oid p = tx_previous_remote_oid t \<and> pi_target_remote_oid p = tx_target_remote_oid t
        \<and> tx_candidate (pi_transaction p) \<noteq> None
        \<and> tx_phase (pi_transaction p) = tx_phase t \<and> same_transaction t (pi_transaction p))"
  unfolding prepare_candidate_def Let_def
  by (intro returns_bind returns_andThen [OF returns_attempt [OF rebase_candidate_ready]] returns_lift) auto

lemma emits_prepare_reconciliation:
  assumes "fresh_tempdir E project_path" and "own_records C retention"
  shows "emits (workspace_safe project_path) (prepare_reconciliation E C project_path previous_remote_oid
      target_remote_oid transaction_root retention)"
proof -
  have "emits (workspace_safe project_path) (andThen (open_transaction E project_path
      previous_remote_oid target_remote_oid transaction_root sn)
      (\<lambda>(transaction, chain). prepare_candidate E C retention transaction chain))"
    for sn
    by (rule emits_andThen_returns [OF emits_open_transaction returns_open_transaction])
      (use assms(1,2) emits_prepare_candidate in \<open>fastforce split: prod.splits\<close>)
  then show ?thesis unfolding prepare_reconciliation_def
    by (intro emits_andThen [OF emits_prepare_checks] emits_if emits_ret
        emits_andThen [OF emits_prepare_ancestry])
qed

text \<open>Preparing a reconciliation (capture, synthetic commits, rebase in a separate worktree,
  recovery references) never touches the project's working tree, index or HEAD.\<close>

theorem prepare_leaves_workspace_alone:
  assumes "fresh_tempdir E project_path" and "own_records C retention"
    and "ev \<in> set (new_events (prepare_reconciliation E C project_path previous_remote_oid
      target_remote_oid transaction_root retention) s)"
  shows "workspace_safe project_path ev"
  by (rule emits_new_events [OF emits_prepare_reconciliation [OF assms(1,2)] assms(3)])

lemma returns_prepare_checks: "returns (prepare_checks E q a b) (\<lambda>_. a \<noteq> [] \<and> b \<noteq> [])"
  unfolding prepare_checks_def by (cases "a = [] \<or> b = []") (auto simp: returns_bail returns_def run_simps)

text \<open>What a prepared installation is.\<close>

definition prepared_for :: "path \<Rightarrow> string \<Rightarrow> string \<Rightarrow> transaction_retention \<Rightarrow> prepared_install \<Rightarrow> bool" where
  "prepared_for project_path previous_remote_oid target_remote_oid retention p \<longleftrightarrow>
     own_record (pi_transaction p) \<and> tx_candidate (pi_transaction p) \<noteq> None
     \<and> tx_phase (pi_transaction p) = ''PREPARING''
     \<and> pi_project_path p = project_path \<and> tx_project_path (pi_transaction p) = project_path
     \<and> pi_previous_remote_oid p = previous_remote_oid \<and> pi_target_remote_oid p = target_remote_oid
     \<and> pi_retention p = retention \<and> previous_remote_oid \<noteq> target_remote_oid
     \<and> previous_remote_oid \<noteq> [] \<and> target_remote_oid \<noteq> []"

lemma returns_prepare_reconciliation:
  "returns (prepare_reconciliation E C project_path previous_remote_oid target_remote_oid transaction_root retention)
     (\<lambda>r. \<forall>p. r = Ready p \<longrightarrow> prepared_for project_path previous_remote_oid target_remote_oid retention p)"
proof -
  define G where "G r \<longleftrightarrow> (\<forall>p. r = Ready p \<longrightarrow>
    prepared_for project_path previous_remote_oid target_remote_oid retention p)" for r
  have cand: "returns (prepare_candidate E C retention t chain) G"
    if "own_record t \<and> tx_project_path t = project_path \<and> tx_snapshot t = sn
        \<and> tx_phase t = ''PREPARING'' \<and> tx_previous_remote_oid t = previous_remote_oid
        \<and> tx_target_remote_oid t = target_remote_oid"
      and "previous_remote_oid \<noteq> target_remote_oid" "previous_remote_oid \<noteq> [] \<and> target_remote_oid \<noteq> []"
    for t chain sn
    by (rule returns_weaken [OF returns_prepare_candidate])
      (use that in \<open>auto simp: G_def prepared_for_def own_record_def same_transaction_def\<close>)
  have "returns (prepare_reconciliation E C project_path previous_remote_oid target_remote_oid
      transaction_root retention) G"
    unfolding prepare_reconciliation_def
    by (rule returns_andThen [OF returns_prepare_checks], rule returns_if)
      (auto simp: G_def [of "Complete _"] intro!: returns_ret returns_bind
        returns_andThen [OF returns_open_transaction] cand)
  then show ?thesis unfolding G_def .
qed

text \<open>what is prepared.\<close>

theorem prepare_ready:
  assumes "prepare_reconciliation E C project_path previous_remote_oid target_remote_oid
      transaction_root retention s = (Inr (Ready prepared), s')"
  shows "own_record (pi_transaction prepared) \<and> tx_candidate (pi_transaction prepared) \<noteq> None
    \<and> tx_phase (pi_transaction prepared) = ''PREPARING''
    \<and> pi_project_path prepared = project_path \<and> tx_project_path (pi_transaction prepared) = project_path
    \<and> pi_previous_remote_oid prepared = previous_remote_oid
    \<and> pi_target_remote_oid prepared = target_remote_oid \<and> pi_retention prepared = retention
    \<and> previous_remote_oid \<noteq> target_remote_oid \<and> previous_remote_oid \<noteq> [] \<and> target_remote_oid \<noteq> []"
  using returnsD [OF returns_prepare_reconciliation assms] by (simp add: prepared_for_def)

subsection \<open>The events of an installation\<close>

definition install_commands :: "path \<Rightarrow> transaction \<Rightarrow> candidate \<Rightarrow> event list" where
  "install_commands project_path transaction cand =
     [git_event project_path (reset_worktree_args (cd_working_tree cand)) default_options,
      git_event project_path (read_index_args (cd_index_tree cand)) default_options,
      git_event project_path (move_head_args transaction cand) default_options]"

definition install_script :: "'x env \<Rightarrow> transaction codec \<Rightarrow> path \<Rightarrow> transaction \<Rightarrow> candidate \<Rightarrow> event list" where
  "install_script E C project_path transaction cand =
     document_script E (tx_path transaction) (json_text C (transaction\<lparr>tx_phase := ''INSTALLING''\<rparr>)) private_mode
     @ install_commands project_path transaction cand"

lemma script_apply_candidate:
  "script (install_script E C project_path transaction cand)
     (apply_candidate E C project_path (transaction\<lparr>tx_phase := ''INSTALLING''\<rparr>) cand)"
  unfolding apply_candidate_def install_script_def install_commands_def
  by (rule script_eq, (rule scripts)+) (simp add: move_head_args_def)

lemma emits_install_precheck: "emits (workspace_safe p) (install_precheck E q t cand)"
  by (auto simp: install_precheck_def intro!: effects emits_git_state)

text \<open>\<open>staged P L mid es\<close>: the events \<open>es\<close> are harmless except for \<open>mid\<close>, a first part of \<open>L\<close>.\<close>

definition staged :: "(event \<Rightarrow> bool) \<Rightarrow> event list \<Rightarrow> event list \<Rightarrow> event list \<Rightarrow> bool" where
  "staged P L mid es \<longleftrightarrow> (\<exists>pre post. es = pre @ mid @ post \<and> list_all P pre \<and> list_all P post \<and> prefix mid L)"

lemma staged_safe: "list_all P es \<Longrightarrow> staged P L [] es"
  unfolding staged_def by (intro exI [of _ es] exI [of _ "[]"]) simp

lemma staged_append: "staged P L mid es \<Longrightarrow> list_all P es' \<Longrightarrow> staged P L mid (es @ es')"
  unfolding staged_def by fastforce

lemma staged_prepend: "list_all P es \<Longrightarrow> staged P L mid es' \<Longrightarrow> staged P L mid (es @ es')"
  unfolding staged_def by (metis append.assoc list_all_append)

lemma staged_script: "prefix es L \<Longrightarrow> staged P L es es"
  unfolding staged_def by (intro exI [of _ "[]"]) simp

lemma logs_apply_and_settle:
  assumes "own_records C retention" and "own_record t"
  shows "logs (andThen (apply_candidate E C q (t\<lparr>tx_phase := ''INSTALLING''\<rparr>) cand) (\<lambda>_.
      andThen (now_rfc3339 E) (\<lambda>c.
      andThen (settle_transaction E C retention (t\<lparr>tx_phase := ''COMPLETED'', tx_completed_at := Some c\<rparr>))
        (\<lambda>_. ret (t\<lparr>tx_phase := ''COMPLETED'', tx_completed_at := Some c\<rparr>, None)))))
    (\<lambda>r es. \<exists>mid. staged (workspace_safe p) (install_script E C q t cand) mid es
       \<and> (is_ok r \<longrightarrow> mid = install_script E C q t cand))"
  (is "logs (andThen ?m ?f) _")
proof (rule logs_andThen [OF logs_script [OF script_apply_candidate]])
  show "logs (?f a) (\<lambda>_. list_all (workspace_safe p))" for a
    by (rule logs_emits) (auto intro!: effects emits_settle_transaction assms simp: assms)
qed (auto intro: staged_append staged_script)

definition install_log :: "'x env \<Rightarrow> transaction codec \<Rightarrow> path \<Rightarrow> transaction \<Rightarrow> candidate \<Rightarrow>
    (string, transaction \<times> transaction_conflict option) result \<Rightarrow> event list \<Rightarrow> bool" where
  "install_log E C q t cand r es \<longleftrightarrow>
     (\<exists>mid. staged (workspace_safe q) (install_script E C q t cand) mid es
       \<and> (\<forall>t'. r = Inr (t', None) \<longrightarrow> mid = install_script E C q t cand)
       \<and> (\<forall>t' c. r = Inr (t', Some c) \<longrightarrow> mid = [] \<and> t' = t))"

lemma install_log_prepend:
  "list_all (workspace_safe q) es \<Longrightarrow> install_log E C q t cand r es' \<Longrightarrow> install_log E C q t cand r (es @ es')"
  unfolding install_log_def by (blast intro: staged_prepend)

lemma logs_install_candidate:
  assumes "own_records C retention" and "own_record t"
  shows "logs (install_candidate E C q t cand retention) (install_log E C q t cand)"
proof -
  let ?install = "andThen (apply_candidate E C q (t\<lparr>tx_phase := ''INSTALLING''\<rparr>) cand) (\<lambda>_.
      andThen (now_rfc3339 E) (\<lambda>c.
      andThen (settle_transaction E C retention (t\<lparr>tx_phase := ''COMPLETED'', tx_completed_at := Some c\<rparr>))
        (\<lambda>_. ret (t\<lparr>tx_phase := ''COMPLETED'', tx_completed_at := Some c\<rparr>, None))))"
  have none: "returns ?install (\<lambda>r. snd r = None)" by (intro returns_bind returns_ret) simp
  have install: "logs ?install (install_log E C q t cand)"
    by (rule logs_weaken [OF logs_returns [OF logs_apply_and_settle [OF assms, where p = q] none]])
      (fastforce simp: install_log_def)
  have step: "logs (if conflict \<noteq> None then ret (t, conflict) else ?install) (install_log E C q t cand)"
    for conflict
    using install by (auto intro!: logs_ret exI [of _ "[]"] staged_safe simp: install_log_def)
  have upd: "t\<lparr>tx_phase := ''INSTALLING'', tx_phase := ''COMPLETED'', tx_completed_at := Some c\<rparr>
      = t\<lparr>tx_phase := ''COMPLETED'', tx_completed_at := Some c\<rparr>" for c by simp
  show ?thesis
    unfolding install_candidate_def Let_def upd
    by (rule logs_andThen [OF logs_emits [OF emits_install_precheck]], rule step)
      (auto intro: install_log_prepend staged_safe simp: install_log_def [of _ _ _ _ _ "Inl _"])
qed

definition after_install :: "'x env \<Rightarrow> transaction codec \<Rightarrow> prepared_install \<Rightarrow> candidate \<Rightarrow>
    transaction \<times> transaction_conflict option \<Rightarrow> (('x, 'z) world_scheme, string, reconcile_result) prog" where
  "after_install E C prepared cand = (\<lambda>(transaction', conflict).
     case conflict of
       Some conflict \<Rightarrow>
         if tc_kind conflict = ''install-rejected''
         then andThen (now_rfc3339 E) (\<lambda>t.
              andThen (settle_transaction E C (pi_retention prepared)
                (transaction'\<lparr>tx_phase := ''RETRY'', tx_completed_at := Some t\<rparr>)) (\<lambda>_.
              ret (empty_result\<lparr>rr_outcome := ''retry'', rr_transaction_id := Some (tx_id (pi_transaction prepared)),
                 rr_detail := Some (tc_detail conflict)\<rparr>)))
         else let conflicted = transaction'\<lparr>tx_phase := ''CONFLICTED'', tx_conflict := Some conflict\<rparr> in
              andThen (write_json E C (tx_path conflicted) conflicted private_mode) (\<lambda>_.
              ret (empty_result\<lparr>rr_outcome := ''conflict'', rr_transaction_id := Some (tx_id (pi_transaction prepared)),
                 rr_recovery_ref := Some (tx_recovery_ref (pi_transaction prepared)),
                 rr_detail := Some (tc_detail conflict), rr_paths := tc_paths conflict\<rparr>))
     | None \<Rightarrow>
         andThen (changed_paths E (pi_project_path prepared) (pi_previous_remote_oid prepared)
           (pi_target_remote_oid prepared)) (\<lambda>paths.
         ret (empty_result\<lparr>rr_outcome := ''applied'', rr_transaction_id := Some (tx_id (pi_transaction prepared)),
            rr_old_head := Some (sn_head (tx_snapshot (pi_transaction prepared))),
            rr_new_head := Some (cd_real_head cand), rr_changed_paths := paths\<rparr>)))"

lemma install_prepared_eq:
  "tx_candidate (pi_transaction prepared) = Some cand \<Longrightarrow>
    install_prepared E C prepared =
      andThen (install_candidate E C (pi_project_path prepared) (pi_transaction prepared) cand
        (pi_retention prepared)) (after_install E C prepared cand)"
  by (simp add: install_prepared_def after_install_def Let_def lift_def andThen_def)

lemma emits_after_install:
  assumes "own_records C (pi_retention prepared)" and "snd tc \<noteq> None \<Longrightarrow> own_record (fst tc)"
  shows "emits (workspace_safe p) (after_install E C prepared cand tc)"
  using assms by (cases tc) (auto simp: after_install_def Let_def
    intro!: effects emits_write_json_safe emits_settle_transaction emits_changed_paths split: option.splits)

lemma returns_after_install:
  "returns (after_install E C prepared cand tc)
     (\<lambda>r. if snd tc = None then rr_outcome r = ''applied'' else rr_outcome r \<in> {''retry'', ''conflict''})"
  by (cases tc) (auto simp: after_install_def Let_def intro!: returns_rules returns_bind split: option.splits)

lemma install_stages_at:
  assumes own: "own_records C (pi_retention prepared)" "own_record (pi_transaction prepared)"
    and cand: "tx_candidate (pi_transaction prepared) = Some cand"
  shows "\<exists>mid. staged (workspace_safe (pi_project_path prepared))
      (install_script E C (pi_project_path prepared) (pi_transaction prepared) cand) mid
      (new_events (install_prepared E C prepared) s)
    \<and> (\<forall>r. fst (install_prepared E C prepared s) = Inr r \<longrightarrow>
        (if rr_outcome r = ''applied''
         then mid = install_script E C (pi_project_path prepared) (pi_transaction prepared) cand
         else mid = [] \<and> rr_outcome r \<in> {''retry'', ''conflict''}))"
    (is "\<exists>mid. ?P mid (fst (install_prepared E C prepared s)) (new_events (install_prepared E C prepared) s)")
proof -
  let ?t = "pi_transaction prepared" and ?q = "pi_project_path prepared"
  have after: "logs (after_install E C prepared cand tc)
      (\<lambda>r es. list_all (workspace_safe ?q) es
        \<and> (\<forall>a. r = Inr a \<longrightarrow> (if snd tc = None then rr_outcome a = ''applied''
             else rr_outcome a \<in> {''retry'', ''conflict''})))"
    if "install_log E C ?q ?t cand (Inr tc) es" for tc es
    by (rule logs_returns [OF logs_emits [OF emits_after_install [OF own(1)]] returns_after_install])
      (use that own(2) in \<open>cases tc; cases "snd tc"; auto simp: install_log_def\<close>)
  have "logs (install_prepared E C prepared) (\<lambda>r es. \<exists>mid. ?P mid r es)"
    unfolding install_prepared_eq [OF cand]
  proof (rule logs_andThen [OF logs_install_candidate [OF own] after])
    fix e es
    assume "install_log E C ?q ?t cand (Inl e) es"
    then show "\<exists>mid. ?P mid (Inl e) es" by (auto simp: install_log_def)
  next
    fix tc es es' and r :: "(string, reconcile_result) result"
    assume h: "install_log E C ?q ?t cand (Inr tc) es"
      "list_all (workspace_safe ?q) es'
        \<and> (\<forall>a. r = Inr a \<longrightarrow> (if snd tc = None then rr_outcome a = ''applied''
             else rr_outcome a \<in> {''retry'', ''conflict''}))"
    then show "\<exists>mid. ?P mid r (es @ es')"
      by (cases tc, cases "snd tc")
        (auto simp: install_log_def own intro: staged_append split: if_splits)
  qed
  then show ?thesis by (rule logsD)
qed

text \<open>C4. The workspace-changing events of an installation are a prefix of: journal record,
  working-tree reset, index read, HEAD move; the outcome applied means that all of them
  happened, and retry or conflict that none did.\<close>

theorem install_stages:
  assumes own: "own_records C (pi_retention prepared)" "own_record (pi_transaction prepared)"
    and cand: "tx_candidate (pi_transaction prepared) = Some cand"
  shows "\<exists>mid. staged (workspace_safe (pi_project_path prepared))
      (install_script E C (pi_project_path prepared) (pi_transaction prepared) cand) mid
      (new_events (install_prepared E C prepared) s)
    \<and> (\<forall>r. fst (install_prepared E C prepared s) = Inr r \<longrightarrow>
        (if rr_outcome r = ''applied''
         then mid = install_script E C (pi_project_path prepared) (pi_transaction prepared) cand
         else mid = [] \<and> rr_outcome r \<in> {''retry'', ''conflict''}))"
  by (rule install_stages_at [OF own cand])

lemma install_unchanged_at:
  assumes own: "own_records C (pi_retention prepared)" "own_record (pi_transaction prepared)"
    and ev: "ev \<in> set (new_events (install_prepared E C prepared) s)"
      "\<not> workspace_safe (pi_project_path prepared) ev"
  shows "fst (capture_workspace E (pi_project_path prepared) s)
      = Inr (tx_snapshot (pi_transaction prepared))"
proof (rule ccontr)
  let ?t = "pi_transaction prepared" and ?q = "pi_project_path prepared"
  assume changed: "fst (capture_workspace E ?q s) \<noteq> Inr (tx_snapshot ?t)"
  show False
  proof (cases "tx_candidate ?t")
    case None
    then show False using ev(1) by (simp add: install_prepared_def new_events_def andThen_def lift_def Let_def)
  next
    case (Some cand)
    have check: "emits_at (workspace_safe ?q) (install_precheck E ?q ?t cand) s"
      by (rule emits_at [OF emits_install_precheck])
    have rejected: "c \<noteq> None" if "install_precheck E ?q ?t cand s = (Inr c, s')" for c s'
      using that changed
      by (auto simp: install_precheck_def andThen_def run_simps split: prod.splits sum.splits if_splits)
    have "emits_at (workspace_safe ?q) (install_prepared E C prepared) s"
      unfolding install_prepared_eq [OF Some]
    proof (rule emits_at_andThen)
      show "emits_at (workspace_safe ?q) (install_candidate E C ?q ?t cand (pi_retention prepared)) s"
        unfolding install_candidate_def
        by (rule emits_at_andThen [OF check]) (auto dest: rejected intro: emits_at)
      fix tc s'
      assume "install_candidate E C ?q ?t cand (pi_retention prepared) s = (Inr tc, s')"
      then have "fst tc = ?t" using rejected
        by (auto simp: install_candidate_def andThen_def run_simps split: prod.splits sum.splits if_splits)
      then show "emits_at (workspace_safe ?q) (after_install E C prepared cand tc) s'"
        by (intro emits_at emits_after_install own) (simp_all add: own)
    qed
    then show False using ev by (blast dest: emits_at_new_events)
  qed
qed

text \<open>C2. Installing a prepared candidate touches the working tree, index or HEAD only if a capture of
  the workspace at that moment is exactly the snapshot recorded by the transaction.\<close>

theorem install_only_unchanged:
  assumes own: "own_records C (pi_retention prepared)" "own_record (pi_transaction prepared)"
    and ev: "ev \<in> set (new_events (install_prepared E C prepared) s)"
      "\<not> workspace_safe (pi_project_path prepared) ev"
  shows "fst (capture_workspace E (pi_project_path prepared) s)
      = Inr (tx_snapshot (pi_transaction prepared))"
  by (rule install_unchanged_at [OF own ev])

lemma emits_discard:
  assumes "own_records C (pi_retention prepared)" and "own_record (pi_transaction prepared)"
  shows "emits (workspace_safe p) (discard_prepared_reconciliation E C (Ready prepared))"
  using assms by (auto intro!: effects emits_settle_transaction)

text \<open>a discarded candidate.\<close>

theorem discard_leaves_workspace_alone:
  assumes "own_records C (pi_retention prepared)" and "own_record (pi_transaction prepared)"
    and "ev \<in> set (new_events (discard_prepared_reconciliation E C (Ready prepared)) s)"
  shows "workspace_safe p ev"
  by (rule emits_new_events [OF emits_discard [OF assms(1,2)] assms(3)])

subsection \<open>The journal\<close>

lemma document_script_safe: "list_all (workspace_safe p) (document_script E q text m)"
  by (auto simp: document_script_def list_all_iff split: option.splits)

lemma split_at_first_unsafe:
  assumes "pre @ ev # post = safe @ rest" and "list_all P safe" and "\<not> P ev"
  shows "\<exists>b. pre = safe @ b"
  using assms by (auto simp: append_eq_append_conv2 Cons_eq_append_conv)

lemma staged_journal:
  assumes st: "staged P (doc @ cmds) mid (pre @ ev # post)" and doc: "list_all P doc" and ev: "\<not> P ev"
  shows "\<exists>a b. pre = a @ doc @ b"
proof -
  obtain a b where es: "pre @ ev # post = a @ mid @ b" and ab: "list_all P a" "list_all P b"
    and mid: "prefix mid (doc @ cmds)"
    using st by (auto simp: staged_def)
  have "prefix mid doc \<or> (\<exists>c. mid = doc @ c \<and> prefix c cmds)" using mid by (simp add: prefix_append)
  then show ?thesis
  proof
    assume "prefix mid doc"
    then have "list_all P (a @ mid @ b)" using doc ab by (auto simp: prefix_def)
    then show ?thesis using ev unfolding es [symmetric] by simp
  next
    assume "\<exists>c. mid = doc @ c \<and> prefix c cmds"
    then obtain c where "pre @ ev # post = (a @ doc) @ (c @ b)" using es by auto
    then show ?thesis using split_at_first_unsafe [of pre ev post "a @ doc" "c @ b" P] ab doc ev by auto
  qed
qed

text \<open>C3. Every event of an installation that can change the workspace comes after the transaction
  record with phase INSTALLING has been written durably (temporary file, sync, rename, directory
  sync), so an interrupted installation is always found by recovery.\<close>

theorem journal_before_change:
  assumes own: "own_records C (pi_retention prepared)" "own_record (pi_transaction prepared)"
    and es: "new_events (install_prepared E C prepared) s = pre @ ev # post"
    and ev: "\<not> workspace_safe (pi_project_path prepared) ev"
  shows "\<exists>a b. pre = a @ document_script E (tx_path (pi_transaction prepared))
      (json_text C ((pi_transaction prepared)\<lparr>tx_phase := ''INSTALLING''\<rparr>)) private_mode @ b"
proof (cases "tx_candidate (pi_transaction prepared)")
  case None
  then show ?thesis using es
    by (simp add: install_prepared_def new_events_def andThen_def lift_def Let_def)
next
  case (Some cand)
  obtain mid where "staged (workspace_safe (pi_project_path prepared))
      (install_script E C (pi_project_path prepared) (pi_transaction prepared) cand) mid (pre @ ev # post)"
    using install_stages_at [OF own Some, of E s] es by auto
  then show ?thesis
    unfolding install_script_def by (rule staged_journal [OF _ document_script_safe ev])
qed

subsection \<open>Recovery\<close>

definition rollback_commands :: "transaction \<Rightarrow> event list" where
  "rollback_commands t =
     [git_event (tx_project_path t) (reset_worktree_args (sn_working_tree (tx_snapshot t))) default_options,
      git_event (tx_project_path t) (read_index_args (sn_index_tree (tx_snapshot t))) default_options]"

lemma logs_settle_recovered:
  assumes "own_records C retention" and "own_record t"
    and "\<And>c. f c = t\<lparr>tx_phase := ph, tx_recovered_at := Some c\<rparr>"
  shows "logs (andThen (now_rfc3339 E) (\<lambda>c. andThen (settle_transaction E C retention (f c)) (\<lambda>_. ret (f c))))
     (\<lambda>r es. list_all (workspace_safe p) es \<and> (\<forall>t'. r = Inr t' \<longrightarrow> tx_phase t' = ph \<and> same_transaction t t'))"
  by (rule logs_returns [OF logs_emits])
    (auto simp: assms same_transaction_def intro!: effects emits_settle_transaction returns_bind returns_ret)

lemma script_rollback: "script (rollback_commands t) (rollback_workspace E t)"
  unfolding rollback_commands_def rollback_workspace_def by (rule script_eq, (rule scripts)+) simp

definition recovery_log :: "transaction \<Rightarrow> (string, transaction) result \<Rightarrow> event list \<Rightarrow> bool" where
  "recovery_log t r es \<longleftrightarrow> (\<exists>mid. staged (workspace_safe (tx_project_path t)) (rollback_commands t) mid es
     \<and> (\<forall>t'. r = Inr t' \<longrightarrow> same_transaction t t'
         \<and> (tx_phase t' = ''COMPLETED'' \<and> mid = []
          \<or> tx_phase t' = ''ROLLED_BACK'' \<and> mid = rollback_commands t)))"

lemma recovery_log_err: "list_all (workspace_safe (tx_project_path t)) es \<Longrightarrow> recovery_log t (Inl e) es"
  by (auto simp: recovery_log_def intro: staged_safe)

lemma recovery_log_prepend:
  "list_all (workspace_safe (tx_project_path t)) es \<Longrightarrow> recovery_log t r es' \<Longrightarrow> recovery_log t r (es @ es')"
  unfolding recovery_log_def by (blast intro: staged_prepend)

lemma logs_recover_installing:
  assumes own: "own_records C retention" "own_record t"
  shows "logs (recover_installing E C retention path t) (recovery_log t)"
proof -
  have complete: "logs (andThen (now_rfc3339 E) (\<lambda>c.
      let completed = t\<lparr>tx_phase := ''COMPLETED'', tx_recovered_at := Some c\<rparr> in
      andThen (settle_transaction E C retention completed) (\<lambda>_. ret completed))) (recovery_log t)"
    unfolding Let_def
    by (rule logs_weaken [OF logs_settle_recovered [OF own refl]])
      (auto simp: recovery_log_def intro: staged_safe)
  have rollback: "logs (andThen (rollback_workspace E t) (\<lambda>_. andThen (now_rfc3339 E) (\<lambda>c.
      let rolled_back = t\<lparr>tx_phase := ''ROLLED_BACK'', tx_recovered_at := Some c\<rparr> in
      andThen (settle_transaction E C retention rolled_back) (\<lambda>_. ret rolled_back)))) (recovery_log t)"
    unfolding Let_def
    by (rule logs_andThen [OF logs_script [OF script_rollback] logs_settle_recovered [OF own refl]])
      (auto simp: recovery_log_def intro!: exI staged_append staged_script)
  show ?thesis
    unfolding recover_installing_def
    by (rule logs_after_safe [OF emits_capture_workspace [of "tx_project_path t"]],
        rule logs_after_safe [OF emits_lift [of "workspace_safe (tx_project_path t)"]])
      (auto intro!: complete rollback logs_bail recovery_log_err intro: recovery_log_prepend)
qed

text \<open>C12. Recovery of an interrupted installation changes the workspace only by the rollback
  commands; it ends in COMPLETED without touching the workspace or in ROLLED_BACK after both
  rollback commands.\<close>

theorem recover_installing_stages:
  assumes own: "own_records C retention" "own_record t"
  shows "\<exists>mid. staged (workspace_safe (tx_project_path t)) (rollback_commands t) mid
      (new_events (recover_installing E C retention path t) s)
    \<and> (\<forall>t'. fst (recover_installing E C retention path t s) = Inr t' \<longrightarrow> same_transaction t t'
         \<and> (tx_phase t' = ''COMPLETED'' \<and> mid = []
          \<or> tx_phase t' = ''ROLLED_BACK'' \<and> mid = rollback_commands t))"
  using logsD [OF logs_recover_installing [OF own, of E path], of s] unfolding recovery_log_def .

text \<open>Recovery of an interrupted installation completes it exactly when HEAD is the candidate's
  commit, and rolls it back when HEAD is still the snapshot's commit.\<close>

theorem recover_installing_by_head:
  assumes run: "recover_installing E C retention path t s = (Inr t', s')"
  shows "\<exists>current cand. fst (capture_workspace E (tx_project_path t) s) = Inr current
    \<and> tx_candidate t = Some cand
    \<and> (if sn_head current = cd_real_head cand then tx_phase t' = ''COMPLETED''
       else sn_head current = sn_head (tx_snapshot t) \<and> tx_phase t' = ''ROLLED_BACK'')"
proof -
  obtain current s1 where current: "capture_workspace E (tx_project_path t) s = (Inr current, s1)"
    and rest: "andThen (lift (ok_or ''installing transaction has no candidate'' (tx_candidate t))) (\<lambda>cand.
     if sn_head current = cd_real_head cand
     then andThen (now_rfc3339 E) (\<lambda>c.
          let completed = t\<lparr>tx_phase := ''COMPLETED'', tx_recovered_at := Some c\<rparr> in
          andThen (settle_transaction E C retention completed) (\<lambda>_. ret completed))
     else if sn_head current = sn_head (tx_snapshot t)
     then andThen (rollback_workspace E t) (\<lambda>_.
          andThen (now_rfc3339 E) (\<lambda>c.
          let rolled_back = t\<lparr>tx_phase := ''ROLLED_BACK'', tx_recovered_at := Some c\<rparr> in
          andThen (settle_transaction E C retention rolled_back) (\<lambda>_. ret rolled_back)))
     else bail (''transaction '' @ (case file_name path of None \<Rightarrow> [] | Some n \<Rightarrow> n)
            @ '' needs manual recovery; HEAD matches neither preserved state'')) s1 = (Inr t', s')"
    using run unfolding recover_installing_def by (rule andThen_okE)
  obtain cand where cand: "tx_candidate t = Some cand"
    using rest by (cases "tx_candidate t") (auto simp: andThen_def lift_def)
  have "returns (andThen (now_rfc3339 E) (\<lambda>c.
      let u = f c in andThen (settle_transaction E C retention u) (\<lambda>_. ret u))) (\<lambda>u. tx_phase u = ph)"
    if "\<And>c. tx_phase (f c) = ph" for f ph
    unfolding Let_def by (intro returns_bind returns_ret that)
  note completed = this [of "\<lambda>c. t\<lparr>tx_phase := ''COMPLETED'', tx_recovered_at := Some c\<rparr>" "''COMPLETED''", simplified]
    and rolled_back = this [of "\<lambda>c. t\<lparr>tx_phase := ''ROLLED_BACK'', tx_recovered_at := Some c\<rparr>" "''ROLLED_BACK''", simplified]
  have "if sn_head current = cd_real_head cand then tx_phase t' = ''COMPLETED''
       else sn_head current = sn_head (tx_snapshot t) \<and> tx_phase t' = ''ROLLED_BACK''"
    using rest unfolding cand ok_or_simps andThen_lift
    by (auto simp: run_simps Let_def dest!: returnsD [OF completed [unfolded Let_def]] returnsD [OF returns_bind [OF rolled_back [unfolded Let_def]]] split: if_splits)
  then show ?thesis using current cand by simp
qed

text \<open>only an INSTALLING record makes recovery touch the workspace.\<close>

theorem recover_other_phases:
  assumes own: "\<forall>c t. dec C c = Some t \<longrightarrow> own_record t"
    and stored: "fs_get (files s) path = Some (File contents)" "dec C contents = Some t"
    and phase: "tx_phase t \<noteq> ''INSTALLING''"
    and ev: "ev \<in> set (new_events (recover_transaction E C path retention) s)"
  shows "workspace_safe p ev"
proof -
  have own': "own_records C retention" "own_record t" using own stored(2) by (auto simp: own_records_def)
  have read: "emits_at (workspace_safe p) (io (read_file E path)) s"
    by (rule emits_at) (auto intro!: effects)
  have reread: "c = contents" if "io (read_file E path) s = (Inr c, s')" for c s'
    using that stored(1)
    by (auto simp: read_file_def file_op_def mapErr_def split: option.splits prod.splits sum.splits)
  have "emits_at (workspace_safe p) (recover_transaction E C path retention) s"
    unfolding recover_transaction_def
    by (rule emits_at_andThen [OF read], drule reread)
      (use phase stored(2) in \<open>auto intro!: emits_at effects emits_settle_transaction own'\<close>)
  then show ?thesis using ev by (rule emits_at_new_events)
qed

text \<open>A transaction record with the phase RETRY, which discarding and a rejected installation
  write under the diagnostic history, cannot be recovered: recovery fails with an unknown phase.\<close>

theorem retry_record_is_not_recoverable:
  assumes "fs_get (files s) path = Some (File contents)" and "dec C contents = Some t"
    and "tx_phase t = ''RETRY''" and "io_fault E (ReadFile path) (files s) (ext s) = None"
  shows "fst (recover_transaction E C path retention s) = Inl ''unknown transaction phase RETRY''"
  using assms by (simp add: recover_transaction_def read_file_def file_op_def run)

end
