(* ===== verification/Transaction_Gc.thy ===== *)
theory Transaction_Gc
  imports Transaction_Safety
begin

section \<open>Collecting old transactions\<close>

text \<open>
  The second half of \<open>src/src/transaction.rs\<close>: \<open>gc_transactions\<close> scans the record directory,
  decides which records stay, computes the recovery references they need, deletes the others
  in one Git transaction per repository, compacts retained records and removes the rest. The
  source is one function; here every phase is a definition and \<open>gc_transactions\<close> composes them.
\<close>

record gc_report =
  gr_dry_run :: bool
  gr_debug_history :: bool
  gr_scanned :: nat
  gr_retained :: nat
  gr_removed :: nat
  gr_compacted :: nat
  gr_invalid_retained :: nat
  gr_recovery_refs_prunable :: nat
  gr_recovery_refs_removed :: nat
  gr_recovery_refs_skipped :: nat
  gr_bytes_reclaimed :: nat

record gc_entry =
  ge_transaction :: transaction
  ge_original_bytes :: nat
  ge_compact_bytes :: nat
  ge_retain :: bool

record gc_scan =
  gs_scanned :: nat
  gs_invalid :: nat
  gs_entries :: "gc_entry list"

subsection \<open>Scanning\<close>

definition must_retain :: "path list \<Rightarrow> transaction \<Rightarrow> bool" where
  "must_retain active_conflict_paths transaction \<longleftrightarrow>
     tx_phase transaction = ''INSTALLING''
     \<or> (tx_phase transaction = ''CONFLICTED''
        \<and> (\<exists>p\<in>set active_conflict_paths. same_path (tx_project_path transaction) p))"

definition gc_scan_entry :: "'x env \<Rightarrow> transaction codec \<Rightarrow> path list \<Rightarrow> gc_scan \<Rightarrow> path \<Rightarrow>
    (('x, 'z) world_scheme, string, gc_scan) prog" where
  "gc_scan_entry E C active_conflict_paths acc path =
     (if \<not> is_json_path path then ret acc
      else andThen (io (read_file E path)) (\<lambda>contents.
        let acc' = acc\<lparr>gs_scanned := gs_scanned acc + 1\<rparr> in
        case dec C contents of
          None \<Rightarrow> ret (acc'\<lparr>gs_invalid := gs_invalid acc + 1\<rparr>)
        | Some decoded \<Rightarrow>
            let transaction = decoded\<lparr>tx_path := path\<rparr> in
            ret (acc'\<lparr>gs_entries := gs_entries acc @
              [\<lparr>ge_transaction = transaction, ge_original_bytes = length contents,
                ge_compact_bytes = length (json_text C transaction),
                ge_retain = must_retain active_conflict_paths transaction\<rparr>]\<rparr>)))"

definition gc_scan_root :: "'x env \<Rightarrow> transaction codec \<Rightarrow> path \<Rightarrow> path list \<Rightarrow>
    (('x, 'z) world_scheme, string, gc_scan) prog" where
  "gc_scan_root E C root active_conflict_paths =
     (let empty = \<lparr>gs_scanned = 0, gs_invalid = 0, gs_entries = []\<rparr> in
     andThen (attempt (read_dir E root)) (\<lambda>directory. case directory of
       Inl _ \<Rightarrow> ret empty
     | Inr paths \<Rightarrow> foldEach (gc_scan_entry E C active_conflict_paths) empty paths))"

subsection \<open>The budget of the diagnostic history\<close>

text \<open>The indices of the entries that are not retained yet, newest first.\<close>

definition gc_history :: "gc_entry list \<Rightarrow> nat list" where
  "gc_history entries =
     sort_desc (\<lambda>i. tx_created_at (ge_transaction (entries ! i)))
       (filter (\<lambda>i. \<not> ge_retain (entries ! i)) [0..<length entries])"

fun retain_within_budget :: "nat \<Rightarrow> nat \<Rightarrow> nat list \<Rightarrow> gc_entry list \<Rightarrow> gc_entry list" where
  "retain_within_budget retained_records retained_bytes [] entries = entries"
| "retain_within_budget retained_records retained_bytes (i # rest) entries =
     (let bytes = ge_compact_bytes (entries ! i) in
      if retained_records < debug_history_max_records
         \<and> saturating_add_u64 retained_bytes bytes \<le> debug_history_max_bytes
      then retain_within_budget (retained_records + 1) (retained_bytes + bytes) rest
             (entries[i := (entries ! i)\<lparr>ge_retain := True\<rparr>])
      else retain_within_budget retained_records retained_bytes rest entries)"

definition gc_decide :: "transaction_retention \<Rightarrow> gc_entry list \<Rightarrow> gc_entry list" where
  "gc_decide retention entries =
     (if debug_history retention then retain_within_budget 0 0 (gc_history entries) entries else entries)"

definition shrinks :: "gc_entry \<Rightarrow> bool" where
  "shrinks entry \<longleftrightarrow> ge_compact_bytes entry < ge_original_bytes entry"

definition reclaimed_by :: "gc_entry \<Rightarrow> nat" where
  "reclaimed_by entry = (if ge_retain entry then ge_original_bytes entry - ge_compact_bytes entry
     else ge_original_bytes entry)"

subsection \<open>Recovery references\<close>

definition entry_refs :: "gc_entry \<Rightarrow> string list" where
  "entry_refs entry = (let base = tx_recovery_ref (ge_transaction entry) in
     map (\<lambda>suffix. base @ ''/'' @ suffix)
       ([''head'', ''index'', ''working'']
        @ (if tx_candidate (ge_transaction entry) \<noteq> None then [''candidate''] else [])))"

definition required_refs :: "gc_entry list \<Rightarrow> path \<Rightarrow> string list" where
  "required_refs entries project_path = concat (map entry_refs
     (filter (\<lambda>e. ge_retain e \<and> same_path (tx_project_path (ge_transaction e)) project_path) entries))"

definition gc_project_paths :: "path list \<Rightarrow> gc_entry list \<Rightarrow> path list" where
  "gc_project_paths managed_project_paths entries =
     foldl (\<lambda>ps e. path_set_insert (tx_project_path (ge_transaction e)) ps) managed_project_paths entries"

definition list_recovery_refs :: "'x env \<Rightarrow> path \<Rightarrow> (('x, 'z) world_scheme, 'e, string list option) prog" where
  "list_recovery_refs E project_path =
     andThen (attempt (git E project_path
       [''for-each-ref'', ''--format=%(refname)'', ''refs/resync/recovery''] allow_failure_options)) (\<lambda>output.
     ret (case output of
       Inr res \<Rightarrow> if code res = 0 then Some (filter (\<lambda>r. r \<noteq> []) (str_lines (stdout res))) else None
     | Inl _ \<Rightarrow> None))"

record gc_refs =
  gf_prunable :: "(path \<times> string list) list"
  gf_skipped :: nat

definition gc_project_refs :: "'x env \<Rightarrow> gc_entry list \<Rightarrow> nat \<Rightarrow> gc_refs \<Rightarrow> path \<Rightarrow>
    (('x, 'z) world_scheme, string, gc_refs) prog" where
  "gc_project_refs E entries invalid_retained acc project_path =
     andThen (list_recovery_refs E project_path) (\<lambda>actual. case actual of
       None \<Rightarrow> ret acc
     | Some actual_refs \<Rightarrow>
         let unneeded = filter (\<lambda>r. r \<notin> set (required_refs entries project_path)) actual_refs in
         ret (if invalid_retained = 0
              then if unneeded \<noteq> [] then acc\<lparr>gf_prunable := gf_prunable acc @ [(project_path, unneeded)]\<rparr> else acc
              else acc\<lparr>gf_skipped := gf_skipped acc + length unneeded\<rparr>))"

definition gc_collect_refs :: "'x env \<Rightarrow> path list \<Rightarrow> gc_entry list \<Rightarrow> nat \<Rightarrow>
    (('x, 'z) world_scheme, string, gc_refs) prog" where
  "gc_collect_refs E managed_project_paths entries invalid_retained =
     andThen (lift (check_all (\<lambda>e. validate_recovery_ref (tx_recovery_ref (ge_transaction e)))
       (filter ge_retain entries))) (\<lambda>_.
     foldEach (gc_project_refs E entries invalid_retained) \<lparr>gf_prunable = [], gf_skipped = 0\<rparr>
       (gc_project_paths managed_project_paths entries))"

definition delete_script :: "string list \<Rightarrow> string" where
  "delete_script references = ''start'' @ [newline]
     @ concat (map (\<lambda>r. ''delete '' @ r @ [newline]) references)
     @ ''prepare'' @ [newline] @ ''commit'' @ [newline]"

definition delete_recovery_refs_batch :: "'x env \<Rightarrow> path \<Rightarrow> string list \<Rightarrow>
    (('x, 'z) world_scheme, string, unit) prog" where
  "delete_recovery_refs_batch E project_path references =
     andThen (lift (check_all validate_recovery_ref references)) (\<lambda>_.
     andThen (git E project_path [''update-ref'', ''--stdin'']
       (default_options\<lparr>ro_input := Some (delete_script references)\<rparr>)) (\<lambda>_. ret ()))"

subsection \<open>Empty directories of the loose references\<close>

text \<open>The walk of the source keeps a stack; \<open>fuel\<close> bounds the number of directories it visits.\<close>

fun walk_directories :: "'x env \<Rightarrow> nat \<Rightarrow> path list \<Rightarrow> path list \<Rightarrow>
    (('x, 'z) world_scheme, string, path list) prog" where
  "walk_directories E fuel [] directories = ret directories"
| "walk_directories E 0 (d # pending) directories = bail ''directory walk does not end''"
| "walk_directories E (Suc fuel) (d # pending) directories =
     andThen (io (read_dir E d)) (\<lambda>paths.
     andThen (gets (\<lambda>s. filter (\<lambda>p. fs_get (files s) p = Some Dir) paths)) (\<lambda>below.
     walk_directories E fuel (List.rev below @ pending) (directories @ below)))"

definition remove_empty_directory :: "'x env \<Rightarrow> path \<Rightarrow> (('x, 'z) world_scheme, string, unit) prog" where
  "remove_empty_directory E d = andThen (attempt (remove_dir E d)) (\<lambda>r. case r of
       Inr _ \<Rightarrow> ret ()
     | Inl DirectoryNotEmpty \<Rightarrow> ret ()
     | Inl NotFound \<Rightarrow> ret ()
     | Inl e \<Rightarrow> bail (io_message e))"

definition remove_empty_recovery_directories :: "'x env \<Rightarrow> path \<Rightarrow>
    (('x, 'z) world_scheme, string, unit) prog" where
  "remove_empty_recovery_directories E project_path =
     andThen (git_text E project_path [''rev-parse'', ''--path-format=absolute'', ''--git-path'',
       ''refs/resync/recovery''] default_options) (\<lambda>root.
     andThen (attempt (read_dir E root)) (\<lambda>r. case r of
       Inl _ \<Rightarrow> ret ()
     | Inr _ \<Rightarrow>
         andThen (gets (\<lambda>s. length (files s) + 1)) (\<lambda>fuel.
         andThen (walk_directories E fuel [root] []) (\<lambda>directories.
         forEach (remove_empty_directory E)
           (sort_desc (\<lambda>d. length (path_components d)) directories)))))"

subsection \<open>The whole collection\<close>

definition gc_prune_project :: "'x env \<Rightarrow> nat \<Rightarrow> path \<times> string list \<Rightarrow>
    (('x, 'z) world_scheme, string, nat) prog" where
  "gc_prune_project E removed_so_far = (\<lambda>(project_path, references).
     andThen (delete_recovery_refs_batch E project_path references) (\<lambda>_.
     andThen (remove_empty_recovery_directories E project_path) (\<lambda>_.
     ret (removed_so_far + length references))))"

definition gc_apply_entry :: "'x env \<Rightarrow> transaction codec \<Rightarrow> gc_entry \<Rightarrow>
    (('x, 'z) world_scheme, string, unit) prog" where
  "gc_apply_entry E C entry =
     (if ge_retain entry
      then onlyIf (shrinks entry)
        (write_json E C (tx_path (ge_transaction entry)) (ge_transaction entry) private_mode)
      else remove_if_present E (tx_path (ge_transaction entry)))"

definition gc_apply :: "'x env \<Rightarrow> transaction codec \<Rightarrow> gc_refs \<Rightarrow> gc_entry list \<Rightarrow>
    (('x, 'z) world_scheme, string, nat) prog" where
  "gc_apply E C refs entries =
     andThen (foldEach (gc_prune_project E) 0 (gf_prunable refs)) (\<lambda>removed.
     andThen (forEach (gc_apply_entry E C) entries) (\<lambda>_.
     ret removed))"

definition gc_transactions :: "'x env \<Rightarrow> transaction codec \<Rightarrow> path \<Rightarrow> path list \<Rightarrow> path list \<Rightarrow>
    transaction_retention \<Rightarrow> bool \<Rightarrow> (('x, 'z) world_scheme, string, gc_report) prog" where
  "gc_transactions E C root managed_project_paths active_conflict_paths retention dry_run =
     andThen (gc_scan_root E C root active_conflict_paths) (\<lambda>scan.
     let entries = gc_decide retention (gs_entries scan) in
     andThen (gc_collect_refs E managed_project_paths entries (gs_invalid scan)) (\<lambda>refs.
     andThen (if dry_run then ret 0 else gc_apply E C refs entries) (\<lambda>removed_refs.
     ret \<lparr>gr_dry_run = dry_run,
          gr_debug_history = debug_history retention,
          gr_scanned = gs_scanned scan,
          gr_retained = length (filter ge_retain entries) + gs_invalid scan,
          gr_removed = length (filter (\<lambda>e. \<not> ge_retain e) entries),
          gr_compacted = length (filter (\<lambda>e. ge_retain e \<and> shrinks e) entries),
          gr_invalid_retained = gs_invalid scan,
          gr_recovery_refs_prunable = sum_list (map (\<lambda>p. length (snd p)) (gf_prunable refs)),
          gr_recovery_refs_removed = removed_refs,
          gr_recovery_refs_skipped = gf_skipped refs,
          gr_bytes_reclaimed = sum_list (map reclaimed_by entries)\<rparr>)))"

subsection \<open>The budget, as a decision\<close>

text \<open>Which of the records with the given sizes, newest first, fit the budget.\<close>

fun within_budget :: "nat \<Rightarrow> nat \<Rightarrow> nat list \<Rightarrow> bool list" where
  "within_budget n b [] = []"
| "within_budget n b (x # xs) =
     (if n < debug_history_max_records \<and> b + x \<le> debug_history_max_bytes
      then True # within_budget (n + 1) (b + x) xs
      else False # within_budget n b xs)"

lemma length_within_budget [simp]: "length (within_budget n b xs) = length xs"
  by (induction n b xs rule: within_budget.induct) auto

lemma within_budget_count:
  "n \<le> debug_history_max_records \<Longrightarrow>
    n + length (filter id (within_budget n b xs)) \<le> debug_history_max_records"
  by (induction n b xs rule: within_budget.induct) auto

definition chosen :: "bool list \<Rightarrow> 'a list \<Rightarrow> 'a list" where
  "chosen ds xs = map snd (filter fst (zip ds xs))"

lemma chosen_simps [simp]:
  "chosen [] xs = []" "chosen ds [] = []"
  "chosen (d # ds) (x # xs) = (if d then x # chosen ds xs else chosen ds xs)"
  by (simp_all add: chosen_def)

lemma within_budget_bytes:
  "b \<le> debug_history_max_bytes \<Longrightarrow>
    b + sum_list (chosen (within_budget n b xs) xs) \<le> debug_history_max_bytes"
  by (induction n b xs rule: within_budget.induct) auto

lemma chosen_count: "length ds = length xs \<Longrightarrow> length (chosen ds xs) = length (filter id ds)"
  by (induction ds xs rule: list_induct2) auto

lemma length_chosen: "length (chosen ds xs) = length (filter id (take (length xs) ds))"
proof (induction ds arbitrary: xs)
  case (Cons d ds)
  then show ?case by (cases xs) auto
qed simp

lemma chosen_count_take:
  "i \<le> length xs \<Longrightarrow> length (chosen (take i ds) xs) = length (filter id (take i ds))"
  by (simp add: length_chosen min_absorb2)

lemma map_chosen: "map f (chosen ds xs) = chosen ds (map f xs)"
  by (simp add: chosen_def zip_map2 filter_map comp_def split_def)

lemma saturating_fits:
  "saturating_add_u64 b x \<le> debug_history_max_bytes \<longleftrightarrow> b + x \<le> debug_history_max_bytes"
  by (simp add: saturating_add_u64_def debug_history_max_bytes_def u64_max_def min_le_iff_disj)

lemma prune_loop_eq:
  "prune_loop E n b hs = forEach (\<lambda>h. remove_transaction_artifacts E (snd h))
     (chosen (map Not (within_budget n b (map fst hs))) hs)"
  by (induction E n b hs rule: prune_loop.induct) (auto simp: saturating_fits simp del: map_eq_conv)

lemma within_budget_full:
  "debug_history_max_records \<le> n \<Longrightarrow> filter id (within_budget n b xs) = []"
  by (induction n b xs rule: within_budget.induct) auto

text \<open>A record is kept exactly when the ones kept before it leave room for it.\<close>

lemma within_budget_nth:
  "i < length xs \<Longrightarrow> within_budget n b xs ! i \<longleftrightarrow>
    n + length (filter id (take i (within_budget n b xs))) < debug_history_max_records
    \<and> b + sum_list (chosen (take i (within_budget n b xs)) xs) + xs ! i \<le> debug_history_max_bytes"
proof (induction n b xs arbitrary: i rule: within_budget.induct)
  case (2 n b x xs)
  then show ?case by (cases i) (auto simp: ac_simps)
qed simp

text \<open>prune\<close>

theorem prune_keeps_within_budget:
  fixes hs :: "(nat \<times> transaction) list"
  shows "\<exists>keep. length keep = length hs
    \<and> prune_loop E n 0 hs = forEach (\<lambda>h. remove_transaction_artifacts E (snd h)) (chosen (map Not keep) hs)
    \<and> length (chosen keep hs) \<le> debug_history_max_records - n
    \<and> sum_list (map fst (chosen keep hs)) \<le> debug_history_max_bytes
    \<and> (\<forall>i<length hs. keep ! i \<longleftrightarrow>
          n + length (chosen (take i keep) hs) < debug_history_max_records
          \<and> sum_list (map fst (chosen (take i keep) hs)) + fst (hs ! i) \<le> debug_history_max_bytes)"
proof (intro exI conjI)
  let ?keep = "within_budget n 0 (map fst hs)"
  show "length ?keep = length hs" by simp
  show "prune_loop E n 0 hs = forEach (\<lambda>h. remove_transaction_artifacts E (snd h)) (chosen (map Not ?keep) hs)"
    by (rule prune_loop_eq)
  show "length (chosen ?keep hs) \<le> debug_history_max_records - n"
    using within_budget_count [of n 0 "map fst hs"] within_budget_full [of n 0 "map fst hs"]
    by (cases "n \<le> debug_history_max_records") (auto simp: chosen_count)
  show "sum_list (map fst (chosen ?keep hs)) \<le> debug_history_max_bytes"
    using within_budget_bytes [of 0 n "map fst hs"] by (simp add: map_chosen)
  show "\<forall>i<length hs. ?keep ! i \<longleftrightarrow>
          n + length (chosen (take i ?keep) hs) < debug_history_max_records
          \<and> sum_list (map fst (chosen (take i ?keep) hs)) + fst (hs ! i) \<le> debug_history_max_bytes"
    by (auto simp: within_budget_nth map_chosen chosen_count_take)
qed

subsection \<open>Decisions of the collection\<close>

lemma length_retain [simp]: "length (retain_within_budget n b idx es) = length es"
  by (induction n b idx es rule: retain_within_budget.induct) (auto simp: Let_def)

definition same_entry :: "gc_entry \<Rightarrow> gc_entry \<Rightarrow> bool" where
  "same_entry d e \<longleftrightarrow> ge_transaction d = ge_transaction e \<and> ge_original_bytes d = ge_original_bytes e
     \<and> ge_compact_bytes d = ge_compact_bytes e"

lemma retain_same_entry:
  "\<forall>i\<in>set idx. i < length es \<Longrightarrow> i < length es \<Longrightarrow> same_entry (retain_within_budget n b idx es ! i) (es ! i)"
  by (induction n b idx es rule: retain_within_budget.induct)
    (auto simp: Let_def same_entry_def nth_list_update split: if_splits)

lemma retain_other: "i \<notin> set idx \<Longrightarrow> retain_within_budget n b idx es ! i = es ! i"
  by (induction n b idx es rule: retain_within_budget.induct) (auto simp: Let_def)

lemma retain_nth:
  assumes "distinct idx" and "\<forall>i\<in>set idx. i < length es \<and> \<not> ge_retain (es ! i)" and "k < length idx"
  shows "ge_retain (retain_within_budget n b idx es ! (idx ! k)) \<longleftrightarrow>
    within_budget n b (map (\<lambda>i. ge_compact_bytes (es ! i)) idx) ! k"
  using assms
proof (induction n b idx es arbitrary: k rule: retain_within_budget.induct)
  case (2 n b i rest es)
  have sizes: "map (\<lambda>j. ge_compact_bytes (es[i := e] ! j)) rest = map (\<lambda>j. ge_compact_bytes (es ! j)) rest" for e
    using 2(3) by (auto intro!: nth_list_update_neq [THEN arg_cong])
  have other: "j \<in> set rest \<Longrightarrow> es[i := e] ! j = es ! j" for j e
    using 2(3) by (auto intro!: nth_list_update_neq)
  show ?case
  proof (cases k)
    case 0
    then show ?thesis using 2(3,4) by (auto simp: Let_def saturating_fits retain_other)
  next
    case (Suc j)
    then show ?thesis using 2 by (auto simp: Let_def saturating_fits sizes other)
  qed
qed simp


lemma gc_history_props:
  "distinct (gc_history es)" "set (gc_history es) = {i. i < length es \<and> \<not> ge_retain (es ! i)}"
  by (auto simp: gc_history_def sort_desc_def)

lemma gc_decide_other: "ge_retain (es ! i) \<Longrightarrow> gc_decide retention es ! i = es ! i"
  by (simp add: gc_decide_def retain_other gc_history_props)

lemma gc_decide_same: "i < length es \<Longrightarrow> same_entry (gc_decide retention es ! i) (es ! i)"
  by (auto simp: gc_decide_def gc_history_props intro!: retain_same_entry) (simp add: same_entry_def)

lemma length_gc_decide [simp]: "length (gc_decide retention es) = length es"
  by (simp add: gc_decide_def)

definition newly_retained :: "transaction_retention \<Rightarrow> gc_entry list \<Rightarrow> nat set" where
  "newly_retained retention es =
     {i. i < length es \<and> ge_retain (gc_decide retention es ! i) \<and> \<not> ge_retain (es ! i)}"

lemma set_chosen: "length ds = length xs \<Longrightarrow> set (chosen ds xs) = {xs ! k | k. k < length xs \<and> ds ! k}"
  by (auto simp: chosen_def set_zip image_iff) force+

lemma distinct_chosen: "distinct xs \<Longrightarrow> distinct (chosen ds xs)"
proof (induction ds arbitrary: xs)
  case (Cons d ds)
  then show ?case by (cases xs) (auto simp: chosen_def dest: set_zip_rightD)
qed simp

lemma newly_retained_chosen:
  assumes "debug_history retention"
  shows "newly_retained retention es = set (chosen (within_budget 0 0
    (map (\<lambda>i. ge_compact_bytes (es ! i)) (gc_history es))) (gc_history es))"
proof -
  let ?h = "gc_history es" and ?ds = "within_budget 0 0 (map (\<lambda>i. ge_compact_bytes (es ! i)) (gc_history es))"
  have dec: "ge_retain (gc_decide retention es ! (?h ! k)) \<longleftrightarrow> ?ds ! k" if "k < length ?h" for k
    using assms retain_nth [of ?h es k 0 0] that by (auto simp: gc_decide_def gc_history_props)
  have "newly_retained retention es = {i \<in> set ?h. ge_retain (gc_decide retention es ! i)}"
    by (auto simp: newly_retained_def gc_history_props)
  also have "\<dots> = {?h ! k | k. k < length ?h \<and> ?ds ! k}"
    using dec by (fastforce simp: in_set_conv_nth)
  finally show ?thesis by (simp add: set_chosen)
qed

text \<open>C24. The diagnostic history keeps at most 128 further records of at most 256 MiB together, never
  drops a record that must be retained, and decides nothing when it is off.\<close>

theorem gc_decide_budget:
  "length (gc_decide retention es) = length es
    \<and> (\<forall>i<length es. same_entry (gc_decide retention es ! i) (es ! i)
        \<and> (ge_retain (es ! i) \<longrightarrow> ge_retain (gc_decide retention es ! i)))
    \<and> card (newly_retained retention es) \<le> debug_history_max_records
    \<and> (\<Sum>i\<in>newly_retained retention es. ge_compact_bytes (es ! i)) \<le> debug_history_max_bytes
    \<and> (\<not> debug_history retention \<longrightarrow> gc_decide retention es = es)"
proof (cases "debug_history retention")
  case True
  let ?h = "gc_history es" and ?sizes = "map (\<lambda>i. ge_compact_bytes (es ! i)) (gc_history es)"
  let ?c = "chosen (within_budget 0 0 ?sizes) ?h"
  have new: "newly_retained retention es = set ?c" and dc: "distinct ?c"
    using newly_retained_chosen [OF True] distinct_chosen [OF gc_history_props(1)] by auto
  have "card (set ?c) \<le> debug_history_max_records"
    using within_budget_count [of 0 0 ?sizes] dc by (simp add: distinct_card chosen_count)
  moreover have "(\<Sum>i\<in>set ?c. ge_compact_bytes (es ! i)) \<le> debug_history_max_bytes"
    using within_budget_bytes [of 0 0 ?sizes] dc
    by (simp add: sum_list_distinct_conv_sum_set [symmetric] map_chosen)
  ultimately show ?thesis using gc_decide_same [of _ es retention] True
    by (auto simp: new gc_decide_other)
next
  case False
  then show ?thesis by (simp add: gc_decide_def newly_retained_def same_entry_def)
qed

subsection \<open>The report\<close>

lemma returns_gc_scan_root:
  "returns (gc_scan_root E C root act) (\<lambda>scan. gs_scanned scan = gs_invalid scan + length (gs_entries scan))"
  unfolding gc_scan_root_def Let_def
  by (rule returns_bind, rule returns_case_sum)
    (auto simp: gc_scan_entry_def Let_def intro!: returns_ret returns_foldEach returns_rules returns_bind)

definition unneeded_only :: "gc_entry list \<Rightarrow> nat \<Rightarrow> gc_refs \<Rightarrow> bool" where
  "unneeded_only entries invalid refs \<longleftrightarrow>
     (\<forall>(p, rs)\<in>set (gf_prunable refs). invalid = 0 \<and> (\<forall>r\<in>set rs. r \<notin> set (required_refs entries p)))
     \<and> (invalid \<noteq> 0 \<longrightarrow> gf_prunable refs = []) \<and> (invalid = 0 \<longrightarrow> gf_skipped refs = 0)"

lemma returns_gc_collect_refs:
  "returns (gc_collect_refs E managed entries invalid) (unneeded_only entries invalid)"
  unfolding gc_collect_refs_def
  by (rule returns_bind, rule returns_foldEach)
    (auto simp: gc_project_refs_def unneeded_only_def Let_def intro!: returns_rules returns_bind)

lemma returns_gc_apply:
  "returns (gc_apply E C refs entries) (\<lambda>n. n = sum_list (map (\<lambda>p. length (snd p)) (gf_prunable refs)))"
proof -
  have "returns (foldEach (gc_prune_project E) n ps) (\<lambda>m. m = n + sum_list (map (\<lambda>p. length (snd p)) ps))" for n ps
  proof (induction ps arbitrary: n)
    case (Cons p ps)
    have "returns (gc_prune_project E n p) (\<lambda>m. m = n + length (snd p))"
      by (auto simp: gc_prune_project_def split_def intro!: returns_bind returns_ret)
    then show ?case
      by (auto intro!: returns_andThen [where Q = "\<lambda>m. m = n + length (snd p)"] returns_weaken [OF Cons])
  qed (simp add: returns_ret)
  note sum = this [of 0 "gf_prunable refs"]
  show ?thesis
    unfolding gc_apply_def by (rule returns_andThen [OF sum], rule returns_bind, rule returns_ret) simp
qed

text \<open>The report of a garbage collection adds up: scanned records are retained or removed,
  compacted and unreadable ones are among the retained, references are removed exactly when it
  is not a dry run, and unreadable records block every deletion of references.\<close>

theorem gc_report_adds_up:
  assumes "gc_transactions E C root managed act retention dry_run s = (Inr report, s')"
  shows "gr_scanned report = gr_retained report + gr_removed report
    \<and> gr_compacted report + gr_invalid_retained report \<le> gr_retained report
    \<and> gr_recovery_refs_removed report = (if dry_run then 0 else gr_recovery_refs_prunable report)
    \<and> (gr_invalid_retained report \<noteq> 0 \<longrightarrow> gr_recovery_refs_prunable report = 0)
    \<and> (gr_invalid_retained report = 0 \<longrightarrow> gr_recovery_refs_skipped report = 0)"
proof -
  have part: "length (filter ge_retain es) + length (filter (\<lambda>e. \<not> ge_retain e) es) = length es" for es
    by (rule filter_length_partition)
  have le: "length (filter (\<lambda>e. ge_retain e \<and> shrinks e) es) \<le> length (filter ge_retain es)" for es
    by (induction es) auto
  have "returns (gc_transactions E C root managed act retention dry_run) (\<lambda>report.
      gr_scanned report = gr_retained report + gr_removed report
      \<and> gr_compacted report + gr_invalid_retained report \<le> gr_retained report
      \<and> gr_recovery_refs_removed report = (if dry_run then 0 else gr_recovery_refs_prunable report)
      \<and> (gr_invalid_retained report \<noteq> 0 \<longrightarrow> gr_recovery_refs_prunable report = 0)
      \<and> (gr_invalid_retained report = 0 \<longrightarrow> gr_recovery_refs_skipped report = 0))"
    unfolding gc_transactions_def Let_def
    by (rule returns_andThen [OF returns_gc_scan_root], rule returns_andThen [OF returns_gc_collect_refs],
        rule returns_andThen [where Q = "\<lambda>n. n = (if dry_run then 0 else sum_list (map (\<lambda>p. length (snd p)) (gf_prunable _)))"])
      (auto simp: part le unneeded_only_def intro!: returns_ret returns_gc_apply)
  from returnsD [OF this assms] show ?thesis .
qed

subsection \<open>The events of a collection\<close>

definition listing_event :: "event \<Rightarrow> bool" where
  "listing_event ev = (case ev of
       ReadDir _ \<Rightarrow> True
     | ReadFile _ \<Rightarrow> True
     | Spawn program args opts \<Rightarrow> program = ''git'' \<and>
         args = [''for-each-ref'', ''--format=%(refname)'', ''refs/resync/recovery'']
     | _ \<Rightarrow> False)"

lemma emits_gc_scan_root: "emits listing_event (gc_scan_root E C root act)"
  by (auto simp: gc_scan_root_def gc_scan_entry_def Let_def listing_event_def
      intro!: effects split: option.splits)

lemma emits_gc_collect_refs: "emits listing_event (gc_collect_refs E managed entries invalid)"
  by (auto simp: gc_collect_refs_def gc_project_refs_def list_recovery_refs_def listing_event_def Let_def
      intro!: effects split: option.splits)

text \<open>dry run.\<close>

theorem gc_dry_run_only_lists:
  assumes "ev \<in> set (new_events (gc_transactions E C root managed act retention True) s)"
  shows "listing_event ev"
proof -
  have "emits listing_event (gc_transactions E C root managed act retention True)"
    by (auto simp: gc_transactions_def Let_def intro!: effects emits_gc_scan_root emits_gc_collect_refs)
  then show ?thesis using assms by (rule emits_new_events)
qed

definition ref_deletion :: "event \<Rightarrow> (path \<times> string option) option" where
  "ref_deletion ev = (case ev of
       Spawn program args opts \<Rightarrow>
         (if program = ''git'' \<and> hd args = ''update-ref''
          then map_option (\<lambda>q. (q, ro_input opts)) (ro_cwd opts) else None)
     | _ \<Rightarrow> None)"

definition only_unneeded :: "gc_entry list \<Rightarrow> event \<Rightarrow> bool" where
  "only_unneeded entries ev \<longleftrightarrow> (\<forall>q input. ref_deletion ev = Some (q, input) \<longrightarrow>
     (\<exists>refs. input = Some (delete_script refs)
        \<and> (\<forall>r\<in>set refs. is_ok (validate_recovery_ref r) \<and> r \<notin> set (required_refs entries q))))"

lemma only_unneeded_listing: "listing_event ev \<Longrightarrow> only_unneeded entries ev"
  by (auto simp: listing_event_def only_unneeded_def ref_deletion_def split: event.splits)

lemma emits_walk: "emits (only_unneeded entries) (walk_directories E fuel ds acc)"
  by (induction E fuel ds acc rule: walk_directories.induct)
    (auto simp: only_unneeded_def ref_deletion_def intro!: effects)

lemma emits_remove_empty:
  "emits (only_unneeded entries) (remove_empty_recovery_directories E q)"
  by (auto simp: remove_empty_recovery_directories_def remove_empty_directory_def
      only_unneeded_def ref_deletion_def intro!: effects emits_walk split: sum.splits io_error.splits)

lemma emits_delete_batch:
  assumes "\<forall>r\<in>set refs. r \<notin> set (required_refs entries q)"
  shows "emits (only_unneeded entries) (delete_recovery_refs_batch E q refs)"
proof -
  have "returns (lift (check_all validate_recovery_ref refs)) (\<lambda>_. \<forall>r\<in>set refs. is_ok (validate_recovery_ref r))"
    by (rule returns_lift) (auto simp: unit_result_cases)
  then show ?thesis unfolding delete_recovery_refs_batch_def
    by (rule emits_andThen_returns [OF emits_lift])
      (use assms in \<open>auto simp: only_unneeded_def ref_deletion_def intro!: effects exI [of _ refs]\<close>)
qed

lemma emits_gc_apply:
  assumes "unneeded_only entries invalid refs"
  shows "emits (only_unneeded entries) (gc_apply E C refs entries')"
proof -
  have "only_unneeded entries ev" if "document_event E q ev" for q ev
    using that by (auto simp: document_event_def only_unneeded_def ref_deletion_def split: event.splits)
  then have "emits (only_unneeded entries) (gc_apply_entry E C e)" for e
    by (auto simp: gc_apply_entry_def only_unneeded_def ref_deletion_def intro!: effects emits_write_json)
  moreover have "emits (only_unneeded entries) (gc_prune_project E n p)" if "p \<in> set (gf_prunable refs)" for n p
    using assms that
    by (auto simp: gc_prune_project_def unneeded_only_def intro!: effects emits_delete_batch emits_remove_empty)
  ultimately show ?thesis by (auto simp: gc_apply_def intro!: effects)
qed

lemma emits_gc_apply_none:
  assumes "gf_prunable refs = []"
  shows "emits (\<lambda>ev. ref_deletion ev = None) (gc_apply E C refs entries)"
proof -
  have "ref_deletion ev = None" if "document_event E q ev" for q ev
    using that by (auto simp: document_event_def ref_deletion_def split: event.splits)
  then show ?thesis
    by (auto simp: gc_apply_def assms gc_apply_entry_def ref_deletion_def intro!: effects emits_write_json)
qed

definition deletion_allowed :: "gc_scan \<Rightarrow> transaction_retention \<Rightarrow> event \<Rightarrow> bool" where
  "deletion_allowed scan retention ev \<longleftrightarrow> only_unneeded (gc_decide retention (gs_entries scan)) ev
     \<and> (gs_invalid scan \<noteq> 0 \<longrightarrow> ref_deletion ev = None)"

lemma deletion_allowed_listing: "listing_event ev \<Longrightarrow> deletion_allowed scan retention ev"
  by (auto simp: deletion_allowed_def only_unneeded_listing)
    (auto simp: listing_event_def ref_deletion_def split: event.splits)

lemma emits_gc_apply_allowed:
  assumes "unneeded_only (gc_decide retention (gs_entries scan)) (gs_invalid scan) refs"
  shows "emits (deletion_allowed scan retention) (gc_apply E C refs entries)"
proof (cases "gs_invalid scan = 0")
  case True
  then show ?thesis
    by (intro emits_mono [OF emits_gc_apply [OF assms]]) (simp add: deletion_allowed_def)
next
  case False
  then have "gf_prunable refs = []" using assms by (simp add: unneeded_only_def)
  then show ?thesis
    by (rule emits_mono [OF emits_gc_apply_none]) (simp add: deletion_allowed_def only_unneeded_def)
qed

text \<open>C11. Garbage collection deletes a recovery reference only if every record of the directory could
  be read, the reference lies in the recovery namespace, and no retained record of that
  repository needs it.\<close>

theorem gc_deletes_only_unneeded:
  assumes scan: "gc_scan_root E C root act s = (Inr scan, s1)"
    and ev: "ev \<in> set (new_events (gc_transactions E C root managed act retention dry_run) s)"
    and del: "ref_deletion ev = Some (q, input)"
  shows "gs_invalid scan = 0 \<and> (\<exists>refs. input = Some (delete_script refs)
    \<and> (\<forall>r\<in>set refs. is_ok (validate_recovery_ref r)
        \<and> (\<forall>e\<in>set (gc_decide retention (gs_entries scan)).
              ge_retain e \<and> same_path (tx_project_path (ge_transaction e)) q \<longrightarrow> r \<notin> set (entry_refs e))))"
proof -
  let ?P = "deletion_allowed scan retention"
  have scanned: "emits_at ?P (gc_scan_root E C root act) s"
    by (rule emits_at [OF emits_mono [OF emits_gc_scan_root deletion_allowed_listing]])
  have rest: "emits ?P (andThen (gc_collect_refs E managed (gc_decide retention (gs_entries scan)) (gs_invalid scan))
      (\<lambda>refs. andThen (if dry_run then ret 0 else gc_apply E C refs (gc_decide retention (gs_entries scan))) (\<lambda>n. ret (f refs n))))"
    for f :: "gc_refs \<Rightarrow> nat \<Rightarrow> gc_report"
    by (rule emits_andThen_returns [OF emits_mono [OF emits_gc_collect_refs deletion_allowed_listing]
          returns_gc_collect_refs]) (auto intro!: effects emits_gc_apply_allowed)
  have "emits_at ?P (gc_transactions E C root managed act retention dry_run) s"
    unfolding gc_transactions_def Let_def
    by (rule emits_at_andThen [OF scanned]) (use scan rest in \<open>auto intro!: emits_at\<close>)
  then have "?P ev" using ev by (rule emits_at_new_events)
  then show ?thesis using del by (auto simp: deletion_allowed_def only_unneeded_def required_refs_def)
qed
end
