(* ===== verification/Transaction_Examples.thy ===== *)
theory Transaction_Examples
  imports Scripted_World Transaction_Gc
begin

section \<open>Examples of transactions\<close>

text \<open>Runs of the transactions in the scripted world: the answers of the commands are given as a list.\<close>

definition example_snapshot :: workspace_snapshot where
  "example_snapshot = \<lparr>sn_head = ''h'', sn_index_tree = ''i'', sn_working_tree = ''w''\<rparr>"

definition example_candidate :: candidate where
  "example_candidate = \<lparr>cd_working_commit = ''cw'', cd_index_commit = ''ci'', cd_real_head = ''n'',
     cd_working_tree = ''tw'', cd_index_tree = ''ti''\<rparr>"

definition example_transaction :: transaction where
  "example_transaction = \<lparr>tx_id = ''0-u1'', tx_project_path = ''/p'', tx_previous_remote_oid = ''b'',
     tx_target_remote_oid = ''r'', tx_snapshot = example_snapshot,
     tx_recovery_ref = ''refs/resync/recovery/0-u1'', tx_head_ref = ''refs/heads/main'',
     tx_phase = ''PREPARING'', tx_created_at = ''+'', tx_path = ''/s/transactions/0-u1.json'',
     tx_candidate = Some example_candidate, tx_conflict = None, tx_completed_at = None,
     tx_recovered_at = None\<rparr>"

definition example_records :: "transaction codec" where
  "example_records = \<lparr>enc = (\<lambda>t. tx_phase t),
     dec = (\<lambda>s. Some (example_transaction\<lparr>tx_phase := s\<rparr>))\<rparr>"

definition example_prepared :: prepared_install where
  "example_prepared = \<lparr>pi_project_path = ''/p'', pi_previous_remote_oid = ''b'',
     pi_target_remote_oid = ''r'', pi_transaction = example_transaction, pi_retention = default_retention\<rparr>"

lemma example_own [simp]: "own_record example_transaction" "own_record (example_transaction\<lparr>tx_phase := ph\<rparr>)"
  by (simp_all add: own_record_def example_transaction_def recovery_namespace_def starts_with_def)

lemma example_records_own: "dec example_records c = Some t \<Longrightarrow> own_record t"
  by (auto simp: example_records_def)

lemma example_fresh: "fresh_tempdir scripted_env ''/p''"
  by (simp add: fresh_tempdir_def)

text \<open>The answers of Git to a capture that finds the snapshot.\<close>

definition capture_answers :: "run_result list" where
  "capture_answers = [says ''h'', says ''i'', says [], says [], says ''w'']"

definition before_install :: "run_result list world" where
  "before_install = scripted_world [] capture_answers"

lemma example_capture: "fst (capture_workspace scripted_env ''/p'' before_install) = Inr example_snapshot"
  by (simp add: running path_steps capture_workspace_def rev_verify_def temporary_index_def before_install_def
      capture_answers_def example_snapshot_def cong: lazy)

lemmas example_steps = install_prepared_def install_candidate_def install_precheck_def capture_workspace_def
  rev_verify_def temporary_index_def tree_paths_def find_untracked_collisions_def nul_separated_def
  apply_candidate_def settle_transaction_def remove_transaction_artifacts_def delete_recovery_refs_def
  changed_paths_def before_install_def capture_answers_def example_prepared_def example_transaction_def
  example_snapshot_def example_candidate_def example_records_def default_retention_def

lemma example_install_resets:
  "git_event ''/p'' (reset_worktree_args ''tw'') default_options
     \<in> set (new_events (install_prepared scripted_env example_records example_prepared) before_install)"
  by (simp add: new_events_def running path_steps example_steps cong: lazy)

lemma reset_unsafe: "\<not> workspace_safe ''/p'' (git_event ''/p'' (reset_worktree_args t) default_options)"
  by (simp add: workspace_safe_def safe_git_simps reset_worktree_args_def default_options_def)

lemma example_own_records: "own_records example_records (pi_retention example_prepared)"
  by (simp add: own_records_def example_prepared_def default_retention_def)

lemma example_own_prepared: "own_record (pi_transaction example_prepared)"
  by (simp add: example_prepared_def)

theorem install_only_unchanged_witness:
  "fst (capture_workspace scripted_env ''/p'' before_install) = Inr example_snapshot"
  using install_only_unchanged [OF example_own_records example_own_prepared example_install_resets]
  by (simp add: example_prepared_def reset_unsafe) (simp add: example_transaction_def)

theorem install_stages_witness:
  "\<exists>mid. staged (workspace_safe ''/p'') (install_script scripted_env example_records ''/p'' example_transaction example_candidate)
     mid (new_events (install_prepared scripted_env example_records example_prepared) before_install)"
proof -
  have "tx_candidate (pi_transaction example_prepared) = Some example_candidate"
    by (simp add: example_prepared_def example_transaction_def)
  from install_stages [OF example_own_records example_own_prepared this, of scripted_env before_install]
  show ?thesis by (auto simp: example_prepared_def)
qed

theorem journal_before_change_witness:
  "\<exists>a b post. new_events (install_prepared scripted_env example_records example_prepared) before_install
     = (a @ document_script scripted_env ''/s/transactions/0-u1.json'' (json_text example_records
         (example_transaction\<lparr>tx_phase := ''INSTALLING''\<rparr>)) private_mode @ b)
       @ git_event ''/p'' (reset_worktree_args ''tw'') default_options # post"
proof -
  obtain pre post where es: "new_events (install_prepared scripted_env example_records example_prepared) before_install
      = pre @ git_event ''/p'' (reset_worktree_args ''tw'') default_options # post"
    using split_list [OF example_install_resets] by auto
  have "\<not> workspace_safe (pi_project_path example_prepared) (git_event ''/p'' (reset_worktree_args ''tw'') default_options)"
    using reset_unsafe by (simp add: example_prepared_def)
  from journal_before_change [OF example_own_records example_own_prepared es this]
  obtain a b where "pre = a @ document_script scripted_env ''/s/transactions/0-u1.json'' (json_text example_records
      (example_transaction\<lparr>tx_phase := ''INSTALLING''\<rparr>)) private_mode @ b"
    by (auto simp: example_prepared_def) (simp add: example_transaction_def)
  then show ?thesis using es by auto
qed

text \<open>A discarded preparation removes its recovery references.\<close>

theorem discard_leaves_workspace_alone_witness:
  "workspace_safe ''/p'' (git_event ''/p'' [''update-ref'', ''-d'', ''refs/resync/recovery/0-u1/head''] default_options)"
proof -
  have "git_event ''/p'' [''update-ref'', ''-d'', ''refs/resync/recovery/0-u1/head''] default_options
      \<in> set (new_events (discard_prepared_reconciliation scripted_env example_records (Ready example_prepared)) before_install)"
    by (simp add: new_events_def running path_steps example_steps cong: lazy)
  from discard_leaves_workspace_alone [OF example_own_records example_own_prepared this] show ?thesis .
qed

text \<open>A complete preparation: the rebase succeeds.\<close>

definition before_preparation :: "run_result list world" where
  "before_preparation = scripted_world [] ([says ''main'', says []] @ capture_answers @
     [says [], says [], says [], says ''ci0'', says ''cw0'', says [], says [], says [],
      says ''refs/heads/main'', says [], says [], says [],
      says ''cw'', says ''ci'', says ''n'', says ''tw'', says ''ti''])"

lemmas preparation_steps = prepare_reconciliation_def prepare_checks_def prepare_ancestry_def open_transaction_def
  prepare_candidate_def rebase_candidate_def current_branch_def is_ancestor_def new_transaction_id_def
  create_synthetic_chain_def write_recovery_refs_def recovery_prefix_def read_head_ref_def rev_parse_def
  candidate_branch_def show_int_def unary_time_def before_preparation_def

lemma example_preparation:
  "fst (prepare_reconciliation scripted_env example_records ''/p'' ''b'' ''r'' (Some ''/s/transactions'') default_retention before_preparation)
     = Inr (Ready example_prepared)"
  by (simp add: running path_steps example_steps preparation_steps cong: lazy)

theorem prepare_ready_witness:
  "tx_candidate example_transaction \<noteq> None \<and> tx_phase example_transaction = ''PREPARING''"
proof -
  obtain s' where "prepare_reconciliation scripted_env example_records ''/p'' ''b'' ''r'' (Some ''/s/transactions'') default_retention
      before_preparation = (Inr (Ready example_prepared), s')"
    using example_preparation by (metis prod.collapse)
  from prepare_ready [OF this] show ?thesis by (simp add: example_prepared_def)
qed

theorem prepare_leaves_workspace_alone_witness:
  "workspace_safe ''/p'' (git_event ''/p'' [''update-ref'', ''refs/resync/recovery/0-u1/candidate'', ''cw''] default_options)"
proof -
  have "git_event ''/p'' [''update-ref'', ''refs/resync/recovery/0-u1/candidate'', ''cw''] default_options
      \<in> set (new_events (prepare_reconciliation scripted_env example_records ''/p'' ''b'' ''r'' (Some ''/s/transactions'')
        default_retention) before_preparation)"
    by (simp add: new_events_def running path_steps example_steps preparation_steps cong: lazy)
  from prepare_leaves_workspace_alone [OF example_fresh _ this] show ?thesis
    by (simp add: own_records_def default_retention_def)
qed

subsection \<open>Recovery\<close>

definition installing :: transaction where
  "installing = example_transaction\<lparr>tx_phase := ''INSTALLING''\<rparr>"

lemma example_recovery:
  "\<exists>s'. recover_installing scripted_env example_records default_retention ''/s/transactions/0-u1.json'' installing before_install
     = (Inr (installing\<lparr>tx_phase := ''ROLLED_BACK'', tx_recovered_at := Some ''+''\<rparr>), s')"
  by (simp add: running path_steps example_steps recover_installing_def rollback_workspace_def installing_def unary_time_def
      cong: lazy)

theorem recover_installing_by_head_witness: "tx_candidate installing = Some example_candidate"
proof -
  obtain s' where "recover_installing scripted_env example_records default_retention ''/s/transactions/0-u1.json'' installing
      before_install = (Inr (installing\<lparr>tx_phase := ''ROLLED_BACK'', tx_recovered_at := Some ''+''\<rparr>), s')"
    using example_recovery by auto
  from recover_installing_by_head [OF this] show ?thesis
    by (auto simp: installing_def example_transaction_def)
qed

theorem recover_installing_stages_witness:
  "\<exists>mid. staged (workspace_safe (tx_project_path installing)) (rollback_commands installing) mid
     (new_events (recover_installing scripted_env example_records default_retention ''/s/transactions/0-u1.json'' installing) before_install)
     \<and> mid = rollback_commands installing"
proof -
  have own: "own_records example_records default_retention" "own_record installing"
    by (simp_all add: own_records_def default_retention_def installing_def)
  from recover_installing_stages [OF own, of scripted_env "''/s/transactions/0-u1.json''" before_install] example_recovery
  show ?thesis by auto
qed

definition recorded :: "string \<Rightarrow> run_result list world" where
  "recorded phase = scripted_world [(''/s/transactions/0-u1.json'', File phase)] []"

theorem recover_other_phases_witness:
  "workspace_safe ''/p'' (git_event ''/p'' [''update-ref'', ''-d'', ''refs/resync/recovery/0-u1/head''] default_options)"
proof -
  have stored: "fs_get (files (recorded ''COMPLETED'')) ''/s/transactions/0-u1.json'' = Some (File ''COMPLETED'')"
    "dec example_records ''COMPLETED'' = Some (example_transaction\<lparr>tx_phase := ''COMPLETED''\<rparr>)"
    by (simp_all add: recorded_def scripted_world_def fs_get_def example_records_def)
  have "git_event ''/p'' [''update-ref'', ''-d'', ''refs/resync/recovery/0-u1/head''] default_options
      \<in> set (new_events (recover_transaction scripted_env example_records ''/s/transactions/0-u1.json'' default_retention)
        (recorded ''COMPLETED''))"
    by (simp add: new_events_def running path_steps example_steps recover_transaction_def recorded_def cong: lazy)
  from recover_other_phases [OF _ stored _ this] show ?thesis
    using example_records_own by auto
qed

theorem retry_record_is_not_recoverable_witness:
  "fst (recover_transaction scripted_env example_records ''/s/transactions/0-u1.json'' default_retention (recorded ''RETRY''))
     = Inl ''unknown transaction phase RETRY''"
  by (rule retry_record_is_not_recoverable [where contents = "''RETRY''" and t = "example_transaction\<lparr>tx_phase := ''RETRY''\<rparr>"])
    (simp_all add: recorded_def scripted_world_def fs_get_def example_records_def)

end
