(* ===== verification/Remote.thy ===== *)
theory Remote
  imports Transaction_Gc Provider
begin

section \<open>The hosted repository\<close>

text \<open>
  \<open>src/src/remote.rs\<close>: the credentials Git is given, the catalog and the heartbeat of the provider,
  fetching hosted branches, and turning a catalog entry into a local checkout: cloning, adopting a
  directory that exactly matches a hosted commit, or joining an existing checkout without
  choosing between diverging histories. Maps from branch names to commits are sorted association
  lists.
\<close>

subsection \<open>Requests to the provider\<close>

record heartbeat_project =
  hp_project_id :: string
  hp_active_branch :: string
  hp_membership :: string
  hp_head :: "string option"
  hp_project_generation :: nat

definition decode_heartbeat :: "json \<Rightarrow> heartbeat_project option" where
  "decode_heartbeat j =
     Option.bind (struct_fields [''project_id'', ''active_branch'', ''membership'', ''head'',
       ''project_generation''] j) (\<lambda>m.
     Option.bind (req_str ''project_id'' m) (\<lambda>project_id.
     Option.bind (req_str ''active_branch'' m) (\<lambda>active_branch.
     Option.bind (req_str ''membership'' m) (\<lambda>membership.
     Option.bind (optional_str ''head'' m) (\<lambda>head.
     Option.bind (default_u64 ''project_generation'' m) (\<lambda>generation.
     Some \<lparr>hp_project_id = project_id, hp_active_branch = active_branch, hp_membership = membership,
       hp_head = head, hp_project_generation = generation\<rparr>))))))"

definition authorization_env :: "'x env \<Rightarrow> string option \<Rightarrow> (string \<times> string) list" where
  "authorization_env E token = (case token of None \<Rightarrow> []
     | Some t \<Rightarrow> [(''GIT_CONFIG_COUNT'', ''1''), (''GIT_CONFIG_KEY_0'', ''http.extraHeader''),
         (''GIT_CONFIG_VALUE_0'', ''Authorization: Basic '' @ base64_std E (''resync:'' @ t))])"

definition resolved_config :: "'x env \<Rightarrow> config codec \<Rightarrow> credential_file codec \<Rightarrow>
    (('x, 'z) world_scheme, string, config) prog" where
  "resolved_config E CF CC =
     andThen (load_config_raw E CF) (\<lambda>config.
     let origin = cfg_active_provider config in
     andThen (case origin of None \<Rightarrow> ret None | Some o' \<Rightarrow> load_credential E CC o') (\<lambda>token.
     ret (config\<lparr>cfg_server := origin,
        cfg_token := (case token of Some t \<Rightarrow> Some t | None \<Rightarrow> cfg_token config)\<rparr>)))"

definition login_required :: string where
  "login_required = ''run `resync login SERVER TOKEN` first''"

definition fetch_catalog :: "'x env \<Rightarrow> config \<Rightarrow> (('x, 'z) world_scheme, string, catalog) prog" where
  "fetch_catalog E config =
     andThen (lift (ok_or login_required (cfg_server config))) (\<lambda>server.
     andThen (lift (ok_or login_required (cfg_token config))) (\<lambda>token.
     andThen (lift (ok_or ''invalid server URL'' (url_join E server ''/v1/catalog''))) (\<lambda>url.
     andThen (http_send E \<lparr>req_method = ''GET'', req_url = url, req_token = Some token, req_body = None\<rparr>) (\<lambda>res.
     if \<not> status_ok (res_status res)
     then bail (''catalog request failed ('' @ show_digits (res_status res) @ ''): ''
       @ concat (take 500 (utf8_chars (res_text res))))
     else
     andThen (lift (ok_or ''invalid catalog'' (parse_json E (res_text res)))) (\<lambda>v.
     lift (catalog_from_value v))))))"

text \<open>The branch a checkout is on, as Git says, or as it was last known.\<close>

definition observed_branch :: "'x env \<Rightarrow> local_project \<Rightarrow> (('x, 'z) world_scheme, 'e, string) prog" where
  "observed_branch E project =
     andThen (attempt (current_branch E (lp_local_path project))) (\<lambda>r.
     ret (case r of Inr b \<Rightarrow> b
       | Inl _ \<Rightarrow> (case lp_active_branch project of Some b \<Rightarrow> b | None \<Rightarrow> lp_default_branch project)))"

definition checkout_report :: "'x env \<Rightarrow> json list \<Rightarrow> local_project \<Rightarrow> (('x, 'z) world_scheme, string, json list) prog" where
  "checkout_report E acc project =
     andThen (observed_branch E project) (\<lambda>branch.
     ret (acc @ [jobj [(''project_id'', JStr (lp_project_id project)),
       (''checkout_id'', jopt (lp_checkout_id project)), (''active_branch'', JStr branch)]]))"

definition heartbeat :: "'x env \<Rightarrow> config \<Rightarrow> local_project list \<Rightarrow>
    (('x, 'z) world_scheme, string, heartbeat_project list) prog" where
  "heartbeat E config projects =
     andThen (lift (ok_or ''provider is not configured'' (cfg_server config))) (\<lambda>server.
     andThen (lift (ok_or ''provider credential is unavailable'' (cfg_token config))) (\<lambda>token.
     andThen (lift (ok_or ''invalid server URL'' (url_join E server ''/v1/heartbeat''))) (\<lambda>url.
     andThen (foldEach (checkout_report E) [] projects) (\<lambda>checkouts.
     andThen (http_send E \<lparr>req_method = ''POST'', req_url = url, req_token = Some token,
       req_body = Some (jobj [(''checkouts'', JArr checkouts)])\<rparr>) (\<lambda>res.
     andThen (lift (ok_or ''invalid heartbeat reply'' (parse_json E (res_text res)))) (\<lambda>v.
     if \<not> status_ok (res_status res)
     then bail (case jget_str ''error'' v of Some e \<Rightarrow> e | None \<Rightarrow> ''provider heartbeat failed'')
     else
     andThen (lift (ok_or ''provider heartbeat omitted projects'' (jget ''projects'' v))) (\<lambda>ps.
     lift (ok_or ''invalid heartbeat reply'' (Option.bind (as_array ps) (decode_all decode_heartbeat))))))))))"

subsection \<open>References\<close>

definition tab :: char where
  "tab = CHR 0x09"

definition parse_refs :: "string \<Rightarrow> heads" where
  "parse_refs out = foldl (\<lambda>m (name, oid). obj_insert name oid m) []
     (List.map_filter (split_once tab) (str_lines (trim out)))"

definition refs :: "'x env \<Rightarrow> path \<Rightarrow> string \<Rightarrow> (('x, 'z) world_scheme, string, heads) prog" where
  "refs E project_path start =
     andThen (git E project_path [''for-each-ref'', ''--format=%(refname:strip=2)'' @ [tab] @ ''%(objectname)'', start]
       allow_failure_options) (\<lambda>res.
     ret (if code res \<noteq> 0 \<or> trim (stdout res) = [] then [] else parse_refs (stdout res)))"

definition local_heads :: "'x env \<Rightarrow> path \<Rightarrow> (('x, 'z) world_scheme, string, heads) prog" where
  "local_heads E project_path = refs E project_path ''refs/heads''"

definition strip_remote :: "string \<Rightarrow> heads \<Rightarrow> heads" where
  "strip_remote remote_name hs = foldl (\<lambda>m (name, oid). obj_insert name oid m) []
     (List.map_filter (\<lambda>(name, oid). case strip_prefix (remote_name @ ''/'') name of
        None \<Rightarrow> None
      | Some rest \<Rightarrow> if rest \<noteq> ''HEAD'' then Some (rest, oid) else None) hs)"

definition remote_heads :: "'x env \<Rightarrow> path \<Rightarrow> string \<Rightarrow> (('x, 'z) world_scheme, string, heads) prog" where
  "remote_heads E project_path remote_name =
     andThen (refs E project_path (''refs/remotes/'' @ remote_name)) (\<lambda>hs. ret (strip_remote remote_name hs))"

definition missing_ref_text :: string where
  "missing_ref_text = ''couldn'' @ [CHR 0x27] @ ''t find remote ref''"

definition fetch_options :: "'x env \<Rightarrow> string option \<Rightarrow> run_options" where
  "fetch_options E token = allow_failure_options\<lparr>ro_env := authorization_env E token\<rparr>"

definition fetch_remote :: "'x env \<Rightarrow> local_project \<Rightarrow> string option \<Rightarrow> (('x, 'z) world_scheme, string, heads) prog" where
  "fetch_remote E project token =
     andThen (git E (lp_local_path project) [''fetch'', ''--prune'', ''--no-tags'', lp_remote_name project,
       ''+refs/heads/*:refs/remotes/'' @ lp_remote_name project @ ''/*''] (fetch_options E token)) (\<lambda>res.
     if code res \<noteq> 0
     then if contains (to_ascii_lowercase (stderr res)) missing_ref_text then ret []
          else bail (if trim (stderr res) = [] then ''Git fetch failed'' else trim (stderr res))
     else remote_heads E (lp_local_path project) (lp_remote_name project))"

definition fetch_remote_branch :: "'x env \<Rightarrow> local_project \<Rightarrow> string \<Rightarrow> string option \<Rightarrow>
    (('x, 'z) world_scheme, string, string option) prog" where
  "fetch_remote_branch E project branch token =
     (let remote_ref = ''refs/heads/'' @ branch;
          tracking_ref = ''refs/remotes/'' @ lp_remote_name project @ ''/'' @ branch in
     andThen (git E (lp_local_path project) [''fetch'', ''--no-tags'', lp_remote_name project,
       ''+'' @ remote_ref @ '':'' @ tracking_ref] (fetch_options E token)) (\<lambda>res.
     if code res \<noteq> 0
     then if contains (stderr res) missing_ref_text
          then andThen (ignore (git E (lp_local_path project) [''update-ref'', ''-d'', tracking_ref]
            allow_failure_options)) (\<lambda>_. ret None)
          else bail (trim (stderr res))
     else
     andThen (git E (lp_local_path project) [''rev-parse'', ''--verify'', tracking_ref] allow_failure_options) (\<lambda>resolved.
     ret (if code resolved = 0 \<and> trim (stdout resolved) \<noteq> [] then Some (trim (stdout resolved)) else None))))"

subsection \<open>Adopting a directory\<close>

definition git_do :: "'x env \<Rightarrow> path \<Rightarrow> string list \<Rightarrow> (('x, 'z) world_scheme, string, unit) prog" where
  "git_do E dir args = andThen (git E dir args default_options) (\<lambda>_. ret ())"

definition configure_remote :: "'x env \<Rightarrow> path \<Rightarrow> string \<Rightarrow> string \<Rightarrow> (('x, 'z) world_scheme, string, unit) prog" where
  "configure_remote E destination remote_name remote_url =
     andThen (git E destination [''remote'', ''get-url'', remote_name] allow_failure_options) (\<lambda>current.
     andThen (git_do E destination (if code current = 0
       then [''remote'', ''set-url'', remote_name, remote_url]
       else [''remote'', ''add'', remote_name, remote_url])) (\<lambda>_.
     git_do E destination [''config'', ''remote.'' @ remote_name @ ''.fetch'',
       ''+refs/heads/*:refs/remotes/'' @ remote_name @ ''/*'']))"

text \<open>A path of the history that the tree does not have but the directory does.\<close>

fun historical_extras :: "'x env \<Rightarrow> path \<Rightarrow> string list \<Rightarrow> string list \<Rightarrow> (('x, 'z) world_scheme, 'e, bool) prog" where
  "historical_extras E destination tree_files [] = ret False"
| "historical_extras E destination tree_files (p # ps) =
     (if p \<in> set tree_files then historical_extras E destination tree_files ps
      else andThen (attempt (symlink_metadata E (path_join destination p))) (\<lambda>r. case r of
          Inr _ \<Rightarrow> ret True
        | Inl NotFound \<Rightarrow> historical_extras E destination tree_files ps
        | Inl _ \<Rightarrow> ret True))"

text \<open>The first commit, newest first, whose tree is exactly what the directory holds.\<close>

fun find_baseline :: "'x env \<Rightarrow> path \<Rightarrow> string list \<Rightarrow> string list \<Rightarrow>
    (('x, 'z) world_scheme, string, string option) prog" where
  "find_baseline E destination history_paths [] = ret None"
| "find_baseline E destination history_paths (oid # oids) =
     andThen (git_do E destination [''read-tree'', oid]) (\<lambda>_.
     andThen (git E destination [''diff'', ''--quiet'', ''--'', ''.''] allow_failure_options) (\<lambda>difference.
     if code difference \<noteq> 0 then find_baseline E destination history_paths oids
     else
     andThen (git E destination [''ls-tree'', ''-r'', ''--name-only'', ''-z'', oid] default_options) (\<lambda>tree.
     andThen (historical_extras E destination (nul_separated (stdout tree)) history_paths) (\<lambda>extras.
     if \<not> extras then ret (Some oid) else find_baseline E destination history_paths oids))))"

text \<open>The branch to be on: the default branch if it contains the baseline, else the first
  advertised one that does.\<close>

fun first_containing :: "'x env \<Rightarrow> path \<Rightarrow> string \<Rightarrow> advertised_head list \<Rightarrow>
    (('x, 'z) world_scheme, string, string option) prog" where
  "first_containing E destination baseline [] = ret None"
| "first_containing E destination baseline (h # hs) =
     andThen (is_ancestor E destination baseline (ah_oid h)) (\<lambda>inside.
     if inside then ret (Some (ah_name h)) else first_containing E destination baseline hs)"

definition choose_branch :: "'x env \<Rightarrow> path \<Rightarrow> string \<Rightarrow> catalog_project \<Rightarrow>
    (('x, 'z) world_scheme, string, string option) prog" where
  "choose_branch E destination baseline p =
     andThen (case find (\<lambda>h. ah_name h = cp_default_branch p) (cp_advertised_heads p) of
         None \<Rightarrow> ret None
       | Some h \<Rightarrow> andThen (is_ancestor E destination baseline (ah_oid h)) (\<lambda>inside.
           ret (if inside then Some (ah_name h) else None))) (\<lambda>branch.
     case branch of
       Some b \<Rightarrow> ret (Some b)
     | None \<Rightarrow> first_containing E destination baseline (cp_advertised_heads p))"

definition adopt_metadata :: "'x env \<Rightarrow> path \<Rightarrow> catalog_project \<Rightarrow> string option \<Rightarrow> string \<Rightarrow>
    (('x, 'z) world_scheme, string, unit) prog" where
  "adopt_metadata E destination p token remote_name =
     andThen (configure_remote E destination remote_name (cp_remote_url p)) (\<lambda>_.
     andThen (git E destination [''fetch'', ''--prune'', ''--no-tags'', remote_name,
       ''+refs/heads/*:refs/remotes/'' @ remote_name @ ''/*'']
       (default_options\<lparr>ro_env := authorization_env E token\<rparr>)) (\<lambda>_.
     andThen (git E destination [''rev-list'', ''--topo-order'', ''--all''] default_options) (\<lambda>revisions.
     andThen (git E destination [''log'', ''--all'', ''--format='', ''--name-only'', ''-z''] default_options) (\<lambda>history.
     andThen (find_baseline E destination (sort (remdups (nul_separated (stdout history))))
       (str_lines (stdout revisions))) (\<lambda>found.
     andThen (lift (ok_or (destination
       @ '' does not exactly match the tracked files of any hosted commit; refusing to adopt it'') found)) (\<lambda>baseline.
     andThen (choose_branch E destination baseline p) (\<lambda>chosen.
     andThen (lift (ok_or (''matching commit '' @ baseline
       @ '' is not reachable from an advertised hosted branch'') chosen)) (\<lambda>branch.
     let reference = ''refs/heads/'' @ branch in
     forEach (git_do E destination)
       [[''symbolic-ref'', ''HEAD'', reference],
        [''update-ref'', reference, baseline],
        [''reset'', ''--mixed'', baseline],
        [''config'', ''branch.'' @ branch @ ''.remote'', remote_name],
        [''config'', ''branch.'' @ branch @ ''.merge'', ''refs/heads/'' @ branch]]))))))))"

definition adopt_exact_snapshot :: "'x env \<Rightarrow> path \<Rightarrow> catalog_project \<Rightarrow> string option \<Rightarrow> string \<Rightarrow>
    (('x, 'z) world_scheme, string, unit) prog" where
  "adopt_exact_snapshot E destination p token remote_name =
     (let metadata = path_join destination ''.git'' in
     andThen (path_exists metadata) (\<lambda>present.
     if present then bail (destination @ '' contains Git metadata but is not a valid worktree'')
     else
     andThen (git_do E destination [''init'', ''--initial-branch='' @ cp_default_branch p]) (\<lambda>_.
     andThen (attempt (adopt_metadata E destination p token remote_name)) (\<lambda>outcome.
     andThen (onlyIf (\<not> is_ok outcome) (ignore (remove_dir_all E metadata))) (\<lambda>_.
     lift outcome)))))"

subsection \<open>Materializing a project\<close>

definition create_checkout :: "'x env \<Rightarrow> path \<Rightarrow> catalog_project \<Rightarrow> heads \<Rightarrow> string option \<Rightarrow> string \<Rightarrow>
    (('x, 'z) world_scheme, string, unit) prog" where
  "create_checkout E destination p advertised token remote_name =
     (if advertised \<noteq> [] then
        andThen (io (create_dir_all E (case path_parent destination of None \<Rightarrow> ''.'' | Some d \<Rightarrow> d))) (\<lambda>_.
        andThen (run_process E ''git'' [''clone'', ''--origin'', remote_name, cp_remote_url p, destination]
          (default_options\<lparr>ro_cwd := path_parent destination, ro_env := authorization_env E token\<rparr>)) (\<lambda>_.
        andThen (git E destination [''rev-parse'', ''--verify'', ''HEAD''] allow_failure_options) (\<lambda>head.
        if code head \<noteq> 0
        then let branch = (if map_of advertised (cp_default_branch p) \<noteq> None then cp_default_branch p
               else fst (hd advertised)) in
             git_do E destination [''switch'', ''-c'', branch, ''--track'', remote_name @ ''/'' @ branch]
        else ret ())))
      else
        andThen (io (create_dir_all E destination)) (\<lambda>_.
        andThen (git_do E destination [''init'', ''--initial-branch='' @ cp_default_branch p]) (\<lambda>_.
        git_do E destination [''remote'', ''add'', remote_name, cp_remote_url p])))"

definition join_checkout :: "'x env \<Rightarrow> path \<Rightarrow> catalog_project \<Rightarrow> heads \<Rightarrow> string option \<Rightarrow> string \<Rightarrow>
    (('x, 'z) world_scheme, string, unit) prog" where
  "join_checkout E destination p advertised token remote_name =
     andThen (git E destination [''rev-parse'', ''--is-inside-work-tree''] allow_failure_options) (\<lambda>inside.
     if code inside = 0 then ret ()
     else if advertised = [] then bail (destination @ '' exists but is not a Git worktree'')
     else adopt_exact_snapshot E destination p token remote_name)"

definition push_argument :: "string \<Rightarrow> string" where
  "push_argument name = ''refs/heads/'' @ name @ '':refs/heads/'' @ name"

text \<open>The local branches the host lacks or is behind on; diverging histories are refused.\<close>

fun branches_to_publish :: "'x env \<Rightarrow> path \<Rightarrow> heads \<Rightarrow> string list \<Rightarrow> heads \<Rightarrow>
    (('x, 'z) world_scheme, string, string list) prog" where
  "branches_to_publish E destination hosted acc [] = ret acc"
| "branches_to_publish E destination hosted acc ((name, local_oid) # rest) =
     (case map_of hosted name of
        None \<Rightarrow> branches_to_publish E destination hosted (acc @ [push_argument name]) rest
      | Some remote_oid \<Rightarrow>
          if local_oid = remote_oid then branches_to_publish E destination hosted acc rest
          else
          andThen (is_ancestor E destination remote_oid local_oid) (\<lambda>remote_is_base.
          andThen (is_ancestor E destination local_oid remote_oid) (\<lambda>local_is_base.
          if \<not> remote_is_base \<and> \<not> local_is_base
          then bail (''local and hosted histories for branch '' @ name
            @ '' diverge; RepoSync will not choose a project identity or overwrite either history'')
          else branches_to_publish E destination hosted
            (if remote_is_base then acc @ [push_argument name] else acc) rest)))"

definition push_branches :: "'x env \<Rightarrow> local_project \<Rightarrow> path \<Rightarrow> string option \<Rightarrow> string \<Rightarrow> string list \<Rightarrow>
    (('x, 'z) world_scheme, string, heads) prog" where
  "push_branches E project destination token remote_name arguments =
     andThen (git E destination ([''push'', remote_name] @ arguments)
       (default_options\<lparr>ro_env := authorization_env E token\<rparr>)) (\<lambda>_. fetch_remote E project token)"

text \<open>The current branch is brought forward when the host is ahead of it.\<close>

definition advance_current :: "'x env \<Rightarrow> transaction codec \<Rightarrow> path \<Rightarrow> string option \<Rightarrow> heads \<Rightarrow> heads \<Rightarrow>
    (('x, 'z) world_scheme, string, heads) prog" where
  "advance_current E C destination branch checkout_heads hosted =
     (case (Option.bind branch (map_of checkout_heads), Option.bind branch (map_of hosted)) of
       (Some local, Some remote) \<Rightarrow>
         if local = remote then ret checkout_heads
         else
         andThen (is_ancestor E destination local remote) (\<lambda>behind.
         if \<not> behind then ret checkout_heads
         else
         andThen (reconcile_workspace E C destination local remote None) (\<lambda>result.
         if rr_outcome result \<noteq> ''applied''
         then bail (''joining the hosted project conflicts: ''
           @ (case rr_detail result of Some d \<Rightarrow> d | None \<Rightarrow> rr_outcome result))
         else local_heads E destination))
     | _ \<Rightarrow> ret checkout_heads)"

definition align_heads :: "'x env \<Rightarrow> transaction codec \<Rightarrow> local_project \<Rightarrow> path \<Rightarrow> string option \<Rightarrow> string \<Rightarrow>
    string option \<Rightarrow> heads \<Rightarrow> heads \<Rightarrow> (('x, 'z) world_scheme, string, heads \<times> heads) prog" where
  "align_heads E C project destination token remote_name branch hosted checkout_heads =
     (if hosted = [] then
        if checkout_heads = [] then ret (hosted, checkout_heads)
        else andThen (push_branches E project destination token remote_name [''refs/heads/*:refs/heads/*''])
          (\<lambda>hosted'. ret (hosted', checkout_heads))
      else
      andThen (branches_to_publish E destination hosted [] checkout_heads) (\<lambda>to_publish.
      andThen (if to_publish = [] then ret hosted
        else push_branches E project destination token remote_name to_publish) (\<lambda>hosted'.
      andThen (advance_current E C destination branch checkout_heads hosted') (\<lambda>checkout_heads'.
      ret (hosted', checkout_heads')))))"

text \<open>What counts as applied: the local commit where it is behind the hosted one, else the hosted one.\<close>

definition applied_head :: "'x env \<Rightarrow> path \<Rightarrow> heads \<Rightarrow> heads \<Rightarrow> string \<times> string \<Rightarrow>
    (('x, 'z) world_scheme, string, heads) prog" where
  "applied_head E destination checkout_heads acc = (\<lambda>(name, remote).
     case map_of checkout_heads name of
       None \<Rightarrow> ret (obj_insert name remote acc)
     | Some local \<Rightarrow>
         if local = remote then ret (obj_insert name remote acc)
         else andThen (is_ancestor E destination local remote) (\<lambda>behind.
           ret (obj_insert name (if behind then local else remote) acc)))"

definition fresh_project :: "catalog_project \<Rightarrow> path \<Rightarrow> string \<Rightarrow> local_project" where
  "fresh_project p local_path remote_name =
     \<lparr>lp_project_id = cp_project_id p, lp_local_path = local_path, lp_remote_url = cp_remote_url p,
      lp_remote_name = remote_name, lp_default_branch = cp_default_branch p,
      lp_server_generation = cp_project_generation p, lp_advertised_heads = [], lp_last_applied_heads = [],
      lp_active_branch = None, lp_workspace_generation = 0, lp_state = ''CURRENT'',
      lp_durability = ''REMOTELY_DURABLE'', lp_conflict = None, lp_last_error = None, lp_service = None,
      lp_checkout_id = None, lp_extra = []\<rparr>"

definition materialize_project :: "'x env \<Rightarrow> transaction codec \<Rightarrow> catalog_project \<Rightarrow> path \<Rightarrow> string option \<Rightarrow>
    string \<Rightarrow> (('x, 'z) world_scheme, string, local_project) prog" where
  "materialize_project E C p local_path token remote_name =
     andThen (if is_absolute local_path then ret local_path
       else andThen (lift (ok_or ''no current directory'' (current_dir E))) (\<lambda>d. ret (path_join d local_path))) (\<lambda>destination.
     let advertised = foldl (\<lambda>m h. obj_insert (ah_name h) (ah_oid h) m) [] (cp_advertised_heads p) in
     andThen (path_exists destination) (\<lambda>present.
     andThen (if \<not> present then create_checkout E destination p advertised token remote_name
       else join_checkout E destination p advertised token remote_name) (\<lambda>_.
     andThen (configure_remote E destination remote_name (cp_remote_url p)) (\<lambda>_.
     andThen (io (canonicalize E destination)) (\<lambda>canonical.
     let project = fresh_project p canonical remote_name in
     andThen (fetch_remote E project token) (\<lambda>hosted.
     andThen (local_heads E destination) (\<lambda>checkout_heads.
     andThen (attempt (current_branch E destination)) (\<lambda>b.
     let branch = (case b of Inr v \<Rightarrow> Some v | Inl _ \<Rightarrow> None) in
     andThen (align_heads E C project destination token remote_name branch hosted checkout_heads) (\<lambda>(hosted', checkout_heads').
     andThen (foldEach (applied_head E destination checkout_heads') [] hosted') (\<lambda>last_applied.
     ret (project\<lparr>lp_advertised_heads := hosted', lp_last_applied_heads := last_applied,
        lp_active_branch := branch,
        lp_workspace_generation := (if hosted' = [] then 0 else 1)\<rparr>)))))))))))"

end
