(* ===== verification/Lease_Gate.thy ===== *)
theory Lease_Gate
  imports Json "HOL-Library.Word"
begin

section \<open>The gate between tool calls and workspace changes\<close>

text \<open>
  \<open>LeaseGate\<close> of \<open>src/src/daemon.rs\<close>. Every project has a gate: tool calls hold leases, and the
  daemon changes the workspace only while it holds the gate exclusively, which it may only when
  no lease is out. The operations below are the critical sections of the source (the code between
  taking and releasing the mutex); a task that does not get what it wants waits for a
  notification and tries again, so any interleaving of critical sections is a run of the step
  relation \<open>gate_step\<close> at the end of this theory.
\<close>

subsection \<open>State and critical sections\<close>

record lease_call_key =
  lc_session_id :: string
  lc_call_id :: string

record gate_state =
  gt_exclusive :: bool
  gt_next_exclusive :: "64 word"
  gt_exclusive_queue :: "64 word list"
  gt_leases :: "(string \<times> json) list"
  gt_leases_by_call :: "(lease_call_key \<times> string) list"

definition new_gate :: gate_state where
  "new_gate = \<lparr>gt_exclusive = False, gt_next_exclusive = 0, gt_exclusive_queue = [],
     gt_leases = [], gt_leases_by_call = []\<rparr>"

interpretation table: keyed_store map_of AList.update AList.delete
  by unfold_locales (simp_all add: update_conv' delete_conv')

lemmas table_simps [simp] = table.lookup_put table.lookup_del

definition lease_call :: "json \<Rightarrow> lease_call_key option" where
  "lease_call metadata = Option.bind (jget_str ''sessionId'' metadata) (\<lambda>session.
     Option.bind (jget_str ''callId'' metadata) (\<lambda>call.
     Some \<lparr>lc_session_id = session, lc_call_id = call\<rparr>))"

text \<open>The first block of \<open>begin_exclusive\<close>: a ticket, drawn with \<open>wrapping_add\<close>.\<close>

definition take_ticket :: "gate_state \<Rightarrow> 64 word \<times> gate_state" where
  "take_ticket g = (gt_next_exclusive g,
     g\<lparr>gt_next_exclusive := gt_next_exclusive g + 1,
       gt_exclusive_queue := gt_exclusive_queue g @ [gt_next_exclusive g]\<rparr>)"

text \<open>One round of its loop; \<open>None\<close> means the task waits.\<close>

definition try_exclusive :: "64 word \<Rightarrow> gate_state \<Rightarrow> gate_state option" where
  "try_exclusive ticket g =
     (if \<not> gt_exclusive g \<and> gt_leases g = [] \<and> gt_exclusive_queue g \<noteq> [] \<and> hd (gt_exclusive_queue g) = ticket
      then Some (g\<lparr>gt_exclusive_queue := tl (gt_exclusive_queue g), gt_exclusive := True\<rparr>)
      else None)"

definition end_exclusive :: "gate_state \<Rightarrow> gate_state" where
  "end_exclusive g = g\<lparr>gt_exclusive := False\<rparr>"

definition live_lease :: "gate_state \<Rightarrow> lease_call_key \<Rightarrow> string option" where
  "live_lease g call = Option.bind (map_of (gt_leases_by_call g) call) (\<lambda>lease.
     if map_of (gt_leases g) lease \<noteq> None then Some lease else None)"

text \<open>One round of \<open>activity\<close>: the lease and whether it is a new one, with \<open>fresh\<close> the UUID the
  source draws for a new lease; \<open>None\<close> means the task waits.\<close>

definition activity :: "string \<Rightarrow> json \<Rightarrow> gate_state \<Rightarrow> (string \<times> bool \<times> gate_state) option" where
  "activity fresh metadata g =
     (if gt_exclusive g then None
      else case Option.bind (lease_call metadata) (live_lease g) of
        Some lease \<Rightarrow> Some (lease, False, g)
      | None \<Rightarrow> Some (fresh, True,
          g\<lparr>gt_leases := AList.update fresh metadata (gt_leases g),
            gt_leases_by_call := (case lease_call metadata of
                None \<Rightarrow> gt_leases_by_call g
              | Some call \<Rightarrow> AList.update call fresh (gt_leases_by_call g))\<rparr>))"

definition release_lease :: "string \<Rightarrow> gate_state \<Rightarrow> bool \<times> gate_state" where
  "release_lease lease g = (case map_of (gt_leases g) lease of
       None \<Rightarrow> (False, g)
     | Some metadata \<Rightarrow> (True,
         g\<lparr>gt_leases := AList.delete lease (gt_leases g),
           gt_leases_by_call := (case lease_call metadata of
               None \<Rightarrow> gt_leases_by_call g
             | Some call \<Rightarrow> if map_of (gt_leases_by_call g) call = Some lease
                 then AList.delete call (gt_leases_by_call g) else gt_leases_by_call g)\<rparr>))"

subsection \<open>Interleavings\<close>

text \<open>
  A run of a gate: \<open>sy_waiting\<close> are the tasks inside \<open>begin_exclusive\<close> in the order they drew
  their tickets (numbered from 0), \<open>sy_owners\<close> the tasks that returned from it and have not called
  \<open>end_exclusive\<close>, \<open>sy_served\<close> the order in which tasks returned from it, \<open>sy_timers\<close> the expiry
  tasks that still sleep and \<open>sy_issued\<close> the lease ids given out. The identifiers of new leases are
  fresh UUIDs. A queue in memory has fewer than \<open>2 ^ 64\<close> entries (a \<open>VecDeque\<close> holds at most
  \<open>isize::MAX\<close> bytes), so the guard of \<open>arrive\<close> excludes no run; tickets do wrap around.
\<close>

record gate_system =
  sy_gate :: gate_state
  sy_arrived :: nat
  sy_waiting :: "(nat \<times> 64 word) list"
  sy_owners :: "nat list"
  sy_served :: "nat list"
  sy_timers :: "string list"
  sy_issued :: "string list"

definition initial_system :: gate_system where
  "initial_system = \<lparr>sy_gate = new_gate, sy_arrived = 0, sy_waiting = [], sy_owners = [],
     sy_served = [], sy_timers = [], sy_issued = []\<rparr>"

inductive gate_step :: "gate_system \<Rightarrow> gate_system \<Rightarrow> bool" where
  arrive: "take_ticket (sy_gate s) = (ticket, g) \<Longrightarrow> length (sy_waiting s) < 2 ^ 64 \<Longrightarrow>
    gate_step s (s\<lparr>sy_gate := g, sy_arrived := sy_arrived s + 1,
      sy_waiting := sy_waiting s @ [(sy_arrived s, ticket)]\<rparr>)"
| enter: "(n, ticket) \<in> set (sy_waiting s) \<Longrightarrow> try_exclusive ticket (sy_gate s) = Some g \<Longrightarrow>
    gate_step s (s\<lparr>sy_gate := g, sy_waiting := filter (\<lambda>w. fst w \<noteq> n) (sy_waiting s),
      sy_owners := n # sy_owners s, sy_served := sy_served s @ [n]\<rparr>)"
| leave: "n \<in> set (sy_owners s) \<Longrightarrow>
    gate_step s (s\<lparr>sy_gate := end_exclusive (sy_gate s), sy_owners := remove1 n (sy_owners s)\<rparr>)"
| reuse: "activity fresh metadata (sy_gate s) = Some (lease, False, g) \<Longrightarrow> gate_step s (s\<lparr>sy_gate := g\<rparr>)"
| admit: "activity fresh metadata (sy_gate s) = Some (lease, True, g) \<Longrightarrow> fresh \<notin> set (sy_issued s) \<Longrightarrow>
    gate_step s (s\<lparr>sy_gate := g, sy_timers := sy_timers s @ [lease], sy_issued := sy_issued s @ [lease]\<rparr>)"
| release: "release_lease lease (sy_gate s) = (removed, g) \<Longrightarrow> gate_step s (s\<lparr>sy_gate := g\<rparr>)"
| expire: "lease \<in> set (sy_timers s) \<Longrightarrow> release_lease lease (sy_gate s) = (removed, g) \<Longrightarrow>
    gate_step s (s\<lparr>sy_gate := g, sy_timers := remove1 lease (sy_timers s)\<rparr>)"

definition gate_runs :: "gate_system \<Rightarrow> gate_system \<Rightarrow> bool" where
  "gate_runs s s' \<longleftrightarrow> gate_step\<^sup>*\<^sup>* s s'"

definition reachable_gate :: "gate_system \<Rightarrow> bool" where
  "reachable_gate s \<longleftrightarrow> gate_runs initial_system s"

subsection \<open>Invariants of a transition system\<close>

locale inductive_invariant =
  fixes start :: "'s" and step :: "'s \<Rightarrow> 's \<Rightarrow> bool" and inv :: "'s \<Rightarrow> bool"
  assumes start: "inv start" and step: "step s s' \<Longrightarrow> inv s \<Longrightarrow> inv s'"
begin

lemma reachable: "step\<^sup>*\<^sup>* start s \<Longrightarrow> inv s"
  by (induction rule: rtranclp_induct) (auto intro: start step)

lemma run: "step\<^sup>*\<^sup>* s s' \<Longrightarrow> inv s \<Longrightarrow> inv s'"
  by (induction rule: rtranclp_induct) (auto intro: step)

end

text \<open>Tickets: the queue holds the tickets of the waiting tasks in the order of arrival, tasks have
  been served in that order, and the owners are the tasks the flag \<open>exclusive\<close> stands for.\<close>

definition tickets_ok :: "gate_system \<Rightarrow> bool" where
  "tickets_ok s \<longleftrightarrow>
     sy_waiting s = map (\<lambda>n. (n, of_nat n)) [length (sy_served s)..<sy_arrived s]
     \<and> length (sy_served s) \<le> sy_arrived s
     \<and> length (sy_waiting s) \<le> 2 ^ 64
     \<and> gt_exclusive_queue (sy_gate s) = map snd (sy_waiting s)
     \<and> gt_next_exclusive (sy_gate s) = of_nat (sy_arrived s)
     \<and> sy_served s = [0..<length (sy_served s)]
     \<and> (if gt_exclusive (sy_gate s) then (\<exists>n. sy_owners s = [n]) \<and> gt_leases (sy_gate s) = [] else sy_owners s = [])"

text \<open>The two tables agree: a call in the index has a live lease with that call, and every live
  lease of a call is the one of the index, so a call has at most one; every live lease was issued
  and its expiry is scheduled.\<close>

definition index_ok :: "gate_state \<Rightarrow> bool" where
  "index_ok g \<longleftrightarrow> (\<forall>call lease. map_of (gt_leases_by_call g) call = Some lease \<longleftrightarrow>
     (\<exists>metadata. map_of (gt_leases g) lease = Some metadata \<and> lease_call metadata = Some call))"

definition leases_ok :: "gate_system \<Rightarrow> bool" where
  "leases_ok s \<longleftrightarrow> index_ok (sy_gate s)
     \<and> dom (map_of (gt_leases (sy_gate s))) \<subseteq> set (sy_timers s)
     \<and> set (sy_timers s) \<subseteq> set (sy_issued s) \<and> distinct (sy_timers s)"

subsection \<open>Tickets are served in order\<close>

lemma same_ticket:
  assumes "(of_nat m :: 64 word) = of_nat n" and "m \<le> n" and "n - m < 2 ^ 64"
  shows "m = n"
proof -
  have "m mod 2 ^ 64 = n mod 2 ^ 64" using assms(1) by (simp add: word_of_nat_eq_iff take_bit_eq_mod)
  then have "2 ^ 64 dvd n - m" using assms(2) by (metis mod_eq_dvd_iff_nat)
  then show ?thesis using assms(2,3) by (auto dest: dvd_imp_le)
qed

lemma enter_is_first:
  assumes ok: "tickets_ok s" and mem: "(n, ticket) \<in> set (sy_waiting s)"
    and got: "try_exclusive ticket (sy_gate s) = Some g"
  shows "n = length (sy_served s)" "sy_waiting s = (n, ticket) # tl (sy_waiting s)"
    and "filter (\<lambda>w. fst w \<noteq> n) (sy_waiting s) = tl (sy_waiting s)"
proof -
  let ?k = "length (sy_served s)"
  have w: "sy_waiting s = map (\<lambda>n. (n, of_nat n)) [?k..<sy_arrived s]"
    and le: "sy_arrived s - ?k \<le> 2 ^ 64"
    and q: "gt_exclusive_queue (sy_gate s) = map snd (sy_waiting s)"
    using ok unfolding tickets_ok_def by (auto simp: length_map)
  have n: "?k \<le> n" "n < sy_arrived s" "ticket = of_nat n" using mem by (auto simp: w)
  have cons: "sy_waiting s = (?k, of_nat ?k) # map (\<lambda>n. (n, of_nat n)) [Suc ?k..<sy_arrived s]"
    using n by (simp add: w upt_conv_Cons)
  have "ticket = of_nat ?k" using got by (auto simp: try_exclusive_def q cons split: if_splits)
  then have "?k = n" using n le by (intro same_ticket) auto
  then show "n = ?k" "sy_waiting s = (n, ticket) # tl (sy_waiting s)"
    "filter (\<lambda>w. fst w \<noteq> n) (sy_waiting s) = tl (sy_waiting s)"
    using cons n by (auto simp: filter_map comp_def intro!: filter_True)
qed

lemma tickets_step: "gate_step s s' \<Longrightarrow> tickets_ok s \<Longrightarrow> tickets_ok s'"
proof (induction rule: gate_step.induct)
  case (arrive s ticket g)
  then show ?case
    by (auto simp: tickets_ok_def take_ticket_def Let_def split: if_splits)
next
  case (enter n ticket s g)
  note first = enter_is_first [OF enter.prems enter.hyps(1,2)]
  have tl: "tl (sy_waiting s) = map (\<lambda>n. (n, of_nat n)) [Suc (length (sy_served s))..<sy_arrived s]"
    using enter.prems by (simp add: tickets_ok_def flip: map_tl)
  have g: "g = (sy_gate s)\<lparr>gt_exclusive_queue := tl (gt_exclusive_queue (sy_gate s)), gt_exclusive := True\<rparr>"
    "\<not> gt_exclusive (sy_gate s)" "gt_leases (sy_gate s) = []"
    using enter.hyps(2) by (auto simp: try_exclusive_def split: if_splits)
  have lt: "length (sy_served s) < sy_arrived s"
    using enter.prems enter.hyps(1) by (auto simp: tickets_ok_def)
  have ok: "sy_owners s = []" "sy_served s = [0..<length (sy_served s)]" "length (sy_waiting s) \<le> 2 ^ 64"
    "gt_exclusive_queue (sy_gate s) = map snd (sy_waiting s)"
    "gt_next_exclusive (sy_gate s) = of_nat (sy_arrived s)"
    using enter.prems g(2) unfolding tickets_ok_def by auto
  have served: "sy_served s @ [n] = [0..<Suc (length (sy_served s))]"
    using ok(2) first(1) by simp
  have queue: "tl (gt_exclusive_queue (sy_gate s)) = map snd (tl (sy_waiting s))"
    using ok(4) by (simp add: map_tl)
  have short: "length (tl (sy_waiting s)) \<le> 2 ^ 64" using ok(3) by simp
  show ?case unfolding tickets_ok_def gate_system.simps first(3) g(1) gate_state.simps
    queue served using tl lt ok(1,5) short g(3) by (simp add: comp_def)
next
  case (leave n s)
  then show ?case by (auto simp: tickets_ok_def end_exclusive_def split: if_splits)
next
  case (reuse fresh metadata s lease g)
  then show ?case by (auto simp: activity_def split: if_splits option.splits)
next
  case (admit fresh metadata s lease g)
  then show ?case by (auto simp: tickets_ok_def activity_def split: if_splits option.splits)
next
  case (release lease s removed g)
  then show ?case by (auto simp: tickets_ok_def release_lease_def split: if_splits option.splits)
next
  case (expire lease s removed g)
  then show ?case by (auto simp: tickets_ok_def release_lease_def split: if_splits option.splits)
qed

subsection \<open>The lease tables agree\<close>

lemma index_lease: "index_ok g \<Longrightarrow> map_of (gt_leases g) lease = Some metadata \<Longrightarrow>
    lease_call metadata = Some call \<Longrightarrow> map_of (gt_leases_by_call g) call = Some lease"
  unfolding index_ok_def by blast

lemma index_call: "index_ok g \<Longrightarrow> map_of (gt_leases_by_call g) call = Some lease \<Longrightarrow>
    \<exists>metadata. map_of (gt_leases g) lease = Some metadata \<and> lease_call metadata = Some call"
  unfolding index_ok_def by blast

lemma live_lease_index: "index_ok g \<Longrightarrow> live_lease g call = map_of (gt_leases_by_call g) call"
  by (cases "map_of (gt_leases_by_call g) call") (auto simp: live_lease_def dest: index_call)

lemma index_okI:
  assumes "\<And>call lease. map_of (gt_leases_by_call g) call = Some lease \<Longrightarrow>
      \<exists>metadata. map_of (gt_leases g) lease = Some metadata \<and> lease_call metadata = Some call"
    and "\<And>call lease metadata. map_of (gt_leases g) lease = Some metadata \<Longrightarrow>
      lease_call metadata = Some call \<Longrightarrow> map_of (gt_leases_by_call g) call = Some lease"
  shows "index_ok g"
  unfolding index_ok_def using assms by blast

lemma index_release:
  assumes "index_ok g"
  shows "index_ok (snd (release_lease lease g))"
proof (cases "map_of (gt_leases g) lease")
  case None
  then show ?thesis using assms by (simp add: release_lease_def)
next
  case (Some metadata)
  note only = index_lease [OF assms Some]
  show ?thesis
  proof (rule index_okI)
    fix call other
    assume "map_of (gt_leases_by_call (snd (release_lease lease g))) call = Some other"
    then have look: "map_of (gt_leases_by_call g) call = Some other" "lease_call metadata \<noteq> Some call"
      using Some only by (auto simp: release_lease_def split: option.splits if_splits)
    obtain m where "map_of (gt_leases g) other = Some m" "lease_call m = Some call"
      using index_call [OF assms look(1)] by blast
    then show "\<exists>m. map_of (gt_leases (snd (release_lease lease g))) other = Some m \<and> lease_call m = Some call"
      using Some look(2) by (auto simp: release_lease_def)
  next
    fix call other m
    assume m: "map_of (gt_leases (snd (release_lease lease g))) other = Some m" "lease_call m = Some call"
    have "map_of (gt_leases g) other = Some m" "other \<noteq> lease"
      using m(1) Some by (auto simp: release_lease_def split: if_splits)
    moreover have "map_of (gt_leases_by_call g) call = Some other"
      using calculation(1) m(2) by (rule index_lease [OF assms])
    ultimately show "map_of (gt_leases_by_call (snd (release_lease lease g))) call = Some other"
      using Some by (auto simp: release_lease_def split: option.splits)
  qed
qed

lemma leases_release: "map_of (gt_leases (snd (release_lease lease g))) = (map_of (gt_leases g)) (lease := None)"
  by (rule ext) (auto simp: release_lease_def split: option.splits)

lemma index_admit:
  assumes "index_ok g" and new: "map_of (gt_leases g) fresh = None"
    and act: "activity fresh metadata g = Some (lease, True, g')"
  shows "index_ok g'"
proof -
  have none: "lease_call metadata = Some call \<Longrightarrow> map_of (gt_leases_by_call g) call = None" for call
    using act live_lease_index [OF assms(1), of call]
    by (auto simp: activity_def split: if_splits option.splits)
  have g': "map_of (gt_leases g') other = (if other = fresh then Some metadata else map_of (gt_leases g) other)"
    "map_of (gt_leases_by_call g') call = (if lease_call metadata = Some call then Some fresh
       else map_of (gt_leases_by_call g) call)" for other call
    using act by (auto simp: activity_def split: if_splits option.splits)
  show ?thesis
  proof (rule index_okI)
    fix call other assume "map_of (gt_leases_by_call g') call = Some other"
    then consider "lease_call metadata = Some call" "other = fresh"
      | "map_of (gt_leases_by_call g) call = Some other"
      using g'(2) [of call] by (metis option.inject)
    then show "\<exists>m. map_of (gt_leases g') other = Some m \<and> lease_call m = Some call"
    proof cases
      case 2
      then obtain m where "map_of (gt_leases g) other = Some m" "lease_call m = Some call"
        using index_call [OF assms(1)] by blast
      then show ?thesis using new by (auto simp: g')
    qed (simp add: g')
  next
    fix call other m assume m: "map_of (gt_leases g') other = Some m" "lease_call m = Some call"
    then consider "other = fresh" "m = metadata" | "other \<noteq> fresh" "map_of (gt_leases g) other = Some m"
      using g'(1) [of other] by (metis option.inject)
    then show "map_of (gt_leases_by_call g') call = Some other"
    proof cases
      case 2
      then have "map_of (gt_leases_by_call g) call = Some other" using m(2) index_lease [OF assms(1)] by blast
      then show ?thesis using none by (auto simp: g')
    qed (use m in \<open>simp add: g'\<close>)
  qed
qed

lemma leases_step: "gate_step s s' \<Longrightarrow> leases_ok s \<Longrightarrow> leases_ok s'"
proof (induction rule: gate_step.induct)
  case (arrive s ticket g)
  then show ?case by (auto simp: leases_ok_def take_ticket_def index_ok_def)
next
  case (enter n ticket s g)
  then show ?case by (auto simp: leases_ok_def try_exclusive_def index_ok_def split: if_splits)
next
  case (leave n s)
  then show ?case by (auto simp: leases_ok_def end_exclusive_def index_ok_def)
next
  case (reuse fresh metadata s lease g)
  then show ?case by (auto simp: activity_def split: if_splits option.splits)
next
  case (admit fresh metadata s lease g)
  have new: "map_of (gt_leases (sy_gate s)) fresh = None" using admit by (auto simp: leases_ok_def)
  have "index_ok g" using admit new by (auto simp: leases_ok_def intro: index_admit)
  moreover have "lease = fresh" "dom (map_of (gt_leases g)) = insert fresh (dom (map_of (gt_leases (sy_gate s))))"
    using admit.hyps(1) by (auto simp: activity_def split: if_splits option.splits)
  ultimately show ?case using admit by (auto simp: leases_ok_def)
next
  case (release lease s removed g)
  then show ?case using index_release [of "sy_gate s" lease] leases_release [of lease "sy_gate s"]
    by (auto simp: leases_ok_def)
next
  case (expire lease s removed g)
  then show ?case using index_release [of "sy_gate s" lease] leases_release [of lease "sy_gate s"]
    by (auto simp: leases_ok_def split: if_splits)
qed

interpretation tickets: inductive_invariant initial_system gate_step tickets_ok
proof unfold_locales
  show "tickets_ok initial_system"
    by (simp add: tickets_ok_def initial_system_def new_gate_def)
qed (rule tickets_step)

interpretation tables: inductive_invariant initial_system gate_step leases_ok
proof unfold_locales
  show "leases_ok initial_system"
    by (simp add: leases_ok_def index_ok_def initial_system_def new_gate_def)
qed (rule leases_step)

lemma reachable_tickets: "reachable_gate s \<Longrightarrow> tickets_ok s"
  unfolding reachable_gate_def gate_runs_def by (rule tickets.reachable)

lemma reachable_tables: "reachable_gate s \<Longrightarrow> leases_ok s"
  unfolding reachable_gate_def gate_runs_def by (rule tables.reachable)

lemma reachable_step: "reachable_gate s \<Longrightarrow> gate_step s s' \<Longrightarrow> reachable_gate s'"
  unfolding reachable_gate_def gate_runs_def by (rule rtranclp.rtrancl_into_rtrancl)

lemma reachable_initial: "reachable_gate initial_system"
  by (simp add: reachable_gate_def gate_runs_def)

subsection \<open>What the gate promises\<close>

text \<open>C6. In every reachable state of a project's lease gate under any interleaving of requesters, at
  most one task holds the gate exclusively, and then no access lease is outstanding.\<close>

theorem gate_excludes:
  assumes "reachable_gate s"
  shows "if gt_exclusive (sy_gate s) then gt_leases (sy_gate s) = [] \<and> (\<exists>n. sy_owners s = [n])
    else sy_owners s = []"
  using reachable_tickets [OF assms] unfolding tickets_ok_def by (auto split: if_splits)

text \<open>C7. Requests for exclusive access are served in the order in which they arrived, in every
  reachable state and across the wrap-around of the 64-bit ticket counter.\<close>

theorem gate_serves_in_order:
  assumes "reachable_gate s"
  shows "sy_served s @ map fst (sy_waiting s) = [0..<sy_arrived s]"
proof -
  let ?k = "length (sy_served s)"
  have "sy_served s = [0..<?k]" "map fst (sy_waiting s) = [?k..<sy_arrived s]" "?k \<le> sy_arrived s"
    using reachable_tickets [OF assms] by (auto simp: tickets_ok_def comp_def)
  then show ?thesis by (metis upt_add_eq_append le_add_diff_inverse zero_le)
qed

text \<open>In every reachable state the index from tool calls to leases and the lease table agree: a
  call is mapped to a lease exactly if the lease is outstanding and belongs to that call.\<close>

theorem gate_tables_agree:
  assumes "reachable_gate s"
  shows "map_of (gt_leases_by_call (sy_gate s)) call = Some lease \<longleftrightarrow>
      (\<exists>metadata. map_of (gt_leases (sy_gate s)) lease = Some metadata \<and> lease_call metadata = Some call)"
  using reachable_tables [OF assms] by (simp add: leases_ok_def index_ok_def)

text \<open>What is left when every pending expiry has fired.\<close>

definition expire_all :: "string list \<Rightarrow> gate_state \<Rightarrow> gate_state" where
  "expire_all timers g = foldl (\<lambda>g lease. snd (release_lease lease g)) g timers"

lemma expire_all_props:
  assumes "index_ok g" and "dom (map_of (gt_leases g)) \<subseteq> set timers"
  shows "index_ok (expire_all timers g) \<and> gt_leases (expire_all timers g) = []
    \<and> gt_exclusive (expire_all timers g) = gt_exclusive g
    \<and> gt_exclusive_queue (expire_all timers g) = gt_exclusive_queue g"
  using assms unfolding expire_all_def
proof (induction timers arbitrary: g)
  case (Cons t ts)
  have "gt_exclusive (snd (release_lease t g)) = gt_exclusive g"
    "gt_exclusive_queue (snd (release_lease t g)) = gt_exclusive_queue g"
    by (simp_all add: release_lease_def split: option.splits)
  moreover have "dom (map_of (gt_leases (snd (release_lease t g)))) \<subseteq> set ts"
    using Cons.prems(2) by (auto simp: leases_release)
  ultimately show ?case using Cons.IH [OF index_release] Cons.prems(1) by simp
qed (simp add: dom_map_of_conv_image_fst)

text \<open>When the timers of all leases expire and nobody holds the gate, no lease is left and the
  first waiting request for exclusive access succeeds at its next attempt.\<close>

theorem gate_drains:
  assumes "reachable_gate s" and "sy_owners s = []" and "sy_waiting s = (n, ticket) # rest"
  shows "gt_leases (expire_all (sy_timers s) (sy_gate s)) = []
    \<and> map_of (gt_leases_by_call (expire_all (sy_timers s) (sy_gate s))) call = None
    \<and> try_exclusive ticket (expire_all (sy_timers s) (sy_gate s)) \<noteq> None"
proof -
  have ok: "index_ok (sy_gate s)" "dom (map_of (gt_leases (sy_gate s))) \<subseteq> set (sy_timers s)"
    using reachable_tables [OF assms(1)] by (auto simp: leases_ok_def)
  have after: "index_ok (expire_all (sy_timers s) (sy_gate s))" "gt_leases (expire_all (sy_timers s) (sy_gate s)) = []"
    "gt_exclusive (expire_all (sy_timers s) (sy_gate s)) = gt_exclusive (sy_gate s)"
    "gt_exclusive_queue (expire_all (sy_timers s) (sy_gate s)) = gt_exclusive_queue (sy_gate s)"
    using expire_all_props [OF ok] by auto
  have "\<not> gt_exclusive (sy_gate s)" "gt_exclusive_queue (sy_gate s) = map snd (sy_waiting s)"
    using reachable_tickets [OF assms(1)] assms(2) by (auto simp: tickets_ok_def split: if_splits)
  then have "try_exclusive ticket (expire_all (sy_timers s) (sy_gate s)) \<noteq> None"
    using after assms(3) by (simp add: try_exclusive_def)
  moreover have "map_of (gt_leases_by_call (expire_all (sy_timers s) (sy_gate s))) call = None"
    using index_call [OF after(1), of call] after(2)
    by (cases "map_of (gt_leases_by_call (expire_all (sy_timers s) (sy_gate s))) call") auto
  ultimately show ?thesis using after(2) by simp
qed

text \<open>Access is refused exactly while the gate is held; otherwise a lease is granted, asking
  again for the same call returns the same lease, and it can be released exactly once.\<close>

theorem activity_once_per_call:
  "(activity fresh metadata g = None \<longleftrightarrow> gt_exclusive g)
    \<and> (\<forall>lease new g'. activity fresh metadata g = Some (lease, new, g') \<longrightarrow>
        map_of (gt_leases g') lease \<noteq> None \<and> gt_exclusive_queue g' = gt_exclusive_queue g
        \<and> (lease_call metadata \<noteq> None \<longrightarrow> activity fresh' metadata g' = Some (lease, False, g'))
        \<and> (case release_lease lease g' of (removed, g'') \<Rightarrow> removed \<and> release_lease lease g'' = (False, g'')))"
proof (intro conjI allI impI)
  show "activity fresh metadata g = None \<longleftrightarrow> gt_exclusive g"
    by (auto simp: activity_def split: option.splits)
next
  fix lease new g' assume act: "activity fresh metadata g = Some (lease, new, g')"
  then show live: "map_of (gt_leases g') lease \<noteq> None"
    by (auto simp: activity_def live_lease_def bind_eq_Some_conv split: if_splits option.splits)
  show "gt_exclusive_queue g' = gt_exclusive_queue g"
    using act by (auto simp: activity_def split: if_splits option.splits)
  show "activity fresh' metadata g' = Some (lease, False, g')" if "lease_call metadata \<noteq> None"
    using act that by (auto simp: activity_def live_lease_def split: if_splits option.splits)
  show "case release_lease lease g' of (removed, g'') \<Rightarrow> removed \<and> release_lease lease g'' = (False, g'')"
    using live by (auto simp: release_lease_def)
qed

subsection \<open>An example run\<close>

text \<open>A call holds a lease while one task waits for the gate.\<close>

definition example_metadata :: json where
  "example_metadata = jobj [(''sessionId'', JStr ''session''), (''callId'', JStr ''call'')]"

definition example_system :: gate_system where
  "example_system = \<lparr>sy_gate = \<lparr>gt_exclusive = False, gt_next_exclusive = 1, gt_exclusive_queue = [0],
       gt_leases = [(''u1'', example_metadata)],
       gt_leases_by_call = [(\<lparr>lc_session_id = ''session'', lc_call_id = ''call''\<rparr>, ''u1'')]\<rparr>,
     sy_arrived = 1, sy_waiting = [(0, 0)], sy_owners = [], sy_served = [],
     sy_timers = [''u1''], sy_issued = [''u1'']\<rparr>"

lemma example_call: "lease_call example_metadata = Some \<lparr>lc_session_id = ''session'', lc_call_id = ''call''\<rparr>"
  by (simp add: lease_call_def example_metadata_def jget_str_def jobj_def)

lemma example_reachable: "reachable_gate example_system"
proof -
  let ?g = "snd (snd (the (activity ''u1'' example_metadata new_gate)))"
  let ?s = "initial_system\<lparr>sy_gate := ?g, sy_timers := [''u1''], sy_issued := [''u1'']\<rparr>"
  have "activity ''u1'' example_metadata new_gate = Some (''u1'', True, ?g)"
    by (simp add: activity_def example_call new_gate_def live_lease_def)
  then have "gate_step initial_system ?s"
    using gate_step.admit [of "''u1''" example_metadata initial_system "''u1''" ?g]
    by (simp add: initial_system_def)
  then have "reachable_gate ?s" by (rule reachable_step [OF reachable_initial])
  moreover have "gate_step ?s example_system"
  proof -
    have "take_ticket (sy_gate ?s) = (0, sy_gate example_system)"
      by (simp add: take_ticket_def activity_def example_call new_gate_def live_lease_def example_system_def)
    then have "gate_step ?s (?s\<lparr>sy_gate := sy_gate example_system, sy_arrived := sy_arrived ?s + 1,
      sy_waiting := sy_waiting ?s @ [(sy_arrived ?s, 0)]\<rparr>)"
      by (rule gate_step.arrive) (simp add: initial_system_def)
    then show ?thesis by (simp add: initial_system_def example_system_def)
  qed
  ultimately show ?thesis by (rule reachable_step)
qed

theorem gate_excludes_witness: "sy_owners example_system = []"
  using gate_excludes [OF example_reachable] by (simp add: example_system_def)

theorem gate_serves_in_order_witness: "map fst (sy_waiting example_system) = [0..<1]"
  using gate_serves_in_order [OF example_reachable] by (simp add: example_system_def)

theorem gate_tables_agree_witness:
  "map_of (gt_leases_by_call (sy_gate example_system)) \<lparr>lc_session_id = ''session'', lc_call_id = ''call''\<rparr> = Some ''u1''"
  using gate_tables_agree [OF example_reachable, of "\<lparr>lc_session_id = ''session'', lc_call_id = ''call''\<rparr>" "''u1''"]
    example_call by (simp add: example_system_def)

theorem gate_drains_witness: "try_exclusive 0 (expire_all [''u1''] (sy_gate example_system)) \<noteq> None"
  using gate_drains [OF example_reachable, of 0 0 "[]"] by (simp add: example_system_def)

theorem activity_once_per_call_witness:
  "\<exists>g'. activity ''u1'' example_metadata new_gate = Some (''u1'', True, g')
    \<and> activity ''u2'' example_metadata g' = Some (''u1'', False, g')"
proof -
  obtain g' where act: "activity ''u1'' example_metadata new_gate = Some (''u1'', True, g')"
    by (simp add: activity_def example_call new_gate_def live_lease_def)
  then show ?thesis
    using activity_once_per_call [of "''u1''" example_metadata new_gate "''u2''"] example_call by auto
qed

end
