(* ===== verification/Daemon_State.thy ===== *)
theory Daemon_State
  imports Publication Remote Lease_Gate
begin

section \<open>The daemon's state\<close>

text \<open>
  \<open>DaemonInner\<close> of \<open>src/src/daemon.rs\<close> and \<open>src/src/config.rs\<close>. The daemon's memory extends the
  outside world: the catalog, the publication queue, one gate per project, the set of projects
  with a background reconciliation, and the tasks \<open>tokio::spawn\<close> was asked to start. A handler is
  one task; at every \<open>await\<close> of the source other tasks may run, and \<open>dv_others\<close>, an arbitrary
  function of the state, is what they do there. A lock that is held keeps its value across an
  await. The trace records the events of the modelled task only. A task that never gets the gate
  stays in its loop: it ends in \<open>Waits\<close> when the rounds the run is observed for are over, and
  every other error is \<open>Fails\<close>.
\<close>

datatype stop = Fails string | Waits

datatype spawned_task = ReconcileTask string | PublishTask bool

record 'x daemon = "'x world" +
  dm_catalog :: local_catalog
  dm_publications :: publication_queue
  dm_gates :: "(string \<times> gate_state) list"
  dm_background :: "string list"
  dm_tasks :: "spawned_task list"

record 'x denv =
  dv_env :: "'x env"
  dv_paths :: state_paths
  dv_config :: config
  dv_binary_id :: string
  dv_transactions :: "transaction codec"
  dv_catalog :: "local_catalog codec"
  dv_queue :: "publication_queue codec"
  dv_validations :: "string \<Rightarrow> (string, string list list) result"
  dv_project_of_json :: "json \<Rightarrow> (string, local_project) result"
  dv_project_json :: "local_project \<Rightarrow> json"
  dv_others :: "'x daemon \<Rightarrow> 'x daemon"
  dv_rounds :: nat

text \<open>A step of the task itself; and the points where other tasks run.\<close>

abbreviation op :: "('s, string, 'a) prog \<Rightarrow> ('s, stop, 'a) prog" where
  "op m \<equiv> mapErr Fails m"

definition await :: "'x denv \<Rightarrow> ('x daemon, 'e, unit) prog" where
  "await D = modify (\<lambda>s. (dv_others D s)\<lparr>trace := trace s\<rparr>)"

definition await_holding_catalog :: "'x denv \<Rightarrow> ('x daemon, 'e, unit) prog" where
  "await_holding_catalog D = modify (\<lambda>s. (dv_others D s)\<lparr>trace := trace s, dm_catalog := dm_catalog s\<rparr>)"

text \<open>\<open>catalog.lock().await\<close> and \<open>publications.lock().await\<close>.\<close>

definition lock_catalog :: "'x denv \<Rightarrow> ('x daemon, 'e, local_catalog) prog" where
  "lock_catalog D = andThen (await D) (\<lambda>_. gets dm_catalog)"

definition lock_publications :: "'x denv \<Rightarrow> ('x daemon, 'e, publication_queue) prog" where
  "lock_publications D = andThen (await D) (\<lambda>_. gets dm_publications)"

definition spawn_task :: "spawned_task \<Rightarrow> ('x daemon, 'e, unit) prog" where
  "spawn_task t = modify (\<lambda>s. s\<lparr>dm_tasks := dm_tasks s @ [t]\<rparr>)"

subsection \<open>The catalog\<close>

definition is_project :: "string \<Rightarrow> local_project \<Rightarrow> bool" where
  "is_project pid p \<longleftrightarrow> lp_project_id p = pid \<or> lp_local_path p = pid"

definition find_project :: "local_catalog \<Rightarrow> string \<Rightarrow> (string, local_project) result" where
  "find_project catalog pid =
     ok_or (''unknown subscribed project '' @ pid) (find (is_project pid) (lc_projects catalog))"

definition change_project :: "string \<Rightarrow> (local_project \<Rightarrow> local_project) \<Rightarrow> local_catalog \<Rightarrow> local_catalog" where
  "change_project pid f catalog = catalog\<lparr>lc_projects := update_first (is_project pid) f (lc_projects catalog)\<rparr>"

text \<open>\<open>find_project_mut(&mut catalog, id)?\<close>, and assignments through the reference.\<close>

definition project_of :: "string \<Rightarrow> ('x daemon, stop, local_project) prog" where
  "project_of pid = andThen (gets dm_catalog) (\<lambda>c. op (lift (find_project c pid)))"

definition update_project :: "string \<Rightarrow> (local_project \<Rightarrow> local_project) \<Rightarrow> ('x daemon, 'e, unit) prog" where
  "update_project pid f = modify (\<lambda>s. s\<lparr>dm_catalog := change_project pid f (dm_catalog s)\<rparr>)"

definition persist :: "'x denv \<Rightarrow> ('x daemon, stop, unit) prog" where
  "persist D = andThen (gets dm_catalog) (\<lambda>c.
     op (write_json (dv_env D) (dv_catalog D) (sp_catalog (dv_paths D)) c private_mode))"

definition persist_publications :: "'x denv \<Rightarrow> ('x daemon, stop, unit) prog" where
  "persist_publications D = andThen (gets dm_publications) (\<lambda>q.
     op (persist_queue (dv_env D) (dv_queue D) (dv_paths D) q))"

text \<open>A copy of a project under the catalog lock, the most frequent read.\<close>

definition read_project :: "'x denv \<Rightarrow> string \<Rightarrow> ('x daemon, stop, local_project) prog" where
  "read_project D pid = andThen (lock_catalog D) (\<lambda>_. project_of pid)"

text \<open>Legacy fields of a project record.\<close>

definition migrate_branch :: "local_project \<Rightarrow> local_project" where
  "migrate_branch p = (case map_of (lp_extra p) ''syncBranch'' of
       Some (JStr branch) \<Rightarrow> p\<lparr>lp_default_branch := branch\<rparr> | _ \<Rightarrow> p)\<lparr>lp_extra := obj_remove ''syncBranch'' (lp_extra p)\<rparr>"

definition migrate_advertised :: "local_project \<Rightarrow> local_project" where
  "migrate_advertised p = (case map_of (lp_extra p) ''advertisedRemoteOid'' of
       Some (JStr oid) \<Rightarrow> p\<lparr>lp_advertised_heads := obj_insert (lp_default_branch p) oid (lp_advertised_heads p)\<rparr>
     | _ \<Rightarrow> p)\<lparr>lp_extra := obj_remove ''advertisedRemoteOid'' (lp_extra p)\<rparr>"

definition migrate_applied :: "local_project \<Rightarrow> local_project" where
  "migrate_applied p = (case map_of (lp_extra p) ''lastAppliedRemoteOid'' of
       Some (JStr oid) \<Rightarrow> p\<lparr>lp_last_applied_heads := obj_insert (lp_default_branch p) oid (lp_last_applied_heads p)\<rparr>
     | _ \<Rightarrow> p)\<lparr>lp_extra := obj_remove ''lastAppliedRemoteOid'' (lp_extra p)\<rparr>"

definition migrate_local_projects :: "local_project list \<Rightarrow> local_project list" where
  "migrate_local_projects ps = map (\<lambda>p. migrate_applied (migrate_advertised (migrate_branch p))) ps"

subsection \<open>Gates\<close>

text \<open>\<open>gate\<close>: the gate of a project, created on first use. The table is behind a blocking lock,
  so no other task runs between the steps.\<close>

definition gate_of :: "string \<Rightarrow> 'x daemon \<Rightarrow> gate_state" where
  "gate_of pid s = (case map_of (dm_gates s) pid of None \<Rightarrow> new_gate | Some g \<Rightarrow> g)"

definition set_gate :: "string \<Rightarrow> gate_state \<Rightarrow> 'x daemon \<Rightarrow> 'x daemon" where
  "set_gate pid g s = s\<lparr>dm_gates := AList.update pid g (dm_gates s)\<rparr>"

definition open_gate :: "string \<Rightarrow> ('x daemon, 'e, unit) prog" where
  "open_gate pid = modify (\<lambda>s. set_gate pid (gate_of pid s) s)"

fun wait_exclusive :: "'x denv \<Rightarrow> string \<Rightarrow> 64 word \<Rightarrow> nat \<Rightarrow> ('x daemon, stop, unit) prog" where
  "wait_exclusive D pid ticket 0 = bail Waits"
| "wait_exclusive D pid ticket (Suc n) =
     andThen (await D) (\<lambda>_.
     andThen (gets (\<lambda>s. try_exclusive ticket (gate_of pid s))) (\<lambda>r. case r of
       Some g \<Rightarrow> modify (set_gate pid g)
     | None \<Rightarrow> wait_exclusive D pid ticket n))"

definition begin_exclusive :: "'x denv \<Rightarrow> string \<Rightarrow> ('x daemon, stop, unit) prog" where
  "begin_exclusive D pid =
     andThen (await D) (\<lambda>_.
     andThen (gets (\<lambda>s. fst (take_ticket (gate_of pid s)))) (\<lambda>ticket.
     andThen (modify (\<lambda>s. set_gate pid (snd (take_ticket (gate_of pid s))) s)) (\<lambda>_.
     wait_exclusive D pid ticket (dv_rounds D))))"

definition finish_exclusive :: "'x denv \<Rightarrow> string \<Rightarrow> ('x daemon, 'e, unit) prog" where
  "finish_exclusive D pid =
     andThen (await D) (\<lambda>_. modify (\<lambda>s. set_gate pid (end_exclusive (gate_of pid s)) s))"

fun wait_activity :: "'x denv \<Rightarrow> string \<Rightarrow> json \<Rightarrow> nat \<Rightarrow> ('x daemon, stop, string) prog" where
  "wait_activity D pid metadata 0 = bail Waits"
| "wait_activity D pid metadata (Suc n) =
     andThen (await D) (\<lambda>_.
     andThen (gets (\<lambda>s. activity (fst (uuid (dv_env D) (ext s))) metadata (gate_of pid s))) (\<lambda>r. case r of
       None \<Rightarrow> wait_activity D pid metadata n
     | Some (lease, fresh, g) \<Rightarrow>
         andThen (if fresh then andThen (new_uuid (dv_env D)) (\<lambda>_. ret ()) else ret ()) (\<lambda>_.
         andThen (modify (set_gate pid g)) (\<lambda>_. ret lease))))"

text \<open>\<open>release\<close> of the daemon: the first gate that has the lease gives it back.\<close>

fun release_in :: "'x denv \<Rightarrow> string \<Rightarrow> string list \<Rightarrow> ('x daemon, stop, bool) prog" where
  "release_in D lease [] = ret False"
| "release_in D lease (pid # pids) =
     andThen (await D) (\<lambda>_.
     andThen (gets (\<lambda>s. release_lease lease (gate_of pid s))) (\<lambda>(removed, g).
     andThen (modify (set_gate pid g)) (\<lambda>_.
     if removed then ret True else release_in D lease pids)))"

subsection \<open>Requests and outcomes\<close>

definition string_field :: "json \<Rightarrow> string \<Rightarrow> (string, string) result" where
  "string_field request name = ok_or (''request is missing '' @ name)
     (case jget_str name request of Some v \<Rightarrow> if v = [] then None else Some v | None \<Rightarrow> None)"

definition simple_outcome :: "string \<Rightarrow> reconcile_result" where
  "simple_outcome outcome = empty_result\<lparr>rr_outcome := outcome\<rparr>"

definition wrapping_succ :: "nat \<Rightarrow> nat" where
  "wrapping_succ n = (n + 1) mod 2 ^ 64"

subsection \<open>The project's publication policy\<close>

definition newlines :: "string list \<Rightarrow> string" where
  "newlines ls = concat (map (\<lambda>l. l @ [newline]) ls)"

definition default_project_config :: string where
  "default_project_config = newlines [''version = 1'', '''',
     ''# Run commands against the exact commit before RepoSync publishes it. Keep this'',
     ''# file committed so every checkout applies the same publication policy.'',
     ''#'', ''# [[validation]]'',
     ''# command = '' @ [CHR 0x5B, CHR 0x22] @ ''cargo'' @ [CHR 0x22] @ '', '' @ [CHR 0x22] @ ''test'' @ [CHR 0x22]
       @ '', '' @ [CHR 0x22] @ ''--locked'' @ [CHR 0x22, CHR 0x5D]]"

definition ensure_project_config :: "'x env \<Rightarrow> path \<Rightarrow> (('x, 'z) world_scheme, string, path) prog" where
  "ensure_project_config E project_path =
     (let p = path_join project_path ''.resync.toml'' in
     andThen (path_exists p) (\<lambda>present.
     andThen (onlyIf (\<not> present) (io (write_file E p default_project_config shared_mode))) (\<lambda>_. ret p)))"

text \<open>The commands of the policy in the order of the file, empty ones left out; \<open>parse\<close> is the
  TOML reader.\<close>

definition read_project_config :: "'x env \<Rightarrow> (string \<Rightarrow> (string, string list list) result) \<Rightarrow> path \<Rightarrow>
    (('x, 'z) world_scheme, string, string list list) prog" where
  "read_project_config E parse project_path =
     (let p = path_join project_path ''.resync.toml'' in
     andThen (path_exists p) (\<lambda>present.
     if \<not> present then ret []
     else
     andThen (io (read_file E p)) (\<lambda>contents.
     andThen (lift (parse contents)) (\<lambda>commands.
     ret (filter (\<lambda>c. c \<noteq> []) commands)))))"

end
