(* ===== verification/Daemon_Reconcile.thy ===== *)
theory Daemon_Reconcile
  imports Daemon_State
begin

section \<open>Reconciling a project\<close>

text \<open>
  The part of \<open>src/src/daemon.rs\<close> that brings a workspace to the hosted branch: preparing without
  a lock, installing while the project's gate is held exclusively and the catalog is locked,
  the background task, the heartbeat that finds out what to reconcile, and the queueing of a
  commit for publication.
\<close>

subsection \<open>Preparing\<close>

datatype project_reconciliation =
    ProjectComplete local_project reconcile_result nat string "string option"
  | ProjectPrepared local_project prepared_reconciliation nat string string

definition set_conflict :: "string \<Rightarrow> string \<Rightarrow> string list \<Rightarrow> local_project \<Rightarrow> local_project" where
  "set_conflict kind detail paths p = p\<lparr>lp_state := ''CONFLICTED'',
     lp_conflict := Some \<lparr>cf_kind = kind, cf_detail = detail, cf_paths = paths\<rparr>\<rparr>"

definition set_applied :: "string \<Rightarrow> string \<Rightarrow> local_project \<Rightarrow> local_project" where
  "set_applied branch oid p = p\<lparr>lp_last_applied_heads := obj_insert branch oid (lp_last_applied_heads p)\<rparr>"

definition set_current :: "local_project \<Rightarrow> local_project" where
  "set_current p = p\<lparr>lp_state := ''CURRENT'', lp_conflict := None\<rparr>"

definition clear_conflicts_of :: "'x denv \<Rightarrow> local_project \<Rightarrow> transaction_retention \<Rightarrow> ('x daemon, stop, unit) prog" where
  "clear_conflicts_of D p retention =
     op (clear_resolved_conflicts (dv_env D) (dv_transactions D) (sp_transactions (dv_paths D)) (lp_local_path p) retention)"

definition merged_project :: "string \<Rightarrow> string \<Rightarrow> reconcile_result \<Rightarrow> local_project \<Rightarrow> local_project" where
  "merged_project branch target result p =
     (if rr_outcome result = ''applied''
      then set_current ((set_applied branch target p)\<lparr>lp_workspace_generation := wrapping_succ (lp_workspace_generation p)\<rparr>)
      else if rr_outcome result = ''current'' then set_current (set_applied branch target p)
      else if rr_outcome result = ''conflict''
      then set_conflict ''reconciliation''
        (case rr_detail result of Some d \<Rightarrow> d | None \<Rightarrow> ''reconciliation conflict'') (rr_paths result) p
      else if rr_outcome result = ''retry'' then p\<lparr>lp_state := ''REMOTE_AHEAD'', lp_conflict := None\<rparr>
      else p)"

definition apply_reconciliation_result :: "'x denv \<Rightarrow> local_project \<Rightarrow> string \<Rightarrow> string \<Rightarrow> reconcile_result \<Rightarrow>
    ('x daemon, stop, local_project) prog" where
  "apply_reconciliation_result D p branch target result =
     andThen (read_retention (sp_root (dv_paths D))) (\<lambda>retention.
     andThen (onlyIf (rr_outcome result \<in> {''applied'', ''current''}) (clear_conflicts_of D p retention)) (\<lambda>_.
     ret (merged_project branch target result p)))"

text \<open>The commit the local work is replayed from; \<open>None\<close>: the histories diverge.\<close>

definition reconcile_base :: "string option \<Rightarrow> string \<Rightarrow> string \<Rightarrow> bool \<Rightarrow> string option" where
  "reconcile_base applied target head head_is_base =
     (if applied = None \<or> applied = Some target then if head_is_base then Some head else None else applied)"

definition prepare_rebase :: "'x denv \<Rightarrow> local_project \<Rightarrow> transaction_retention \<Rightarrow> nat \<Rightarrow> string \<Rightarrow> string \<Rightarrow> string \<Rightarrow>
    ('x daemon, stop, project_reconciliation) prog" where
  "prepare_rebase D p retention expected_generation branch target previous =
     andThen (op (prepare_reconciliation (dv_env D) (dv_transactions D) (lp_local_path p) previous target
       (Some (sp_transactions (dv_paths D))) retention)) (\<lambda>prepared. case prepared of
         Complete result \<Rightarrow>
           andThen (apply_reconciliation_result D p branch target result) (\<lambda>p'.
           ret (ProjectComplete p' result expected_generation branch (Some target)))
       | Ready install \<Rightarrow> ret (ProjectPrepared p (Ready install) expected_generation branch target))"

definition prepare_project_reconciliation :: "'x denv \<Rightarrow> local_project \<Rightarrow> ('x daemon, stop, project_reconciliation) prog" where
  "prepare_project_reconciliation D project =
     (let E = dv_env D; expected_generation = lp_workspace_generation project in
     andThen (read_retention (sp_root (dv_paths D))) (\<lambda>retention.
     andThen (mapErr (\<lambda>_. Fails ''detached or unborn HEAD is unsupported in RepoSync V1'')
       (current_branch E (lp_local_path project))) (\<lambda>branch.
     let p = project\<lparr>lp_active_branch := Some branch\<rparr>; advertised = map_of (lp_advertised_heads p) branch in
     case advertised of
       None \<Rightarrow>
         andThen (clear_conflicts_of D p retention) (\<lambda>_.
         ret (ProjectComplete (set_current p) (simple_outcome ''current'') expected_generation branch None))
     | Some target \<Rightarrow>
         andThen (op (capture_workspace E (lp_local_path p))) (\<lambda>snapshot.
         andThen (if sn_head snapshot = target then ret True
           else op (is_ancestor E (lp_local_path p) target (sn_head snapshot))) (\<lambda>contained.
         if contained
         then andThen (clear_conflicts_of D p retention) (\<lambda>_.
           ret (ProjectComplete (set_current (set_applied branch target p)) (simple_outcome ''current'')
             expected_generation branch (Some target)))
         else
         andThen (op (is_ancestor E (lp_local_path p) (sn_head snapshot) target)) (\<lambda>head_is_base.
         case reconcile_base (map_of (lp_last_applied_heads p) branch) target (sn_head snapshot) head_is_base of
           None \<Rightarrow>
             let detail = ''local and hosted histories for branch '' @ branch @ '' diverge'' in
             ret (ProjectComplete (set_conflict ''diverged-history'' detail [] p)
               (empty_result\<lparr>rr_outcome := ''conflict'', rr_detail := Some detail\<rparr>)
               expected_generation branch (Some target))
         | Some previous \<Rightarrow>
             prepare_rebase D (p\<lparr>lp_state := ''RECONCILING''\<rparr>) retention expected_generation branch target previous))))))"

subsection \<open>Installing\<close>

definition merge_reconciliation_state :: "local_project \<Rightarrow> local_project \<Rightarrow> local_project" where
  "merge_reconciliation_state staged_project current = current\<lparr>lp_active_branch := lp_active_branch staged_project,
     lp_last_applied_heads := lp_last_applied_heads staged_project,
     lp_workspace_generation := lp_workspace_generation staged_project,
     lp_state := lp_state staged_project, lp_conflict := lp_conflict staged_project\<rparr>"

definition inputs_changed :: reconcile_result where
  "inputs_changed = empty_result\<lparr>rr_outcome := ''retry'',
     rr_detail := Some ''reconciliation inputs changed during preparation''\<rparr>"

text \<open>The block that runs under the catalog lock when nothing has to be installed.\<close>

definition record_complete :: "'x denv \<Rightarrow> string \<Rightarrow> local_project \<Rightarrow> reconcile_result \<Rightarrow> nat \<Rightarrow> string \<Rightarrow> string option \<Rightarrow>
    ('x daemon, stop, reconcile_result) prog" where
  "record_complete D pid staged_project result expected_generation branch target =
     andThen (project_of pid) (\<lambda>project.
     if lp_workspace_generation project \<noteq> expected_generation \<or> map_of (lp_advertised_heads project) branch \<noteq> target
     then ret inputs_changed
     else
     andThen (update_project pid (merge_reconciliation_state staged_project)) (\<lambda>_.
     andThen (persist D) (\<lambda>_. ret result)))"

text \<open>The same when a candidate has to be installed: the inputs of the preparation are checked
  again, now that nobody else can change them.\<close>

definition preparation_outdated :: "'x denv \<Rightarrow> local_project \<Rightarrow> nat \<Rightarrow> string \<Rightarrow> string \<Rightarrow> ('x daemon, stop, bool) prog" where
  "preparation_outdated D project expected_generation branch target =
     (if lp_workspace_generation project \<noteq> expected_generation
         \<or> map_of (lp_advertised_heads project) branch \<noteq> Some target
      then ret True
      else andThen (attempt (current_branch (dv_env D) (lp_local_path project))) (\<lambda>b. ret (b \<noteq> Inr branch)))"

definition install_and_merge :: "'x denv \<Rightarrow> string \<Rightarrow> local_project \<Rightarrow> prepared_reconciliation \<Rightarrow> string \<Rightarrow> string \<Rightarrow>
    ('x daemon, stop, reconcile_result) prog" where
  "install_and_merge D pid staged_project prepared branch target =
     andThen (op (install_prepared_reconciliation (dv_env D) (dv_transactions D) prepared)) (\<lambda>installed.
     andThen (apply_reconciliation_result D staged_project branch target installed) (\<lambda>installed_project.
     andThen (update_project pid (merge_reconciliation_state installed_project)) (\<lambda>_.
     andThen (persist D) (\<lambda>_. ret installed))))"

definition install_under_lock :: "'x denv \<Rightarrow> string \<Rightarrow> local_project \<Rightarrow> prepared_reconciliation \<Rightarrow> nat \<Rightarrow> string \<Rightarrow> string \<Rightarrow>
    ('x daemon, stop, reconcile_result) prog" where
  "install_under_lock D pid staged_project prepared expected_generation branch target =
     andThen (project_of pid) (\<lambda>project.
     andThen (preparation_outdated D project expected_generation branch target) (\<lambda>outdated.
     if outdated
     then andThen (op (discard_prepared_reconciliation (dv_env D) (dv_transactions D) prepared)) (\<lambda>_. ret inputs_changed)
     else install_and_merge D pid staged_project prepared branch target))"

text \<open>The gate is given back whatever the block returns.\<close>

definition with_gate :: "'x denv \<Rightarrow> string \<Rightarrow> ('x daemon, stop, 'a) prog \<Rightarrow> ('x daemon, stop, 'a) prog" where
  "with_gate D pid body =
     andThen (open_gate pid) (\<lambda>_.
     andThen (begin_exclusive D pid) (\<lambda>_.
     andThen (attempt body) (\<lambda>r.
     andThen (finish_exclusive D pid) (\<lambda>_. lift r))))"

definition reconcile_exclusive :: "'x denv \<Rightarrow> string \<Rightarrow> ('x daemon, stop, reconcile_result) prog" where
  "reconcile_exclusive D pid =
     andThen (read_project D pid) (\<lambda>staged_project.
     andThen (prepare_project_reconciliation D staged_project) (\<lambda>r. case r of
       ProjectComplete prepared_project result expected_generation branch target \<Rightarrow>
         andThen (await D) (\<lambda>_. record_complete D pid prepared_project result expected_generation branch target)
     | ProjectPrepared prepared_project prepared expected_generation branch target \<Rightarrow>
         with_gate D pid (andThen (await D) (\<lambda>_.
           install_under_lock D pid prepared_project prepared expected_generation branch target))))"

subsection \<open>The background task\<close>

definition schedule_reconcile :: "string \<Rightarrow> ('x daemon, 'e, unit) prog" where
  "schedule_reconcile pid =
     andThen (gets dm_background) (\<lambda>running.
     if pid \<in> set running then ret ()
     else andThen (modify (\<lambda>s. s\<lparr>dm_background := pid # dm_background s\<rparr>)) (\<lambda>_. spawn_task (ReconcileTask pid)))"

definition note_failure :: "string \<Rightarrow> local_project \<Rightarrow> local_project" where
  "note_failure message p = (if lp_state p = ''RECONCILING'' then p\<lparr>lp_state := ''REMOTE_AHEAD''\<rparr> else p)
     \<lparr>lp_last_error := Some message\<rparr>"

definition background_reconcile :: "'x denv \<Rightarrow> string \<Rightarrow> ('x daemon, stop, unit) prog" where
  "background_reconcile D pid =
     andThen (attempt (reconcile_exclusive D pid)) (\<lambda>r.
     andThen (case r of
         Inr result \<Rightarrow> ret (rr_outcome result = ''retry'')
       | Inl Waits \<Rightarrow> bail Waits
       | Inl (Fails message) \<Rightarrow>
           andThen (lock_catalog D) (\<lambda>catalog.
           andThen (onlyIf (is_ok (find_project catalog pid))
             (andThen (update_project pid (note_failure message)) (\<lambda>_. ignore (persist D)))) (\<lambda>_.
           ret False))) (\<lambda>retry.
     andThen (modify (\<lambda>s. s\<lparr>dm_background := filter (\<lambda>i. i \<noteq> pid) (dm_background s)\<rparr>)) (\<lambda>_.
     onlyIf retry (schedule_reconcile pid))))"

subsection \<open>Queueing a commit\<close>

definition publication_ref :: "string \<Rightarrow> string" where
  "publication_ref publication_id = ''refs/resync/publications/'' @ publication_id"

definition queued_for :: "string \<Rightarrow> string \<Rightarrow> string \<Rightarrow> publication \<Rightarrow> bool" where
  "queued_for project_id branch commit_oid v \<longleftrightarrow> pending v \<and> pub_project_id v = project_id
     \<and> pub_branch v = branch \<and> pub_source_commit_oid v = commit_oid"

definition append_publication :: "publication \<Rightarrow> publication_queue \<Rightarrow> publication_queue" where
  "append_publication p q = q\<lparr>pq_publications := pq_publications q @ [p]\<rparr>"

definition enqueue_new :: "'x denv \<Rightarrow> string \<Rightarrow> local_project \<Rightarrow> string \<Rightarrow> string \<Rightarrow> ('x daemon, stop, string) prog" where
  "enqueue_new D pid project branch commit_oid =
     andThen (new_publication (dv_env D) (lp_project_id project) (lp_checkout_id project) branch commit_oid
       (map_of (lp_advertised_heads project) branch)) (\<lambda>publication.
     andThen (op (git (dv_env D) (lp_local_path project)
       [''update-ref'', publication_ref (pub_id publication), commit_oid] default_options)) (\<lambda>_.
     andThen (lock_publications D) (\<lambda>_.
     andThen (modify (\<lambda>s. s\<lparr>dm_publications := append_publication publication (dm_publications s)\<rparr>)) (\<lambda>_.
     andThen (persist_publications D) (\<lambda>_.
     andThen (lock_catalog D) (\<lambda>_.
     andThen (project_of pid) (\<lambda>_.
     andThen (update_project pid (\<lambda>p. p\<lparr>lp_durability := ''COMMITTED_UNPUBLISHED''\<rparr>)) (\<lambda>_.
     andThen (persist D) (\<lambda>_.
     andThen (spawn_task (PublishTask False)) (\<lambda>_.
     ret (pub_id publication)))))))))))"

definition enqueue_publication :: "'x denv \<Rightarrow> string \<Rightarrow> string \<Rightarrow> string \<Rightarrow> ('x daemon, stop, string) prog" where
  "enqueue_publication D pid branch commit_oid =
     andThen (read_project D pid) (\<lambda>project.
     andThen (op (git_text (dv_env D) (lp_local_path project)
       [''rev-parse'', ''--verify'', commit_oid @ ''^{commit}''] default_options)) (\<lambda>verified.
     if verified \<noteq> commit_oid
     then bail (Fails ''reported commit does not resolve to the requested OID'')
     else
     andThen (lock_publications D) (\<lambda>queue.
     case find (queued_for (lp_project_id project) branch commit_oid) (pq_publications queue) of
       Some existing \<Rightarrow> ret (pub_id existing)
     | None \<Rightarrow> enqueue_new D pid project branch commit_oid)))"

subsection \<open>The heartbeat\<close>

definition put_project :: "nat \<Rightarrow> local_project \<Rightarrow> ('x daemon, 'e, unit) prog" where
  "put_project i p = modify (\<lambda>s. s\<lparr>dm_catalog := (dm_catalog s)\<lparr>lc_projects := (lc_projects (dm_catalog s))[i := p]\<rparr>\<rparr>)"

definition access_lost :: "string \<Rightarrow> local_project \<Rightarrow> local_project" where
  "access_lost message p = p\<lparr>lp_state := ''ACCESS_LOST'', lp_last_error := Some message\<rparr>"

definition set_head :: "string \<Rightarrow> string option \<Rightarrow> local_project \<Rightarrow> local_project" where
  "set_head branch head p = p\<lparr>lp_advertised_heads := (case head of
       Some oid \<Rightarrow> obj_insert branch oid (lp_advertised_heads p)
     | None \<Rightarrow> obj_remove branch (lp_advertised_heads p))\<rparr>"

text \<open>What a fetched head means for the project: its new state and the work that follows,
  a commit to publish or a reconciliation.\<close>

datatype follow_up = Nothing | PublishCommit string string string | Reconcile string

definition settle_error :: "local_project \<Rightarrow> local_project" where
  "settle_error p = (if lp_durability p = ''REMOTELY_DURABLE'' then p\<lparr>lp_last_error := None\<rparr> else p)"

definition classify_head :: "'x denv \<Rightarrow> local_project \<Rightarrow> string \<Rightarrow> string \<Rightarrow> ('x daemon, stop, local_project \<times> follow_up) prog" where
  "classify_head D p branch local_head =
     (if lp_state p = ''CONFLICTED'' then ret (p, Nothing)
      else case map_of (lp_advertised_heads p) branch of
        None \<Rightarrow> ret (p\<lparr>lp_state := ''CURRENT''\<rparr>, PublishCommit (lp_project_id p) branch local_head)
      | Some target \<Rightarrow>
          if target = local_head then ret (set_applied branch target (p\<lparr>lp_state := ''CURRENT''\<rparr>), Nothing)
          else andThen (op (is_ancestor (dv_env D) (lp_local_path p) target local_head)) (\<lambda>ahead.
            ret (if ahead then (p\<lparr>lp_state := ''CURRENT''\<rparr>, PublishCommit (lp_project_id p) branch local_head)
              else (p\<lparr>lp_state := ''REMOTE_AHEAD''\<rparr>, Reconcile (lp_project_id p)))))"

definition refresh_fetched :: "'x denv \<Rightarrow> nat \<Rightarrow> local_project \<Rightarrow> string \<Rightarrow> string option \<Rightarrow> ('x daemon, stop, follow_up) prog" where
  "refresh_fetched D i p branch head =
     andThen (put_project i (set_head branch head p)) (\<lambda>_.
     andThen (op (git_text (dv_env D) (lp_local_path p) [''rev-parse'', ''HEAD''] default_options)) (\<lambda>local_head.
     andThen (classify_head D (set_head branch head p) branch local_head) (\<lambda>(p', next_step).
     andThen (put_project i (settle_error p')) (\<lambda>_. ret next_step))))"

text \<open>\<open>message\<close> of an error from below; the daemon's own tasks never wait inside a fetch.\<close>

definition refresh_project :: "'x denv \<Rightarrow> heartbeat_project list \<Rightarrow> follow_up list \<Rightarrow> nat \<Rightarrow>
    ('x daemon, stop, follow_up list) prog" where
  "refresh_project D remote work i =
     andThen (gets (\<lambda>s. lc_projects (dm_catalog s) ! i)) (\<lambda>project.
     andThen (observed_branch (dv_env D) project) (\<lambda>branch.
     let p = project\<lparr>lp_active_branch := Some branch\<rparr> in
     case find (\<lambda>u. hp_project_id u = lp_project_id project) remote of
       None \<Rightarrow> andThen (put_project i (access_lost
           ''provider heartbeat omitted a locally subscribed project'' p)) (\<lambda>_. ret work)
     | Some update \<Rightarrow>
         if hp_membership update \<noteq> ''ACTIVE''
         then andThen (put_project i (access_lost
           ''device credential no longer authorizes this subscribed project'' p)) (\<lambda>_. ret work)
         else let p' = p\<lparr>lp_server_generation := hp_project_generation update\<rparr> in
         andThen (put_project i p') (\<lambda>_.
         andThen (attempt (fetch_remote_branch (dv_env D) p' branch (cfg_token (dv_config D)))) (\<lambda>r. case r of
           Inl message \<Rightarrow> andThen (put_project i (p'\<lparr>lp_state := ''OFFLINE'', lp_last_error := Some message\<rparr>)) (\<lambda>_. ret work)
         | Inr fetched \<Rightarrow>
             andThen (refresh_fetched D i p' branch
               (case fetched of Some h \<Rightarrow> Some h | None \<Rightarrow> hp_head update)) (\<lambda>next_step. ret (work @ [next_step]))))))"

definition follow_publish :: "'x denv \<Rightarrow> follow_up \<Rightarrow> ('x daemon, stop, unit) prog" where
  "follow_publish D f = (case f of PublishCommit pid branch head \<Rightarrow>
       andThen (enqueue_publication D pid branch head) (\<lambda>_. ret ()) | _ \<Rightarrow> ret ())"

definition follow_reconcile :: "follow_up \<Rightarrow> ('x daemon, stop, unit) prog" where
  "follow_reconcile f = (case f of Reconcile pid \<Rightarrow> schedule_reconcile pid | _ \<Rightarrow> ret ())"

definition refresh :: "'x denv \<Rightarrow> ('x daemon, stop, unit) prog" where
  "refresh D =
     (if cfg_server (dv_config D) = None \<or> cfg_token (dv_config D) = None then ret ()
      else
      andThen (lock_catalog D) (\<lambda>catalog.
      andThen (op (heartbeat (dv_env D) (dv_config D) (lc_projects catalog))) (\<lambda>remote.
      andThen (await D) (\<lambda>_.
      andThen (lock_catalog D) (\<lambda>locked.
      andThen (foldEach (refresh_project D remote) [] [0..<length (lc_projects locked)]) (\<lambda>work.
      andThen (persist D) (\<lambda>_.
      andThen (forEach (follow_publish D) work) (\<lambda>_.
      forEach follow_reconcile work))))))))"

subsection \<open>A changed branch\<close>

definition ensure_branch_transition :: "'x denv \<Rightarrow> string \<Rightarrow> ('x daemon, stop, unit) prog" where
  "ensure_branch_transition D pid =
     andThen (read_project D pid) (\<lambda>project.
     andThen (op (current_branch (dv_env D) (lp_local_path project))) (\<lambda>actual.
     let set_branch = andThen (lock_catalog D) (\<lambda>_. andThen (project_of pid) (\<lambda>_.
           andThen (update_project pid (\<lambda>p. p\<lparr>lp_active_branch := Some actual\<rparr>)) (\<lambda>_. persist D))) in
     case lp_active_branch project of
       None \<Rightarrow> set_branch
     | Some previous \<Rightarrow>
         if previous = actual then ret ()
         else
         andThen (op (git (dv_env D) (lp_local_path project)
           [''rev-parse'', ''--verify'', ''refs/heads/'' @ previous] allow_failure_options)) (\<lambda>outgoing.
         andThen (if code outgoing = 0
           then andThen (enqueue_publication D pid previous (trim (stdout outgoing))) (\<lambda>_. ret ()) else ret ()) (\<lambda>_.
         andThen set_branch (\<lambda>_.
         onlyIf (cfg_server (dv_config D) \<noteq> None \<and> cfg_token (dv_config D) \<noteq> None) (refresh D))))))"

end
