(* ===== verification/Daemon_Publish.thy ===== *)
theory Daemon_Publish
  imports Daemon_Reconcile
begin

section \<open>Delivering publications\<close>

text \<open>
  The part of \<open>src/src/daemon.rs\<close> that takes a queued commit to the hosted branch: it follows a
  branch that moved, validates and pushes the candidate, confirms that the hosted branch contains
  it, asks the provider for a durable acknowledgement and records it.
\<close>

subsection \<open>Validation\<close>

definition validation_options :: "path \<Rightarrow> run_options" where
  "validation_options dir = default_options\<lparr>ro_cwd := Some dir\<rparr>"

definition run_validation :: "'x env \<Rightarrow> path \<Rightarrow> string list \<Rightarrow> (('x, 'z) world_scheme, string, unit) prog" where
  "run_validation E dir command =
     andThen (run_process E (hd command) (tl command) (validation_options dir)) (\<lambda>_. ret ())"

text \<open>The closure of \<open>validate_candidate\<close>.\<close>

definition validate_in :: "'x env \<Rightarrow> path \<Rightarrow> path \<Rightarrow> string \<Rightarrow> string list list \<Rightarrow>
    (('x, 'z) world_scheme, string, unit) prog" where
  "validate_in E project_path dir candidate commands =
     andThen (git E project_path [''worktree'', ''add'', ''--detach'', dir, candidate] default_options) (\<lambda>_.
     forEach (run_validation E dir) commands)"

definition validate_candidate :: "'x denv \<Rightarrow> local_project \<Rightarrow> string \<Rightarrow> ('x daemon, stop, unit) prog" where
  "validate_candidate D project candidate =
     (let E = dv_env D in
     andThen (op (read_project_config E (dv_validations D) (lp_local_path project))) (\<lambda>commands.
     if commands = [] then ret ()
     else
     andThen (new_uuid E) (\<lambda>u.
     let dir = path_join (sp_root (dv_paths D)) (''validation-'' @ u) in
     andThen (attempt (validate_in E (lp_local_path project) dir candidate commands)) (\<lambda>validation.
     andThen (ignore (git E (lp_local_path project) [''worktree'', ''remove'', ''--force'', dir] allow_failure_options)) (\<lambda>_.
     op (lift validation))))))"

subsection \<open>Recording an acknowledgement\<close>

definition covered_by :: "publication \<Rightarrow> publication \<Rightarrow> bool" where
  "covered_by p v \<longleftrightarrow> pending v \<and> pub_project_id v = pub_project_id p \<and> pub_branch v = pub_branch p
     \<and> pub_created_at v \<le> pub_created_at p"

definition acknowledged :: "string \<Rightarrow> publication_ack \<Rightarrow> publication \<Rightarrow> publication" where
  "acknowledged t ack v = v\<lparr>pub_state := ACKNOWLEDGED, pub_last_attempt_at := Some t,
     pub_next_attempt_at := None, pub_last_error := None, pub_ack := Some ack\<rparr>"

text \<open>The loop over the queue: every pending publication of the branch that is not newer is
  acknowledged, at the time it is reached.\<close>

definition acknowledge_one :: "'x env \<Rightarrow> publication \<Rightarrow> publication_ack \<Rightarrow> publication list \<times> string list \<Rightarrow>
    publication \<Rightarrow> ('x daemon, stop, publication list \<times> string list) prog" where
  "acknowledge_one E p ack = (\<lambda>(earlier, completed) v.
     if covered_by p v
     then andThen (now_rfc3339 E) (\<lambda>t. ret (earlier @ [acknowledged t ack v], completed @ [pub_id v]))
     else ret (earlier @ [v], completed))"

definition with_publications :: "publication list \<Rightarrow> publication_queue \<Rightarrow> publication_queue" where
  "with_publications ps q = q\<lparr>pq_publications := ps\<rparr>"

definition acknowledge_queue :: "'x denv \<Rightarrow> publication \<Rightarrow> publication_ack \<Rightarrow> ('x daemon, stop, string list \<times> bool) prog" where
  "acknowledge_queue D p ack =
     andThen (gets dm_publications) (\<lambda>queue.
     andThen (foldEach (acknowledge_one (dv_env D) p ack) ([], []) (pq_publications queue)) (\<lambda>(ps, completed).
     andThen (modify (\<lambda>s. s\<lparr>dm_publications := compact (with_publications ps queue)\<rparr>)) (\<lambda>_.
     andThen (persist_publications D) (\<lambda>_.
     andThen (gets dm_publications) (\<lambda>after.
     ret (completed, \<exists>v\<in>set (pq_publications after). pending v \<and> pub_project_id v = pub_project_id p))))))"

definition published :: "string \<Rightarrow> publication_ack \<Rightarrow> bool \<Rightarrow> local_project \<Rightarrow> local_project" where
  "published branch ack has_pending p =
     (let p' = p\<lparr>lp_advertised_heads := obj_insert branch (pa_remote_head ack) (lp_advertised_heads p),
        lp_last_applied_heads := obj_insert branch (pa_remote_head ack) (lp_last_applied_heads p),
        lp_server_generation := max (lp_server_generation p) (pa_project_generation ack),
        lp_last_error := None\<rparr>
      in if has_pending then p' else p'\<lparr>lp_durability := ''REMOTELY_DURABLE''\<rparr>)"

definition acknowledge_project :: "'x denv \<Rightarrow> publication \<Rightarrow> publication_ack \<Rightarrow> bool \<Rightarrow> ('x daemon, stop, path) prog" where
  "acknowledge_project D p ack has_pending =
     andThen (project_of (pub_project_id p)) (\<lambda>project.
     andThen (update_project (pub_project_id p) (published (pub_branch p) ack has_pending)) (\<lambda>_.
     andThen (persist D) (\<lambda>_. ret (lp_local_path project))))"

definition complete_publication :: "'x denv \<Rightarrow> publication \<Rightarrow> publication_ack \<Rightarrow> ('x daemon, stop, unit) prog" where
  "complete_publication D p ack =
     andThen (await D) (\<lambda>_.
     andThen (acknowledge_queue D p ack) (\<lambda>(completed, has_pending).
     andThen (await D) (\<lambda>_.
     andThen (acknowledge_project D p ack has_pending) (\<lambda>project_path.
     forEach (\<lambda>i. ignore (git (dv_env D) project_path [''update-ref'', ''-d'', publication_ref i] allow_failure_options))
       completed))))"

subsection \<open>One round\<close>

definition queued_publication :: "'x denv \<Rightarrow> string \<Rightarrow> ('x daemon, stop, publication) prog" where
  "queued_publication D i =
     andThen (lock_publications D) (\<lambda>queue.
     op (lift (ok_or ''publication disappeared from queue'' (find (\<lambda>v. pub_id v = i) (pq_publications queue)))))"

text \<open>\<open>is_some_and(|remote| is_ancestor(...).unwrap_or(false))\<close>.\<close>

definition candidate_reachable :: "'x env \<Rightarrow> local_project \<Rightarrow> publication \<Rightarrow> string option \<Rightarrow>
    (('x, 'z) world_scheme, 'e, bool) prog" where
  "candidate_reachable E project p remote_head = (case remote_head of
       None \<Rightarrow> ret False
     | Some remote \<Rightarrow>
         andThen (attempt (is_ancestor E (lp_local_path project) (pub_candidate_commit_oid p) remote)) (\<lambda>r.
         ret (r = Inr True)))"

definition moved_candidate :: "string \<Rightarrow> string option \<Rightarrow> string \<Rightarrow> publication \<Rightarrow> publication" where
  "moved_candidate candidate remote_head t p = p\<lparr>pub_attempt := wrapping_succ (pub_attempt p),
     pub_candidate_commit_oid := candidate, pub_expected_remote_oid := remote_head,
     pub_last_error := None, pub_next_attempt_at := Some t\<rparr>"

text \<open>The hosted branch moved: reconcile, then requeue the new head as the candidate.\<close>

definition follow_remote :: "'x denv \<Rightarrow> local_project \<Rightarrow> publication \<Rightarrow> string option \<Rightarrow> ('x daemon, stop, unit) prog" where
  "follow_remote D project p remote_head =
     andThen (attempt (current_branch (dv_env D) (lp_local_path project))) (\<lambda>b.
     if b \<noteq> Inr (pub_branch p)
     then bail (Fails (''remote branch '' @ pub_branch p @ '' advanced while it is inactive; publication remains queued''))
     else
     andThen (lock_catalog D) (\<lambda>_.
     andThen (project_of (pub_project_id p)) (\<lambda>_.
     andThen (update_project (pub_project_id p) (set_head (pub_branch p) remote_head)) (\<lambda>_.
     andThen (persist D) (\<lambda>_.
     andThen (reconcile_exclusive D (pub_project_id p)) (\<lambda>result.
     if rr_outcome result = ''conflict'' then bail (Fails ''publication is blocked by a reconciliation conflict'')
     else if rr_outcome result = ''retry'' then ret ()
     else
     andThen (read_project D (pub_project_id p)) (\<lambda>project'.
     andThen (op (git_text (dv_env D) (lp_local_path project') [''rev-parse'', ''HEAD''] default_options)) (\<lambda>candidate.
     andThen (queued_publication D (pub_id p)) (\<lambda>_.
     andThen (now_rfc3339 (dv_env D)) (\<lambda>t.
     andThen (modify (\<lambda>s. s\<lparr>dm_publications := with_publications
         (update_first (\<lambda>v. pub_id v = pub_id p) (moved_candidate candidate remote_head t)
           (pq_publications (dm_publications s))) (dm_publications s)\<rparr>)) (\<lambda>_.
     persist_publications D)))))))))))"

definition push_args :: "local_project \<Rightarrow> publication \<Rightarrow> string list" where
  "push_args project p = [''push'',
     ''--force-with-lease=refs/heads/'' @ pub_branch p @ '':''
       @ (case pub_expected_remote_oid p of None \<Rightarrow> [] | Some e \<Rightarrow> e),
     lp_remote_name project, pub_candidate_commit_oid p @ '':refs/heads/'' @ pub_branch p]"

definition push_candidate :: "'x denv \<Rightarrow> local_project \<Rightarrow> publication \<Rightarrow> ('x daemon, stop, unit) prog" where
  "push_candidate D project p =
     andThen (validate_candidate D project (pub_candidate_commit_oid p)) (\<lambda>_.
     andThen (op (git (dv_env D) (lp_local_path project) (push_args project p)
       (fetch_options (dv_env D) (cfg_token (dv_config D))))) (\<lambda>pushed.
     if code pushed \<noteq> 0 then bail (Fails (trim (stderr pushed))) else ret ()))"

definition local_ack :: "local_project \<Rightarrow> publication \<Rightarrow> string \<Rightarrow> publication_ack" where
  "local_ack project p confirmed_head = \<lparr>pa_publication_id = pub_id p, pa_attempt = pub_attempt p,
     pa_project_id = pub_project_id p, pa_branch = pub_branch p, pa_accepted_oid = pub_candidate_commit_oid p,
     pa_remote_head = confirmed_head, pa_project_generation = lp_server_generation project, pa_durable = True\<rparr>"

definition remote_advanced_message :: "string option \<Rightarrow> nat \<Rightarrow> string" where
  "remote_advanced_message head generation = ''provider reported REMOTE_ADVANCED at ''
     @ (case head of None \<Rightarrow> ''None'' | Some h \<Rightarrow> ''Some('' @ [CHR 0x22] @ h @ [CHR 0x22] @ '')'')
     @ '' (generation '' @ show_digits generation @ '')''"

definition request_ack :: "'x denv \<Rightarrow> local_project \<Rightarrow> publication \<Rightarrow> string \<Rightarrow> ('x daemon, stop, publication_ack) prog" where
  "request_ack D project p confirmed_head =
     (case (lp_service project, cfg_token (dv_config D)) of
       (Some service, Some token) \<Rightarrow>
         andThen (op (acknowledge_with_provider (dv_env D) service token p)) (\<lambda>reply.
         andThen (await D) (\<lambda>_. case reply of
           Acknowledged ack \<Rightarrow> ret ack
         | RemoteAdvanced head generation \<Rightarrow> bail (Fails (remote_advanced_message head generation))))
     | _ \<Rightarrow> ret (local_ack project p confirmed_head))"

text \<open>Confirm on the hosted branch, get the acknowledgement, record it.\<close>

definition confirm_publication :: "'x denv \<Rightarrow> local_project \<Rightarrow> publication \<Rightarrow> ('x daemon, stop, unit) prog" where
  "confirm_publication D project p =
     andThen (op (fetch_remote_branch (dv_env D) project (pub_branch p) (cfg_token (dv_config D)))) (\<lambda>fetched.
     andThen (op (lift (ok_or ''hosted branch is missing after publication'' fetched))) (\<lambda>confirmed_head.
     andThen (op (is_ancestor (dv_env D) (lp_local_path project) (pub_candidate_commit_oid p) confirmed_head)) (\<lambda>reachable.
     if \<not> reachable then bail (Fails ''published candidate is not reachable from the hosted branch'')
     else
     andThen (now_rfc3339 (dv_env D)) (\<lambda>t.
     let p' = p\<lparr>pub_last_attempt_at := Some t\<rparr> in
     andThen (request_ack D project p' confirmed_head) (\<lambda>ack. complete_publication D p' ack)))))"

text \<open>One round of the loop; \<open>True\<close> ends it.\<close>

definition deliver_round :: "'x denv \<Rightarrow> string \<Rightarrow> ('x daemon, stop, bool) prog" where
  "deliver_round D i =
     andThen (queued_publication D i) (\<lambda>p.
     if \<not> pending p then ret True
     else
     andThen (read_project D (pub_project_id p)) (\<lambda>project.
     if lp_state project = ''CONFLICTED''
     then bail (Fails ''publication is paused until `resync project sync` completes reconciliation'')
     else
     andThen (op (fetch_remote_branch (dv_env D) project (pub_branch p) (cfg_token (dv_config D)))) (\<lambda>remote_head.
     andThen (candidate_reachable (dv_env D) project p remote_head) (\<lambda>reachable.
     if \<not> reachable \<and> remote_head \<noteq> pub_expected_remote_oid p
     then andThen (follow_remote D project p remote_head) (\<lambda>_. ret False)
     else
     andThen (unless reachable (push_candidate D project p)) (\<lambda>_.
     andThen (confirm_publication D project p) (\<lambda>_. ret True))))))"

fun deliver_rounds :: "'x denv \<Rightarrow> string \<Rightarrow> nat \<Rightarrow> ('x daemon, stop, unit) prog" where
  "deliver_rounds D i 0 = bail (Fails ''publication lost the remote race five times'')"
| "deliver_rounds D i (Suc n) =
     andThen (deliver_round D i) (\<lambda>finished. if finished then ret () else deliver_rounds D i n)"

definition deliver_publication :: "'x denv \<Rightarrow> publication \<Rightarrow> ('x daemon, stop, unit) prog" where
  "deliver_publication D p = deliver_rounds D (pub_id p) 5"

subsection \<open>The queue processor\<close>

definition due_publication :: "'x env \<Rightarrow> bool \<Rightarrow> (string \<times> string) list \<Rightarrow> publication \<Rightarrow>
    (('x, 'z) world_scheme, 'e, (string \<times> string) list) prog" where
  "due_publication E force acc v =
     andThen (if \<not> pending v then ret False else if force then ret True else due E v) (\<lambda>selected.
     ret (if selected then acc @ [(pub_created_at v, pub_id v)] else acc))"

definition retry_ns :: int where
  "retry_ns = 60 * 1000000000"

definition note_delivery_failure :: "'x denv \<Rightarrow> publication \<Rightarrow> string \<Rightarrow> ('x daemon, stop, unit) prog" where
  "note_delivery_failure D p message =
     andThen (lock_publications D) (\<lambda>queue.
     andThen (if find (\<lambda>v. pub_id v = pub_id p) (pq_publications queue) = None then ret ()
       else andThen (now (dv_env D)) (\<lambda>t.
         modify (\<lambda>s. s\<lparr>dm_publications := with_publications (update_first (\<lambda>v. pub_id v = pub_id p)
           (record_failure_at (dv_env D) t message retry_ns) (pq_publications (dm_publications s))) (dm_publications s)\<rparr>))) (\<lambda>_.
     andThen (persist_publications D) (\<lambda>_.
     andThen (lock_catalog D) (\<lambda>_.
     andThen (update_project (pub_project_id p)
       (\<lambda>q. q\<lparr>lp_durability := ''COMMITTED_UNPUBLISHED'', lp_last_error := Some message\<rparr>)) (\<lambda>_.
     persist D)))))"

definition process_one :: "'x denv \<Rightarrow> string \<Rightarrow> ('x daemon, stop, unit) prog" where
  "process_one D i =
     andThen (lock_publications D) (\<lambda>queue.
     case find (\<lambda>v. pub_id v = i \<and> pending v) (pq_publications queue) of
       None \<Rightarrow> ret ()
     | Some p \<Rightarrow>
         andThen (attempt (deliver_publication D p)) (\<lambda>r. case r of
           Inr _ \<Rightarrow> ret ()
         | Inl Waits \<Rightarrow> bail Waits
         | Inl (Fails message) \<Rightarrow> note_delivery_failure D p message))"

definition process_publications :: "'x denv \<Rightarrow> bool \<Rightarrow> ('x daemon, stop, unit) prog" where
  "process_publications D force =
     andThen (await D) (\<lambda>_.
     andThen (lock_publications D) (\<lambda>queue.
     andThen (foldEach (due_publication (dv_env D) force) [] (pq_publications queue)) (\<lambda>selected.
     forEach (\<lambda>e. process_one D (snd e)) (sort_desc fst selected))))"

end
