(* ===== verification/Daemon.thy ===== *)
theory Daemon
  imports Daemon_Publish
begin

section \<open>The daemon's requests\<close>

text \<open>
  The handlers of the local socket in \<open>src/src/daemon.rs\<close>: a request is a JSON object with a
  \<open>method\<close>, and \<open>handle\<close> answers it. \<open>daemon_of_parts\<close> is \<open>from_parts\<close>.
\<close>

subsection \<open>Starting\<close>

definition daemon_of_parts :: "'x denv \<Rightarrow> local_catalog \<Rightarrow> 'x daemon \<Rightarrow> (stop, unit) result \<times> 'x daemon" where
  "daemon_of_parts D catalog =
     (let c = catalog\<lparr>lc_projects := migrate_local_projects (lc_projects catalog)\<rparr> in
     andThen (op (load_queue (dv_env D) (dv_queue D) (dv_paths D))) (\<lambda>queue.
     andThen (op (write_json (dv_env D) (dv_catalog D) (sp_catalog (dv_paths D)) c private_mode)) (\<lambda>_.
     modify (\<lambda>s. s\<lparr>dm_catalog := c, dm_publications := queue, dm_gates := [], dm_background := [], dm_tasks := []\<rparr>))))"

subsection \<open>Access\<close>

definition access_metadata :: "json \<Rightarrow> json" where
  "access_metadata request = jobj
     [(''sessionId'', case jget ''session_id'' request of None \<Rightarrow> JNull | Some v \<Rightarrow> v),
      (''callId'', case jget ''call_id'' request of None \<Rightarrow> JNull | Some v \<Rightarrow> v)]"

definition project_branch :: "local_project \<Rightarrow> string" where
  "project_branch p = (case lp_active_branch p of Some b \<Rightarrow> b | None \<Rightarrow> lp_default_branch p)"

definition remote_ref :: "local_project \<Rightarrow> string" where
  "remote_ref p = lp_remote_name p @ ''/'' @ project_branch p"

definition model_message :: "reconcile_result \<Rightarrow> string" where
  "model_message r = ''RepoSync advanced the workspace and preserved local work. Upstream changed: ''
     @ (if rr_changed_paths r = [] then ''metadata only'' else join_with '', '' (take 20 (rr_changed_paths r))) @ ''.''"

definition access_reply :: "local_project \<Rightarrow> string option \<Rightarrow> bool \<Rightarrow> string \<Rightarrow> reconcile_result \<Rightarrow> json" where
  "access_reply p lease_id reconciliation_mode head reconciliation =
     (let applied = (rr_outcome reconciliation = ''applied'') in
     jobj [(''granted'', JBool True), (''lease_id'', jopt lease_id),
       (''workspace_generation'', JInt (int (lp_workspace_generation p))), (''branch_oid'', JStr head),
       (''reconciliation'', JStr (if applied then ''applied'' else ''none'')),
       (''reconciliation_mode'', JBool reconciliation_mode), (''branch'', JStr (project_branch p)),
       (''remote_ref'', JStr (remote_ref p)),
       (''changed_paths_summary'', JArr (map JStr (take 50 (rr_changed_paths reconciliation)))),
       (''model_message'', if applied then JStr (model_message reconciliation) else JNull)])"

definition acquire_lease_id :: "'x denv \<Rightarrow> string \<Rightarrow> json \<Rightarrow> bool \<Rightarrow> ('x daemon, stop, string option) prog" where
  "acquire_lease_id D pid request reconciliation_mode =
     (if reconciliation_mode then ret None
      else andThen (wait_activity D pid (access_metadata request) (dv_rounds D)) (\<lambda>lease. ret (Some lease)))"

definition acquire :: "'x denv \<Rightarrow> json \<Rightarrow> ('x daemon, stop, json) prog" where
  "acquire D request =
     andThen (op (lift (string_field request ''project_id''))) (\<lambda>pid.
     andThen (ensure_branch_transition D pid) (\<lambda>_.
     andThen (read_project D pid) (\<lambda>project.
     andThen (open_gate pid) (\<lambda>_.
     andThen (onlyIf (lp_state project \<in> {''REMOTE_AHEAD'', ''WAITING_FOR_LEASES'', ''RECONCILING''})
       (schedule_reconcile pid)) (\<lambda>_.
     let reconciliation = simple_outcome ''deferred'' in
     andThen (read_project D pid) (\<lambda>project'.
     let reconciliation_mode = (lp_state project' = ''CONFLICTED'') in
     andThen (acquire_lease_id D pid request reconciliation_mode) (\<lambda>lease_id.
     andThen (read_project D pid) (\<lambda>granted.
     andThen (op (git_text (dv_env D) (lp_local_path granted) [''rev-parse'', ''HEAD''] default_options)) (\<lambda>head.
     ret (access_reply granted lease_id reconciliation_mode head reconciliation))))))))))"

definition release_reply :: "bool \<Rightarrow> json" where
  "release_reply b = jobj [(''released'', JBool b)]"

definition release_access :: "'x denv \<Rightarrow> json \<Rightarrow> ('x daemon, stop, json) prog" where
  "release_access D request =
     andThen (op (lift (string_field request ''lease_id''))) (\<lambda>lease.
     andThen (gets (\<lambda>s. map fst (dm_gates s))) (\<lambda>pids.
     andThen (release_in D lease pids) (\<lambda>b. ret (release_reply b))))"

definition access_state :: "'x denv \<Rightarrow> json \<Rightarrow> ('x daemon, stop, json) prog" where
  "access_state D request =
     andThen (op (lift (string_field request ''project_id''))) (\<lambda>pid.
     andThen (read_project D pid) (\<lambda>p.
     ret (jobj [(''state'', JStr (to_ascii_lowercase (lp_state p))),
       (''reconciliation_mode'', JBool (lp_state p = ''CONFLICTED'')),
       (''branch'', JStr (project_branch p)), (''remote_ref'', JStr (remote_ref p))])))"

subsection \<open>Synchronising and publishing\<close>

definition string_list :: "string list \<Rightarrow> json" where
  "string_list xs = JArr (map JStr xs)"

text \<open>The serialised result of a reconciliation, in which absent fields are left out.\<close>

definition present :: "string \<Rightarrow> string option \<Rightarrow> (string \<times> json) list" where
  "present k v = (case v of None \<Rightarrow> [] | Some t \<Rightarrow> [(k, JStr t)])"

definition reconcile_json :: "reconcile_result \<Rightarrow> json" where
  "reconcile_json r = jobj ([(''outcome'', JStr (rr_outcome r))]
     @ present ''transactionId'' (rr_transaction_id r) @ present ''recoveryRef'' (rr_recovery_ref r)
     @ present ''head'' (rr_head r) @ present ''oldHead'' (rr_old_head r) @ present ''newHead'' (rr_new_head r)
     @ [(''changedPaths'', string_list (rr_changed_paths r))]
     @ present ''detail'' (rr_detail r) @ [(''paths'', string_list (rr_paths r))])"

definition sync :: "'x denv \<Rightarrow> json \<Rightarrow> ('x daemon, stop, json) prog" where
  "sync D request =
     andThen (op (lift (string_field request ''project_id''))) (\<lambda>pid.
     andThen (refresh D) (\<lambda>_.
     andThen (reconcile_exclusive D pid) (\<lambda>result. ret (reconcile_json result))))"

definition publish_reply :: "publication_queue \<Rightarrow> string \<Rightarrow> string \<Rightarrow> string \<Rightarrow> (string, json) result" where
  "publish_reply queue pid branch head =
     (case find (\<lambda>v. pending v \<and> pub_project_id v = pid \<and> pub_branch v = branch) (pq_publications queue) of
       Some v \<Rightarrow> Inl (case pub_last_error v of Some e \<Rightarrow> e | None \<Rightarrow> ''publication remains pending'')
     | None \<Rightarrow> Inr (jobj [(''outcome'', JStr ''published''), (''head'', JStr head), (''queue_depth'', JInt 0)]))"

definition publish :: "'x denv \<Rightarrow> json \<Rightarrow> ('x daemon, stop, json) prog" where
  "publish D request =
     andThen (op (lift (string_field request ''project_id''))) (\<lambda>pid.
     andThen (read_project D pid) (\<lambda>project.
     andThen (op (current_branch (dv_env D) (lp_local_path project))) (\<lambda>actual.
     let branch = (case jget_str ''branch'' request of Some b \<Rightarrow> b | None \<Rightarrow> actual) in
     andThen (op (git_text (dv_env D) (lp_local_path project) [''rev-parse'', ''refs/heads/'' @ branch] default_options)) (\<lambda>head.
     andThen (enqueue_publication D pid branch head) (\<lambda>_.
     andThen (process_publications D True) (\<lambda>_.
     andThen (lock_publications D) (\<lambda>queue.
     op (lift (publish_reply queue pid branch head)))))))))"

subsection \<open>Reports of the hooks\<close>

definition report_commit :: "'x denv \<Rightarrow> json \<Rightarrow> ('x daemon, stop, json) prog" where
  "report_commit D request =
     andThen (op (lift (string_field request ''project_id''))) (\<lambda>pid.
     andThen (op (lift (string_field request ''branch''))) (\<lambda>branch.
     andThen (op (lift (string_field request ''commit_oid''))) (\<lambda>commit_oid.
     andThen (enqueue_publication D pid branch commit_oid) (\<lambda>publication_id.
     ret (jobj [(''queued'', JBool True), (''publication_id'', JStr publication_id), (''commit_oid'', JStr commit_oid)])))))"

definition report_checkout :: "'x denv \<Rightarrow> json \<Rightarrow> ('x daemon, stop, json) prog" where
  "report_checkout D request =
     andThen (op (lift (string_field request ''project_id''))) (\<lambda>pid.
     andThen (op (lift (string_field request ''new_branch''))) (\<lambda>new_branch.
     andThen (op (lift (string_field request ''previous_oid''))) (\<lambda>previous_oid.
     andThen (read_project D pid) (\<lambda>project.
     andThen (case lp_active_branch project of
         Some previous \<Rightarrow>
           if previous \<noteq> new_branch \<and> (\<exists>c\<in>set previous_oid. c \<noteq> CHR ''0'')
           then andThen (enqueue_publication D pid previous previous_oid) (\<lambda>_. ret ())
           else ret ()
       | None \<Rightarrow> ret ()) (\<lambda>_.
     andThen (lock_catalog D) (\<lambda>_.
     andThen (project_of pid) (\<lambda>_.
     andThen (update_project pid (\<lambda>p. p\<lparr>lp_active_branch := Some new_branch\<rparr>)) (\<lambda>_.
     andThen (persist D) (\<lambda>_.
     andThen (ignore (refresh D)) (\<lambda>_.
     ret (jobj [(''recorded'', JBool True), (''active_branch'', JStr new_branch)])))))))))))"

subsection \<open>Catalog requests\<close>

definition insert_project :: "local_project \<Rightarrow> nat option \<Rightarrow> local_catalog \<Rightarrow> local_catalog" where
  "insert_project p generation catalog =
     catalog\<lparr>lc_projects := filter (\<lambda>q. lp_project_id q \<noteq> lp_project_id p
         \<and> \<not> same_path (lp_local_path q) (lp_local_path p)) (lc_projects catalog) @ [p],
       lc_catalog_generation := (case generation of None \<Rightarrow> lc_catalog_generation catalog
         | Some g \<Rightarrow> max (lc_catalog_generation catalog) g)\<rparr>"

definition register_project :: "'x denv \<Rightarrow> json \<Rightarrow> ('x daemon, stop, json) prog" where
  "register_project D request =
     andThen (op (lift (ok_or ''registerProject requires project'' (jget ''project'' request)))) (\<lambda>v.
     andThen (op (lift (dv_project_of_json D v))) (\<lambda>p.
     andThen (await D) (\<lambda>_.
     andThen (modify (\<lambda>s. s\<lparr>dm_catalog := insert_project p
       (Option.bind (jget ''catalog_generation'' request) as_u64) (dm_catalog s)\<rparr>)) (\<lambda>_.
     andThen (persist D) (\<lambda>_.
     andThen (gets (\<lambda>s. lc_catalog_generation (dm_catalog s))) (\<lambda>generation.
     ret (jobj [(''projectId'', JStr (lp_project_id p)), (''registered'', JBool True),
       (''catalogGeneration'', JInt (int generation))])))))))"

definition reload :: "'x denv \<Rightarrow> ('x daemon, stop, json) prog" where
  "reload D =
     andThen (op (load_catalog (dv_env D) (dv_catalog D))) (\<lambda>loaded.
     andThen (await D) (\<lambda>_.
     andThen (modify (\<lambda>s. s\<lparr>dm_catalog := loaded\<lparr>lc_projects := migrate_local_projects (lc_projects loaded)\<rparr>\<rparr>)) (\<lambda>_.
     andThen (refresh D) (\<lambda>_.
     andThen (spawn_task (PublishTask True)) (\<lambda>_.
     andThen (lock_catalog D) (\<lambda>catalog.
     ret (jobj [(''reloaded'', JInt (int (length (lc_projects catalog))))])))))))"

definition min_of :: "string list \<Rightarrow> json" where
  "min_of xs = (case sort xs of [] \<Rightarrow> JNull | x # _ \<Rightarrow> JStr x)"

definition max_of :: "string list \<Rightarrow> json" where
  "max_of xs = (case List.rev (sort xs) of [] \<Rightarrow> JNull | x # _ \<Rightarrow> JStr x)"

definition status_value :: "'x denv \<Rightarrow> publication list \<Rightarrow> local_project \<Rightarrow> json" where
  "status_value D ps p = (let waiting = filter (\<lambda>v. pending v \<and> pub_project_id v = lp_project_id p) ps in
     jset ''nextPublicationAttemptAt'' (min_of (List.map_filter pub_next_attempt_at waiting))
     (jset ''lastPublicationAttemptAt'' (max_of (List.map_filter pub_last_attempt_at waiting))
     (jset ''oldestPendingAt'' (min_of (map pub_created_at waiting))
     (jset ''queueDepth'' (JInt (int (length waiting))) (dv_project_json D p)))))"

definition status :: "'x denv \<Rightarrow> json \<Rightarrow> ('x daemon, stop, json) prog" where
  "status D request =
     andThen (lock_catalog D) (\<lambda>catalog.
     andThen (case jget_str ''project_id'' request of
         Some pid \<Rightarrow> andThen (op (lift (find_project catalog pid))) (\<lambda>p. ret [p])
       | None \<Rightarrow> ret (lc_projects catalog)) (\<lambda>projects.
     andThen (await_holding_catalog D) (\<lambda>_.
     andThen (gets dm_publications) (\<lambda>queue.
     ret (jobj [(''projects'', JArr (map (status_value D (pq_publications queue)) projects))])))))"

definition ping :: "'x denv \<Rightarrow> json" where
  "ping D = jobj [(''protocol'', JStr protocol_version), (''pid'', JInt (int (process_id (dv_env D)))),
     (''binaryId'', JStr (dv_binary_id D))]"

definition handle :: "'x denv \<Rightarrow> json \<Rightarrow> ('x daemon, stop, json) prog" where
  "handle D request =
     (let m = (case jget_str ''method'' request of Some v \<Rightarrow> v | None \<Rightarrow> []) in
      if m = ''ping'' then ret (ping D)
      else if m = ''registerProject'' then register_project D request
      else if m = ''reload'' then reload D
      else if m = ''status'' then status D request
      else if m = ''acquireAccess'' then acquire D request
      else if m = ''accessState'' then access_state D request
      else if m = ''releaseAccess'' then release_access D request
      else if m = ''sync'' then sync D request
      else if m = ''publish'' then publish D request
      else if m = ''reportCommit'' then report_commit D request
      else if m = ''reportCheckout'' then report_checkout D request
      else bail (Fails (''unknown daemon method '' @ m)))"

end
