(* ===== verification/Frames.thy ===== *)
theory Frames
  imports Publication Remote
begin

section \<open>What the components leave alone\<close>

text \<open>
  The operations of the components run on any extension of the outside world. \<open>frames m\<close> says that
  \<open>m\<close> does not change the extension: the daemon's catalog, queue and gates survive every call into
  Git, the file system and the provider. The rules in \<open>frame\<close> follow the structure of a program.
\<close>

named_theorems frame \<open>programs that leave the extension of the world alone\<close>

definition frames :: "(('x, 'z) world_scheme, 'e, 'a) prog \<Rightarrow> bool" where
  "frames m \<longleftrightarrow> (\<forall>s. world.more (snd (m s)) = world.more s)"

lemma framesD: "frames m \<Longrightarrow> m s = (r, s') \<Longrightarrow> world.more s' = world.more s"
  unfolding frames_def by (metis snd_conv)

lemma framesI: "(\<And>s. world.more (snd (m s)) = world.more s) \<Longrightarrow> frames m"
  by (simp add: frames_def)

lemma frames_simple [frame]: "frames (ret a)" "frames (bail e)" "frames (lift r)" "frames (gets f)"
  by (simp_all add: frames_def ret_def bail_def lift_def gets_def)

lemma frames_andThen [frame]: "frames m \<Longrightarrow> (\<And>a. frames (f a)) \<Longrightarrow> frames (andThen m f)"
  unfolding frames_def andThen_def by (auto split: prod.splits sum.splits) (metis snd_conv)+

lemma frames_attempt [frame]: "frames m \<Longrightarrow> frames (attempt m)"
  unfolding frames_def attempt_def by (auto split: prod.splits) (metis snd_conv)

lemma frames_ignore [frame]: "frames m \<Longrightarrow> frames (ignore m)"
  unfolding frames_def ignore_def by auto

lemma frames_mapErr [frame]: "frames m \<Longrightarrow> frames (mapErr g m)"
  unfolding frames_def mapErr_def by (auto split: prod.splits sum.splits) (metis snd_conv)+

lemma frames_onlyIf [frame]: "(b \<Longrightarrow> frames m) \<Longrightarrow> frames (onlyIf b m)"
  by (simp add: onlyIf_def frames_simple)

lemma frames_unless [frame]: "(\<not> b \<Longrightarrow> frames m) \<Longrightarrow> frames (unless b m)"
  by (simp add: unless_def frames_simple)

lemma frames_if [frame]: "(b \<Longrightarrow> frames m) \<Longrightarrow> (\<not> b \<Longrightarrow> frames n) \<Longrightarrow> frames (if b then m else n)"
  by simp

lemma frames_case_option [frame]:
  "(v = None \<Longrightarrow> frames m) \<Longrightarrow> (\<And>a. v = Some a \<Longrightarrow> frames (f a)) \<Longrightarrow>
    frames (case v of None \<Rightarrow> m | Some a \<Rightarrow> f a)"
  by (cases v) simp_all

lemma frames_case_sum [frame]:
  "(\<And>e. v = Inl e \<Longrightarrow> frames (g e)) \<Longrightarrow> (\<And>a. v = Inr a \<Longrightarrow> frames (f a)) \<Longrightarrow>
    frames (case v of Inl e \<Rightarrow> g e | Inr a \<Rightarrow> f a)"
  by (cases v) simp_all

lemma frames_case_prod [frame]: "(\<And>a b. v = (a, b) \<Longrightarrow> frames (f a b)) \<Longrightarrow> frames (case v of (a, b) \<Rightarrow> f a b)"
  by (cases v) simp_all

lemma frames_case_io_error [frame]:
  "frames m \<Longrightarrow> frames n \<Longrightarrow> (\<And>t. frames (f t)) \<Longrightarrow>
    frames (case e of NotFound \<Rightarrow> m | DirectoryNotEmpty \<Rightarrow> n | OtherIo t \<Rightarrow> f t)"
  by (cases e) simp_all

lemma frames_case_prepared [frame]:
  "(\<And>r. v = Complete r \<Longrightarrow> frames (f r)) \<Longrightarrow> (\<And>p. v = Ready p \<Longrightarrow> frames (g p)) \<Longrightarrow>
    frames (case v of Complete r \<Rightarrow> f r | Ready p \<Rightarrow> g p)"
  by (cases v) simp_all

lemma frames_forEach [frame]: "(\<And>x. frames (f x)) \<Longrightarrow> frames (forEach f xs)"
  by (induction xs) (auto intro!: frame)

lemma frames_foldEach [frame]: "(\<And>acc x. frames (f acc x)) \<Longrightarrow> frames (foldEach f acc xs)"
  by (induction xs arbitrary: acc) (auto intro!: frame)

lemma frames_file_op [frame]: "frames (file_op E ev f)"
  by (rule framesI) (auto simp: file_op_def split: option.splits sum.splits)

lemma frames_ext_call [frame]: "frames (ext_call f)"
  by (rule framesI) (auto simp: ext_call_def split: prod.splits)

lemma frames_effects [frame]:
  "frames (spawn_process E p as opts)" "frames (http_send E rq)"
  by (auto simp: frames_def spawn_process_def http_send_def split: prod.splits)

lemma frames_files [frame]:
  "frames (read_file E p)" "frames (write_file E p c m)" "frames (create_dir_all E p)"
  "frames (set_permissions E p m)" "frames (sync_path E p)" "frames (rename_file E p q)"
  "frames (remove_file E p)" "frames (read_dir E p)" "frames (symlink_metadata E p)"
  "frames (remove_dir E p)" "frames (remove_dir_all E p)" "frames (make_symlink E p q)"
  by (simp_all add: read_file_def write_file_def create_dir_all_def set_permissions_def sync_path_def
      rename_file_def remove_file_def read_dir_def symlink_metadata_def remove_dir_def
      remove_dir_all_def make_symlink_def frames_file_op)

lemma frames_queries [frame]:
  "frames (path_exists p)" "frames (is_file p)" "frames (is_dir p)" "frames (now E)"
  "frames (now_rfc3339 E)" "frames (new_uuid E)" "frames (tempdir E)" "frames (remove_if_present E p)"
  by (auto simp: path_exists_def is_file_def is_dir_def now_def now_rfc3339_def new_uuid_def
      tempdir_def remove_if_present_def intro!: frame)

lemma frames_process [frame]: "frames (run_process E p as opts)" "frames (git E d as opts)" "frames (git_text E d as opts)"
  by (auto simp: run_process_def git_def git_text_def intro!: frame)

lemma frames_documents [frame]: "frames (read_json E C p d)" "frames (write_json E C p v m)"
  by (auto simp: read_json_def write_json_def prepare_parent_def sync_parent_def Let_def intro!: frame)

lemma frames_git_state [frame]:
  "frames (rev_verify E q n)" "frames (current_branch E q)" "frames (read_head_ref E q)"
  "frames (temporary_index E q t b)" "frames (tree_paths E q t)"
  by (auto simp: rev_verify_def current_branch_def read_head_ref_def temporary_index_def tree_paths_def
      Let_def intro!: frame)

lemma frames_snapshots [frame]:
  "frames (capture_workspace E q)" "frames (create_synthetic_chain E q sn)"
  by (auto simp: capture_workspace_def create_synthetic_chain_def Let_def intro!: frame)

lemma frames_ancestor_collision [frame]: "frames (ancestor_collision E q tracked as)"
  by (induction as) (auto intro!: frame)

lemma frames_collisions [frame]: "frames (find_untracked_collisions E q cs)"
  by (auto simp: find_untracked_collisions_def candidate_collision_def Let_def intro!: frame)

lemma frames_transaction_git [frame]:
  "frames (is_ancestor E q a b)" "frames (changed_paths E q a b)" "frames (rev_parse E q v)"
  "frames (write_recovery_refs E q i sn ch)" "frames (delete_recovery_refs E q r)"
  "frames (remove_transaction_artifacts E t)" "frames (read_retention root)"
  by (auto simp: is_ancestor_def changed_paths_def rev_parse_def write_recovery_refs_def
      delete_recovery_refs_def remove_transaction_artifacts_def read_retention_def Let_def intro!: frame)

lemma frames_prune_loop [frame]: "frames (prune_loop E n b hs)"
  by (induction E n b hs rule: prune_loop.induct) (auto intro!: frame)

lemma frames_history [frame]:
  "frames (prune_debug_history E C root i)" "frames (persist_debug_transaction E C t)"
  "frames (settle_transaction E C retention t)" "frames (clear_resolved_conflicts E C root q retention)"
  by (auto simp: prune_debug_history_def history_record_def persist_debug_transaction_def
      settle_transaction_def clear_resolved_conflicts_def intro!: frame)

lemma frames_install [frame]:
  "frames (install_precheck E q t c)" "frames (apply_candidate E C q t c)"
  "frames (install_candidate E C q t c retention)" "frames (install_prepared E C prepared)"
  by (auto simp: install_precheck_def apply_candidate_def install_candidate_def install_prepared_def
      Let_def intro!: frame)

lemma frames_prepared [frame]:
  "frames (install_prepared_reconciliation E C p)" "frames (discard_prepared_reconciliation E C p)"
  by (cases p; auto intro!: frame)+

lemma frames_prepare [frame]: "frames (prepare_reconciliation E C q a b root retention)"
  by (auto simp: prepare_reconciliation_def prepare_checks_def prepare_ancestry_def open_transaction_def
      new_transaction_id_def prepare_candidate_def rebase_candidate_def Let_def intro!: frame)

lemma frames_remote [frame]:
  "frames (observed_branch E p)" "frames (fetch_remote_branch E p b token)" "frames (heartbeat E config ps)"
  by (auto simp: observed_branch_def fetch_remote_branch_def heartbeat_def checkout_report_def Let_def intro!: frame)

lemma frames_publication [frame]:
  "frames (new_publication E i c b o' e)" "frames (due E p)" "frames (persist_queue E CQ paths q)"
  "frames (load_queue E CQ paths)" "frames (acknowledge_with_provider E service token p)"
  by (auto simp: new_publication_def due_def persist_queue_def load_queue_def acknowledge_with_provider_def intro!: frame)

end
