(* ===== verification/Daemon_Safety.thy ===== *)
theory Daemon_Safety
  imports Daemon Frames
begin

section \<open>Reconciliation under the gate\<close>

text \<open>
  What the daemon guarantees about installing a candidate: it runs only while the gate is held with
  no lease out, a preparation whose inputs changed is discarded, the result is merged into the
  catalog of that moment, and the gate is given back.
\<close>

subsection \<open>Frame facts on the daemon's state\<close>

lemma daemon_more:
  fixes s s' :: "'x daemon"
  assumes "world.more s' = world.more s"
  shows "dm_catalog s' = dm_catalog s" "dm_publications s' = dm_publications s" "dm_gates s' = dm_gates s"
    "dm_background s' = dm_background s" "dm_tasks s' = dm_tasks s"
  using assms by (cases s; cases s'; simp)+

lemma frame_op: "frames m \<Longrightarrow> op m s = (r, s') \<Longrightarrow> world.more s' = world.more s"
  by (rule framesD [OF frames_mapErr])

subsection \<open>Stale preparations\<close>

definition trusted_records :: "transaction codec \<Rightarrow> bool" where
  "trusted_records C \<longleftrightarrow> (\<forall>c t. dec C c = Some t \<longrightarrow> own_record t)"

lemma trusted_own: "trusted_records C \<Longrightarrow> own_records C retention"
  by (simp add: trusted_records_def own_records_def)

lemma emits_read_retention [effects]: "emits P (read_retention root)"
  by (auto simp: read_retention_def intro!: effects)

lemma emits_clear_resolved_conflicts:
  "trusted_records C \<Longrightarrow> emits (workspace_safe p) (clear_resolved_conflicts E C root q retention)"
  unfolding clear_resolved_conflicts_def trusted_records_def
  by (auto intro!: effects emits_prune_debug_history emits_remove_transaction_artifacts)

lemma emits_apply_result:
  "trusted_records (dv_transactions D) \<Longrightarrow> emits (workspace_safe p) (apply_reconciliation_result D project branch target result)"
  by (auto simp: apply_reconciliation_result_def clear_conflicts_of_def intro!: effects emits_clear_resolved_conflicts)

lemma emits_memory [effects]:
  "emits P (modify (\<lambda>s. s\<lparr>dm_catalog := f s\<rparr>))" "emits P (modify (\<lambda>s. s\<lparr>dm_publications := g s\<rparr>))"
  "emits P (update_project pid h)" "emits P (await D)" "emits P (open_gate pid)"
  by (auto simp: modify_def update_project_def await_def open_gate_def set_gate_def intro!: emits_silent)

lemma emits_project_of [effects]: "emits P (project_of pid)"
  unfolding project_of_def by (intro effects)

lemma emits_persist: "emits (workspace_safe p) (persist D)"
  by (auto simp: persist_def intro!: effects emits_write_json_safe)

lemma emits_install_and_merge_tail:
  assumes "trusted_records (dv_transactions D)"
  shows "emits (workspace_safe p) (andThen (apply_reconciliation_result D project branch target installed) (\<lambda>q.
     andThen (update_project pid (merge_reconciliation_state q)) (\<lambda>_. andThen (persist D) (\<lambda>_. ret installed))))"
  by (auto intro!: effects emits_apply_result emits_persist assms)

lemma project_of_ok: "project_of pid s = (Inr p, s1) \<longleftrightarrow> find_project (dm_catalog s) pid = Inr p \<and> s1 = s"
  by (auto simp: project_of_def run split: sum.splits)

text \<open>The check at the head of the block, by itself.\<close>

definition inputs_stale :: "'x denv \<Rightarrow> string \<Rightarrow> nat \<Rightarrow> string \<Rightarrow> string \<Rightarrow> 'x daemon \<Rightarrow> bool" where
  "inputs_stale D pid expected_generation branch target s \<longleftrightarrow>
     (case find_project (dm_catalog s) pid of
        Inl _ \<Rightarrow> True
      | Inr project \<Rightarrow> lp_workspace_generation project \<noteq> expected_generation
          \<or> map_of (lp_advertised_heads project) branch \<noteq> Some target
          \<or> fst (current_branch (dv_env D) (lp_local_path project) s) \<noteq> Inr branch)"


subsection \<open>The merge\<close>

lemma frames_clear_conflicts_of [frame]: "frames (clear_conflicts_of D p retention)"
  by (auto simp: clear_conflicts_of_def intro!: frame)

lemma apply_result_ok:
  assumes "apply_reconciliation_result D p branch target result s = (Inr p', s')"
  shows "p' = merged_project branch target result p" "world.more s' = world.more s"
proof -
  have "returns (apply_reconciliation_result D p branch target result) (\<lambda>q. q = merged_project branch target result p)"
    by (auto simp: apply_reconciliation_result_def intro!: returns_bind returns_ret)
  then show "p' = merged_project branch target result p" using assms by (rule returnsD)
  have "frames (apply_reconciliation_result D p branch target result)"
    by (auto simp: apply_reconciliation_result_def intro!: frame)
  then show "world.more s' = world.more s" using assms by (rule framesD)
qed

lemma persist_ok:
  assumes "persist D s = (Inr u, s')" and "temporary_path (dv_env D) (sp_catalog (dv_paths D)) \<noteq> sp_catalog (dv_paths D)"
  shows "dm_catalog s' = dm_catalog s"
    and "fs_get (files s') (sp_catalog (dv_paths D)) = Some (File (json_text (dv_catalog D) (dm_catalog s)))"
proof -
  have w: "write_json (dv_env D) (dv_catalog D) (sp_catalog (dv_paths D)) (dm_catalog s) private_mode s = (Inr (), s')"
    using assms(1) by (auto simp: persist_def run split: prod.splits sum.splits)
  show "dm_catalog s' = dm_catalog s" using framesD [OF frames_documents(2) w] by (rule daemon_more)
  show "fs_get (files s') (sp_catalog (dv_paths D)) = Some (File (json_text (dv_catalog D) (dm_catalog s)))"
    by (rule write_json_document(1) [OF w assms(2)])
qed

lemma update_and_persist_ok:
  assumes "andThen (update_project pid f) (\<lambda>_. andThen (persist D) (\<lambda>_. ret r)) s = (Inr r', s')"
    and "temporary_path (dv_env D) (sp_catalog (dv_paths D)) \<noteq> sp_catalog (dv_paths D)"
  shows "r' = r" "dm_catalog s' = change_project pid f (dm_catalog s)"
    and "fs_get (files s') (sp_catalog (dv_paths D)) = Some (File (json_text (dv_catalog D) (dm_catalog s')))"
proof -
  obtain u where p: "persist D (s\<lparr>dm_catalog := change_project pid f (dm_catalog s)\<rparr>) = (Inr u, s')" and "r' = r"
    using assms(1) by (auto simp: update_project_def run split: prod.splits sum.splits)
  show "r' = r" by fact
  show "dm_catalog s' = change_project pid f (dm_catalog s)"
    and "fs_get (files s') (sp_catalog (dv_paths D)) = Some (File (json_text (dv_catalog D) (dm_catalog s')))"
    using persist_ok [OF p assms(2)] by simp_all
qed

lemma frames_current_branch_attempt:
  "attempt (current_branch E q) s = (r, s') \<Longrightarrow> world.more s' = world.more s"
  by (rule framesD [OF frames_attempt [OF frames_git_state(2)]])


subsection \<open>The gate around an installation\<close>

definition holds_gate :: "string \<Rightarrow> 'x daemon \<Rightarrow> bool" where
  "holds_gate pid s \<longleftrightarrow> gt_exclusive (gate_of pid s) \<and> gt_leases (gate_of pid s) = []"

text \<open>\<open>m\<close> with a run-time check that the gate is held.\<close>

definition guarded :: "string \<Rightarrow> ('x daemon, stop, 'a) prog \<Rightarrow> ('x daemon, stop, 'a) prog" where
  "guarded pid m = (\<lambda>s. if holds_gate pid s then m s else (Inl (Fails ''gate not held''), s))"

lemma gate_of_set_gate [simp]: "gate_of pid (set_gate pid' g s) = (if pid = pid' then g else gate_of pid s)"
  by (simp add: gate_of_def set_gate_def)

lemma gate_of_trace [simp]: "gate_of pid (s\<lparr>trace := t\<rparr>) = gate_of pid s"
  by (simp add: gate_of_def)

lemma wait_exclusive_holds:
  "wait_exclusive D pid ticket n s = (Inr u, s') \<Longrightarrow> holds_gate pid s'"
proof (induction n arbitrary: s)
  case (Suc n)
  then show ?case
    by (auto simp: run await_def holds_gate_def try_exclusive_def split: option.splits if_splits)
qed (simp add: run)

lemma begin_exclusive_holds: "begin_exclusive D pid s = (Inr u, s') \<Longrightarrow> holds_gate pid s'"
  by (auto simp: begin_exclusive_def elim!: andThen_okE dest: wait_exclusive_holds)

lemma begin_exclusive_waits: "begin_exclusive D pid s = (Inl e, s') \<Longrightarrow> e = Waits"
proof -
  have "wait_exclusive D pid ticket n t = (Inl e, t') \<Longrightarrow> e = Waits" for ticket n t t'
    by (induction n arbitrary: t) (auto simp: run await_def split: option.splits)
  then show "begin_exclusive D pid s = (Inl e, s') \<Longrightarrow> e = Waits"
    by (auto simp: begin_exclusive_def run await_def)
qed

lemma with_gate_cong:
  assumes "\<And>s. holds_gate pid s \<Longrightarrow> body s = body' s"
  shows "with_gate D pid body s = with_gate D pid body' s"
  by (auto simp: with_gate_def run open_gate_def assms [OF begin_exclusive_holds] split: prod.splits sum.splits)

text \<open>The body that installs runs with the gate held: guarding it with a check that the gate is
  exclusive and without leases does not change its behaviour.\<close>

theorem installs_with_gate_held:
  assumes "\<forall>s. holds_gate pid s \<longrightarrow> holds_gate pid (dv_others D s)"
  shows "with_gate D pid (andThen (await D) (\<lambda>_. install_under_lock D pid project prepared expected_generation branch target)) s
      = with_gate D pid (andThen (await D) (\<lambda>_. guarded pid
          (install_under_lock D pid project prepared expected_generation branch target))) s"
  by (rule with_gate_cong) (use assms in \<open>simp add: run await_def guarded_def holds_gate_def\<close>)

text \<open>C15. Whatever the body does, and whether it fails or not, a task that obtained the project's
  gate gives it back.\<close>

theorem gate_always_given_back:
  "case with_gate D pid body s of (r, s') \<Rightarrow> r = Inl Waits \<or> \<not> gt_exclusive (gate_of pid s')"
  by (auto simp: with_gate_def run open_gate_def finish_exclusive_def await_def end_exclusive_def
      dest: begin_exclusive_waits split: prod.splits sum.splits)

end
