(* ===== verification/Daemon_Promises.thy ===== *)
theory Daemon_Promises
  imports Daemon_Safety
begin

section \<open>Publications and requests\<close>

text \<open>
  What the daemon promises about queued commits (recorded before they are acknowledged, validated
  before they are pushed, marked durable by a matching acknowledgement only) and about the requests
  of the local socket.
\<close>

subsection \<open>Queueing\<close>

text \<open>No other task runs during the operation: the sequential meaning of an operation.\<close>

definition alone :: "'x denv \<Rightarrow> bool" where
  "alone D \<longleftrightarrow> (\<forall>s. dv_others D s = s)"

lemma await_alone: "alone D \<Longrightarrow> await D s = (Inr (), s)"
  by (simp add: alone_def await_def run)

lemma lock_catalog_alone: "alone D \<Longrightarrow> lock_catalog D s = (Inr (dm_catalog s), s)"
  by (simp add: lock_catalog_def run await_alone)

lemma lock_publications_alone: "alone D \<Longrightarrow> lock_publications D s = (Inr (dm_publications s), s)"
  by (simp add: lock_publications_def run await_alone)

lemma read_project_alone: "alone D \<Longrightarrow> read_project D pid s = (case find_project (dm_catalog s) pid of
    Inl e \<Rightarrow> (Inl (Fails e), s) | Inr p \<Rightarrow> (Inr p, s))"
  by (simp add: read_project_def lock_catalog_alone project_of_def run split: sum.splits)

lemmas alone_simps = await_alone lock_catalog_alone lock_publications_alone read_project_alone

lemma persist_publications_ok:
  assumes "persist_publications D s = (Inr u, s')"
    and "temporary_path (dv_env D) (queue_path (dv_paths D)) \<noteq> queue_path (dv_paths D)"
  shows "dm_publications s' = dm_publications s" "dm_catalog s' = dm_catalog s"
    and "fs_get (files s') (queue_path (dv_paths D)) = Some (File (json_text (dv_queue D) (dm_publications s)))"
    and "trace s' = trace s @ document_script (dv_env D) (queue_path (dv_paths D))
      (json_text (dv_queue D) (dm_publications s)) private_mode"
proof -
  have w: "write_json (dv_env D) (dv_queue D) (queue_path (dv_paths D)) (dm_publications s) private_mode s = (Inr (), s')"
    using assms(1) by (auto simp: persist_publications_def persist_queue_def run split: prod.splits sum.splits)
  show "dm_publications s' = dm_publications s" "dm_catalog s' = dm_catalog s"
    using framesD [OF frames_documents(2) w] by (rule daemon_more)+
  show "fs_get (files s') (queue_path (dv_paths D)) = Some (File (json_text (dv_queue D) (dm_publications s)))"
    "trace s' = trace s @ document_script (dv_env D) (queue_path (dv_paths D))
      (json_text (dv_queue D) (dm_publications s)) private_mode"
    using write_json_document [OF w assms(2)] by simp_all
qed

lemma appendsE: "emits (\<lambda>_. True) m \<Longrightarrow> m s = (r, s') \<Longrightarrow> \<exists>es. trace s' = trace s @ es"
  unfolding emits_def by (metis snd_conv)

lemma emits_daemon [effects]:
  "emits P (lock_catalog D)" "emits P (lock_publications D)" "emits P (read_project D pid)"
  by (auto simp: lock_catalog_def lock_publications_def read_project_def intro!: effects)

lemma emits_spawn_task [effects]: "emits P (spawn_task t)"
  by (rule emits_silent) (simp add: spawn_task_def modify_def)

lemma emits_persist_any [effects]: "emits (\<lambda>_. True) (persist D)"
  by (auto simp: persist_def intro!: effects)

lemma returns_new_publication:
  "returns (new_publication E i c b o' e) (\<lambda>p. pub_project_id p = i \<and> pub_branch p = b \<and> pub_source_commit_oid p = o'
     \<and> pub_candidate_commit_oid p = o' \<and> pub_expected_remote_oid p = e \<and> pub_attempt p = 1 \<and> pending p)"
  by (auto simp: new_publication_def pending_def PENDING_def ACKNOWLEDGED_def intro!: returns_bind returns_ret)

lemma emits_new_publication: "emits P (new_publication E i c b o' e)"
  by (auto simp: new_publication_def intro!: effects)



subsection \<open>A queued commit is found again\<close>

lemma frames_git_step: "op (git_text E d as opts) s = (r, s') \<Longrightarrow> world.more s' = world.more s"
  by (rule framesD [OF frames_mapErr [OF frames_process(3)]])

lemma project_id_after: "find_project (change_project pid f c) pid = Inr q \<Longrightarrow>
    (\<And>p. is_project pid (f p) = is_project pid p) \<Longrightarrow> (\<And>p. lp_project_id (f p) = lp_project_id p) \<Longrightarrow>
    \<exists>p. find_project c pid = Inr p \<and> lp_project_id q = lp_project_id p"
  by (auto simp: find_project_def change_project_def find_update_first ok_or_def split: option.splits)

lemma frames_persist [frame]: "frames (persist D)"
  by (auto simp: persist_def intro!: frame)

lemma find_append: "find P (xs @ ys) = (case find P xs of None \<Rightarrow> find P ys | Some x \<Rightarrow> Some x)"
  by (induction xs) auto

lemma enqueue_new_alone:
  fixes D :: "'x denv"
  assumes ran: "enqueue_new D pid project branch commit_oid s = (Inr i, s')" and alone: "alone D"
    and tmp: "temporary_path (dv_env D) (queue_path (dv_paths D)) \<noteq> queue_path (dv_paths D)"
      "temporary_path (dv_env D) (sp_catalog (dv_paths D)) \<noteq> sp_catalog (dv_paths D)"
  shows "\<exists>p. dm_publications s' = append_publication p (dm_publications s) \<and> pub_id p = i
      \<and> queued_for (lp_project_id project) branch commit_oid p
    \<and> dm_catalog s' = change_project pid (\<lambda>p. p\<lparr>lp_durability := ''COMMITTED_UNPUBLISHED''\<rparr>) (dm_catalog s)"
proof -
  obtain p s1 where p: "(new_publication (dv_env D) (lp_project_id project) (lp_checkout_id project) branch commit_oid
       (map_of (lp_advertised_heads project) branch) :: ('x daemon, stop, publication) prog) s = (Inr p, s1)"
    and s1: "andThen (op (git (dv_env D) (lp_local_path project)
       [''update-ref'', publication_ref (pub_id p), commit_oid] default_options)) (\<lambda>_.
     andThen (lock_publications D) (\<lambda>_.
     andThen (modify (\<lambda>s. s\<lparr>dm_publications := append_publication p (dm_publications s)\<rparr>)) (\<lambda>_.
     andThen (persist_publications D) (\<lambda>_.
     andThen (lock_catalog D) (\<lambda>_.
     andThen (project_of pid) (\<lambda>_.
     andThen (update_project pid (\<lambda>p. p\<lparr>lp_durability := ''COMMITTED_UNPUBLISHED''\<rparr>)) (\<lambda>_.
     andThen (persist D) (\<lambda>_.
     andThen (spawn_task (PublishTask False)) (\<lambda>_. ret (pub_id p)))))))))) s1 = (Inr i, s')"
    using ran unfolding enqueue_new_def by (rule andThen_okE)
  note props = returnsD [OF returns_new_publication p]
  have m1: "world.more s1 = world.more s" by (rule framesD [OF frames_publication(1) p])
  obtain u s2 where g: "op (git (dv_env D) (lp_local_path project)
       [''update-ref'', publication_ref (pub_id p), commit_oid] default_options) s1 = (Inr u, s2)"
    and s2: "andThen (persist_publications D) (\<lambda>_.
     andThen (lock_catalog D) (\<lambda>_.
     andThen (project_of pid) (\<lambda>_.
     andThen (update_project pid (\<lambda>p. p\<lparr>lp_durability := ''COMMITTED_UNPUBLISHED''\<rparr>)) (\<lambda>_.
     andThen (persist D) (\<lambda>_.
     andThen (spawn_task (PublishTask False)) (\<lambda>_. ret (pub_id p)))))))
       (s2\<lparr>dm_publications := append_publication p (dm_publications s2)\<rparr>) = (Inr i, s')"
    using s1 by (rule andThen_okE) (simp add: run alone_simps [OF alone])
  have m2: "world.more s2 = world.more s" using framesD [OF frames_mapErr [OF frames_process(2)] g] m1 by simp
  obtain v s3 where s3: "persist_publications D (s2\<lparr>dm_publications := append_publication p (dm_publications s2)\<rparr>) = (Inr v, s3)"
    and rest: "andThen (lock_catalog D) (\<lambda>_.
     andThen (project_of pid) (\<lambda>_.
     andThen (update_project pid (\<lambda>p. p\<lparr>lp_durability := ''COMMITTED_UNPUBLISHED''\<rparr>)) (\<lambda>_.
     andThen (persist D) (\<lambda>_.
     andThen (spawn_task (PublishTask False)) (\<lambda>_. ret (pub_id p)))))) s3 = (Inr i, s')"
    using s2 by (rule andThen_okE)
  have q3: "dm_publications s3 = append_publication p (dm_publications s)" "dm_catalog s3 = dm_catalog s"
    using persist_publications_ok(1,2) [OF s3 tmp(1)] daemon_more(1,2) [OF m2] by simp_all
  obtain w s4 where s4: "persist D (s3\<lparr>dm_catalog := change_project pid (\<lambda>p. p\<lparr>lp_durability := ''COMMITTED_UNPUBLISHED''\<rparr>) (dm_catalog s3)\<rparr>) = (Inr w, s4)"
    and s': "s' = s4\<lparr>dm_tasks := dm_tasks s4 @ [PublishTask False]\<rparr>" "i = pub_id p"
    using rest by (auto simp: run alone_simps [OF alone] project_of_def update_project_def spawn_task_def
      split: prod.splits sum.splits)
  have "world.more s4 = world.more (s3\<lparr>dm_catalog := change_project pid (\<lambda>p. p\<lparr>lp_durability := ''COMMITTED_UNPUBLISHED''\<rparr>) (dm_catalog s3)\<rparr>)"
    by (rule framesD [OF frames_persist s4])
  then show ?thesis using q3 s' props daemon_more(1,2)
    by (fastforce simp: queued_for_def)
qed

text \<open>Reporting the same commit twice returns the same publication id and leaves the queue as it
  was.\<close>

theorem enqueue_is_idempotent:
  fixes D :: "'x denv"
  assumes alone: "alone D"
    and tmp: "temporary_path (dv_env D) (queue_path (dv_paths D)) \<noteq> queue_path (dv_paths D)"
      "temporary_path (dv_env D) (sp_catalog (dv_paths D)) \<noteq> sp_catalog (dv_paths D)"
    and first: "enqueue_publication D pid branch commit_oid s = (Inr i, s')"
    and again: "enqueue_publication D pid branch commit_oid s' = (Inr j, s'')"
  shows "j = i \<and> dm_publications s'' = dm_publications s'"
proof -
  note run_alone = enqueue_publication_def run_andThen alone_simps [OF alone]
  obtain project s1 where project: "find_project (dm_catalog s) pid = Inr project"
    and s1: "op (git_text (dv_env D) (lp_local_path project)
       [''rev-parse'', ''--verify'', commit_oid @ ''^{commit}''] default_options) s = (Inr commit_oid, s1)"
    and r1: "(case find (queued_for (lp_project_id project) branch commit_oid) (pq_publications (dm_publications s1)) of
       Some existing \<Rightarrow> ret (pub_id existing)
     | None \<Rightarrow> enqueue_new D pid project branch commit_oid) s1 = (Inr i, s')"
    using first by (auto simp: run_alone run_simps split: sum.splits prod.splits if_splits)
  obtain project2 s2 where project2: "find_project (dm_catalog s') pid = Inr project2"
    and s2: "op (git_text (dv_env D) (lp_local_path project2)
       [''rev-parse'', ''--verify'', commit_oid @ ''^{commit}''] default_options) s' = (Inr commit_oid, s2)"
    and r2: "(case find (queued_for (lp_project_id project2) branch commit_oid) (pq_publications (dm_publications s2)) of
       Some existing \<Rightarrow> ret (pub_id existing)
     | None \<Rightarrow> enqueue_new D pid project2 branch commit_oid) s2 = (Inr j, s'')"
    using again by (auto simp: run_alone run_simps split: sum.splits prod.splits if_splits)
  note m1 = daemon_more(1,2) [OF frames_git_step [OF s1]] and m2 = daemon_more(1,2) [OF frames_git_step [OF s2]]
  have "\<exists>v. find (queued_for (lp_project_id project2) branch commit_oid) (pq_publications (dm_publications s')) = Some v \<and> pub_id v = i"
  proof (cases "find (queued_for (lp_project_id project) branch commit_oid) (pq_publications (dm_publications s))")
    case None
    then have "enqueue_new D pid project branch commit_oid s1 = (Inr i, s')" using r1 m1 by simp
    from enqueue_new_alone [OF this alone tmp]
    obtain p where p: "dm_publications s' = append_publication p (dm_publications s)" "pub_id p = i"
        "queued_for (lp_project_id project) branch commit_oid p"
      and c: "dm_catalog s' = change_project pid (\<lambda>p. p\<lparr>lp_durability := ''COMMITTED_UNPUBLISHED''\<rparr>) (dm_catalog s)"
      using m1 by auto
    have "lp_project_id project2 = lp_project_id project"
      using project_id_after [OF project2 [unfolded c]] project by (auto simp: is_project_def)
    then show ?thesis using None p by (simp add: append_publication_def find_append)
  next
    case (Some v)
    then have "s' = s1" "i = pub_id v" using r1 m1 by (auto simp: run)
    then show ?thesis using Some m1 project project2 by simp
  qed
  then show ?thesis using r2 m2 by (auto simp: run)
qed

end
