(* ===== verification/Daemon_Delivery.thy ===== *)
theory Daemon_Delivery
  imports Daemon_Promises
begin

subsection \<open>Delivery\<close>

text \<open>A pending publication of a project in conflict is not delivered: the delivery fails at
  once, before any command or change of state.\<close>

theorem conflicted_publication_is_paused:
  assumes "alone D" and "find (\<lambda>v. pub_id v = pub_id p) (pq_publications (dm_publications s)) = Some v" and "pending v"
    and "find_project (dm_catalog s) (pub_project_id v) = Inr project" and "lp_state project = ''CONFLICTED''"
  shows "deliver_publication D p s
    = (Inl (Fails ''publication is paused until `resync project sync` completes reconciliation''), s)"
proof -
  have "deliver_rounds D (pub_id p) (Suc n) s
    = (Inl (Fails ''publication is paused until `resync project sync` completes reconciliation''), s)" for n
    using assms by (simp add: deliver_round_def queued_publication_def run alone_simps)
  from this [of 4] show ?thesis by (simp add: deliver_publication_def del: deliver_rounds.simps)
qed

text \<open>The commands of a validation and its clean-up.\<close>

definition validation_script :: "path \<Rightarrow> path \<Rightarrow> string \<Rightarrow> string list list \<Rightarrow> event list" where
  "validation_script project_path dir candidate commands =
     git_event project_path [''worktree'', ''add'', ''--detach'', dir, candidate] default_options
     # map (\<lambda>c. Spawn (hd c) (tl c) (validation_options dir)) commands"

lemma script_run_process [scripts]: "script [Spawn p as opts] (run_process E p as opts)"
proof -
  have one: "trace (snd (run_process E p as opts s)) = trace s @ [Spawn p as opts]" for s
    by (auto simp: run_process_def spawn_process_def run split: prod.splits sum.splits)
  show ?thesis unfolding script_def by (rule allI, rule exI [of _ 1]) (simp add: one)
qed

lemma script_validations: "script (map (\<lambda>c. Spawn (hd c) (tl c) (validation_options dir)) commands)
    (forEach (run_validation E dir) commands)"
proof (induction commands)
  case (Cons c cs)
  have "script ([Spawn (hd c) (tl c) (validation_options dir)] @ []) (run_validation E dir c)"
    unfolding run_validation_def by (intro script_andThen scripts)
  then show ?case using script_andThen [of "[Spawn (hd c) (tl c) (validation_options dir)]", OF _ Cons.IH] by simp
qed (simp add: scripts)

lemma script_validate_in: "script (validation_script project_path dir candidate commands)
    (validate_in E project_path dir candidate commands)"
  using script_andThen [OF script_git script_validations]
  by (simp add: validate_in_def validation_script_def)

lemma emits_read_project_config: "emits (\<lambda>e. \<exists>f. e = ReadFile f) (read_project_config E parse q)"
  by (auto simp: read_project_config_def Let_def intro!: effects)

lemma git_one_event: "trace (snd (git E d as opts s)) = trace s @ [git_event d as opts]"
  by (auto simp: git_def run_process_def spawn_process_def run split: prod.splits sum.splits)

text \<open>Validation of a candidate checks the exact commit out into a fresh worktree, runs the
  commands of the policy in order up to the first failure, and always removes the worktree; it
  succeeds only if all commands ran.\<close>

theorem validation_runs_the_policy:
  assumes policy: "fst (read_project_config (dv_env D) (dv_validations D) (lp_local_path project) s) = Inr commands"
    and some: "commands \<noteq> []"
  shows "\<exists>reads dir n. new_events (validate_candidate D project candidate) s
      = reads @ take n (validation_script (lp_local_path project) dir candidate commands)
        @ [git_event (lp_local_path project) [''worktree'', ''remove'', ''--force'', dir] allow_failure_options]
    \<and> list_all (\<lambda>e. \<exists>f. e = ReadFile f) reads
    \<and> (fst (validate_candidate D project candidate s) = Inr () \<longrightarrow>
        n = length (validation_script (lp_local_path project) dir candidate commands))"
proof -
  obtain s1 where s1: "read_project_config (dv_env D) (dv_validations D) (lp_local_path project) s = (Inr commands, s1)"
    using policy by (metis prod.collapse)
  obtain reads where reads: "trace s1 = trace s @ reads" "list_all (\<lambda>e. \<exists>f. e = ReadFile f) reads"
    using s1 by (metis emitsE [OF emits_read_project_config] snd_conv)
  define dir where "dir = path_join (sp_root (dv_paths D)) (''validation-'' @ fst (uuid (dv_env D) (ext s1)))"
  define s2 where "s2 = s1\<lparr>ext := snd (uuid (dv_env D) (ext s1))\<rparr>"
  obtain n where n: "trace (snd (validate_in (dv_env D) (lp_local_path project) dir candidate commands s2))
      = trace s2 @ take n (validation_script (lp_local_path project) dir candidate commands)"
    "is_ok (fst (validate_in (dv_env D) (lp_local_path project) dir candidate commands s2)) \<longrightarrow>
      n = length (validation_script (lp_local_path project) dir candidate commands)"
    using script_validate_in [of "lp_local_path project" dir candidate commands "dv_env D"] by (auto simp: script_def)
  have "validate_candidate D project candidate s =
      (case validate_in (dv_env D) (lp_local_path project) dir candidate commands s2 of (r, s3) \<Rightarrow>
        (case r of Inl e \<Rightarrow> Inl (Fails e) | Inr u \<Rightarrow> Inr u,
         snd (git (dv_env D) (lp_local_path project) [''worktree'', ''remove'', ''--force'', dir] allow_failure_options s3)))"
    using s1 some by (simp add: validate_candidate_def Let_def run new_uuid_def ext_call_def dir_def s2_def split_beta
        split: sum.splits)
  then show ?thesis using n reads
    by (auto simp: new_events_def git_one_event s2_def is_ok_def split: prod.splits sum.splits
        intro!: exI [of _ reads] exI [of _ dir] exI [of _ n])
qed


subsection \<open>Acknowledgement\<close>

text \<open>The publications a delivery stands for.\<close>

definition delivered_with :: "publication \<Rightarrow> publication \<Rightarrow> bool" where
  "delivered_with p v \<longleftrightarrow> pub_state v \<noteq> ''ACKNOWLEDGED'' \<and> pub_project_id v = pub_project_id p
     \<and> pub_branch v = pub_branch p \<and> pub_created_at v \<le> pub_created_at p"

lemma covered_by_iff [simp]: "covered_by p v = delivered_with p v"
  by (auto simp: covered_by_def delivered_with_def pending_def ACKNOWLEDGED_def)

text \<open>What becomes of one publication: acknowledged at some time, or as it was.\<close>

definition acknowledged_as :: "publication \<Rightarrow> publication_ack \<Rightarrow> publication \<Rightarrow> publication \<Rightarrow> bool" where
  "acknowledged_as p ack v w \<longleftrightarrow> (if delivered_with p v
     then \<exists>t. w = acknowledged t ack v else w = v)"

lemma returns_acknowledge_fold:
  "returns (foldEach (acknowledge_one E p ack) (earlier, completed) vs)
     (\<lambda>(ps, ids). \<exists>new. ps = earlier @ new \<and> ids = completed @ map pub_id (filter (delivered_with p) vs)
        \<and> list_all2 (acknowledged_as p ack) vs new)"
proof (induction vs arbitrary: earlier completed)
  case Nil
  show ?case by (auto intro!: returns_ret)
next
  case (Cons v vs)
  have one: "returns (acknowledge_one E p ack (earlier, completed) v)
      (\<lambda>(ps, ids). \<exists>w. ps = earlier @ [w] \<and> ids = completed @ (if delivered_with p v then [pub_id v] else [])
        \<and> acknowledged_as p ack v w)"
    by (auto simp: acknowledge_one_def acknowledged_as_def intro!: returns_bind returns_ret)
  show ?case unfolding foldEach.simps
  proof (rule returns_andThen [OF one], clarify)
    fix ps ids w
    assume w: "acknowledged_as p ack v w"
    show "returns (foldEach (acknowledge_one E p ack) (earlier @ [w], completed @ (if delivered_with p v then [pub_id v] else [])) vs)
      (\<lambda>(ps, ids). \<exists>new. ps = earlier @ new \<and> ids = completed @ map pub_id (filter (delivered_with p) (v # vs))
        \<and> list_all2 (acknowledged_as p ack) (v # vs) new)"
      by (rule returns_weaken [OF Cons.IH]) (use w in \<open>auto split: if_splits\<close>)
  qed
qed

lemma frames_acknowledge_fold: "frames (foldEach (acknowledge_one E p ack) acc vs)"
  by (auto simp: acknowledge_one_def intro!: frame split: prod.splits)

lemma pending_compact: "v \<in> set (pq_publications (compact q)) \<and> pending v \<longleftrightarrow> v \<in> set (pq_publications q) \<and> pending v"
proof -
  have "filter pending (pq_publications (compact q)) = filter pending (pq_publications q)"
    by (simp add: compact_def Let_def pending_retain_after)
  then have "set (filter pending (pq_publications (compact q))) = set (filter pending (pq_publications q))" by simp
  then show ?thesis unfolding set_filter by blast
qed

text \<open>C10. An acknowledgement marks exactly the pending publications of the same project and branch
  that are not newer than the delivered one, keeps every other publication as it was, reports
  their ids and whether the project still has pending work, compacts the queue and leaves it on
  disk.\<close>

theorem acknowledgement_is_exact:
  fixes D :: "'x denv"
  assumes ran: "acknowledge_queue D p ack s = (Inr (completed, has_pending), s')"
    and tmp: "temporary_path (dv_env D) (queue_path (dv_paths D)) \<noteq> queue_path (dv_paths D)"
  shows "\<exists>ps. dm_publications s' = compact (with_publications ps (dm_publications s))
    \<and> list_all2 (acknowledged_as p ack)
        (pq_publications (dm_publications s)) ps
    \<and> completed = map pub_id (filter (delivered_with p) (pq_publications (dm_publications s)))
    \<and> (has_pending \<longleftrightarrow> (\<exists>v\<in>set (pq_publications (dm_publications s)). pending v
          \<and> pub_project_id v = pub_project_id p \<and> \<not> delivered_with p v))
    \<and> fs_get (files s') (queue_path (dv_paths D)) = Some (File (json_text (dv_queue D) (dm_publications s')))"
proof -
  let ?q = "dm_publications s"
  obtain ps ids s1 where fold: "(foldEach (acknowledge_one (dv_env D) p ack) ([], []) (pq_publications ?q) ::
        ('x daemon, stop, publication list \<times> string list) prog) s = (Inr (ps, ids), s1)"
    and rest: "andThen (persist_publications D) (\<lambda>_. andThen (gets dm_publications) (\<lambda>after.
      ret (ids, \<exists>v\<in>set (pq_publications after). pending v \<and> pub_project_id v = pub_project_id p)))
      (s1\<lparr>dm_publications := compact (with_publications ps ?q)\<rparr>) = (Inr (completed, has_pending), s')"
    using ran by (auto simp: acknowledge_queue_def run_andThen run_simps split: prod.splits sum.splits)
  have ps: "ids = map pub_id (filter (delivered_with p) (pq_publications ?q))"
    "list_all2 (acknowledged_as p ack) (pq_publications ?q) ps"
    using returnsD [OF returns_acknowledge_fold fold] by auto
  obtain u where pers: "persist_publications D (s1\<lparr>dm_publications := compact (with_publications ps ?q)\<rparr>) = (Inr u, s')"
    and out: "completed = ids" "has_pending \<longleftrightarrow> (\<exists>v\<in>set (pq_publications (dm_publications s')). pending v \<and> pub_project_id v = pub_project_id p)"
    using rest by (auto simp: run_andThen run_simps split: prod.splits sum.splits)
  note after = persist_publications_ok [OF pers tmp]
  have "(\<exists>v\<in>set ps. pending v \<and> pub_project_id v = pub_project_id p) \<longleftrightarrow>
      (\<exists>v\<in>set (pq_publications ?q). pending v \<and> pub_project_id v = pub_project_id p \<and> \<not> delivered_with p v)"
    using ps(2)
  proof (induction rule: list_all2_induct)
    case (Cons v vs w ws)
    then show ?case by (auto simp: acknowledged_as_def acknowledged_def pending_def ACKNOWLEDGED_def delivered_with_def split: if_splits)
  qed simp
  then have "has_pending \<longleftrightarrow> (\<exists>v\<in>set (pq_publications ?q). pending v
      \<and> pub_project_id v = pub_project_id p \<and> \<not> delivered_with p v)"
    using out(2) after(1) pending_compact [of _ "with_publications ps ?q"] by (auto simp: with_publications_def) 
  then show ?thesis using ps out(1) after by (intro exI [of _ ps]) simp
qed

end
