(* ===== verification/Daemon_Installation.thy ===== *)
theory Daemon_Installation
  imports Daemon_Delivery
begin

section \<open>Whole reconciliations\<close>

text \<open>
  When a reconciliation may change the workspace, with other tasks running at every await: the
  events of \<open>reconcile_exclusive\<close> are traced back to the call that caused them, and one that touches
  the checkout comes from an installation that starts with the gate held, current inputs and an
  unchanged workspace.
\<close>

subsection \<open>Where an event comes from\<close>

abbreviation appends :: "(('x, 'z) world_scheme, 'e, 'a) prog \<Rightarrow> bool" where
  "appends m \<equiv> emits (\<lambda>_. True) m"

lemma new_events_andThen:
  assumes m: "appends m" and f: "\<And>a. appends (f a)" and ev: "ev \<in> set (new_events (andThen m f) s)"
  shows "ev \<in> set (new_events m s) \<or> (\<exists>a s1. m s = (Inr a, s1) \<and> ev \<in> set (new_events (f a) s1))"
proof (cases "m s")
  case (Pair r s1)
  obtain es where es: "trace s1 = trace s @ es" using appendsE [OF m Pair] by blast
  show ?thesis
  proof (cases r)
    case (Inl e)
    then show ?thesis using ev Pair by (simp add: new_events_def andThen_def)
  next
    case (Inr a)
    obtain fs where "trace (snd (f a s1)) = trace s1 @ fs"
      using appendsE [OF f, of a s1 "fst (f a s1)" "snd (f a s1)"] by auto
    then show ?thesis using ev Pair Inr es by (auto simp: new_events_def andThen_def)
  qed
qed

lemma new_events_attempt [simp]: "new_events (attempt m) s = new_events m s"
  by (simp add: new_events_def attempt_def split: prod.splits)

lemma new_events_mapErr [simp]: "new_events (mapErr g m) s = new_events m s"
  by (auto simp: new_events_def mapErr_def split: prod.splits sum.splits)

lemma not_in_new_events: "emits P m \<Longrightarrow> \<not> P ev \<Longrightarrow> ev \<notin> set (new_events m s)"
  using emits_new_events by blast

lemma new_events_silent: "emits (\<lambda>_. False) m \<Longrightarrow> new_events m s = []"
  by (erule emitsE [where s = s]) (simp add: list_all_iff)

lemma appends_mono: "emits P m \<Longrightarrow> appends m"
  by (rule emits_mono) simp_all

lemma later_event:
  assumes "ev \<in> set (new_events (andThen m f) s)" and "emits P m" and "\<not> P ev" and "\<And>a. appends (f a)"
  obtains a s1 where "m s = (Inr a, s1)" "ev \<in> set (new_events (f a) s1)"
  using new_events_andThen [OF appends_mono [OF assms(2)] assms(4) assms(1)] not_in_new_events [OF assms(2,3)] by blast

lemma earlier_event:
  assumes "ev \<in> set (new_events (andThen m f) s)" and "appends m" and "\<And>a. emits P (f a)" and "\<not> P ev"
  shows "ev \<in> set (new_events m s)"
  using new_events_andThen [OF assms(2) appends_mono [OF assms(3)] assms(1)] not_in_new_events [OF assms(3,4)] by blast

lemma appends_prune_loop: "appends (prune_loop E n b hs)"
  by (induction E n b hs rule: prune_loop.induct)
    (auto simp: remove_transaction_artifacts_def delete_recovery_refs_def intro!: effects)

lemma appends_settle: "appends (settle_transaction E C retention t)"
  by (auto simp: settle_transaction_def persist_debug_transaction_def prune_debug_history_def history_record_def
      remove_transaction_artifacts_def delete_recovery_refs_def intro!: effects appends_prune_loop
      split: sum.splits option.splits)

lemma appends_install_prepared: "appends (install_prepared E C prepared)"
  by (auto simp: install_prepared_def install_candidate_def apply_candidate_def Let_def
      intro!: effects appends_settle appends_mono [OF emits_install_precheck] appends_mono [OF emits_changed_paths]
      split: option.splits prod.splits)

lemma appends_discard: "appends (discard_prepared_reconciliation E C p)"
  by (cases p) (auto intro!: effects appends_settle)

lemma appends_install_reconciliation: "appends (install_prepared_reconciliation E C p)"
  by (cases p) (auto intro!: effects appends_install_prepared)

lemma appends_apply_result: "appends (apply_reconciliation_result D p branch target result)"
  by (auto simp: apply_reconciliation_result_def clear_conflicts_of_def clear_resolved_conflicts_def
      prune_debug_history_def history_record_def remove_transaction_artifacts_def delete_recovery_refs_def
      intro!: effects appends_prune_loop split: sum.splits option.splits)

lemma appends_outdated: "emits (workspace_safe q) (preparation_outdated D p g b t)"
  unfolding preparation_outdated_def by (intro effects emits_current_branch)

lemma appends_install_and_merge: "appends (install_and_merge D pid project prepared branch target)"
  unfolding install_and_merge_def by (intro effects appends_install_reconciliation appends_apply_result)

lemma appends_install_under_lock:
  "appends (install_under_lock D pid project prepared expected_generation branch target)"
  unfolding install_under_lock_def
  by (intro effects appends_install_and_merge appends_discard appends_mono [OF appends_outdated])

text \<open>The point where an installation starts: the gate is held, the inputs are current, and the
  workspace is the one the candidate was prepared from.\<close>

definition install_point :: "'x denv \<Rightarrow> string \<Rightarrow> nat \<Rightarrow> string \<Rightarrow> string \<Rightarrow> prepared_install \<Rightarrow> event \<Rightarrow> 'x daemon \<Rightarrow> bool" where
  "install_point D pid expected_generation branch target prepared ev s \<longleftrightarrow>
     ev \<in> set (new_events (install_prepared (dv_env D) (dv_transactions D) prepared) s)
     \<and> holds_gate pid s
     \<and> (\<exists>project. find_project (dm_catalog s) pid = Inr project
          \<and> lp_workspace_generation project = expected_generation
          \<and> map_of (lp_advertised_heads project) branch = Some target)
     \<and> fst (capture_workspace (dv_env D) (pi_project_path prepared) s) = Inr (tx_snapshot (pi_transaction prepared))"

lemma gate_of_more:
  fixes s s' :: "'x daemon"
  shows "world.more s' = world.more s \<Longrightarrow> gate_of pid s' = gate_of pid s"
  by (drule daemon_more(3)) (simp add: gate_of_def)

lemma install_under_lock_point:
  fixes s :: "'x daemon"
  assumes own: "trusted_records (dv_transactions D)" "own_record (pi_transaction prepared)"
    and held: "holds_gate pid s"
    and ev: "ev \<in> set (new_events (install_under_lock D pid project (Ready prepared) expected_generation branch target) s)"
      "\<not> workspace_safe (pi_project_path prepared) ev"
  shows "\<exists>s1. install_point D pid expected_generation branch target prepared ev s1"
proof -
  let ?q = "pi_project_path prepared"
  have tail: "appends (if c then andThen (op (discard_prepared_reconciliation (dv_env D) (dv_transactions D) (Ready prepared)))
       (\<lambda>_. ret inputs_changed) else install_and_merge D pid project (Ready prepared) branch target)" for c
    by (intro effects appends_install_and_merge appends_discard)
  have merged: "emits (workspace_safe ?q) (andThen (apply_reconciliation_result D project branch target installed) (\<lambda>q.
     andThen (update_project pid (merge_reconciliation_state q)) (\<lambda>_. andThen (persist D) (\<lambda>_. ret installed))))" for installed
    by (rule emits_install_and_merge_tail [OF own(1)])
  have ev1: "ev \<in> set (new_events (andThen (project_of pid) (\<lambda>p.
      andThen (preparation_outdated D p expected_generation branch target) (\<lambda>c.
      if c then andThen (op (discard_prepared_reconciliation (dv_env D) (dv_transactions D) (Ready prepared)))
        (\<lambda>_. ret inputs_changed) else install_and_merge D pid project (Ready prepared) branch target))) s)"
    using ev(1) unfolding install_under_lock_def .
  obtain p s0 where p0: "project_of pid s = (Inr p, s0)"
    and ev2: "ev \<in> set (new_events (andThen (preparation_outdated D p expected_generation branch target) (\<lambda>c.
      if c then andThen (op (discard_prepared_reconciliation (dv_env D) (dv_transactions D) (Ready prepared)))
        (\<lambda>_. ret inputs_changed) else install_and_merge D pid project (Ready prepared) branch target)) s0)"
    by (rule later_event [OF ev1 emits_project_of [of "\<lambda>_. False"]])
      (auto intro!: emits_andThen [OF appends_mono [OF appends_outdated] tail])
  have p: "find_project (dm_catalog s) pid = Inr p" and s0: "s0 = s" using p0 by (auto simp: project_of_ok)
  obtain c s1 where c: "preparation_outdated D p expected_generation branch target s = (Inr c, s1)"
    and e1: "ev \<in> set (new_events (if c then andThen (op (discard_prepared_reconciliation (dv_env D) (dv_transactions D) (Ready prepared)))
       (\<lambda>_. ret inputs_changed) else install_and_merge D pid project (Ready prepared) branch target) s1)"
    by (rule later_event [OF ev2 [unfolded s0] appends_outdated ev(2) tail])
  have "frames (preparation_outdated D p expected_generation branch target)"
    unfolding preparation_outdated_def by (intro frame)
  then have outdated_frame: "world.more s1 = world.more s" using c by (rule framesD)
  have "\<not> c"
  proof
    assume c
    then have "ev \<in> set (new_events (andThen (op (discard_prepared_reconciliation (dv_env D) (dv_transactions D) (Ready prepared)))
       (\<lambda>_. ret inputs_changed)) s1)" using e1 by simp
    moreover have discard: "emits (workspace_safe ?q) (andThen (op (discard_prepared_reconciliation (dv_env D) (dv_transactions D) (Ready prepared)))
       (\<lambda>_. ret inputs_changed))"
      by (intro effects emits_discard trusted_own own)
    ultimately show False using not_in_new_events [OF discard ev(2)] by blast
  qed
  then have fresh: "lp_workspace_generation p = expected_generation" "map_of (lp_advertised_heads p) branch = Some target"
    using c by (auto simp: preparation_outdated_def run split: if_splits)
  have "ev \<in> set (new_events (install_prepared (dv_env D) (dv_transactions D) prepared) s1)"
  proof -
    have "ev \<in> set (new_events (install_and_merge D pid project (Ready prepared) branch target) s1)" using e1 \<open>\<not> c\<close> by simp
    then have "ev \<in> set (new_events (op (install_prepared_reconciliation (dv_env D) (dv_transactions D) (Ready prepared))) s1)"
      unfolding install_and_merge_def
      by (rule earlier_event [OF _ _ merged ev(2)]) (intro effects appends_install_reconciliation)
    then show ?thesis by simp
  qed
  moreover from this have "fst (capture_workspace (dv_env D) ?q s1) = Inr (tx_snapshot (pi_transaction prepared))"
    by (rule install_unchanged_at [OF trusted_own [OF own(1)] own(2) _ ev(2)])
  moreover have "holds_gate pid s1" using held gate_of_more [OF outdated_frame] by (simp add: holds_gate_def)
  moreover have "find_project (dm_catalog s1) pid = Inr p" using p daemon_more(1) [OF outdated_frame] by simp
  ultimately show ?thesis using fresh unfolding install_point_def by blast
qed


subsection \<open>A whole reconciliation\<close>

lemma emits_set_gate [effects]: "emits P (modify (set_gate pid g))" "emits P (modify (\<lambda>s. set_gate pid (f s) s))"
  by (auto simp: modify_def set_gate_def intro!: emits_silent)

lemma emits_begin_exclusive: "emits P (begin_exclusive D pid)"
proof -
  have "emits P (wait_exclusive D pid ticket n)" for ticket n
    by (induction n) (auto intro!: effects split: option.splits)
  then show ?thesis by (auto simp: begin_exclusive_def intro!: effects)
qed

lemma emits_finish_exclusive: "emits P (finish_exclusive D pid)"
  by (auto simp: finish_exclusive_def intro!: effects)

lemma appends_prepare_reconciliation: "appends (prepare_reconciliation E C q a b root retention)"
  by (auto simp: prepare_reconciliation_def prepare_candidate_def rebase_candidate_def persist_debug_transaction_def
      prune_debug_history_def history_record_def remove_transaction_artifacts_def delete_recovery_refs_def Let_def
      intro!: effects appends_prune_loop appends_mono [OF emits_prepare_checks] appends_mono [OF emits_prepare_ancestry]
        appends_mono [OF emits_open_transaction] appends_mono [OF emits_rev_parse]
      split: sum.splits option.splits prod.splits)

lemma emits_clear_conflicts_of:
  "trusted_records (dv_transactions D) \<Longrightarrow> emits (workspace_safe q) (clear_conflicts_of D p retention)"
  by (auto simp: clear_conflicts_of_def intro!: effects emits_clear_resolved_conflicts)

lemma emits_prepare_rebase:
  fixes D :: "'x denv"
  assumes "emits P (prepare_reconciliation (dv_env D) (dv_transactions D) (lp_local_path p) previous target
      (Some (sp_transactions (dv_paths D))) retention :: ('x daemon, string, prepared_reconciliation) prog)"
    and "\<And>r. emits P (apply_reconciliation_result D p branch target r)"
  shows "emits P (prepare_rebase D p retention g branch target previous)"
  unfolding prepare_rebase_def
proof (rule emits_andThen [OF emits_mapErr [OF assms(1)]])
  show "emits P (case a of Complete result \<Rightarrow> andThen (apply_reconciliation_result D p branch target result)
      (\<lambda>p'. ret (ProjectComplete p' result g branch (Some target)))
    | Ready install \<Rightarrow> ret (ProjectPrepared p (Ready install) g branch target))" for a
    by (cases a) (auto intro!: emits_andThen assms(2))
qed

lemma emits_prepare_project:
  fixes D :: "'x denv"
  assumes checks: "emits P (current_branch (dv_env D) (lp_local_path p) :: ('x daemon, string, string) prog)"
      "emits P (capture_workspace (dv_env D) (lp_local_path p) :: ('x daemon, string, workspace_snapshot) prog)"
      "\<And>a b. emits P (is_ancestor (dv_env D) (lp_local_path p) a b :: ('x daemon, string, bool) prog)"
    and clear: "\<And>q retention. emits P (clear_conflicts_of D q retention)"
    and prepare: "\<And>previous target retention. emits P (prepare_reconciliation (dv_env D) (dv_transactions D) (lp_local_path p)
      previous target (Some (sp_transactions (dv_paths D))) retention :: ('x daemon, string, prepared_reconciliation) prog)"
    and result: "\<And>q branch target r. emits P (apply_reconciliation_result D q branch target r)"
  shows "emits P (prepare_project_reconciliation D p)"
  unfolding prepare_project_reconciliation_def Let_def
  by (intro effects checks clear emits_prepare_rebase result; simp add: checks prepare)

lemma appends_prepare_project: "appends (prepare_project_reconciliation D p)"
  by (rule emits_prepare_project)
    (auto intro: appends_prepare_reconciliation appends_apply_result appends_mono [OF emits_current_branch]
      appends_mono [OF emits_capture_workspace] appends_mono [OF emits_is_ancestor]
      simp: clear_conflicts_of_def clear_resolved_conflicts_def prune_debug_history_def history_record_def
        remove_transaction_artifacts_def delete_recovery_refs_def intro!: effects appends_prune_loop
      split: sum.splits option.splits)

lemma safe_prepare_project:
  assumes "trusted_records (dv_transactions D)" and "fresh_tempdir (dv_env D) (lp_local_path p)"
  shows "emits (workspace_safe (lp_local_path p)) (prepare_project_reconciliation D p)"
  by (rule emits_prepare_project)
    (auto intro: emits_git_state emits_is_ancestor emits_clear_conflicts_of emits_apply_result
      emits_prepare_reconciliation trusted_own assms)

text \<open>What preparing a project yields.\<close>

definition prepared_project_for :: "local_project \<Rightarrow> project_reconciliation \<Rightarrow> bool" where
  "prepared_project_for project r = (case r of
       ProjectComplete p result expected_generation branch target \<Rightarrow>
         expected_generation = lp_workspace_generation project \<and> target = map_of (lp_advertised_heads project) branch
     | ProjectPrepared p prepared expected_generation branch target \<Rightarrow>
         expected_generation = lp_workspace_generation project
         \<and> map_of (lp_advertised_heads project) branch = Some target
         \<and> lp_state p = ''RECONCILING''
         \<and> (\<exists>install previous retention. prepared = Ready install
              \<and> prepared_for (lp_local_path project) previous target retention install))"

lemma returns_prepare_rebase:
  assumes "map_of (lp_advertised_heads project) branch = Some target" and "lp_local_path p = lp_local_path project"
    and "lp_state p = ''RECONCILING''"
  shows "returns (prepare_rebase D p retention (lp_workspace_generation project) branch target previous)
    (prepared_project_for project)"
  unfolding prepare_rebase_def
proof (rule returns_andThen [OF returns_mapErr [OF returns_prepare_reconciliation]])
  fix a assume "\<forall>q. a = Ready q \<longrightarrow> prepared_for (lp_local_path p) previous target retention q"
  then show "returns (case a of Complete result \<Rightarrow> andThen (apply_reconciliation_result D p branch target result)
      (\<lambda>p'. ret (ProjectComplete p' result (lp_workspace_generation project) branch (Some target)))
    | Ready install \<Rightarrow> ret (ProjectPrepared p (Ready install) (lp_workspace_generation project) branch target))
    (prepared_project_for project)"
    using assms by (cases a) (fastforce simp: prepared_project_for_def intro!: returns_bind returns_ret)+
qed

lemma returns_prepare_project:
  "returns (prepare_project_reconciliation D project) (prepared_project_for project)"
  unfolding prepare_project_reconciliation_def Let_def
  by (intro returns_bind returns_case_option returns_if returns_ret returns_prepare_rebase)
    (auto simp: prepared_project_for_def)


lemma with_gate_event:
  assumes ev: "ev \<in> set (new_events (with_gate D pid body) s)" and body: "appends body"
  obtains s1 where "holds_gate pid s1" "ev \<in> set (new_events body s1)"
proof -
  have tail: "emits (\<lambda>_. False) (andThen (finish_exclusive D pid) (\<lambda>_. lift r))" for r
    by (intro effects emits_finish_exclusive)
  have attempt: "appends (andThen (attempt body) (\<lambda>r. andThen (finish_exclusive D pid) (\<lambda>_. lift r)))"
    by (intro effects body appends_mono [OF emits_finish_exclusive])
  have e1: "ev \<in> set (new_events (andThen (open_gate pid) (\<lambda>_. andThen (begin_exclusive D pid) (\<lambda>_.
      andThen (attempt body) (\<lambda>r. andThen (finish_exclusive D pid) (\<lambda>_. lift r))))) s)"
    using ev unfolding with_gate_def .
  obtain u s0 where e2: "ev \<in> set (new_events (andThen (begin_exclusive D pid) (\<lambda>_.
      andThen (attempt body) (\<lambda>r. andThen (finish_exclusive D pid) (\<lambda>_. lift r)))) s0)"
    by (rule later_event [OF e1 emits_memory(5) [of "\<lambda>_. False"]])
      (auto intro: emits_andThen [OF emits_begin_exclusive] attempt)
  obtain v s1 where s1: "begin_exclusive D pid s0 = (Inr v, s1)"
    and e3: "ev \<in> set (new_events (andThen (attempt body) (\<lambda>r. andThen (finish_exclusive D pid) (\<lambda>_. lift r))) s1)"
    by (rule later_event [OF e2 emits_begin_exclusive [of "\<lambda>_. False"]]) (auto intro: attempt)
  note e4 = earlier_event [OF e3 emits_attempt [OF body] tail, simplified]
  then show thesis using that [OF begin_exclusive_holds [OF s1]] by simp
qed

lemma safe_record_complete: "emits (workspace_safe q) (record_complete D pid p result g branch target)"
  by (auto simp: record_complete_def intro!: effects emits_persist)

lemma holds_gate_await: "\<forall>s. holds_gate pid s \<longrightarrow> holds_gate pid (dv_others D s) \<Longrightarrow> holds_gate pid s \<Longrightarrow>
    await D s = (r, s1) \<Longrightarrow> holds_gate pid s1"
proof -
  assume others: "\<forall>s. holds_gate pid s \<longrightarrow> holds_gate pid (dv_others D s)" and s: "holds_gate pid s" and r: "await D s = (r, s1)"
  have "s1 = (dv_others D s)\<lparr>trace := trace s\<rparr>" using r by (simp add: await_def modify_def)
  moreover have "holds_gate pid (dv_others D s)" using others s by blast
  ultimately show ?thesis by (simp add: holds_gate_def gate_of_def)
qed


end
