(* ===== verification/Daemon_Examples.thy ===== *)
theory Daemon_Examples
  imports Provider_Examples Transaction_Examples Daemon_Installation
begin

section \<open>Examples of the daemon\<close>

text \<open>A daemon with one project in the scripted world, and complete runs of its operations.\<close>

definition example_denv :: "run_result list denv" where
  "example_denv = \<lparr>dv_env = scripted_env, dv_paths = paths_below ''/s'' ''/s/sock'', dv_config = default_config,
     dv_binary_id = ''bin'', dv_transactions = example_records,
     dv_catalog = \<lparr>enc = (\<lambda>c. ''c''), dec = (\<lambda>t. None)\<rparr>, dv_queue = \<lparr>enc = (\<lambda>q. ''q''), dec = (\<lambda>t. None)\<rparr>,
     dv_validations = (\<lambda>t. Inr [[''make'', ''check'']]), dv_project_of_json = (\<lambda>j. Inl ''no project''),
     dv_project_json = (\<lambda>p. JNull), dv_others = (\<lambda>s. s), dv_rounds = 1\<rparr>"

lemma example_denv_simps [simp]:
  "dv_env example_denv = scripted_env" "dv_config example_denv = default_config"
  "dv_transactions example_denv = example_records" "dv_others example_denv s = s" "dv_rounds example_denv = Suc 0"
  "dv_validations example_denv t = Inr [[''make'', ''check'']]"
  "sp_catalog (dv_paths example_denv) = ''/s/catalog.json''" "sp_root (dv_paths example_denv) = ''/s''"
  "sp_transactions (dv_paths example_denv) = ''/s/transactions''"
  "queue_path (dv_paths example_denv) = ''/s/publications.json''"
  by (simp_all add: example_denv_def paths_below_def queue_path_def path_steps)

lemma example_trusted: "trusted_records (dv_transactions example_denv)"
  using example_records_own by (auto simp: trusted_records_def)

definition example_project :: local_project where
  "example_project = \<lparr>lp_project_id = ''prj_1'', lp_local_path = ''/p'', lp_remote_url = ''u'', lp_remote_name = ''origin'',
     lp_default_branch = ''main'', lp_server_generation = 1, lp_advertised_heads = [(''main'', ''r'')],
     lp_last_applied_heads = [(''main'', ''b'')], lp_active_branch = Some ''main'', lp_workspace_generation = 4,
     lp_state = ''REMOTE_AHEAD'', lp_durability = ''REMOTELY_DURABLE'', lp_conflict = None, lp_last_error = None,
     lp_service = None, lp_checkout_id = None, lp_extra = []\<rparr>"

lemma example_path: "lp_local_path example_project = ''/p''" "lp_workspace_generation example_project = 4"
  "lp_advertised_heads example_project = [(''main'', ''r'')]"
  by (simp_all add: example_project_def)

definition example_daemon :: "local_project \<Rightarrow> publication list \<Rightarrow> fs \<Rightarrow> run_result list \<Rightarrow> run_result list daemon" where
  "example_daemon p ps fs answers = \<lparr>files = fs, trace = [], ext = answers,
     dm_catalog = default_catalog\<lparr>lc_projects := [p]\<rparr>, dm_publications = \<lparr>pq_version = 1, pq_publications = ps\<rparr>,
     dm_gates = [], dm_background = [], dm_tasks = []\<rparr>"

definition state_root :: fs where
  "state_root = [(''/s/transactions'', Dir), (''/s'', Dir), (''/'', Dir)]"

lemma example_files: "path_parent ''/s/catalog.json'' = Some ''/s''" "path_parent ''/s/publications.json'' = Some ''/s''"
  "temporary_path scripted_env ''/s/catalog.json'' = ''/s/catalog.7.tmp''"
  "temporary_path scripted_env ''/s/publications.json'' = ''/s/publications.7.tmp''"
  "path_join ''/s'' ''transaction-debug'' = ''/s/transaction-debug''"
  by (simp_all add: path_steps string_steps Let_def)

lemmas daemon_steps = await_def lock_catalog_def lock_publications_def project_of_def read_project_def find_project_def
  is_project_def update_project_def change_project_def persist_def persist_publications_def persist_queue_def
  gate_of_def set_gate_def open_gate_def begin_exclusive_def take_ticket_def try_exclusive_def new_gate_def
  state_root_def finish_exclusive_def end_exclusive_def with_gate_def read_retention_def ok_or_def default_catalog_def

subsection \<open>Delivering\<close>

theorem conflicted_publication_is_paused_witness:
  "deliver_publication example_denv example_publication
      (example_daemon (example_project\<lparr>lp_state := ''CONFLICTED''\<rparr>) [example_publication] [] [])
    = (Inl (Fails ''publication is paused until `resync project sync` completes reconciliation''),
       example_daemon (example_project\<lparr>lp_state := ''CONFLICTED''\<rparr>) [example_publication] [] [])"
  by (rule conflicted_publication_is_paused [where v = example_publication
      and project = "example_project\<lparr>lp_state := ''CONFLICTED''\<rparr>"])
    (simp_all add: alone_def example_daemon_def example_publication_def pending_def PENDING_def ACKNOWLEDGED_def
      find_project_def is_project_def default_catalog_def ok_or_def example_project_def)

definition with_policy :: "run_result list daemon" where
  "with_policy = example_daemon example_project [] [(''/p/.resync.toml'', File ''policy'')] []"

theorem validation_runs_the_policy_witness:
  "\<exists>reads dir n. new_events (validate_candidate example_denv example_project ''c'') with_policy
      = reads @ take n (validation_script ''/p'' dir ''c'' [[''make'', ''check'']])
        @ [git_event ''/p'' [''worktree'', ''remove'', ''--force'', dir] allow_failure_options]"
proof -
  have "fst (read_project_config scripted_env (dv_validations example_denv) ''/p'' with_policy) = Inr [[''make'', ''check'']]"
    by (simp add: running path_steps read_project_config_def with_policy_def example_daemon_def cong: lazy)
  then show ?thesis
    using validation_runs_the_policy [of example_denv example_project with_policy "[[''make'', ''check'']]" "''c''"]
    by (simp add: example_path) blast
qed

definition acknowledging :: "run_result list daemon" where
  "acknowledging = example_daemon example_project [example_publication] state_root []"

lemma example_queue_dirs:
  "map_of fs ''/s'' = Some Dir \<Longrightarrow> map_of fs ''/'' = Some Dir \<Longrightarrow> make_dirs ''/s'' fs = fs"
  by (simp add: path_steps fs_get_def)

theorem acknowledgement_is_exact_witness:
  "\<exists>s'. acknowledge_queue example_denv example_publication example_ack acknowledging = (Inr ([''pub_1''], False), s')
     \<and> fs_get (files s') ''/s/publications.json'' = Some (File (json_text (dv_queue example_denv) (dm_publications s')))"
proof -
  have "\<exists>s'. acknowledge_queue example_denv example_publication example_ack acknowledging = (Inr ([''pub_1''], False), s')"
    by (simp add: running daemon_steps example_files example_queue_dirs acknowledge_queue_def acknowledge_one_def delivered_with_def
        acknowledged_def compact_def with_publications_def acknowledging_def example_daemon_def example_publication_def
        pending_def PENDING_def ACKNOWLEDGED_def cong: lazy)
  then obtain s' where ran: "acknowledge_queue example_denv example_publication example_ack acknowledging
      = (Inr ([''pub_1''], False), s')" by blast
  from acknowledgement_is_exact [OF ran] show ?thesis using ran by (auto simp: example_files)
qed

subsection \<open>Queueing\<close>

definition committing :: "run_result list daemon" where
  "committing = example_daemon example_project [] state_root [says ''c'']"

lemma example_temporary: "temporary_path (dv_env example_denv) (queue_path (dv_paths example_denv)) \<noteq> queue_path (dv_paths example_denv)"
  "temporary_path (dv_env example_denv) (sp_catalog (dv_paths example_denv)) \<noteq> sp_catalog (dv_paths example_denv)"
  by (simp_all add: example_files)

lemma example_enqueue_new_at:
  "\<exists>s' p q. enqueue_new example_denv ''prj_1'' example_project ''main'' ''c'' (committing\<lparr>ext := says a # xs, trace := tr\<rparr>) = (Inr ''pub_u1'', s')
     \<and> ext s' = xs \<and> pq_publications (dm_publications s') = [p] \<and> pub_id p = ''pub_u1'' \<and> queued_for ''prj_1'' ''main'' ''c'' p
     \<and> find_project (dm_catalog s') ''prj_1'' = Inr q \<and> lp_project_id q = ''prj_1'' \<and> lp_local_path q = ''/p''"
  by (simp add: running daemon_steps example_files example_queue_dirs committing_def example_daemon_def example_project_def
      enqueue_new_def new_publication_def simple_uuid_def publication_ref_def queued_for_def pending_def ACKNOWLEDGED_def
      append_publication_def spawn_task_def PENDING_def unary_time_def cong: lazy)

lemma example_enqueue_new:
  "\<exists>s'. enqueue_new example_denv ''prj_1'' example_project ''main'' ''c'' committing = (Inr ''pub_u1'', s')"
  using example_enqueue_new_at [where a = "''c''" and xs = "[]" and tr = "[]"] by (auto simp: committing_def example_daemon_def)


theorem enqueue_is_idempotent_witness:
  "\<exists>s' s''. enqueue_publication example_denv ''prj_1'' ''main'' ''c'' (committing\<lparr>ext := [says ''c'', says [], says ''c'']\<rparr>)
       = (Inr ''pub_u1'', s')
     \<and> enqueue_publication example_denv ''prj_1'' ''main'' ''c'' s' = (Inr ''pub_u1'', s'')
     \<and> dm_publications s'' = dm_publications s'"
proof -
  have alone: "alone example_denv" by (simp add: alone_def)
  let ?s = "committing\<lparr>ext := [says ''c'', says [], says ''c'']\<rparr>"
  have "find_project (dm_catalog ?s) ''prj_1'' = Inr example_project" "pq_publications (dm_publications ?s) = []"
    by (simp_all add: committing_def example_daemon_def find_project_def is_project_def default_catalog_def example_project_def ok_or_def)
  then obtain s' p q where ran: "enqueue_publication example_denv ''prj_1'' ''main'' ''c'' ?s = (Inr ''pub_u1'', s')"
    and queued: "ext s' = [says ''c'']" "pq_publications (dm_publications s') = [p]" "pub_id p = ''pub_u1''" "queued_for ''prj_1'' ''main'' ''c'' p"
      "find_project (dm_catalog s') ''prj_1'' = Inr q" "lp_project_id q = ''prj_1''" "lp_local_path q = ''/p''"
    using example_enqueue_new_at [where a = "[]" and xs = "[says ''c'']"
      and tr = "[git_event ''/p'' [''rev-parse'', ''--verify'', ''c^{commit}''] default_options]"]
    by (auto simp: enqueue_publication_def read_project_def lock_catalog_def lock_publications_def await_def project_of_def executes
      git_text_def git_def run_process_def spawn_process_def next_result_def says_def string_steps example_path
      committing_def example_daemon_def cong: lazy)
  obtain j s'' where again: "enqueue_publication example_denv ''prj_1'' ''main'' ''c'' s' = (Inr j, s'')"
    using queued
    by (simp add: enqueue_publication_def read_project_def lock_catalog_def lock_publications_def await_def project_of_def executes
      git_text_def git_def run_process_def spawn_process_def next_result_def says_def string_steps example_path cong: lazy)
  note ran = ran again
  from enqueue_is_idempotent [OF alone example_temporary ran] ran show ?thesis by auto
qed

subsection \<open>Reconciling\<close>

text \<open>The answers of Git to a whole reconciliation: what the daemon asks before it prepares, the
  preparation, and the checks and commands of the installation.\<close>

definition reconciling :: "run_result list daemon" where
  "reconciling = example_daemon example_project [] state_root
     ([says ''main''] @ capture_answers @ [fails [], says []] @ ext before_preparation @ [says [], says [], says []]
      @ [says ''main''] @ capture_answers)"

lemma example_record_paths:
  "path_join ''/s/transactions'' (CHR ''0'' # ''-u1.json'') = ''/s/transactions/0-u1.json''"
  "path_parent ''/s/transactions/0-u1.json'' = Some ''/s/transactions''"
  "temporary_path scripted_env ''/s/transactions/0-u1.json'' = ''/s/transactions/0-u1.7.tmp''"
  "path_join ''/tmp/t1'' ''index'' = ''/tmp/t1/index''"
  "path_parent ''/s/transactions'' = Some ''/s''" "path_parent ''/s'' = Some ''/''" "path_parent ''/'' = None"
  by (simp_all add: path_steps string_steps Let_def)

lemma example_record_dirs:
  "map_of fs ''/s/transactions'' = Some Dir \<Longrightarrow> map_of fs ''/s'' = Some Dir \<Longrightarrow> map_of fs ''/'' = Some Dir \<Longrightarrow>
    make_dirs ''/s/transactions'' fs = fs"
  by (simp add: path_steps fs_get_def)

lemma example_allowed: "ro_allow_failure allow_failure_options"
  by (simp add: allow_failure_options_def)

definition prepared_daemon :: "event list \<Rightarrow> run_result list daemon" where
  "prepared_daemon tr = (example_daemon example_project [] state_root ([says ''main''] @ capture_answers))\<lparr>trace := tr\<rparr>"

definition reconciling_project :: local_project where
  "reconciling_project = example_project\<lparr>lp_state := ''RECONCILING''\<rparr>"

lemma example_prepares:
  "\<exists>tr. prepare_project_reconciliation example_denv example_project reconciling =
     (Inr (ProjectPrepared reconciling_project (Ready example_prepared) 4 ''main'' ''r''), prepared_daemon tr)"
  by (simp add: running daemon_steps example_files example_record_paths example_record_dirs example_steps preparation_steps
      reconciling_def example_daemon_def prepared_daemon_def reconciling_project_def example_allowed
      example_project_def prepare_project_reconciliation_def reconcile_base_def prepare_rebase_def cong: lazy)

abbreviation installing_block :: "(run_result list daemon, stop, reconcile_result) prog" where
  "installing_block \<equiv> install_under_lock example_denv ''prj_1'' reconciling_project (Ready example_prepared) 4 ''main'' ''r''"

abbreviation reset_event :: event where
  "reset_event \<equiv> git_event ''/p'' (reset_worktree_args ''tw'') default_options"

lemma example_installs_at:
  "\<exists>r s'. installing_block ((prepared_daemon tr)\<lparr>dm_gates := gates\<rparr>) = (Inr r, s') \<and> reset_event \<in> set (drop (length tr) (trace s'))"
  by (simp add: running daemon_steps example_files example_queue_dirs example_record_paths example_record_dirs
      example_steps example_allowed prepared_daemon_def example_daemon_def reconciling_project_def
      example_project_def current_branch_def unary_time_def
      install_under_lock_def preparation_outdated_def install_and_merge_def apply_reconciliation_result_def
      clear_conflicts_of_def clear_resolved_conflicts_def merged_project_def merge_reconciliation_state_def
      set_current_def set_applied_def wrapping_succ_def empty_result_def is_json_path_def cong: lazy)

lemma example_installs:
  "\<exists>r s'. installing_block (prepared_daemon tr) = (Inr r, s') \<and> reset_event \<in> set (drop (length tr) (trace s'))"
  "\<exists>r s'. with_gate example_denv ''prj_1'' (andThen (await example_denv) (\<lambda>_. installing_block)) (prepared_daemon tr) = (Inr r, s')
     \<and> reset_event \<in> set (drop (length tr) (trace s'))"
proof -
  have gates: "(prepared_daemon tr)\<lparr>dm_gates := []\<rparr> = prepared_daemon tr" "dm_gates (prepared_daemon tr) = []"
    by (simp_all add: prepared_daemon_def example_daemon_def)
  show "\<exists>r s'. installing_block (prepared_daemon tr) = (Inr r, s') \<and> reset_event \<in> set (drop (length tr) (trace s'))"
    using example_installs_at [where tr = tr and gates = "[]"] unfolding gates .
  obtain gs where begun: "andThen (open_gate ''prj_1'') (\<lambda>_. begin_exclusive example_denv ''prj_1'') (prepared_daemon tr)
      = (Inr (), (prepared_daemon tr)\<lparr>dm_gates := gs\<rparr>)"
    by (simp add: executes open_gate_def begin_exclusive_def await_def gate_of_def set_gate_def gates(2) new_gate_def take_ticket_def try_exclusive_def)
  show "\<exists>r s'. with_gate example_denv ''prj_1'' (andThen (await example_denv) (\<lambda>_. installing_block)) (prepared_daemon tr) = (Inr r, s')
     \<and> reset_event \<in> set (drop (length tr) (trace s'))"
    using begun example_installs_at [where tr = tr and gates = gs]
    by (auto simp: with_gate_def executes await_def finish_exclusive_def set_gate_def split: prod.splits sum.splits)
qed

lemma example_reset_unsafe: "\<not> workspace_safe (pi_project_path example_prepared) reset_event"
  using reset_unsafe by (simp add: example_prepared_def)



theorem installs_with_gate_held_witness:
  "with_gate example_denv ''prj_1'' (andThen (await example_denv) (\<lambda>_. installing_block)) (prepared_daemon [])
     = with_gate example_denv ''prj_1'' (andThen (await example_denv) (\<lambda>_. guarded ''prj_1'' installing_block)) (prepared_daemon [])"
  by (rule installs_with_gate_held) simp

theorem gate_always_given_back_witness:
  "case with_gate example_denv ''prj_1'' installing_block (prepared_daemon []) of
     (r, s') \<Rightarrow> r = Inl Waits \<or> \<not> gt_exclusive (gate_of ''prj_1'' s')"
  by (rule gate_always_given_back)

lemma example_found: "find_project (dm_catalog (dv_others example_denv reconciling)) ''prj_1'' = Inr example_project"
  by (simp add: find_project_def is_project_def reconciling_def example_daemon_def default_catalog_def example_project_def
      ok_or_def)

lemma example_read: "read_project example_denv ''prj_1'' reconciling = (Inr example_project, reconciling)"
  using example_found by (simp add: executes read_project_def lock_catalog_def await_def project_of_def)

lemma example_reconcile_resets: "reset_event \<in> set (new_events (reconcile_exclusive example_denv ''prj_1'') reconciling)"
proof -
  obtain tr where prepared: "prepare_project_reconciliation example_denv example_project reconciling =
     (Inr (ProjectPrepared reconciling_project (Ready example_prepared) 4 ''main'' ''r''), prepared_daemon tr)"
    using example_prepares by blast
  obtain r s' where "with_gate example_denv ''prj_1'' (andThen (await example_denv) (\<lambda>_. installing_block)) (prepared_daemon tr) = (Inr r, s')"
    and "reset_event \<in> set (drop (length tr) (trace s'))"
    using example_installs(2) [of tr] by blast
  moreover have "trace reconciling = []" by (simp add: reconciling_def example_daemon_def)
  ultimately show ?thesis
    using prepared by (auto simp: executes new_events_def reconcile_exclusive_def example_read
      dest: in_set_dropD)
qed


end
