(* ===== verification/Hook_Merging.thy ===== *)
theory Hook_Merging
  imports Hook_Dispatcher
begin

section \<open>Merging handlers into a hook file\<close>

text \<open>
  The file \<open>.codex/hooks.json\<close> maps an event to groups of handlers. \<open>src/src/cli.rs\<close>
  (\<open>install_project_adapters_in_state\<close>) and \<open>src/src/workspace.rs\<close> (\<open>install_hooks\<close>) put
  RepoSync's handler into it with the same loop over a different notion of RepoSync's own older
  commands: outdated and repeated handlers of RepoSync go, groups left empty go, everything else
  stays, and a group with the handler is appended if the file had none.
\<close>

subsection \<open>The loop over the groups of an event\<close>

fun keep_handlers :: "(string \<Rightarrow> bool) \<Rightarrow> string \<Rightarrow> bool \<Rightarrow> json list \<Rightarrow> json list \<times> bool" where
  "keep_handlers own marker found [] = ([], found)"
| "keep_handlers own marker found (item # items) =
     (case jget_str ''command'' item of
       None \<Rightarrow> map_prod ((#) item) id (keep_handlers own marker found items)
     | Some command \<Rightarrow>
         if command = marker then
           (if found then keep_handlers own marker True items
            else map_prod ((#) item) id (keep_handlers own marker True items))
         else if own command then keep_handlers own marker found items
         else map_prod ((#) item) id (keep_handlers own marker found items))"

definition group_handlers :: "json \<Rightarrow> json list option" where
  "group_handlers g = Option.bind (jget ''hooks'' g) as_array"

fun keep_groups :: "(string \<Rightarrow> bool) \<Rightarrow> string \<Rightarrow> bool \<Rightarrow> json list \<Rightarrow> json list \<times> bool" where
  "keep_groups own marker found [] = ([], found)"
| "keep_groups own marker found (g # groups) =
     (case group_handlers g of
       None \<Rightarrow> map_prod ((#) g) id (keep_groups own marker found groups)
     | Some items \<Rightarrow> (case keep_handlers own marker found items of (kept, found') \<Rightarrow>
         map_prod (if kept = [] then id else (#) (jset ''hooks'' (JArr kept) g)) id
           (keep_groups own marker found' groups)))"

definition handler_group :: "string \<Rightarrow> string \<Rightarrow> json" where
  "handler_group marker status = jobj
     [(''matcher'', JStr ''*''),
      (''hooks'', JArr [jobj [(''type'', JStr ''command''), (''command'', JStr marker),
         (''timeout'', JInt 3600), (''statusMessage'', JStr status)]])]"

definition merge_groups :: "(string \<Rightarrow> bool) \<Rightarrow> string \<Rightarrow> string \<Rightarrow> json list \<Rightarrow> json list" where
  "merge_groups own marker status groups =
     (case keep_groups own marker False groups of (kept, found) \<Rightarrow>
       if found then kept else kept @ [handler_group marker status])"

subsection \<open>What the loop keeps\<close>

definition handlers :: "json list \<Rightarrow> json list" where
  "handlers groups = concat (map (\<lambda>g. case group_handlers g of None \<Rightarrow> [] | Some hs \<Rightarrow> hs) groups)"

definition reposync_handler :: "(string \<Rightarrow> bool) \<Rightarrow> string \<Rightarrow> json \<Rightarrow> bool" where
  "reposync_handler own marker item = (case jget_str ''command'' item of
     None \<Rightarrow> False | Some command \<Rightarrow> command = marker \<or> own command)"

definition current_handler :: "string \<Rightarrow> json \<Rightarrow> bool" where
  "current_handler marker item \<longleftrightarrow> jget_str ''command'' item = Some marker"

lemma handlers_simps [simp]:
  "handlers [] = []"
  "handlers (g # gs) = (case group_handlers g of None \<Rightarrow> [] | Some hs \<Rightarrow> hs) @ handlers gs"
  "handlers (gs @ gs') = handlers gs @ handlers gs'"
  by (simp_all add: handlers_def)

lemma group_handlers_jset:
  "group_handlers g = Some items \<Longrightarrow> group_handlers (jset ''hooks'' (JArr kept) g) = Some kept"
  by (cases g) (auto simp: group_handlers_def map_of_obj_insert)

lemma handlers_handler_group:
  "\<exists>h. group_handlers (handler_group marker status) = Some [h] \<and> current_handler marker h"
  by (simp add: handler_group_def jobj_def group_handlers_def current_handler_def jget_str_def)

lemma keep_handlers_foreign:
  "filter (\<lambda>h. \<not> reposync_handler own marker h) (fst (keep_handlers own marker found items))
     = filter (\<lambda>h. \<not> reposync_handler own marker h) items"
proof (induction items arbitrary: found)
  case (Cons item items)
  then show ?case by (cases "jget_str ''command'' item") (simp_all add: reposync_handler_def)
qed simp

lemma keep_handlers_own:
  "filter (reposync_handler own marker) (fst (keep_handlers own marker found items))
     = (if found then [] else take 1 (filter (current_handler marker) items))"
  "snd (keep_handlers own marker found items) \<longleftrightarrow> found \<or> (\<exists>h\<in>set items. current_handler marker h)"
  by (induction items arbitrary: found)
    (auto simp: reposync_handler_def current_handler_def split: option.splits)

lemma keep_groups_foreign:
  "filter (\<lambda>h. \<not> reposync_handler own marker h) (handlers (fst (keep_groups own marker found groups)))
     = filter (\<lambda>h. \<not> reposync_handler own marker h) (handlers groups)"
proof (induction groups arbitrary: found)
  case Nil
  then show ?case by simp
next
  case (Cons g gs)
  show ?case
  proof (cases "group_handlers g")
    case None
    then show ?thesis using Cons.IH by simp
  next
    case (Some items)
    obtain kept found' where k: "keep_handlers own marker found items = (kept, found')" by fastforce
    have "filter (\<lambda>h. \<not> reposync_handler own marker h) kept = filter (\<lambda>h. \<not> reposync_handler own marker h) items"
      using keep_handlers_foreign [of own marker found items] k by simp
    then show ?thesis using Cons.IH [of found'] Some k by (auto simp: group_handlers_jset)
  qed
qed

lemma keep_groups_own:
  "filter (reposync_handler own marker) (handlers (fst (keep_groups own marker found groups)))
       = (if found then [] else take 1 (filter (current_handler marker) (handlers groups)))
   \<and> (snd (keep_groups own marker found groups) \<longleftrightarrow> found \<or> (\<exists>h\<in>set (handlers groups). current_handler marker h))"
proof (induction groups arbitrary: found)
  case Nil
  then show ?case by simp
next
  case (Cons g gs)
  show ?case
  proof (cases "group_handlers g")
    case None
    then show ?thesis using Cons.IH [of found] by simp
  next
    case (Some items)
    obtain kept found' where k: "keep_handlers own marker found items = (kept, found')" by fastforce
    have own: "filter (reposync_handler own marker) kept = (if found then [] else take 1 (filter (current_handler marker) items))"
      and found': "found' \<longleftrightarrow> found \<or> (\<exists>h\<in>set items. current_handler marker h)"
      using keep_handlers_own [of own marker found items] k by simp_all
    have "filter (current_handler marker) items = [] \<longleftrightarrow> \<not> (\<exists>h\<in>set items. current_handler marker h)"
      by (auto simp: filter_empty_conv)
    then show ?thesis using Cons.IH [of found'] Some k own found'
      by (cases "filter (current_handler marker) items") (auto simp: group_handlers_jset split: if_splits)
  qed
qed

lemma merge_groups_foreign:
  "filter (\<lambda>h. \<not> reposync_handler own marker h) (handlers (merge_groups own marker status groups))
     = filter (\<lambda>h. \<not> reposync_handler own marker h) (handlers groups)"
proof -
  obtain h where "group_handlers (handler_group marker status) = Some [h]" "current_handler marker h"
    using handlers_handler_group by blast
  then show ?thesis
    using keep_groups_foreign [of own marker False groups]
    by (auto simp: merge_groups_def reposync_handler_def current_handler_def split: prod.splits)
qed

lemma merge_groups_own:
  "\<exists>h. filter (reposync_handler own marker) (handlers (merge_groups own marker status groups)) = [h]
     \<and> current_handler marker h"
proof -
  obtain kept found where k: "keep_groups own marker False groups = (kept, found)" by fastforce
  obtain h where h: "group_handlers (handler_group marker status) = Some [h]" "current_handler marker h"
    using handlers_handler_group by blast
  have own: "filter (reposync_handler own marker) (handlers kept) = take 1 (filter (current_handler marker) (handlers groups))"
    and found: "found \<longleftrightarrow> (\<exists>h\<in>set (handlers groups). current_handler marker h)"
    using keep_groups_own [of own marker False groups] k by simp_all
  show ?thesis
  proof (cases "filter (current_handler marker) (handlers groups)")
    case Nil
    then have "\<not> found" using found by (auto simp: filter_empty_conv)
    then show ?thesis using h own k Nil
      by (auto simp: merge_groups_def reposync_handler_def current_handler_def)
  next
    case (Cons g gs)
    then have "current_handler marker g" and "found"
      using found by (auto dest: filter_eq_ConsD simp: Cons_eq_filter_iff)
    then show ?thesis using own k Cons by (simp add: merge_groups_def)
  qed
qed

subsection \<open>A second pass changes nothing\<close>

lemma obj_insert_again [simp]: "obj_insert k v (obj_insert k v m) = obj_insert k v m"
  by (induction m) auto

lemma jset_again [simp]: "jset k v (jset k v j) = jset k v j"
  by (cases j) auto

lemma keep_handlers_again:
  "keep_handlers own marker found (fst (keep_handlers own marker found items)) = keep_handlers own marker found items"
  by (induction own marker found items rule: keep_handlers.induct) (auto split: option.splits)

lemma keep_groups_again:
  "keep_groups own marker found (fst (keep_groups own marker found groups)) = keep_groups own marker found groups"
proof (induction groups arbitrary: found)
  case Nil
  then show ?case by simp
next
  case (Cons g gs)
  show ?case
  proof (cases "group_handlers g")
    case None
    then show ?thesis using Cons.IH by simp
  next
    case (Some items)
    obtain kept found' where k: "keep_handlers own marker found items = (kept, found')" by fastforce
    have "keep_handlers own marker found kept = (kept, found')"
      using keep_handlers_again [of own marker found items] k by simp
    moreover have "found' = found" if "kept = []"
      using k that keep_handlers_own(1) [of own marker found items] keep_handlers_own(2) [of own marker found items]
      by (auto simp: filter_empty_conv split: if_splits)
    ultimately show ?thesis using Cons.IH [of found'] Some k by (auto simp: group_handlers_jset map_prod_def split_beta)
  qed
qed

lemma keep_groups_append:
  "keep_groups own marker found (gs @ gs') =
     (case keep_groups own marker found gs of (kept, found') \<Rightarrow>
        map_prod ((@) kept) id (keep_groups own marker found' gs'))"
  by (induction gs arbitrary: found) (auto simp: map_prod_def split_beta split: option.splits)

lemma merge_groups_again:
  "merge_groups own marker status (merge_groups own marker status groups) = merge_groups own marker status groups"
proof -
  obtain kept found where k: "keep_groups own marker False groups = (kept, found)" by fastforce
  have again: "keep_groups own marker False kept = (kept, found)"
    using keep_groups_again [of own marker False groups] k by simp
  show ?thesis
  proof (cases found)
    case True
    then show ?thesis using k again by (simp add: merge_groups_def)
  next
    case False
    have "keep_groups own marker False [handler_group marker status] = ([handler_group marker status], True)"
      by (simp add: handler_group_def group_handlers_def jobj_def jget_str_def)
    then show ?thesis using k again False by (simp add: merge_groups_def keep_groups_append)
  qed
qed

subsection \<open>The table of events\<close>

definition event_groups :: "string \<Rightarrow> json \<Rightarrow> json list" where
  "event_groups event table = (case Option.bind (jget event table) as_array of None \<Rightarrow> [] | Some gs \<Rightarrow> gs)"

definition merge_event :: "(string \<Rightarrow> bool) \<Rightarrow> string \<Rightarrow> (string \<Rightarrow> string) \<Rightarrow> string \<Rightarrow> json \<Rightarrow> json" where
  "merge_event own marker status event table =
     jset event (JArr (merge_groups own marker (status event) (event_groups event table))) table"

definition tool_events :: "string list" where
  "tool_events = [''PreToolUse'', ''PostToolUse'']"

definition merge_events :: "(string \<Rightarrow> bool) \<Rightarrow> string \<Rightarrow> (string \<Rightarrow> string) \<Rightarrow> json \<Rightarrow> json" where
  "merge_events own marker status table =
     foldl (\<lambda>t event. merge_event own marker status event t) table tool_events"

text \<open>A value that takes a new entry: \<open>value[key] = ...\<close> panics on anything else.\<close>

definition indexable :: "json \<Rightarrow> bool" where
  "indexable j \<longleftrightarrow> is_object j \<or> j = JNull"

lemma jget_jset:
  "indexable j \<Longrightarrow> jget k' (jset k v j) = (if k' = k then Some v else jget k' j)"
  by (cases j) (auto simp: indexable_def map_of_obj_insert)

lemma jset_object: "indexable j \<Longrightarrow> is_object (jset k v j)"
  by (cases j) (auto simp: indexable_def)

lemma jset_jset: "jset k w (jset k v j) = jset k w j"
proof -
  have "obj_insert k w (obj_insert k v m) = obj_insert k w m" for m
    by (induction m) auto
  then show ?thesis by (cases j) auto
qed

lemma jset_there: "k \<noteq> l \<Longrightarrow> jset k v (jset l w (jset k v j)) = jset l w (jset k v j)"
proof -
  assume "k \<noteq> l"
  then have "obj_insert k v (obj_insert l w (obj_insert k v m)) = obj_insert l w (obj_insert k v m)" for m
    by (induction m) auto
  then show ?thesis using \<open>k \<noteq> l\<close> by (cases j) auto
qed

lemma event_groups_jset:
  "indexable j \<Longrightarrow> event_groups e (jset e' v j) = (if e = e' then (case as_array v of None \<Rightarrow> [] | Some gs \<Rightarrow> gs) else event_groups e j)"
  by (simp add: event_groups_def jget_jset)

lemma merge_events_eq:
  "merge_events own marker status table =
     merge_event own marker status ''PostToolUse'' (merge_event own marker status ''PreToolUse'' table)"
  by (simp add: merge_events_def tool_events_def)

lemma indexable_merge_event: "indexable t \<Longrightarrow> indexable (merge_event own marker status event t)"
  using jset_object by (simp add: merge_event_def indexable_def)

lemma event_groups_merge_events:
  assumes "indexable t"
  shows "event_groups e (merge_events own marker status t) =
    (if e \<in> set tool_events then merge_groups own marker (status e) (event_groups e t) else event_groups e t)"
  using assms indexable_merge_event [OF assms, unfolded merge_event_def]
  by (simp add: merge_events_eq merge_event_def event_groups_jset tool_events_def)

lemma merge_events_again:
  assumes "indexable t"
  shows "merge_events own marker status (merge_events own marker status t) = merge_events own marker status t"
proof -
  let ?pre = "merge_event own marker status ''PreToolUse'' t"
  let ?t = "merge_event own marker status ''PostToolUse'' ?pre"
  have ix: "indexable ?pre" "indexable ?t" using assms by (simp_all add: indexable_merge_event)
  have groups: "event_groups ''PreToolUse'' ?t = event_groups ''PreToolUse'' ?pre"
    using ix(1) unfolding merge_event_def [of _ _ _ "''PostToolUse''"] by (simp add: event_groups_jset)
  have "merge_event own marker status ''PreToolUse'' ?t = ?t"
    using assms jset_there [of "''PreToolUse''" "''PostToolUse''"] groups
    unfolding merge_event_def [of _ _ _ "''PreToolUse''" ?t]
    by (simp add: merge_event_def event_groups_jset merge_groups_again)
  moreover have "merge_event own marker status ''PostToolUse'' ?t = ?t"
    using ix(1) by (simp add: merge_event_def event_groups_jset merge_groups_again)
  ultimately show ?thesis by (simp add: merge_events_eq)
qed

end
