(* ===== verification/Adapters.thy ===== *)
theory Adapters
  imports Hook_Merging
begin

section \<open>Adapters in a checkout\<close>

text \<open>
  \<open>install_project_adapters_in_state\<close> and \<open>ensure_local_excludes\<close> of \<open>src/src/cli.rs\<close>: the
  handler in \<open>.codex/hooks.json\<close>, the agent skill, the local Git excludes and the two Git hooks
  with the user's own hooks chained in front; and \<open>repair_adapters_for_build\<close> of
  \<open>src/src/daemon.rs\<close>, which runs it for every project once per build. \<open>JSON\<close> values that cannot
  be indexed make the source panic, which no \<open>Result\<close> catches: a \<open>Panic\<close> beside the errors. The
  texts of the skill are the files under \<open>src/skills\<close>, parameters here; \<open>J\<close> is \<open>serde_json\<close> for
  values.
\<close>

datatype abort = Failed string | Panic string

abbreviation fallible :: "('s, string, 'a) prog \<Rightarrow> ('s, abort, 'a) prog" where
  "fallible m \<equiv> mapErr Failed m"

subsection \<open>The hook file\<close>

fun index_mut :: "string \<Rightarrow> json \<Rightarrow> (abort, json) result" where
  "index_mut k (JObj m) = Inr (case map_of m k of Some v \<Rightarrow> v | None \<Rightarrow> JNull)"
| "index_mut k JNull = Inr JNull"
| "index_mut k _ = Inl (Panic (''cannot access key '' @ k))"

definition project_status :: "string \<Rightarrow> string" where
  "project_status event = (if event = ''PreToolUse'' then ''Refreshing RepoSync workspace''
     else ''Releasing RepoSync workspace'')"

definition project_event :: "string \<Rightarrow> string \<Rightarrow> json \<Rightarrow> (abort, json) result" where
  "project_event marker event hooks =
     bindR (index_mut ''hooks'' hooks) (\<lambda>table.
     bindR (index_mut event table) (\<lambda>_.
     Inr (jset ''hooks'' (merge_event is_reposync_project_command marker project_status event table) hooks)))"

definition project_hooks :: "string \<Rightarrow> json \<Rightarrow> (abort, json) result" where
  "project_hooks marker hooks =
     bindR (project_event marker ''PreToolUse'' hooks) (project_event marker ''PostToolUse'')"

definition empty_hooks :: "string \<Rightarrow> json" where
  "empty_hooks description = jobj [(''description'', JStr description), (''hooks'', jobj [])]"

definition load_hooks :: "'x env \<Rightarrow> json codec \<Rightarrow> path \<Rightarrow> bool \<Rightarrow> string \<Rightarrow> (('x, 'z) world_scheme, string, json) prog" where
  "load_hooks E J hooks_path existed description =
     (if existed then andThen (io (read_file E hooks_path)) (\<lambda>c. lift (ok_or ''invalid JSON'' (dec J c)))
      else ret (empty_hooks description))"

definition install_project_hooks :: "'x env \<Rightarrow> json codec \<Rightarrow> local_project \<Rightarrow> path \<Rightarrow>
    (('x, 'z) world_scheme, abort, path \<times> path \<times> bool) prog" where
  "install_project_hooks E J project state_root =
     (let codex_directory = path_join (lp_local_path project) ''.codex'';
          hooks_path = path_join codex_directory ''hooks.json'' in
     andThen (path_exists hooks_path) (\<lambda>existed.
     andThen (fallible (load_hooks E J hooks_path existed ''RepoSync cooperative workspace leases'')) (\<lambda>original.
     andThen (fallible (lift (ok_or ''current executable is unavailable'' (current_exe E)))) (\<lambda>executable.
     andThen (fallible (ensure_project_dispatcher E state_root (lp_project_id project) executable)) (\<lambda>dispatcher.
     andThen (lift (project_hooks (shell_quote dispatcher) original)) (\<lambda>hooks.
     let review = (\<not> existed \<or> hooks \<noteq> original) in
     andThen (fallible (io (create_dir_all E codex_directory))) (\<lambda>_.
     andThen (onlyIf review (fallible (write_json E J hooks_path hooks shared_mode))) (\<lambda>_.
     ret (executable, dispatcher, review)))))))))"

subsection \<open>Excludes\<close>

definition add_pattern :: "string \<times> bool \<Rightarrow> string \<Rightarrow> string \<times> bool" where
  "add_pattern = (\<lambda>(contents, changed) pattern.
     if \<exists>l\<in>set (str_lines contents). trim l = pattern then (contents, changed)
     else ((if contents \<noteq> [] \<and> last contents \<noteq> newline then contents @ [newline] else contents)
       @ pattern @ [newline], True))"

definition add_patterns :: "string \<Rightarrow> string list \<Rightarrow> string \<times> bool" where
  "add_patterns contents patterns = foldl add_pattern (contents, False) patterns"

definition ensure_local_excludes :: "'x env \<Rightarrow> path \<Rightarrow> string list \<Rightarrow> (('x, 'z) world_scheme, string, unit) prog" where
  "ensure_local_excludes E project_path patterns =
     andThen (git_text E project_path [''rev-parse'', ''--path-format=absolute'', ''--git-path'', ''info/exclude'']
       default_options) (\<lambda>exclude_path.
     andThen (attempt (read_file E exclude_path)) (\<lambda>r.
     case add_patterns (case r of Inr c \<Rightarrow> c | Inl _ \<Rightarrow> []) patterns of (contents, changed) \<Rightarrow>
       onlyIf changed (io (
         andThen (case path_parent exclude_path of None \<Rightarrow> ret () | Some parent \<Rightarrow> create_dir_all E parent) (\<lambda>_.
         write_file E exclude_path contents 438)))))"

subsection \<open>The skill and the Git hooks\<close>

record adapter_texts =
  at_skill :: string
  at_metadata :: string

definition install_skill :: "'x env \<Rightarrow> adapter_texts \<Rightarrow> path \<Rightarrow> (('x, 'z) world_scheme, string, path) prog" where
  "install_skill E T project_path =
     (let directory = path_join (path_join (path_join project_path ''.agents'') ''skills'') ''reposync'';
          skill_path = path_join directory ''SKILL.md'';
          agents = path_join directory ''agents'' in
     andThen (io (create_dir_all E agents)) (\<lambda>_.
     andThen (io (write_file E skill_path (at_skill T) 438)) (\<lambda>_.
     andThen (io (write_file E (path_join agents ''openai.yaml'') (at_metadata T) 438)) (\<lambda>_.
     ret skill_path))))"

definition dq :: "string \<Rightarrow> string" where
  "dq s = [double_quote] @ s @ [double_quote]"

definition dispatcher_mark :: string where
  "dispatcher_mark = ''# RepoSync dispatcher''"

definition hook_prologue :: string where
  "hook_prologue = ''#!/bin/sh'' @ [newline] @ dispatcher_mark @ [newline] @ ''set -u'' @ [newline]
     @ ''[ ! -x '' @ dq ''$0.pre-resync'' @ '' ] || '' @ dq ''$0.pre-resync'' @ '' '' @ dq ''$@'' @ [newline]"

definition commit_script :: "path \<Rightarrow> string \<Rightarrow> string" where
  "commit_script executable project_id = hook_prologue
     @ ''commit='' @ dq ''$(git rev-parse HEAD 2>/dev/null)'' @ '' || exit 0'' @ [newline]
     @ ''branch='' @ dq ''$(git symbolic-ref --short HEAD 2>/dev/null)'' @ '' || exit 0'' @ [newline]
     @ shell_quote executable @ '' report-commit '' @ shell_quote project_id
     @ '' '' @ dq ''$commit'' @ '' '' @ dq ''$branch'' @ '' >/dev/null || echo ''
     @ dq ''RepoSync could not schedule automatic publication'' @ '' >&2'' @ [newline]"

definition checkout_script :: "path \<Rightarrow> string \<Rightarrow> string" where
  "checkout_script executable project_id = hook_prologue
     @ ''new_branch='' @ dq ''$(git symbolic-ref --short HEAD 2>/dev/null)'' @ '' || exit 0'' @ [newline]
     @ shell_quote executable @ '' report-checkout '' @ shell_quote project_id
     @ '' '' @ dq ''$1'' @ '' '' @ dq ''$2'' @ '' '' @ dq ''$new_branch'' @ '' >/dev/null || echo ''
     @ dq ''RepoSync could not record branch transition'' @ '' >&2'' @ [newline]"

definition install_git_hook :: "'x env \<Rightarrow> path \<Rightarrow> string \<Rightarrow> string \<Rightarrow> (('x, 'z) world_scheme, io_error, path) prog" where
  "install_git_hook E directory name source =
     (let hook = path_join directory name; previous = path_join directory (name @ ''.pre-resync'') in
     andThen (path_exists hook) (\<lambda>present.
     andThen (if present then andThen (read_file E hook) (\<lambda>c.
         if contains c dispatcher_mark then ret () else rename_file E hook previous)
       else ret ()) (\<lambda>_.
     andThen (write_file E hook source 438) (\<lambda>_.
     andThen (set_permissions E hook executable_mode) (\<lambda>_. ret hook)))))"

definition install_git_hooks :: "'x env \<Rightarrow> local_project \<Rightarrow> path \<Rightarrow> (('x, 'z) world_scheme, string, path \<times> path) prog" where
  "install_git_hooks E project executable =
     andThen (git_text E (lp_local_path project) [''rev-parse'', ''--path-format=absolute'', ''--git-path'', ''hooks'']
       default_options) (\<lambda>directory.
     andThen (io (create_dir_all E directory)) (\<lambda>_.
     andThen (io (install_git_hook E directory ''post-commit'' (commit_script executable (lp_project_id project)))) (\<lambda>commit.
     andThen (io (install_git_hook E directory ''post-checkout'' (checkout_script executable (lp_project_id project)))) (\<lambda>checkout.
     ret (commit, checkout)))))"

definition exclude_patterns :: "string list" where
  "exclude_patterns = [''/.codex/hooks.json'', ''/.agents/skills/reposync/'']"

definition install_project_adapters_in_state :: "'x env \<Rightarrow> json codec \<Rightarrow> adapter_texts \<Rightarrow> local_project \<Rightarrow> path \<Rightarrow>
    (('x, 'z) world_scheme, abort, json) prog" where
  "install_project_adapters_in_state E J T project state_root =
     andThen (install_project_hooks E J project state_root) (\<lambda>(executable, dispatcher, review).
     andThen (fallible (install_skill E T (lp_local_path project))) (\<lambda>skill.
     andThen (fallible (ensure_local_excludes E (lp_local_path project) exclude_patterns)) (\<lambda>_.
     andThen (fallible (install_git_hooks E project executable)) (\<lambda>(commit, checkout).
     ret (jobj [(''projectId'', JStr (lp_project_id project)),
       (''codexHooks'', JStr (path_join (path_join (lp_local_path project) ''.codex'') ''hooks.json'')),
       (''codexSkill'', JStr skill), (''codexHookDispatcher'', JStr dispatcher),
       (''gitHooks'', jobj [(''postCommit'', JStr commit), (''postCheckout'', JStr checkout)]),
       (''requiresCodexTrustReview'', JBool review)])))))"

subsection \<open>Repair after an upgrade\<close>

fun adapter_failures :: "'x env \<Rightarrow> json codec \<Rightarrow> adapter_texts \<Rightarrow> path \<Rightarrow> local_project list \<Rightarrow>
    (('x, 'z) world_scheme, abort, string list) prog" where
  "adapter_failures E J T root [] = ret []"
| "adapter_failures E J T root (p # ps) =
     andThen (attempt (install_project_adapters_in_state E J T p root)) (\<lambda>r. case r of
       Inl (Panic e) \<Rightarrow> bail (Panic e)
     | Inl (Failed e) \<Rightarrow> andThen (adapter_failures E J T root ps) (\<lambda>es. ret ((lp_project_id p @ '': '' @ e) # es))
     | Inr _ \<Rightarrow> adapter_failures E J T root ps)"

definition adapter_marker :: "state_paths \<Rightarrow> path" where
  "adapter_marker paths = path_join (sp_root paths) ''adapter-build.json''"

definition build_marker :: "string \<Rightarrow> string \<Rightarrow> json" where
  "build_marker build_id version = jobj [(''buildId'', JStr build_id), (''version'', JStr version)]"

definition installed_build :: "'x env \<Rightarrow> json codec \<Rightarrow> state_paths \<Rightarrow> (('x, 'z) world_scheme, abort, string option) prog" where
  "installed_build E J paths =
     andThen (attempt (read_json E J (adapter_marker paths) JNull)) (\<lambda>r.
     ret (jget_str ''buildId'' (case r of Inr v \<Rightarrow> v | Inl _ \<Rightarrow> JNull)))"

definition repair_adapters_for_build :: "'x env \<Rightarrow> json codec \<Rightarrow> adapter_texts \<Rightarrow> string \<Rightarrow> state_paths \<Rightarrow>
    local_project list \<Rightarrow> string \<Rightarrow> (('x, 'z) world_scheme, abort, bool) prog" where
  "repair_adapters_for_build E J T version paths projects build_id =
     andThen (installed_build E J paths) (\<lambda>installed.
     if installed = Some build_id then ret False
     else
     andThen (adapter_failures E J T (sp_root paths) projects) (\<lambda>failures.
     if failures \<noteq> [] then bail (Failed (''could not refresh every managed checkout: '' @ join_with ''; '' failures))
     else
     andThen (fallible (write_json E J (adapter_marker paths) (build_marker build_id version) private_mode)) (\<lambda>_.
     ret True)))"

subsection \<open>Hook files keep what is the user's\<close>

lemma index_mut_ok: "index_mut k j = Inr t \<longleftrightarrow> indexable j \<and> t = (case jget k j of Some v \<Rightarrow> v | None \<Rightarrow> JNull)"
  by (cases j) (auto simp: indexable_def)

lemma event_groups_null [simp]: "event_groups e JNull = []"
  by (simp add: event_groups_def)

definition hook_table :: "json \<Rightarrow> json" where
  "hook_table hooks = (case jget ''hooks'' hooks of Some t \<Rightarrow> t | None \<Rightarrow> JNull)"

lemma project_hooks_ok:
  "project_hooks marker hooks = Inr hooks' \<longleftrightarrow> indexable hooks \<and> indexable (hook_table hooks)
     \<and> hooks' = jset ''hooks'' (merge_events is_reposync_project_command marker project_status (hook_table hooks)) hooks"
proof -
  have merged: "is_object (merge_event own marker status event t)" if "indexable t" for own status event t
    using that by (simp add: merge_event_def jset_object)
  have obj: "indexable j" if "is_object j" for j using that by (simp add: indexable_def)
  show ?thesis
    by (auto simp: project_hooks_def project_event_def bindR_eq_Inr index_mut_ok hook_table_def jget_jset
        merge_events_eq jset_jset indexable_merge_event obj jset_object merged)
qed

definition foreign_handlers :: "string \<Rightarrow> json list \<Rightarrow> json list" where
  "foreign_handlers marker groups =
     filter (\<lambda>h. \<not> reposync_handler is_reposync_project_command marker h) (handlers groups)"

definition own_handlers :: "string \<Rightarrow> json list \<Rightarrow> json list" where
  "own_handlers marker groups = filter (reposync_handler is_reposync_project_command marker) (handlers groups)"

text \<open>C34. Installing the hooks of a project keeps the handlers of other tools in both tool events and
  their order, leaves exactly one handler of its own with the current command, changes no other
  event or key, and is idempotent.\<close>

theorem project_hooks_merge:
  assumes "project_hooks marker hooks = Inr hooks'"
  shows "(\<forall>event. let old = event_groups event (hook_table hooks); new = event_groups event (hook_table hooks') in
             if event \<in> {''PreToolUse'', ''PostToolUse''}
             then foreign_handlers marker new = foreign_handlers marker old
               \<and> (\<exists>h. own_handlers marker new = [h] \<and> jget_str ''command'' h = Some marker)
             else new = old)
    \<and> (\<forall>k. k \<noteq> ''hooks'' \<longrightarrow> jget k hooks' = jget k hooks)
    \<and> project_hooks marker hooks' = Inr hooks'"
proof -
  let ?m = "merge_events is_reposync_project_command marker project_status"
  have ix: "indexable hooks" "indexable (hook_table hooks)" and hooks': "hooks' = jset ''hooks'' (?m (hook_table hooks)) hooks"
    using assms by (simp_all add: project_hooks_ok)
  have table: "hook_table hooks' = ?m (hook_table hooks)"
    unfolding hooks' using ix(1) by (subst hook_table_def) (simp add: jget_jset)
  have groups: "\<forall>event. let old = event_groups event (hook_table hooks); new = event_groups event (hook_table hooks') in
             if event \<in> {''PreToolUse'', ''PostToolUse''}
             then foreign_handlers marker new = foreign_handlers marker old
               \<and> (\<exists>h. own_handlers marker new = [h] \<and> jget_str ''command'' h = Some marker)
             else new = old"
    using ix(2) merge_groups_own [unfolded current_handler_def]
    by (simp add: Let_def table event_groups_merge_events tool_events_def merge_groups_foreign
        foreign_handlers_def own_handlers_def)
  have "indexable hooks'" unfolding hooks' using jset_object [OF ix(1)] by (simp add: indexable_def)
  moreover have "indexable (hook_table hooks')"
    unfolding table merge_events_eq by (intro indexable_merge_event ix(2))
  moreover have "hooks' = jset ''hooks'' (?m (hook_table hooks')) hooks'"
    unfolding table using ix(2) by (simp add: merge_events_again hooks')
  ultimately have again: "project_hooks marker hooks' = Inr hooks'" by (simp add: project_hooks_ok)
  have "\<forall>k. k \<noteq> ''hooks'' \<longrightarrow> jget k hooks' = jget k hooks"
    unfolding hooks' using ix(1) by (simp add: jget_jset)
  with groups again show ?thesis by blast
qed

subsection \<open>Excludes are only added\<close>

lemma utf8_chars_snoc: "\<not> continuation c \<Longrightarrow> utf8_chars (s @ [c]) = utf8_chars s @ [[c]]"
proof (induction s rule: utf8_chars.induct)
  case 1
  then show ?case by simp
next
  case (2 d ds)
  show ?case
  proof (cases "\<forall>x\<in>set ds. continuation x")
    case True
    then have drop: "dropWhile continuation ds = []" and take: "takeWhile continuation ds = ds"
      by (simp_all add: dropWhile_eq_Nil_conv takeWhile_eq_all_conv)
    show ?thesis using 2 True by (simp add: takeWhile_append dropWhile_append drop take)
  next
    case False
    then have "takeWhile continuation (ds @ [c]) = takeWhile continuation ds"
      "dropWhile continuation (ds @ [c]) = dropWhile continuation ds @ [c]"
      by (auto simp: takeWhile_append dropWhile_append)
    then show ?thesis using 2 by simp
  qed
qed

lemma trim_snoc_blank:
  assumes "\<not> continuation c" and "ws_char [c]"
  shows "trim (s @ [c]) = trim s"
proof (cases "\<forall>g\<in>set (utf8_chars s). ws_char g")
  case True
  then have "dropWhile ws_char (utf8_chars s) = []" "dropWhile ws_char (utf8_chars s @ [[c]]) = []"
    using assms by (simp_all add: dropWhile_eq_Nil_conv)
  then show ?thesis using assms(1) unfolding trim_def utf8_chars_snoc [OF assms(1)] by metis
next
  case False
  then have "dropWhile ws_char (utf8_chars s @ [[c]]) = dropWhile ws_char (utf8_chars s) @ [[c]]"
    by (auto simp: dropWhile_append)
  then show ?thesis using assms by (simp add: trim_def utf8_chars_snoc)
qed

lemma trim_strip_cr [simp]: "trim (strip_cr l) = trim l"
proof (cases "l \<noteq> [] \<and> byte_of (last l) = 13")
  case True
  then have "l = butlast l @ [last l]" by simp
  moreover have "ws_char [last l]" "\<not> continuation (last l)"
    using True by (simp_all add: ws_char_def code_point_def lead_bits_def is_whitespace_def continuation_def)
  ultimately show ?thesis
    using trim_snoc_blank [of "last l" "butlast l"] True by (simp add: strip_cr_def)
next
  case False
  then show ?thesis by (auto simp: strip_cr_def)
qed

lemma split_append_sep: "split_at_char d (a @ d # s) = split_at_char d a @ split_at_char d s"
proof (induction a)
  case (Cons c a)
  obtain p ps where "split_at_char d a = p # ps" by (meson list.exhaust split_at_char_nonempty)
  then show ?case using Cons by simp
qed simp

definition trimmed_lines :: "string \<Rightarrow> string list" where
  "trimmed_lines s = map trim (str_lines s)"

lemma trimmed_lines_split:
  "trimmed_lines s = map trim (let ps = split_at_char newline s in if last ps = [] then butlast ps else ps)"
proof -
  have "map trim (butlast ps) @ [trim (last ps)] = map trim ps" if "ps \<noteq> []" for ps
    using that by (metis append_butlast_last_id list.simps(8) list.simps(9) map_append)
  then show ?thesis by (simp add: trimmed_lines_def str_lines_def Let_def comp_def)
qed

lemma last_split_end: "last (split_at_char d s) = [] \<longleftrightarrow> s = [] \<or> last s = d"
proof (cases s rule: rev_cases)
  case (snoc a c)
  show ?thesis
  proof (cases "c = d")
    case True
    then show ?thesis using snoc split_append_sep [of d a "[]"] by simp
  next
    case False
    have "last (split_at_char d (a @ [c])) \<noteq> []"
    proof (induction a)
      case Nil
      then show ?case using False by simp
    next
      case (Cons e a)
      obtain p ps where "split_at_char d (a @ [c]) = p # ps" by (meson list.exhaust split_at_char_nonempty)
      then show ?case using Cons by auto
    qed
    then show ?thesis using snoc False by simp
  qed
qed simp

lemma trimmed_lines_add:
  assumes "newline \<notin> set p"
  shows "trimmed_lines ((if c \<noteq> [] \<and> last c \<noteq> newline then c @ [newline] else c) @ p @ [newline]) = trimmed_lines c @ [trim p]"
proof -
  have p: "split_at_char newline (p @ [newline]) = [p, []]"
    using split_at_char_append [OF assms, of "[]"] by simp
  consider (empty) "c = []" | (ended) "c \<noteq> []" "last c = newline" | (open_end) "c \<noteq> []" "last c \<noteq> newline" by blast
  then show ?thesis
  proof cases
    case empty
    then show ?thesis using p by (simp add: trimmed_lines_split)
  next
    case ended
    then have c: "c = butlast c @ newline # []" by (metis append_butlast_last_id)
    have "split_at_char newline (c @ p @ [newline]) = split_at_char newline (butlast c) @ [p, []]"
      using split_append_sep [of newline "butlast c" "p @ [newline]"] c p by (metis append.assoc append_Cons append_Nil)
    moreover have "split_at_char newline c = split_at_char newline (butlast c) @ [[]]"
      using split_append_sep [of newline "butlast c" "[]"] c by simp
    ultimately show ?thesis using ended by (simp add: trimmed_lines_split butlast_append)
  next
    case open_end
    then have "split_at_char newline ((c @ [newline]) @ p @ [newline]) = split_at_char newline c @ [p, []]"
      using split_append_sep [of newline c "p @ [newline]"] p by simp
    then show ?thesis using open_end by (simp add: trimmed_lines_split last_split_end butlast_append)
  qed
qed

definition pattern_ok :: "string \<Rightarrow> bool" where
  "pattern_ok p \<longleftrightarrow> newline \<notin> set p \<and> trim p = p"

lemma pattern_present: "(\<exists>l\<in>set (str_lines c). trim l = p) \<longleftrightarrow> p \<in> set (trimmed_lines c)"
  by (auto simp: trimmed_lines_def)

lemma add_pattern_lines:
  assumes "pattern_ok p"
  shows "trimmed_lines (fst (add_pattern (c, ch) p)) = (if p \<in> set (trimmed_lines c) then trimmed_lines c else trimmed_lines c @ [p])"
    and "prefix c (fst (add_pattern (c, ch) p))"
    and "snd (add_pattern (c, ch) p) \<longleftrightarrow> ch \<or> p \<notin> set (trimmed_lines c)"
  using assms trimmed_lines_add [of p c] by (auto simp: add_pattern_def pattern_present pattern_ok_def)

lemma add_patterns_fold:
  assumes "\<forall>p\<in>set ps. pattern_ok p"
  shows "prefix c (fst (foldl add_pattern (c, ch) ps))
    \<and> set (trimmed_lines (fst (foldl add_pattern (c, ch) ps))) = set (trimmed_lines c) \<union> set ps
    \<and> (snd (foldl add_pattern (c, ch) ps) \<longleftrightarrow> ch \<or> \<not> set ps \<subseteq> set (trimmed_lines c))"
  using assms
proof (induction ps arbitrary: c ch)
  case Nil
  then show ?case by simp
next
  case (Cons p ps)
  obtain c' ch' where step: "add_pattern (c, ch) p = (c', ch')" by fastforce
  have "prefix c c'" and lines: "set (trimmed_lines c') = insert p (set (trimmed_lines c))"
    and ch': "ch' \<longleftrightarrow> ch \<or> p \<notin> set (trimmed_lines c)"
    using add_pattern_lines [of p c ch] Cons.prems step by auto
  then show ?case using Cons.IH [of c' ch'] Cons.prems step by (auto intro: prefix_order.trans)
qed

lemma exclude_patterns_ok: "\<forall>p\<in>set exclude_patterns. pattern_ok p"
  by (simp add: exclude_patterns_def pattern_ok_def newline_def trim_def ws_char_def code_point_def lead_bits_def
      byte_of_def is_whitespace_def continuation_def)

text \<open>Adding patterns leaves the present lines alone and adds the missing ones.\<close>

theorem add_patterns_adds:
  assumes "\<forall>p\<in>set ps. pattern_ok p"
  shows "prefix c (fst (add_patterns c ps))
    \<and> set (map trim (str_lines (fst (add_patterns c ps)))) = set (map trim (str_lines c)) \<union> set ps
    \<and> (snd (add_patterns c ps) \<longleftrightarrow> \<not> set ps \<subseteq> set (map trim (str_lines c)))
    \<and> add_patterns (fst (add_patterns c ps)) ps = (fst (add_patterns c ps), False)"
proof -
  have fold: "prefix c (fst (add_patterns c ps))"
    "set (trimmed_lines (fst (add_patterns c ps))) = set (trimmed_lines c) \<union> set ps"
    "snd (add_patterns c ps) \<longleftrightarrow> \<not> set ps \<subseteq> set (trimmed_lines c)"
    using add_patterns_fold [OF assms, of c False] by (simp_all add: add_patterns_def)
  have "foldl add_pattern (d, False) qs = (d, False)" if "set qs \<subseteq> set (trimmed_lines d)" for d qs
    using that by (induction qs) (simp_all add: add_pattern_def pattern_present)
  then have "add_patterns (fst (add_patterns c ps)) ps = (fst (add_patterns c ps), False)"
    using fold(2) by (simp add: add_patterns_def)
  with fold show ?thesis by (simp add: trimmed_lines_def)
qed

theorem add_patterns_adds_witness:
  "prefix ''*.o'' (fst (add_patterns ''*.o'' exclude_patterns))"
  using add_patterns_adds [OF exclude_patterns_ok, of "''*.o''"] by blast

subsection \<open>The user's Git hooks stay in front\<close>

lemma saved_hook_elsewhere: "name \<noteq> [] \<Longrightarrow> path_join d (name @ ''.pre-resync'') \<noteq> path_join d name"
  by (auto simp: path_join_def is_absolute_def)

lemma scripts_marked: "contains (commit_script e p) dispatcher_mark" "contains (checkout_script e p) dispatcher_mark"
proof -
  have "contains (hook_prologue @ r) dispatcher_mark" for r
    unfolding contains_def hook_prologue_def sublist_def by (metis append.assoc)
  then show "contains (commit_script e p) dispatcher_mark" "contains (checkout_script e p) dispatcher_mark"
    by (simp_all add: commit_script_def checkout_script_def)
qed

lemma install_git_hook_files:
  assumes ran: "install_git_hook E d name source s = (Inr h, s')"
    and present: "fs_get (files s) (path_join d name) = Some (File c)" and name: "name \<noteq> []"
  shows "fs_get (files s') (path_join d name) = Some (File source)
    \<and> fs_get (files s') (path_join d (name @ ''.pre-resync''))
      = (if contains c dispatcher_mark then fs_get (files s) (path_join d (name @ ''.pre-resync'')) else Some (File c))"
  using ran present saved_hook_elsewhere [OF name, of d] saved_hook_elsewhere [OF name, of d, symmetric]
  by (auto simp: install_git_hook_def Let_def run path_exists_def read_file_def rename_file_def write_file_def
      set_permissions_def file_op_def split: option.splits sum.splits prod.splits if_splits node.splits)

text \<open>A Git hook of the user is moved aside by the first installation and not overwritten by the
  next one.\<close>

theorem user_hook_survives_reinstallation:
  assumes first: "install_git_hook E d name source s = (Inr h, s1)"
    and again: "install_git_hook E d name source' s1 = (Inr h', s2)"
    and user: "fs_get (files s) (path_join d name) = Some (File c)" "\<not> contains c dispatcher_mark"
    and ours: "source = commit_script e p \<or> source = checkout_script e p" and name: "name \<noteq> []"
  shows "fs_get (files s2) (path_join d name) = Some (File source')
    \<and> fs_get (files s2) (path_join d (name @ ''.pre-resync'')) = Some (File c)"
proof -
  have one: "fs_get (files s1) (path_join d name) = Some (File source)"
    "fs_get (files s1) (path_join d (name @ ''.pre-resync'')) = Some (File c)"
    using install_git_hook_files [OF first user(1) name] user(2) by auto
  have "contains source dispatcher_mark" using ours scripts_marked by auto
  then show ?thesis using install_git_hook_files [OF again one(1) name] one(2) by auto
qed

subsection \<open>An unreadable exclude file is replaced\<close>

text \<open>A file of excludes that cannot be read is taken to be empty, and is overwritten.\<close>

theorem unreadable_excludes_are_lost:
  assumes where_is: "git_text E project_path [''rev-parse'', ''--path-format=absolute'', ''--git-path'', ''info/exclude'']
      default_options s = (Inr p, s1)"
    and there: "fs_get (files s1) p = Some (File c)"
    and unreadable: "io_fault E (ReadFile p) (files s1) (ext s1) = Some e"
    and ran: "ensure_local_excludes E project_path exclude_patterns s = (Inr (), s')"
  shows "fs_get (files s') p = Some (File (''/.codex/hooks.json'' @ [newline] @ ''/.agents/skills/reposync/'' @ [newline]))"
proof -
  have new: "add_patterns [] exclude_patterns =
      (''/.codex/hooks.json'' @ [newline] @ ''/.agents/skills/reposync/'' @ [newline], True)"
    by (simp add: add_patterns_def exclude_patterns_def add_pattern_def str_lines_def newline_def trim_def
        ws_char_def code_point_def lead_bits_def byte_of_def is_whitespace_def continuation_def strip_cr_def)
  have "read_file E p s1 = (Inl (OtherIo e), s1)"
    using unreadable by (simp add: read_file_def file_op_def)
  then show ?thesis using ran where_is new
    by (auto simp: ensure_local_excludes_def run write_file_def file_op_def
        split: option.splits sum.splits prod.splits node.splits)
qed

subsection \<open>Repair is complete before it is recorded\<close>

definition refresh_adapters :: "'x env \<Rightarrow> json codec \<Rightarrow> adapter_texts \<Rightarrow> path \<Rightarrow> local_project \<Rightarrow>
    (('x, 'z) world_scheme, abort, unit) prog" where
  "refresh_adapters E J T root p = andThen (install_project_adapters_in_state E J T p root) (\<lambda>_. ret ())"

lemma no_failures:
  "adapter_failures E J T root ps s = (Inr [], s') \<Longrightarrow> forEach (refresh_adapters E J T root) ps s = (Inr (), s')"
  by (induction ps arbitrary: s) (auto simp: run refresh_adapters_def split: prod.splits sum.splits abort.splits)

lemma installed_build_frame:
  assumes "installed_build E J paths s = (r, s1)"
  shows "files s1 = files s" "ext s1 = ext s"
  using assms by (auto simp: installed_build_def read_json_def read_file_def file_op_def run
      split: option.splits sum.splits prod.splits node.splits io_error.splits)

text \<open>The checkouts are visited once per build.\<close>

theorem repair_once_per_build:
  assumes ran: "repair_adapters_for_build E J T version paths projects build s = (Inr repaired, s')"
    and codec: "dec J (json_text J (build_marker build version)) = Some (build_marker build version)"
    and tmp: "temporary_path E (adapter_marker paths) \<noteq> adapter_marker paths"
    and readable: "io_fault E (ReadFile (adapter_marker paths)) (files s') (ext s') = None"
  shows "(repaired \<longrightarrow> (\<exists>s2. forEach (refresh_adapters E J T (sp_root paths)) projects (snd (installed_build E J paths s)) = (Inr (), s2)))
    \<and> fst (repair_adapters_for_build E J T version paths projects build s') = Inr False"
proof -
  obtain installed s1 where look: "installed_build E J paths s = (Inr installed, s1)"
    by (cases "installed_build E J paths s") (auto simp: installed_build_def run split: prod.splits)
  show ?thesis
  proof (cases "installed = Some build")
    case True
    then have "repaired = False" "s' = s1" using ran look by (simp_all add: repair_adapters_for_build_def run)
    moreover have "fst (installed_build E J paths s1) = Inr installed"
      using look installed_build_frame [OF look]
      by (auto simp: installed_build_def read_json_def read_file_def file_op_def run
          split: option.splits sum.splits prod.splits node.splits io_error.splits)
    ultimately show ?thesis using True
      by (cases "installed_build E J paths s1") (simp add: repair_adapters_for_build_def run)
  next
    case False
    then obtain s2 s3 where inst: "adapter_failures E J T (sp_root paths) projects s1 = (Inr [], s2)"
      and wr: "write_json E J (adapter_marker paths) (build_marker build version) private_mode s2 = (Inr (), s')"
      using ran look by (auto simp: repair_adapters_for_build_def run split: prod.splits sum.splits if_splits)
    have "fst (read_json E J (adapter_marker paths) JNull s') = Inr (build_marker build version)"
      using write_json_document(1) [OF wr tmp] codec readable by (simp add: read_json_def read_file_def file_op_def run)
    then have "fst (installed_build E J paths s') = Inr (Some build)"
      by (auto simp: installed_build_def run build_marker_def jobj_def jget_str_def split: prod.splits)
    then have "fst (repair_adapters_for_build E J T version paths projects build s') = Inr False"
      by (cases "installed_build E J paths s'") (simp add: repair_adapters_for_build_def run)
    then show ?thesis using no_failures [OF inst] look by auto
  qed
qed

end
