(* ===== verification/Daemon_Client.thy ===== *)
theory Daemon_Client
  imports Adapters Daemon
begin

section \<open>Reaching the daemon\<close>

text \<open>
  \<open>src/src/rpc.rs\<close> and the process part of \<open>src/src/daemon.rs\<close>: the line protocol of the local
  socket on both sides, the process lock, the client that finds a daemon of its own build, stops a
  stale one and starts a new one, and the supervision by systemd (the Linux branch). The sockets,
  signals, \<open>/proc\<close> and the passing of time are the operating system's, fields of \<open>os\<close>; while a
  process sleeps or waits for an answer, other processes may change files and the rest of the
  world in any way.
\<close>

datatype socket_error = Unavailable string | Broken string

datatype kill_result = Delivered | NoSuchProcess | KillFailed string

record 'x os =
  os_env :: "'x env"
  os_talk :: "path \<Rightarrow> string \<Rightarrow> fs \<Rightarrow> 'x \<Rightarrow> (socket_error, string) result \<times> fs \<times> 'x"
  os_alive :: "int \<Rightarrow> fs \<Rightarrow> 'x \<Rightarrow> bool"
  os_terminate :: "nat \<Rightarrow> fs \<Rightarrow> 'x \<Rightarrow> kill_result \<times> fs \<times> 'x"
  os_sleep :: "fs \<Rightarrow> 'x \<Rightarrow> fs \<times> 'x"
  os_read_link :: "path \<Rightarrow> fs \<Rightarrow> 'x \<Rightarrow> path option"
  os_start :: "path \<Rightarrow> fs \<Rightarrow> 'x \<Rightarrow> (string, unit) result \<times> fs \<times> 'x"

definition exchange :: "'x os \<Rightarrow> path \<Rightarrow> string \<Rightarrow> (('x, 'z) world_scheme, socket_error, string) prog" where
  "exchange S p line = (\<lambda>s. case os_talk S p line (files s) (ext s) of
     (r, fs, x) \<Rightarrow> (r, s\<lparr>files := fs, ext := x, trace := trace s @ [Message p line]\<rparr>))"

definition terminate :: "'x os \<Rightarrow> nat \<Rightarrow> (('x, 'z) world_scheme, 'e, kill_result) prog" where
  "terminate S pid = (\<lambda>s. case os_terminate S pid (files s) (ext s) of
     (r, fs, x) \<Rightarrow> (Inr r, s\<lparr>files := fs, ext := x, trace := trace s @ [Signal pid]\<rparr>))"

definition sleep :: "'x os \<Rightarrow> (('x, 'z) world_scheme, 'e, unit) prog" where
  "sleep S = (\<lambda>s. case os_sleep S (files s) (ext s) of (fs, x) \<Rightarrow> (Inr (), s\<lparr>files := fs, ext := x\<rparr>))"

text \<open>A detached child: it inherits nothing the parent waits for.\<close>

definition start_detached :: "'x os \<Rightarrow> path \<Rightarrow> (('x, 'z) world_scheme, string, unit) prog" where
  "start_detached S executable = (\<lambda>s. case os_start S executable (files s) (ext s) of
     (r, fs, x) \<Rightarrow> (r, s\<lparr>files := fs, ext := x, trace := trace s @ [Spawn executable [''daemon''] default_options]\<rparr>))"

subsection \<open>The line protocol\<close>

definition request_line :: "'x env \<Rightarrow> json \<Rightarrow> string" where
  "request_line E request = print_json E request @ [newline]"

definition read_reply :: "'x env \<Rightarrow> string \<Rightarrow> (string, json) result" where
  "read_reply E line =
     bindR (ok_or ''invalid reply'' (parse_json E line)) (\<lambda>response.
     if Option.bind (jget ''ok'' response) as_bool = Some True
     then Inr (case jget ''result'' response of Some v \<Rightarrow> v | None \<Rightarrow> JNull)
     else Inl (case jget_str ''error'' response of Some e \<Rightarrow> e | None \<Rightarrow> ''daemon request failed''))"

definition socket_message :: "socket_error \<Rightarrow> string" where
  "socket_message e = (case e of
     Unavailable m \<Rightarrow> ''daemon unavailable: '' @ m @ ''; start it with `resync daemon`''
   | Broken m \<Rightarrow> m)"

definition rpc :: "'x os \<Rightarrow> json \<Rightarrow> path option \<Rightarrow> (('x, 'z) world_scheme, string, json) prog" where
  "rpc S request socket_path =
     (let path = (case socket_path of Some p \<Rightarrow> p | None \<Rightarrow> sp_socket (state_paths_of (os_env S))) in
     andThen (mapErr socket_message (exchange S path (request_line (os_env S) request))) (\<lambda>line.
     lift (read_reply (os_env S) line)))"

definition response_value :: "(string, json) result \<Rightarrow> json" where
  "response_value r = (case r of
     Inr result \<Rightarrow> jobj [(''ok'', JBool True), (''result'', result)]
   | Inl e \<Rightarrow> jobj [(''ok'', JBool False), (''error'', JStr e)])"

definition response_line :: "'x env \<Rightarrow> (string, json) result \<Rightarrow> string" where
  "response_line E r = print_json E (response_value r) @ [newline]"

definition max_line :: nat where
  "max_line = 1024 * 1024"

text \<open>One turn of the loop of \<open>serve_connection\<close>: no reply to an empty line, and none from a request
  that waits for ever.\<close>

definition serve_line :: "'x denv \<Rightarrow> string \<Rightarrow> ('x daemon, stop, string option) prog" where
  "serve_line D line =
     (if length line > max_line then bail (Fails ''daemon request exceeds 1 MiB'')
      else if trim line = [] then ret None
      else case parse_json (dv_env D) line of
        None \<Rightarrow> ret (Some (response_line (dv_env D) (Inl ''invalid JSON'')))
      | Some request \<Rightarrow>
          andThen (attempt (handle D request)) (\<lambda>r. case r of
            Inr v \<Rightarrow> ret (Some (response_line (dv_env D) (Inr v)))
          | Inl (Fails e) \<Rightarrow> ret (Some (response_line (dv_env D) (Inl e)))
          | Inl Waits \<Rightarrow> bail Waits))"

text \<open>The lines a client sends until it closes the connection, and the replies it gets; the error
  that closes the connection early, if one does.\<close>

fun serve_connection :: "'x denv \<Rightarrow> string list \<Rightarrow> ('x daemon, stop, string list \<times> stop option) prog" where
  "serve_connection D [] = ret ([], None)"
| "serve_connection D (line # rest) =
     andThen (attempt (serve_line D line)) (\<lambda>r. case r of
       Inl e \<Rightarrow> ret ([], Some e)
     | Inr reply \<Rightarrow>
         andThen (serve_connection D rest) (\<lambda>(replies, closed).
         ret ((case reply of None \<Rightarrow> [] | Some l \<Rightarrow> [l]) @ replies, closed)))"

subsection \<open>The process lock\<close>

definition parse_i32 :: "string \<Rightarrow> int option" where
  "parse_i32 t = (let (negative, digits) = (case t of
         c # cs \<Rightarrow> if c = CHR ''-'' then (True, cs) else if c = CHR ''+'' then (False, cs) else (False, t)
       | [] \<Rightarrow> (False, t))
     in case read_digits digits of
          None \<Rightarrow> None
        | Some n \<Rightarrow> let v = (if negative then - int n else int n) in
            if - (2 ^ 31) \<le> v \<and> v < 2 ^ 31 then Some v else None)"

text \<open>\<open>create_new\<close>: no other process runs between the test and the creation.\<close>

definition create_new :: "'x env \<Rightarrow> path \<Rightarrow> nat \<Rightarrow> (('x, 'z) world_scheme, io_error, bool) prog" where
  "create_new E p mode =
     andThen (path_exists p) (\<lambda>present.
     if present then ret False else andThen (write_file E p [] mode) (\<lambda>_. ret True))"

definition recorded_pid :: "'x env \<Rightarrow> path \<Rightarrow> (('x, 'z) world_scheme, 'e, int option) prog" where
  "recorded_pid E p = andThen (attempt (read_file E p)) (\<lambda>r.
     ret (case r of Inr c \<Rightarrow> parse_i32 (trim c) | Inl _ \<Rightarrow> None))"

text \<open>The body of the loop: \<open>True\<close> with the lock, \<open>False\<close> when a lock of no living process is there.\<close>

definition probe_lock :: "'x os \<Rightarrow> path \<Rightarrow> (('x, 'z) world_scheme, string, bool) prog" where
  "probe_lock S p =
     andThen (io (create_new (os_env S) p private_mode)) (\<lambda>created.
     if created then
       andThen (io (write_file (os_env S) p (show_digits (process_id (os_env S)) @ [newline]) private_mode)) (\<lambda>_.
       andThen (io (sync_path (os_env S) p)) (\<lambda>_. ret True))
     else
       andThen (recorded_pid (os_env S) p) (\<lambda>pid.
       andThen (gets (\<lambda>s. case pid of None \<Rightarrow> False | Some n \<Rightarrow> os_alive S n (files s) (ext s))) (\<lambda>alive.
       if alive then bail ''RepoSync daemon is already running'' else ret False)))"

fun lock_attempts :: "'x os \<Rightarrow> path \<Rightarrow> nat \<Rightarrow> (('x, 'z) world_scheme, string, unit) prog" where
  "lock_attempts S p 0 = bail ''could not acquire RepoSync daemon lock''"
| "lock_attempts S p (Suc n) =
     andThen (probe_lock S p) (\<lambda>acquired.
     if acquired then ret ()
     else andThen (ignore (remove_file (os_env S) p)) (\<lambda>_. lock_attempts S p n))"

definition acquire_process_lock :: "'x os \<Rightarrow> state_paths \<Rightarrow> (('x, 'z) world_scheme, string, unit) prog" where
  "acquire_process_lock S paths =
     andThen (case path_parent (sp_daemon_lock paths) of
         None \<Rightarrow> ret () | Some parent \<Rightarrow> io (create_dir_all (os_env S) parent)) (\<lambda>_.
     lock_attempts S (sp_daemon_lock paths) 2)"

subsection \<open>Builds\<close>

definition executable_fingerprint :: "'x env \<Rightarrow> (('x, 'z) world_scheme, string, string) prog" where
  "executable_fingerprint E =
     andThen (lift (ok_or ''current executable is unavailable'' (current_exe E))) (\<lambda>executable.
     andThen (mapErr (\<lambda>e. ''open current executable '' @ executable @ '': '' @ io_message e) (read_file E executable)) (\<lambda>bytes.
     ret (hex_text (sha256 E bytes))))"

definition current_adapter_build_id :: "'x env \<Rightarrow> string \<Rightarrow> string \<Rightarrow> (string, string) result" where
  "current_adapter_build_id E version binary_id =
     bindR (ok_or ''current executable is unavailable'' (current_exe E)) (\<lambda>executable.
     Inr (version @ '':'' @ binary_id @ '':'' @ executable))"

definition daemon_matches_client :: "json \<Rightarrow> string \<Rightarrow> bool" where
  "daemon_matches_client reply client_binary_id \<longleftrightarrow> jget_str ''binaryId'' reply = Some client_binary_id"

definition resolved :: "'x env \<Rightarrow> path \<Rightarrow> (('x, 'z) world_scheme, 'e, path option) prog" where
  "resolved E p = andThen (attempt (canonicalize E p)) (\<lambda>r. ret (case r of Inr q \<Rightarrow> Some q | Inl _ \<Rightarrow> None))"

definition same_resolved :: "path option \<Rightarrow> path option \<Rightarrow> bool" where
  "same_resolved p q = (case (p, q) of (Some a, Some b) \<Rightarrow> same_path a b | (None, None) \<Rightarrow> True | _ \<Rightarrow> False)"

definition daemon_matches_exact_executable :: "'x os \<Rightarrow> json \<Rightarrow> string \<Rightarrow> path \<Rightarrow> (('x, 'z) world_scheme, 'e, bool) prog" where
  "daemon_matches_exact_executable S reply client_binary_id client_executable =
     (if \<not> daemon_matches_client reply client_binary_id then ret False
      else case Option.bind (jget ''pid'' reply) as_u64 of
        None \<Rightarrow> ret False
      | Some pid \<Rightarrow>
          andThen (gets (\<lambda>s. os_read_link S (''/proc/'' @ show_digits pid @ ''/exe'') (files s) (ext s))) (\<lambda>link. case link of
            None \<Rightarrow> ret False
          | Some daemon_executable \<Rightarrow>
              andThen (resolved (os_env S) daemon_executable) (\<lambda>a.
              andThen (resolved (os_env S) client_executable) (\<lambda>b. ret (same_resolved a b)))))"

definition ping_request :: json where
  "ping_request = jobj [(''method'', JStr ''ping'')]"

definition reported_pid :: "json \<Rightarrow> nat option" where
  "reported_pid reply = Option.bind (jget ''pid'' reply) as_u64"

subsection \<open>Stopping a daemon of another build\<close>

fun wait_stopped :: "'x os \<Rightarrow> nat \<Rightarrow> nat \<Rightarrow> (('x, 'z) world_scheme, string, unit) prog" where
  "wait_stopped S pid 0 = bail (''stale RepoSync daemon '' @ show_digits pid @ '' did not stop after SIGTERM'')"
| "wait_stopped S pid (Suc n) =
     andThen (sleep S) (\<lambda>_.
     andThen (attempt (rpc S ping_request None)) (\<lambda>r. case r of
       Inl _ \<Rightarrow> ret ()
     | Inr current \<Rightarrow> if reported_pid current \<noteq> Some pid then ret () else wait_stopped S pid n))"

definition stale_pid :: "json \<Rightarrow> (string, nat) result" where
  "stale_pid reply = ok_or ''stale RepoSync daemon did not report a valid pid''
     (case reported_pid reply of Some n \<Rightarrow> if n < 2 ^ 31 then Some n else None | None \<Rightarrow> None)"

definition own_pid :: "'x env \<Rightarrow> nat" where
  "own_pid E = (if process_id E < 2 ^ 31 then process_id E else 0)"

definition terminate_stale_daemon :: "'x os \<Rightarrow> json \<Rightarrow> (('x, 'z) world_scheme, string, unit) prog" where
  "terminate_stale_daemon S reply =
     andThen (lift (stale_pid reply)) (\<lambda>pid.
     if pid = own_pid (os_env S) then bail ''refusing to terminate the current RepoSync process''
     else
     andThen (terminate S pid) (\<lambda>r. case r of
       KillFailed e \<Rightarrow> bail (''terminate stale RepoSync daemon: '' @ e)
     | _ \<Rightarrow> wait_stopped S pid 50))"

subsection \<open>Supervision\<close>

definition unit_text :: "path \<Rightarrow> string" where
  "unit_text executable = newlines
     [''[Unit]'', ''Description=RepoSync convergence daemon'', ''After=network-online.target'', '''',
      ''[Service]'', ''ExecStart='' @ executable @ '' daemon'', ''Restart=always'', ''RestartSec=5'', '''',
      ''[Install]'', ''WantedBy=default.target'']"

definition systemctl :: "'x env \<Rightarrow> string list \<Rightarrow> run_options \<Rightarrow> (('x, 'z) world_scheme, string, run_result) prog" where
  "systemctl E args opts = run_process E ''systemctl'' (''--user'' # args) opts"

definition systemd_available :: "'x env \<Rightarrow> (('x, 'z) world_scheme, 'e, bool) prog" where
  "systemd_available E = andThen (attempt (systemctl E [''show-environment''] allow_failure_options)) (\<lambda>r.
     ret (case r of Inr res \<Rightarrow> code res = 0 | Inl _ \<Rightarrow> False))"

definition install_unit :: "'x env \<Rightarrow> path \<Rightarrow> path \<Rightarrow> (('x, 'z) world_scheme, string, unit) prog" where
  "install_unit E directory executable =
     (let unit_path = path_join directory ''resync.service''; contents = unit_text executable in
     andThen (attempt (read_file E unit_path)) (\<lambda>r.
     onlyIf (r \<noteq> Inr contents)
       (andThen (io (write_file E unit_path contents 438)) (\<lambda>_.
        andThen (systemctl E [''daemon-reload''] default_options) (\<lambda>_. ret ())))))"

definition exact_daemon_runs :: "'x os \<Rightarrow> path \<Rightarrow> (('x, 'z) world_scheme, 'e, bool) prog" where
  "exact_daemon_runs S executable =
     andThen (attempt (rpc S ping_request None)) (\<lambda>r. case r of
       Inl _ \<Rightarrow> ret False
     | Inr reply \<Rightarrow>
         andThen (attempt (executable_fingerprint (os_env S))) (\<lambda>f. case f of
           Inl _ \<Rightarrow> ret False
         | Inr binary_id \<Rightarrow> daemon_matches_exact_executable S reply binary_id executable))"

definition service_command :: "bool \<Rightarrow> bool \<Rightarrow> bool \<Rightarrow> string list" where
  "service_command restart active exact =
     (if restart \<and> (\<not> active \<or> \<not> exact) then [''restart'', ''resync.service'']
      else if active then [''enable'', ''resync.service'']
      else [''enable'', ''--now'', ''resync.service''])"

definition supervise_with_systemd :: "'x os \<Rightarrow> bool \<Rightarrow> (('x, 'z) world_scheme, string, unit) prog" where
  "supervise_with_systemd S restart =
     (let E = os_env S in
     andThen (lift (ok_or ''HOME is unavailable'' (var E ''HOME''))) (\<lambda>home.
     let directory = path_join home ''.config/systemd/user'' in
     andThen (io (create_dir_all E directory)) (\<lambda>_.
     andThen (lift (ok_or ''current executable is unavailable'' (current_exe E))) (\<lambda>executable.
     andThen (install_unit E directory executable) (\<lambda>_.
     andThen (systemctl E [''is-active'', ''--quiet'', ''resync.service''] allow_failure_options) (\<lambda>res.
     andThen (exact_daemon_runs S executable) (\<lambda>exact.
     andThen (systemctl E (service_command restart (code res = 0) exact) default_options) (\<lambda>_.
     ret ()))))))))"

definition ensure_daemon_supervision :: "'x os \<Rightarrow> bool \<Rightarrow> (('x, 'z) world_scheme, string, string) prog" where
  "ensure_daemon_supervision S restart =
     (if var (os_env S) ''RESYNC_STATE_DIR'' \<noteq> None then ret ''state-dir''
      else
      andThen (systemd_available (os_env S)) (\<lambda>available.
      if available then andThen (supervise_with_systemd S restart) (\<lambda>_. ret ''systemd-user'')
      else ret ''hook-started''))"

subsection \<open>The client\<close>

definition different_binary :: string where
  "different_binary = ''another RepoSync daemon with a different binary is running''"

fun await_daemon :: "'x os \<Rightarrow> string \<Rightarrow> string option \<Rightarrow> nat \<Rightarrow> (('x, 'z) world_scheme, 'e, string option option) prog" where
  "await_daemon S binary_id latest 0 = ret (Some latest)"
| "await_daemon S binary_id latest (Suc n) =
     andThen (sleep S) (\<lambda>_.
     andThen (attempt (rpc S ping_request None)) (\<lambda>r. case r of
       Inr reply \<Rightarrow> if daemon_matches_client reply binary_id then ret None
         else await_daemon S binary_id (Some different_binary) n
     | Inl e \<Rightarrow> await_daemon S binary_id (Some e) n))"

definition open_log :: "'x env \<Rightarrow> path \<Rightarrow> (('x, 'z) world_scheme, io_error, unit) prog" where
  "open_log E p = andThen (path_exists p) (\<lambda>present. if present then ret () else write_file E p [] 438)"

definition start_daemon :: "'x os \<Rightarrow> path \<Rightarrow> (('x, 'z) world_scheme, string, unit) prog" where
  "start_daemon S log_path =
     andThen (ensure_daemon_supervision S True) (\<lambda>supervision.
     onlyIf (supervision \<noteq> ''systemd-user'')
       (andThen (io (open_log (os_env S) log_path)) (\<lambda>_.
        andThen (lift (ok_or ''current executable is unavailable'' (current_exe (os_env S)))) (\<lambda>executable.
        start_detached S executable))))"

definition not_ready :: "string option \<Rightarrow> string \<Rightarrow> string" where
  "not_ready latest log = (let detail = join_with [newline] (List.rev (take 5 (List.rev (str_lines log)))) in
     (case latest of Some e \<Rightarrow> e | None \<Rightarrow> ''RepoSync daemon did not become ready'')
     @ (if detail = [] then [] else ''; daemon log: '' @ detail))"

definition restart_and_ask :: "'x os \<Rightarrow> string \<Rightarrow> json \<Rightarrow> (('x, 'z) world_scheme, string, json) prog" where
  "restart_and_ask S binary_id request =
     (let paths = state_paths_of (os_env S); log_path = path_join (sp_root paths) ''daemon.log'' in
     andThen (io (create_dir_all (os_env S) (sp_root paths))) (\<lambda>_.
     andThen (start_daemon S log_path) (\<lambda>_.
     andThen (await_daemon S binary_id None 150) (\<lambda>failed. case failed of
       None \<Rightarrow> rpc S request None
     | Some latest \<Rightarrow>
         andThen (attempt (read_file (os_env S) log_path)) (\<lambda>r.
         bail (not_ready latest (case r of Inr c \<Rightarrow> c | Inl _ \<Rightarrow> [])))))))"

definition daemon_rpc :: "'x os \<Rightarrow> json \<Rightarrow> (('x, 'z) world_scheme, string, json) prog" where
  "daemon_rpc S request =
     andThen (executable_fingerprint (os_env S)) (\<lambda>binary_id.
     andThen (attempt (rpc S ping_request None)) (\<lambda>r. case r of
       Inr reply \<Rightarrow>
         if daemon_matches_client reply binary_id then rpc S request None
         else andThen (terminate_stale_daemon S reply) (\<lambda>_. restart_and_ask S binary_id request)
     | Inl _ \<Rightarrow> restart_and_ask S binary_id request))"

subsection \<open>Both ends of the protocol agree\<close>

lemma read_response: "parse_json E (response_line E r) = Some (response_value r) \<Longrightarrow> read_reply E (response_line E r) = r"
  by (cases r) (simp_all add: read_reply_def response_value_def jobj_def jget_str_def)

text \<open>C26. A call over the socket returns the value or the error text that the daemon's handler gives
  for that request, when the JSON printer and reader agree on the request and the answer.\<close>

theorem rpc_returns_what_handle_answers:
  assumes served: "serve_line D (request_line E request) st = (Inr (Some reply), st')"
    and env: "dv_env D = E" "os_env S = E"
    and sent: "parse_json E (request_line E request) = Some request"
    and talk: "os_talk S socket (request_line E request) (files s) (ext s) = (Inr reply, fs, x)"
    and printed: "\<And>r. map_sum Fails id r = fst (handle D request st) \<Longrightarrow>
      parse_json E (response_line E r) = Some (response_value r)"
  shows "map_sum Fails id (fst (rpc S request (Some socket) s)) = fst (handle D request st)
    \<and> snd (handle D request st) = st'"
proof -
  obtain r st1 where h: "handle D request st = (r, st1)" by fastforce
  obtain q where q: "map_sum Fails id q = r" and reply: "reply = response_line E q" and st': "st' = st1"
  proof (cases r)
    case (Inl e)
    then obtain m where "e = Fails m" using served h env sent
      by (cases e) (auto simp: serve_line_def run split: if_splits)
    then show ?thesis using that [of "Inl m"] served h env sent Inl
      by (auto simp: serve_line_def run split: if_splits)
  next
    case (Inr v)
    then show ?thesis using that [of "Inr v"] served h env sent
      by (auto simp: serve_line_def run split: if_splits)
  qed
  have "read_reply E reply = q" unfolding reply by (rule read_response, rule printed) (simp add: h q)
  then show ?thesis using talk env h q st' by (simp add: rpc_def exchange_def run)
qed

text \<open>One reply for every request line, in order.\<close>

theorem one_reply_per_request_line:
  assumes "serve_connection D lines s = (Inr (replies, closed), s')"
  shows "length replies \<le> length (filter (\<lambda>l. trim l \<noteq> []) lines)
    \<and> (closed = None \<longrightarrow> length replies = length (filter (\<lambda>l. trim l \<noteq> []) lines)
        \<and> (\<forall>l\<in>set lines. length l \<le> max_line))"
  using assms
proof (induction lines arbitrary: s replies)
  case Nil
  then show ?case by (simp add: run)
next
  case (Cons line rest)
  obtain r s1 where line: "serve_line D line s = (r, s1)" by fastforce
  show ?case
  proof (cases r)
    case (Inl e)
    then show ?thesis using Cons.prems line by (auto simp: run)
  next
    case (Inr reply)
    have reply: "(reply = None \<longleftrightarrow> trim line = []) \<and> length line \<le> max_line"
      using line Inr by (auto simp: serve_line_def run split: if_splits option.splits prod.splits sum.splits stop.splits)
    obtain more where "serve_connection D rest s1 = (Inr (more, closed), s')"
      and "replies = (case reply of None \<Rightarrow> [] | Some l \<Rightarrow> [l]) @ more"
      using Cons.prems line Inr by (auto simp: run split: prod.splits sum.splits)
    then show ?thesis using Cons.IH [of s1 more] reply by (auto split: option.splits)
  qed
qed

subsection \<open>The lock\<close>

definition lock_text :: "'x os \<Rightarrow> string" where
  "lock_text S = show_digits (process_id (os_env S)) @ [newline]"

lemma create_new_ok:
  "create_new E p mode s = (Inr created, s') \<Longrightarrow> created \<longleftrightarrow> fs_get (files s) p = None"
  by (auto simp: create_new_def path_exists_def run split: prod.splits sum.splits if_splits)

lemma probe_lock_acquired:
  assumes "probe_lock S p s = (Inr True, s')"
  shows "fs_get (files s) p = None \<and> fs_get (files s') p = Some (File (lock_text S))"
  using assms
  by (auto simp: probe_lock_def create_new_def path_exists_def write_file_def sync_path_def file_op_def lock_text_def
      run split: prod.splits sum.splits if_splits option.splits node.splits)

lemma lock_attempts_ok:
  "lock_attempts S p n s = (Inr (), s') \<Longrightarrow> fs_get (files s') p = Some (File (lock_text S))"
proof (induction n arbitrary: s)
  case 0
  then show ?case by (simp add: run)
next
  case (Suc n)
  obtain acquired s1 where probe: "probe_lock S p s = (Inr acquired, s1)"
    using Suc.prems by (auto simp: run split: prod.splits sum.splits)
  show ?case
  proof (cases acquired)
    case True
    then have "s1 = s'" using Suc.prems probe by (simp add: run)
    then show ?thesis using probe_lock_acquired [of S p s s1] probe True by simp
  next
    case False
    then show ?thesis using Suc.prems probe Suc.IH by (auto simp: run)
  qed
qed


text \<open>A daemon that has seen a stale lock removes whatever lock is there when it comes to it.\<close>

text \<open>C31. Removing a stale lock file is not atomic: a second daemon that takes the lock between the
  first one's check and its removal loses the file again, and both believe that they hold it.\<close>

theorem two_daemons_take_a_stale_lock:
  assumes stale: "fs_get (files s) p = Some (File c)"
      "\<And>pid fs x. parse_i32 (trim c) = Some pid \<Longrightarrow> \<not> os_alive A pid fs x \<and> \<not> os_alive B pid fs x"
    and faultless: "\<And>ev fs x. io_fault (os_env A) ev fs x = None" "\<And>ev fs x. io_fault (os_env B) ev fs x = None"
  shows "\<exists>s1 s2 s3. probe_lock A p s = (Inr False, s1)
    \<and> lock_attempts B p 2 s1 = (Inr (), s2) \<and> fs_get (files s2) p = Some (File (lock_text B))
    \<and> andThen (ignore (remove_file (os_env A) p)) (\<lambda>_. lock_attempts A p 1) s2 = (Inr (), s3)
    \<and> fs_get (files s3) p = Some (File (lock_text A))"
proof -
  let ?s1 = "s\<lparr>trace := trace s @ [ReadFile p]\<rparr>"
  have probe: "probe_lock S p t = (Inr False, t\<lparr>trace := trace t @ [ReadFile p]\<rparr>)"
    if "\<And>ev fs x. io_fault (os_env S) ev fs x = None" "fs_get (files t) p = Some (File c)"
      "\<And>pid fs x. parse_i32 (trim c) = Some pid \<Longrightarrow> \<not> os_alive S pid fs x"
    for S :: "'a os" and t :: "('a, 'b) world_scheme"
    using that
    by (auto simp add: probe_lock_def create_new_def path_exists_def recorded_pid_def read_file_def file_op_def run split: option.split)
  have take: "\<exists>u'. andThen (ignore (remove_file (os_env S) p)) (\<lambda>_. lock_attempts S p 1) u = (Inr (), u')
      \<and> fs_get (files u') p = Some (File (lock_text S))"
    if "\<And>ev fs x. io_fault (os_env S) ev fs x = None" "fs_get (files u) p = Some (File d)"
    for S :: "'a os" and u :: "('a, 'b) world_scheme" and d
    using that
    by (simp add: remove_file_def file_op_def run probe_lock_def create_new_def path_exists_def write_file_def
        sync_path_def lock_text_def)
  have "\<exists>s2. lock_attempts B p 2 ?s1 = (Inr (), s2) \<and> fs_get (files s2) p = Some (File (lock_text B))"
    using take [of B "?s1\<lparr>trace := trace ?s1 @ [ReadFile p]\<rparr>" c] probe [of B ?s1] faultless(2) stale
    by (simp add: numeral_2_eq_2 run_andThen)
  then obtain s2 where "lock_attempts B p 2 ?s1 = (Inr (), s2)" "fs_get (files s2) p = Some (File (lock_text B))"
    by blast
  moreover obtain s3 where "andThen (ignore (remove_file (os_env A) p)) (\<lambda>_. lock_attempts A p 1) s2 = (Inr (), s3)"
    "fs_get (files s3) p = Some (File (lock_text A))"
    using take [of A s2 "lock_text B"] faultless(1) calculation(2) by blast
  ultimately show ?thesis using probe [of A s] faultless(1) stale by blast
qed

subsection \<open>Answers come from the client's own build\<close>

lemma await_daemon_ready:
  fixes s s' :: "('x, 'z) world_scheme"
  assumes "await_daemon S binary_id latest n s = (Inr None, s')"
  shows "\<exists>reply (s1 :: ('x, 'z) world_scheme). rpc S ping_request None s1 = (Inr reply, s') \<and> daemon_matches_client reply binary_id"
  using assms
proof (induction n arbitrary: latest s)
  case 0
  then show ?case by (simp add: run)
next
  case (Suc n)
  then show ?case by (auto simp: run split: prod.splits sum.splits if_splits)
qed

text \<open>C28. The client takes an answer to a request only after a ping was answered by a daemon whose
  binary is the client's own.\<close>

theorem answers_come_from_own_build:
  fixes s s' :: "('x, 'z) world_scheme"
  assumes ran: "daemon_rpc S request s = (Inr v, s')"
  shows "\<exists>binary_id reply. \<exists>s1 s2 :: ('x, 'z) world_scheme.
    fst (executable_fingerprint (os_env S) s) = Inr binary_id
    \<and> rpc S ping_request None s1 = (Inr reply, s2) \<and> daemon_matches_client reply binary_id
    \<and> rpc S request None s2 = (Inr v, s')"
proof -
  obtain binary_id t where id: "executable_fingerprint (os_env S) s = (Inr binary_id, t)"
    using ran by (auto simp: daemon_rpc_def run split: prod.splits sum.splits)
  have restarted: ?thesis if "restart_and_ask S binary_id request u = (Inr v, s')" for u
    using that id await_daemon_ready [of S binary_id None 150]
    by (fastforce simp: restart_and_ask_def Let_def run split: prod.splits sum.splits option.splits)
  obtain r u where ping: "(rpc S ping_request None :: (('x, 'z) world_scheme, string, json) prog) t = (r, u)" by fastforce
  show ?thesis
  proof (cases r)
    case (Inl e)
    then show ?thesis using ran id ping restarted by (auto simp: daemon_rpc_def run)
  next
    case (Inr reply)
    show ?thesis
    proof (cases "daemon_matches_client reply binary_id")
      case True
      then have "rpc S request None u = (Inr v, s')" using ran id ping Inr by (simp add: daemon_rpc_def run)
      then show ?thesis using id ping Inr True by auto
    next
      case False
      then show ?thesis using ran id ping Inr restarted
        by (auto simp: daemon_rpc_def run split: prod.splits sum.splits)
    qed
  qed
qed

subsection \<open>How often a request is sent\<close>

text \<open>\<open>at_most n P m\<close>: a run of \<open>m\<close> adds at most \<open>n\<close> events that satisfy \<open>P\<close>.\<close>

definition at_most :: "nat \<Rightarrow> (event \<Rightarrow> bool) \<Rightarrow> (('x, 'z) world_scheme, 'e, 'a) prog \<Rightarrow> bool" where
  "at_most n P m \<longleftrightarrow> logs m (\<lambda>_ es. length (filter P es) \<le> n)"

lemma at_most_new_events: "at_most n P m \<Longrightarrow> length (filter P (new_events m s)) \<le> n"
  unfolding at_most_def by (rule logsD)

lemma at_most_mono: "at_most i P m \<Longrightarrow> i \<le> j \<Longrightarrow> at_most j P m"
  unfolding at_most_def by (erule logs_weaken) simp

lemma at_most_emits: "emits (\<lambda>ev. \<not> P ev) m \<Longrightarrow> at_most 0 P m"
  unfolding at_most_def by (rule logs_weaken [OF logs_emits]) (auto simp: list_all_iff)

lemma at_most_andThen:
  "at_most i P m \<Longrightarrow> (\<And>a. at_most j P (f a)) \<Longrightarrow> at_most (i + j) P (andThen m f)"
  unfolding at_most_def
  by (rule logs_andThen [where R = "\<lambda>_ es. length (filter P es) \<le> i" and S = "\<lambda>_ _ es. length (filter P es) \<le> j"]) auto

lemma at_most_attempt: "at_most n P m \<Longrightarrow> at_most n P (attempt m)"
  by (simp add: at_most_def logs_def attempt_def split: prod.splits) (metis snd_conv surj_pair)

lemma at_most_mapErr: "at_most n P m \<Longrightarrow> at_most n P (mapErr g m)"
  by (auto simp add: at_most_def logs_def mapErr_def split: prod.splits sum.splits) (metis snd_conv surj_pair)+

lemma emits_exchange [effects]: "(\<And>l. P (Message p line)) \<Longrightarrow> emits P (exchange S p line)"
  by (rule emitsI) (auto simp: exchange_def split: prod.splits)

lemma emits_rpc [effects]:
  "(\<And>p. P (Message p (request_line (os_env S) request))) \<Longrightarrow> emits P (rpc S request socket)"
  by (auto simp: rpc_def Let_def intro!: effects)

lemma emits_sleep [effects]: "emits P (sleep S)"
  by (rule emits_silent) (auto simp: sleep_def split: prod.splits)

lemma emits_terminate [effects]: "P (Signal pid) \<Longrightarrow> emits P (terminate S pid)"
  by (rule emitsI) (auto simp: terminate_def split: prod.splits)

lemma emits_start_detached [effects]: "P (Spawn executable [''daemon''] default_options) \<Longrightarrow> emits P (start_detached S executable)"
  by (rule emitsI) (auto simp: start_detached_def split: prod.splits)

lemma at_most_exchange: "at_most 1 P (exchange S p line)"
  unfolding at_most_def logs_def by (auto simp: exchange_def split: prod.splits)

lemma at_most_rpc: "at_most 1 P (rpc S request socket)"
  unfolding rpc_def Let_def
  by (rule at_most_mono [OF at_most_andThen [OF at_most_mapErr [OF at_most_exchange] at_most_emits]]) (auto intro: effects)

definition quiet :: "event \<Rightarrow> bool" where
  "quiet ev \<longleftrightarrow> (\<forall>p l. ev \<noteq> Message p l) \<and> (\<forall>pid. ev \<noteq> Signal pid)"

lemma quiet_events [simp]:
  "quiet (Spawn a b c)" "quiet (WriteFile p x m)" "quiet (MakeDirs p)" "quiet (ReadFile p)"
  "\<not> quiet (Message p l)" "\<not> quiet (Signal pid)"
  by (simp_all add: quiet_def)

text \<open>What happens besides pings, the request and the signal.\<close>

definition besides :: "'x env \<Rightarrow> event \<Rightarrow> bool" where
  "besides E ev \<longleftrightarrow> quiet ev \<or> (\<exists>p. ev = Message p (request_line E ping_request))"

lemma besides_events [simp]:
  "besides E (Spawn a b c)" "besides E (WriteFile p x m)" "besides E (MakeDirs p)" "besides E (ReadFile p)"
  "besides E (Message p (request_line E ping_request))" "\<not> besides E (Signal pid)"
  by (simp_all add: besides_def)

lemma emits_fingerprint [effects]: "(\<And>p. P (ReadFile p)) \<Longrightarrow> emits P (executable_fingerprint E)"
  by (auto simp: executable_fingerprint_def intro!: effects)

lemma emits_wait_stopped: "emits (besides (os_env S)) (wait_stopped S pid n)"
  by (induction n) (auto intro!: effects split: sum.splits)

lemma emits_await_daemon: "emits (besides (os_env S)) (await_daemon S binary_id latest n)"
  by (induction n arbitrary: latest) (auto intro!: effects split: sum.splits)

lemmas supervision_defs = start_daemon_def ensure_daemon_supervision_def supervise_with_systemd_def Let_def
  systemctl_def systemd_available_def install_unit_def exact_daemon_runs_def daemon_matches_exact_executable_def
  resolved_def open_log_def

lemma emits_start_daemon: "emits (besides (os_env S)) (start_daemon S log)"
  by (auto simp: supervision_defs intro!: effects split: sum.splits option.splits)

lemma emits_restart:
  "emits (\<lambda>ev. besides (os_env S) ev \<or> (\<exists>p. ev = Message p (request_line (os_env S) request)))
     (restart_and_ask S binary_id request)"
  by (auto simp: restart_and_ask_def Let_def intro!: effects emits_mono [OF emits_start_daemon] emits_mono [OF emits_await_daemon]
      split: option.splits sum.splits)

lemma emits_terminate_stale:
  "emits (\<lambda>ev. besides (os_env S) ev \<or> (\<exists>pid. ev = Signal pid \<and> pid \<noteq> process_id (os_env S))) (terminate_stale_daemon S reply)"
proof -
  have "returns (lift (stale_pid reply) :: (('a, 'b) world_scheme, string, nat) prog) (\<lambda>pid. pid < 2 ^ 31)"
    by (rule returns_lift) (auto simp: stale_pid_def ok_or_def split: option.splits if_splits)
  then show ?thesis unfolding terminate_stale_daemon_def
    by (rule emits_andThen_returns [rotated]) (auto simp: own_pid_def
        intro!: effects emits_mono [OF emits_wait_stopped] split: kill_result.splits if_splits)
qed

text \<open>A request sends at most one signal.\<close>

theorem daemon_rpc_signals:
  assumes "Signal pid \<in> set (new_events (daemon_rpc S request) s)"
  shows "pid \<noteq> process_id (os_env S)"
proof -
  have "emits (\<lambda>ev. ev \<noteq> Signal (process_id (os_env S))) (daemon_rpc S request)"
    by (auto simp: daemon_rpc_def intro!: effects emits_mono [OF emits_restart] emits_mono [OF emits_terminate_stale]
        split: sum.splits)
  then show ?thesis using assms emits_new_events by blast
qed

definition carries :: "'x env \<Rightarrow> json \<Rightarrow> event \<Rightarrow> bool" where
  "carries E request ev \<longleftrightarrow> (\<exists>p. ev = Message p (request_line E request))"

definition is_message :: "event \<Rightarrow> bool" where
  "is_message ev \<longleftrightarrow> (\<exists>p l. ev = Message p l)"

lemma at_most_ret: "at_most n P (ret a)"
  by (auto intro!: at_most_mono [OF at_most_emits, of _ _ n])

lemma at_most_bail: "at_most n P (bail e)"
  by (auto intro!: at_most_mono [OF at_most_emits, of _ _ n])

lemma at_most_sleep: "at_most 0 P (sleep S)"
  by (rule at_most_emits) (rule emits_sleep)

lemma at_most_round:
  assumes "\<And>r. at_most n P (f r)"
  shows "at_most (Suc n) P (andThen (sleep S) (\<lambda>_. andThen (attempt (rpc S request socket)) f))"
proof -
  have "at_most (1 + n) P (andThen (attempt (rpc S request socket)) f)"
    by (rule at_most_andThen [OF at_most_attempt [OF at_most_rpc] assms])
  then show ?thesis using at_most_andThen [OF at_most_sleep, of "Suc n" P "\<lambda>_. andThen (attempt (rpc S request socket)) f"] by simp
qed

lemma at_most_wait_stopped: "at_most n P (wait_stopped S pid n)"
proof (induction n)
  case 0
  then show ?case by (simp add: at_most_bail)
next
  case (Suc n)
  then show ?case unfolding wait_stopped.simps
    by (intro at_most_round) (auto intro: at_most_ret split: sum.split)
qed

lemma at_most_await_daemon: "at_most n P (await_daemon S binary_id latest n)"
proof (induction n arbitrary: latest)
  case 0
  then show ?case by (simp add: at_most_ret)
next
  case (Suc n)
  then show ?case unfolding await_daemon.simps
    by (intro at_most_round) (auto intro: at_most_ret split: sum.split)
qed

lemma at_most_case_sum:
  "(\<And>e. at_most n P (f e)) \<Longrightarrow> (\<And>a. at_most n P (g a)) \<Longrightarrow> at_most n P (case r of Inl e \<Rightarrow> f e | Inr a \<Rightarrow> g a)"
  by (cases r) simp_all

lemma at_most_if: "(b \<Longrightarrow> at_most n P m) \<Longrightarrow> (\<not> b \<Longrightarrow> at_most n P m') \<Longrightarrow> at_most n P (if b then m else m')"
  by simp

text \<open>Only the last rpc of a restart can carry the request; the rest is pings.\<close>

lemma at_most_restart:
  fixes S :: "'x os"
  assumes "at_most i P (start_daemon S (path_join (sp_root (state_paths_of (os_env S))) ''daemon.log'') ::
      (('x, 'z) world_scheme, string, unit) prog)"
    and "at_most j P (await_daemon S binary_id None 150 :: (('x, 'z) world_scheme, string, string option option) prog)"
    and "\<And>d. \<not> P (MakeDirs d)" "\<And>p. \<not> P (ReadFile p)"
  shows "at_most (i + (j + 1)) P (restart_and_ask S binary_id request :: (('x, 'z) world_scheme, string, json) prog)"
proof -
  have "at_most 0 P (attempt (read_file (os_env S) p))" for p
    by (intro at_most_attempt at_most_emits) (auto simp: assms intro!: effects)
  then have "at_most (0 + 1) P (andThen (attempt (read_file (os_env S) p)) (\<lambda>r. bail (f r)))" for p and f
    by (rule at_most_andThen) (rule at_most_bail)
  then have give_up: "at_most 1 P (andThen (attempt (read_file (os_env S) p)) (\<lambda>r. bail (f r)))" for p and f
    by simp
  have "at_most (0 + (i + (j + 1))) P (restart_and_ask S binary_id request :: (('x, 'z) world_scheme, string, json) prog)"
    unfolding restart_and_ask_def Let_def
    by (intro at_most_andThen at_most_mapErr at_most_emits assms(1,2))
      (auto intro!: at_most_rpc give_up effects simp: assms simp del: One_nat_def split: option.split)
  then show ?thesis by simp
qed

lemma silent [simp]:
  "\<not> is_message (Spawn a b c)" "\<not> is_message (ReadFile p)" "\<not> is_message (MakeDirs p)"
  "\<not> is_message (WriteFile p x m)" "\<not> is_message (Signal k)"
  by (simp_all add: is_message_def)

lemma at_most_start_daemon: "at_most 1 is_message (start_daemon S log)"
proof -
  have exact: "at_most (1 + 0) is_message (exact_daemon_runs S e)" for S :: "'x os" and e
    unfolding exact_daemon_runs_def
    by (intro at_most_andThen at_most_attempt at_most_rpc at_most_emits)
      (auto simp: daemon_matches_exact_executable_def resolved_def intro!: effects split: sum.splits option.splits)
  have "at_most (0 + (0 + (0 + (0 + (0 + ((1 + 0) + (0 + 0))))))) is_message (supervise_with_systemd S restart)"
    for S :: "'x os" and restart
    unfolding supervise_with_systemd_def Let_def
    by (intro at_most_andThen exact at_most_emits) (auto simp: systemctl_def install_unit_def Let_def intro!: effects)
  then have "at_most (0 + (1 + 0)) is_message (ensure_daemon_supervision S restart)" for S :: "'x os" and restart
    unfolding ensure_daemon_supervision_def
    by (intro at_most_if at_most_andThen at_most_ret)
      (auto simp: systemd_available_def systemctl_def intro!: at_most_emits effects at_most_andThen [of 1 _ _ 0, simplified] at_most_ret)
  then have "at_most ((0 + (1 + 0)) + 0) is_message (start_daemon S log)" for S :: "'x os"
    unfolding start_daemon_def
    by (intro at_most_andThen at_most_emits) (auto simp: open_log_def intro!: effects)
  then show ?thesis by simp
qed


subsection \<open>An isolated instance leaves the user's service alone\<close>

lemma andThen_lift_error: "andThen (lift (Inl e)) f = bail e"
  by (auto simp: andThen_def lift_def bail_def)

lemma emits_start_isolated:
  assumes "var (os_env S) ''RESYNC_STATE_DIR'' \<noteq> None" and "current_exe (os_env S) \<noteq> Some ''systemctl''"
  shows "emits (\<lambda>ev. \<forall>args opts. ev \<noteq> Spawn ''systemctl'' args opts) (start_daemon S log)"
  using assms by (auto simp: andThen_lift_error start_daemon_def ensure_daemon_supervision_def open_log_def ok_or_def
      intro!: effects split: option.splits)

lemma emits_rounds_no_spawn:
  "emits (\<lambda>ev. \<forall>args opts. ev \<noteq> Spawn ''systemctl'' args opts) (wait_stopped S pid n)"
  "emits (\<lambda>ev. \<forall>args opts. ev \<noteq> Spawn ''systemctl'' args opts) (await_daemon S binary_id latest m)"
proof -
  show "emits (\<lambda>ev. \<forall>args opts. ev \<noteq> Spawn ''systemctl'' args opts) (wait_stopped S pid n)"
    by (induction n) (auto intro!: effects split: sum.splits)
  show "emits (\<lambda>ev. \<forall>args opts. ev \<noteq> Spawn ''systemctl'' args opts) (await_daemon S binary_id latest m)"
    by (induction m arbitrary: latest) (auto intro!: effects split: sum.splits)
qed

text \<open>With a state directory of its own the client leaves systemd alone.\<close>

theorem isolated_state_leaves_systemd_alone:
  assumes "var (os_env S) ''RESYNC_STATE_DIR'' \<noteq> None" and "current_exe (os_env S) \<noteq> Some ''systemctl''"
  shows "Spawn ''systemctl'' args opts \<notin> set (new_events (daemon_rpc S request) s)"
proof -
  have "emits (\<lambda>ev. \<forall>args opts. ev \<noteq> Spawn ''systemctl'' args opts) (daemon_rpc S request)"
    by (auto simp: daemon_rpc_def restart_and_ask_def terminate_stale_daemon_def Let_def
        intro!: effects emits_rounds_no_spawn emits_start_isolated [OF assms] split: sum.splits option.splits kill_result.splits)
  then show ?thesis using emits_new_events by fastforce
qed

end
