(* ===== verification/Shell_Commands.thy ===== *)
theory Shell_Commands
  imports Hook_Dispatcher
begin

section \<open>Shell commands in hook input\<close>

text \<open>
  The part of \<open>src/src/cli.rs\<close> that reads the command of a Bash tool call: the splitting into
  segments and words with quotes and backslashes, the recognition of Git and of
  \<open>resync project sync\<close>, and the names of hook files. The splitter undoes \<open>shell_quote\<close> of
  \<open>src/src/hook_dispatcher.rs\<close>.
\<close>

subsection \<open>Segments and words\<close>

text \<open>The variables of \<open>shell_command_segments\<close>. A character is its UTF-8 bytes.\<close>

record shell_state =
  sh_segments :: "string list list"
  sh_segment :: "string list"
  sh_word :: string
  sh_quote :: "string option"
  sh_escaped :: bool

definition shell_start :: shell_state where
  "shell_start = \<lparr>sh_segments = [], sh_segment = [], sh_word = [], sh_quote = None, sh_escaped = False\<rparr>"

definition flush_word :: "shell_state \<Rightarrow> shell_state" where
  "flush_word st = (if sh_word st = [] then st
     else st\<lparr>sh_segment := sh_segment st @ [sh_word st], sh_word := []\<rparr>)"

definition flush_segment :: "shell_state \<Rightarrow> shell_state" where
  "flush_segment st = (if sh_segment st = [] then st
     else st\<lparr>sh_segments := sh_segments st @ [sh_segment st], sh_segment := []\<rparr>)"

definition push_char :: "string \<Rightarrow> shell_state \<Rightarrow> shell_state" where
  "push_char g st = st\<lparr>sh_word := sh_word st @ g\<rparr>"

definition separators :: "string list" where
  "separators = ['';'', ''|'', ''&'', ''('', '')'']"

definition shell_step :: "shell_state \<Rightarrow> string \<Rightarrow> shell_state" where
  "shell_step st g =
     (if sh_escaped st then (push_char g st)\<lparr>sh_escaped := False\<rparr>
      else case sh_quote st of
        Some q \<Rightarrow>
          if q = [quote] \<and> g = [quote] then st\<lparr>sh_quote := None\<rparr>
          else if q = [double_quote] \<and> g = [double_quote] then st\<lparr>sh_quote := None\<rparr>
          else if q = [double_quote] \<and> g = [backslash] then st\<lparr>sh_escaped := True\<rparr>
          else push_char g st
      | None \<Rightarrow>
          if g = [backslash] then st\<lparr>sh_escaped := True\<rparr>
          else if g = [quote] \<or> g = [double_quote] then st\<lparr>sh_quote := Some g\<rparr>
          else if ws_char g then flush_word st
          else if g \<in> set separators then flush_segment (flush_word st)
          else push_char g st)"

definition shell_finish :: "shell_state \<Rightarrow> string list list" where
  "shell_finish st = sh_segments (flush_segment (flush_word
     (if sh_escaped st then push_char [backslash] st else st)))"

definition shell_command_segments :: "string \<Rightarrow> string list list" where
  "shell_command_segments command = shell_finish (foldl shell_step shell_start (utf8_chars command))"

subsection \<open>Recognising commands\<close>

definition hook_command :: "json \<Rightarrow> string option" where
  "hook_command input =
     (if jget_str ''tool_name'' input = Some ''Bash''
      then Option.bind (jget ''tool_input'' input) (jget_str ''command'') else None)"

definition command_invokes_git :: "string \<Rightarrow> bool" where
  "command_invokes_git command \<longleftrightarrow>
     (\<exists>w\<in>set (split_where (\<lambda>g. ws_char g \<or> g \<in> set separators) command).
        let v = trim_matches [quote, double_quote] w in v = ''git'' \<or> ends_with v ''/git'')"

definition is_sync_segment :: "string list \<Rightarrow> bool" where
  "is_sync_segment ws = (case ws of
       program # a # b # _ \<Rightarrow> file_name program = Some ''resync'' \<and> a = ''project'' \<and> b = ''sync''
     | _ \<Rightarrow> False)"

definition is_project_sync_command :: "json \<Rightarrow> bool" where
  "is_project_sync_command input = (case hook_command input of
       None \<Rightarrow> False
     | Some command \<Rightarrow> \<exists>ws\<in>set (shell_command_segments command). is_sync_segment ws)"

definition safe_hook_char :: "string \<Rightarrow> string" where
  "safe_hook_char g = (if (\<exists>c. g = [c] \<and> (is_ascii_alphanumeric c \<or> c \<in> {CHR ''.'', CHR ''_'', CHR ''-''}))
     then g else ''_'')"

definition safe_hook_part :: "string option \<Rightarrow> string" where
  "safe_hook_part v = concat (take 160 (map safe_hook_char (utf8_chars (case v of None \<Rightarrow> ''unknown'' | Some t \<Rightarrow> t))))"

subsection \<open>Text as Rust has it\<close>

text \<open>Valid UTF-8, as far as the characters' first bytes go: no text starts inside a character, and an
  ASCII character is one byte.\<close>

definition char_group :: "string \<Rightarrow> bool" where
  "char_group g \<longleftrightarrow> g \<noteq> [] \<and> \<not> continuation (hd g) \<and> (byte_of (hd g) < 128 \<longrightarrow> tl g = [])
     \<and> (\<forall>c\<in>set (tl g). continuation c)"

definition rust_text :: "string \<Rightarrow> bool" where
  "rust_text s \<longleftrightarrow> (\<forall>g\<in>set (utf8_chars s). char_group g)"

lemma utf8_chars_concat:
  assumes "\<forall>g\<in>set gs. char_group g"
  shows "utf8_chars (concat gs) = gs"
  using assms
proof (induction gs)
  case Nil
  then show ?case by simp
next
  case (Cons g gs)
  obtain c cs where g: "g = c # cs" and cs: "\<forall>d\<in>set cs. continuation d"
    using Cons.prems by (cases g) (auto simp: char_group_def)
  have "concat gs = [] \<or> \<not> continuation (hd (concat gs))"
    using Cons.prems by (cases gs) (auto simp: char_group_def)
  moreover have "takeWhile continuation (cs @ r) = cs \<and> dropWhile continuation (cs @ r) = r"
    if "r = [] \<or> \<not> continuation (hd r)" for r
    using that cs by (cases r) auto
  ultimately show ?case using Cons g by simp
qed

subsection \<open>The splitter undoes the quoting\<close>

definition quoted_char :: "string \<Rightarrow> string list" where
  "quoted_char g = (if g = [quote] then [[quote], [backslash], [quote], [quote]] else [g])"

definition quoted_chars :: "string \<Rightarrow> string list" where
  "quoted_chars w = [quote] # concat (map quoted_char (utf8_chars w)) @ [[quote]]"

lemma str_replace_char:
  "str_replace [d] r s = concat (map (\<lambda>c. if c = d then r else [c]) s)"
proof (induction s)
  case Nil
  then show ?case by (subst str_replace.simps) simp
next
  case (Cons c s)
  then show ?case by (subst str_replace.simps) auto
qed

lemma ascii_bytes: "byte_of quote = 39" "byte_of backslash = 92" "byte_of double_quote = 34"
  by (simp_all add: byte_of_def quote_def backslash_def double_quote_def)

lemma replace_in_char:
  assumes "char_group g"
  shows "concat (map (\<lambda>c. if c = quote then [quote, backslash, quote, quote] else [c]) g) = concat (quoted_char g)"
proof (cases "quote \<in> set g")
  case True
  then have "g = [quote]"
    using assms by (cases g) (auto simp: char_group_def continuation_def ascii_bytes)
  then show ?thesis by (simp add: quoted_char_def)
next
  case False
  then have "concat (map (\<lambda>c. if c = quote then [quote, backslash, quote, quote] else [c]) g) = g"
    by (induction g) auto
  then show ?thesis using False by (auto simp: quoted_char_def)
qed

lemma concat_map_groups:
  "concat (map f (concat gs)) = concat (map (\<lambda>g. concat (map f g)) gs)"
  by (induction gs) simp_all

lemma concat_map_concat: "concat (map (\<lambda>g. concat (f g)) gs) = concat (concat (map f gs))"
  by (induction gs) simp_all

lemma shell_quote_chars:
  assumes "rust_text w"
  shows "shell_quote w = concat (quoted_chars w)"
proof -
  let ?f = "\<lambda>c. if c = quote then [quote, backslash, quote, quote] else [c]"
  have "concat (map ?f w) = concat (map (\<lambda>g. concat (map ?f g)) (utf8_chars w))"
    using concat_map_groups [of ?f "utf8_chars w"] by simp
  also have "\<dots> = concat (map (\<lambda>g. concat (quoted_char g)) (utf8_chars w))"
    using assms by (simp add: rust_text_def replace_in_char cong: map_cong)
  also have "\<dots> = concat (concat (map quoted_char (utf8_chars w)))"
    by (simp add: concat_map_concat)
  finally show ?thesis by (simp add: shell_quote_def str_replace_char quoted_chars_def)
qed

lemma group_ascii: "byte_of c < 128 \<Longrightarrow> char_group [c]"
  by (simp add: char_group_def continuation_def)

lemma groups_quoted: "rust_text w \<Longrightarrow> g \<in> set (quoted_chars w) \<Longrightarrow> char_group g"
  by (auto simp: quoted_chars_def quoted_char_def rust_text_def ascii_bytes intro!: group_ascii split: if_splits)

text \<open>Inside single quotes every character is taken as it is.\<close>

lemma step_quoted_char:
  assumes "sh_quote st = Some [quote]" and "\<not> sh_escaped st"
  shows "foldl shell_step st (quoted_char g) = push_char g st"
  using assms by (auto simp: quoted_char_def shell_step_def push_char_def ascii_bytes)
    (simp_all add: quote_def backslash_def double_quote_def)

lemma steps_quoted_chars:
  assumes "sh_quote st = Some [quote]" and "\<not> sh_escaped st"
  shows "foldl shell_step st (concat (map quoted_char gs)) = push_char (concat gs) st"
  using assms
proof (induction gs arbitrary: st)
  case Nil
  then show ?case by (simp add: push_char_def)
next
  case (Cons g gs)
  have "sh_quote (push_char g st) = Some [quote]" "\<not> sh_escaped (push_char g st)"
    using Cons.prems by (simp_all add: push_char_def)
  then show ?case
    using Cons by (simp add: step_quoted_char) (simp add: push_char_def)
qed

lemma steps_quoted_word:
  assumes "sh_quote st = None" and "\<not> sh_escaped st"
  shows "foldl shell_step st (quoted_chars w) = push_char w st"
proof -
  have open_quote: "shell_step st [quote] = st\<lparr>sh_quote := Some [quote]\<rparr>"
    using assms by (simp add: shell_step_def) (simp add: quote_def backslash_def)
  have close_quote: "shell_step (push_char w (st\<lparr>sh_quote := Some [quote]\<rparr>)) [quote] = push_char w st"
    using assms by (simp add: shell_step_def push_char_def)
  show ?thesis
    using assms steps_quoted_chars [of "st\<lparr>sh_quote := Some [quote]\<rparr>" "utf8_chars w"]
    by (simp add: quoted_chars_def open_quote close_quote)
qed

lemma steps_blank: "sh_quote st = None \<Longrightarrow> \<not> sh_escaped st \<Longrightarrow> shell_step st '' '' = flush_word st"
  by (simp add: shell_step_def ws_char_def code_point_def lead_bits_def byte_of_def is_whitespace_def
      quote_def double_quote_def backslash_def)

definition joined_chars :: "string list \<Rightarrow> string list" where
  "joined_chars ws = concat (map (\<lambda>w. '' '' # quoted_chars w) ws)"

lemma steps_joined:
  assumes "sh_quote st = None" and "\<not> sh_escaped st" and "sh_word st \<noteq> []" and "\<forall>w\<in>set ws. w \<noteq> []"
  shows "shell_finish (foldl shell_step st (joined_chars ws))
    = sh_segments st @ [sh_segment st @ [sh_word st] @ ws]"
  using assms
proof (induction ws arbitrary: st)
  case Nil
  then show ?case by (simp add: joined_chars_def shell_finish_def flush_word_def flush_segment_def)
next
  case (Cons w ws)
  let ?st = "push_char w (flush_word st)"
  have st: "sh_quote ?st = None" "\<not> sh_escaped ?st" "sh_word ?st = w"
    "sh_segment ?st = sh_segment st @ [sh_word st]" "sh_segments ?st = sh_segments st"
    using Cons.prems by (simp_all add: push_char_def flush_word_def)
  have "foldl shell_step st (joined_chars (w # ws)) = foldl shell_step ?st (joined_chars ws)"
    using Cons.prems by (simp add: joined_chars_def steps_blank steps_quoted_word flush_word_def)
  then show ?case using Cons.IH [of ?st] Cons.prems st by simp
qed

lemma join_quoted:
  "join_with '' '' (map shell_quote (w # ws)) = shell_quote w @ concat (map (\<lambda>v. '' '' @ shell_quote v) ws)"
  by (induction ws arbitrary: w) simp_all

text \<open>Splitting the line that joins the shell quotings of any nonempty words gives these words
  back as one segment, whatever quotes, blanks, separators or backslashes they contain.\<close>

theorem segments_of_quoted_words:
  assumes "ws \<noteq> []" and "\<forall>w\<in>set ws. w \<noteq> [] \<and> rust_text w"
  shows "shell_command_segments (join_with '' '' (map shell_quote ws)) = [ws]"
proof -
  obtain w vs where ws: "ws = w # vs" using assms(1) by (cases ws) auto
  have "join_with '' '' (map shell_quote ws) = concat (quoted_chars w @ joined_chars vs)"
    using assms(2) unfolding ws join_quoted joined_chars_def
    by (induction vs) (auto simp: shell_quote_chars)
  moreover have "\<forall>g\<in>set (quoted_chars w @ joined_chars vs). char_group g"
    using assms(2) by (auto simp: ws joined_chars_def byte_of_def intro!: group_ascii dest: groups_quoted)
  ultimately have "utf8_chars (join_with '' '' (map shell_quote ws)) = quoted_chars w @ joined_chars vs"
    using utf8_chars_concat [of "quoted_chars w @ joined_chars vs"] by simp
  moreover have "sh_quote (push_char w shell_start) = None" "\<not> sh_escaped (push_char w shell_start)"
    "sh_word (push_char w shell_start) = w" "sh_segments (push_char w shell_start) = []"
    "sh_segment (push_char w shell_start) = []"
    by (simp_all add: push_char_def shell_start_def)
  ultimately show ?thesis
    using assms(2) steps_joined [of "push_char w shell_start" vs]
    by (simp add: shell_command_segments_def ws steps_quoted_word shell_start_def)
qed

theorem segments_of_quoted_words_witness:
  "shell_command_segments (join_with '' '' (map shell_quote [''/opt/my tools/resync'', ''project'', ''sync'']))
     = [[''/opt/my tools/resync'', ''project'', ''sync'']]"
proof -
  have "\<forall>w\<in>set [''/opt/my tools/resync'', ''project'', ''sync'']. w \<noteq> [] \<and> rust_text w"
    by (simp add: rust_text_def char_group_def continuation_def byte_of_def)
  from segments_of_quoted_words [OF _ this] show ?thesis by simp
qed

end
