(* ===== verification/Workspace.thy ===== *)
theory Workspace
  imports Hook_Merging
begin

section \<open>Workspaces of several projects\<close>

text \<open>
  \<open>src/src/workspace.rs\<close>: a manifest \<open>.resync-workspace.toml\<close> names checkouts below its
  directory; \<open>load_workspace\<close> resolves them against the catalog, \<open>install_hooks\<close> installs one
  handler for all of them. The TOML reader and symbolic links are parameters.
\<close>

record workspace_entry =
  we_path :: path
  we_project_id :: "string option"

record workspace_document =
  wd_version :: nat
  wd_project :: "workspace_entry list"

record workspace_project =
  wp_project_id :: string
  wp_local_path :: path

record workspace =
  ws_root :: path
  ws_manifest_path :: path
  ws_projects :: "workspace_project list"

definition manifest_name :: string where
  "manifest_name = ''.resync-workspace.toml''"

subsection \<open>Loading\<close>

fun resolve_projects :: "'x env \<Rightarrow> local_project list \<Rightarrow> (('x, 'z) world_scheme, string, (path \<times> local_project) list) prog" where
  "resolve_projects E [] = ret []"
| "resolve_projects E (p # ps) =
     andThen (attempt (canonicalize E (lp_local_path p))) (\<lambda>r. case r of
       Inr q \<Rightarrow> andThen (resolve_projects E ps) (\<lambda>rest. ret ((q, p) # rest))
     | Inl NotFound \<Rightarrow> resolve_projects E ps
     | Inl e \<Rightarrow> bail (''resolve subscribed project '' @ lp_local_path p @ '': '' @ io_message e))"

definition configured_project :: "'x env \<Rightarrow> path \<Rightarrow> (path \<times> local_project) list \<Rightarrow> workspace_entry \<Rightarrow>
    (('x, 'z) world_scheme, string, workspace_project) prog" where
  "configured_project E root subscribed entry =
     andThen (lift (ensure (\<not> is_absolute (we_path entry))
       (''workspace project paths must be relative: '' @ we_path entry))) (\<lambda>_.
     andThen (io (canonicalize E (path_join root (we_path entry)))) (\<lambda>local_path.
     andThen (lift (ensure (\<not> same_path local_path root \<and> path_starts_with local_path root)
       (''workspace project path escapes the workspace root: '' @ we_path entry))) (\<lambda>_.
     andThen (lift (ok_or (''workspace project '' @ we_path entry @ '' is not a locally subscribed RepoSync checkout'')
       (find (\<lambda>(q, p). same_path q local_path) subscribed))) (\<lambda>(_, project).
     andThen (lift (ensure (we_project_id entry = None \<or> we_project_id entry = Some (lp_project_id project))
       (''workspace project '' @ we_path entry @ '' has another ID''))) (\<lambda>_.
     ret \<lparr>wp_project_id = lp_project_id project, wp_local_path = local_path\<rparr>)))))"

definition add_configured :: "'x env \<Rightarrow> path \<Rightarrow> (path \<times> local_project) list \<Rightarrow> workspace_project list \<Rightarrow> workspace_entry \<Rightarrow>
    (('x, 'z) world_scheme, string, workspace_project list) prog" where
  "add_configured E root subscribed projects entry =
     andThen (configured_project E root subscribed entry) (\<lambda>project.
     andThen (lift (ensure (\<forall>q\<in>set projects. \<not> same_path (wp_local_path q) (wp_local_path project))
       (''workspace project path is configured more than once: '' @ we_path entry))) (\<lambda>_.
     andThen (lift (ensure (\<forall>q\<in>set projects. wp_project_id q \<noteq> wp_project_id project)
       (''workspace project ID is configured more than once: '' @ wp_project_id project))) (\<lambda>_.
     ret (projects @ [project]))))"

definition load_workspace :: "'x env \<Rightarrow> local_catalog codec \<Rightarrow> (string \<Rightarrow> (string, workspace_document) result) \<Rightarrow> path \<Rightarrow>
    (('x, 'z) world_scheme, string, workspace) prog" where
  "load_workspace E C toml path =
     andThen (io (canonicalize E path)) (\<lambda>manifest_path.
     andThen (lift (ok_or ''workspace manifest has no parent directory'' (path_parent manifest_path))) (\<lambda>root.
     andThen (io (read_file E manifest_path)) (\<lambda>contents.
     andThen (lift (toml contents)) (\<lambda>document.
     andThen (lift (ensure (wd_version document = 1) ''unsupported workspace manifest version'')) (\<lambda>_.
     andThen (lift (ensure (wd_project document \<noteq> []) ''workspace manifest must configure at least one project'')) (\<lambda>_.
     andThen (load_catalog E C) (\<lambda>catalog.
     andThen (resolve_projects E (lc_projects catalog)) (\<lambda>subscribed.
     andThen (foldEach (add_configured E root subscribed) [] (wd_project document)) (\<lambda>projects.
     ret \<lparr>ws_root = root, ws_manifest_path = manifest_path, ws_projects = projects\<rparr>)))))))))"

subsection \<open>Installing the handler\<close>

definition workspace_status :: "string \<Rightarrow> string" where
  "workspace_status event = (if event = ''PreToolUse'' then ''Refreshing RepoSync workspace projects''
     else ''Releasing RepoSync workspace projects'')"

definition workspace_original :: "json \<Rightarrow> json" where
  "workspace_original hooks = (if (\<exists>t. jget ''hooks'' hooks = Some t \<and> is_object t) then hooks
     else jset ''hooks'' (jobj []) hooks)"

definition workspace_hooks :: "string \<Rightarrow> json \<Rightarrow> json" where
  "workspace_hooks command hooks =
     jset ''hooks'' (merge_events is_reposync_workspace_command command workspace_status
       (case jget ''hooks'' hooks of Some t \<Rightarrow> t | None \<Rightarrow> JNull)) hooks"

definition read_workspace_hooks :: "'x env \<Rightarrow> json codec \<Rightarrow> path \<Rightarrow> bool \<Rightarrow> (('x, 'z) world_scheme, string, json) prog" where
  "read_workspace_hooks E J hooks_path existed =
     (if existed then andThen (io (read_file E hooks_path)) (\<lambda>c. lift (ok_or ''invalid JSON'' (dec J c)))
      else ret (jobj [(''description'', JStr ''RepoSync multi-project workspace leases''), (''hooks'', jobj [])]))"

definition workspace_reply :: "workspace \<Rightarrow> path \<Rightarrow> path \<Rightarrow> bool \<Rightarrow> json" where
  "workspace_reply w hooks_path dispatcher review = jobj
     [(''workspaceRoot'', JStr (ws_root w)), (''manifestPath'', JStr (ws_manifest_path w)),
      (''hooksPath'', JStr hooks_path), (''codexHookDispatcher'', JStr dispatcher),
      (''projectCount'', JInt (int (length (ws_projects w)))),
      (''projects'', JArr (map (\<lambda>p. jobj [(''projectId'', JStr (wp_project_id p)), (''path'', JStr (wp_local_path p))])
         (ws_projects w))),
      (''requiresCodexTrustReview'', JBool review)]"

definition install_hooks :: "'x env \<Rightarrow> local_catalog codec \<Rightarrow> json codec \<Rightarrow>
    (string \<Rightarrow> (string, workspace_document) result) \<Rightarrow> path \<Rightarrow> (('x, 'z) world_scheme, string, json) prog" where
  "install_hooks E C J toml given =
     andThen (io (canonicalize E given)) (\<lambda>root.
     andThen (load_workspace E C toml (path_join root manifest_name)) (\<lambda>w.
     andThen (lift (ensure (same_path (ws_root w) root)
       ''workspace manifest must be located directly beneath the workspace root'')) (\<lambda>_.
     let codex_directory = path_join root ''.codex''; hooks_path = path_join codex_directory ''hooks.json'' in
     andThen (path_exists hooks_path) (\<lambda>existed.
     andThen (read_workspace_hooks E J hooks_path existed) (\<lambda>loaded.
     andThen (lift (ensure (is_object loaded) (hooks_path @ '' must contain a JSON object''))) (\<lambda>_.
     let original = workspace_original loaded in
     andThen (lift (ok_or ''current executable is unavailable'' (current_exe E))) (\<lambda>executable.
     andThen (ensure_workspace_dispatcher E (sp_root (state_paths_of E)) (ws_manifest_path w) executable) (\<lambda>dispatcher.
     let hooks = workspace_hooks (shell_quote dispatcher) original; review = (\<not> existed \<or> hooks \<noteq> original) in
     andThen (io (create_dir_all E codex_directory)) (\<lambda>_.
     andThen (onlyIf review (write_json E J hooks_path hooks shared_mode)) (\<lambda>_.
     ret (workspace_reply w hooks_path dispatcher review)))))))))))"

subsection \<open>What a loaded workspace is\<close>

definition inside :: "path \<Rightarrow> path \<Rightarrow> bool" where
  "inside root p \<longleftrightarrow> path_starts_with p root \<and> \<not> same_path p root"

definition subscribed_as :: "(path \<times> local_project) list \<Rightarrow> workspace_project \<Rightarrow> bool" where
  "subscribed_as subscribed w \<longleftrightarrow> (\<exists>(q, p)\<in>set subscribed. same_path q (wp_local_path w) \<and> lp_project_id p = wp_project_id w)"

definition distinct_projects :: "workspace_project list \<Rightarrow> bool" where
  "distinct_projects ps \<longleftrightarrow> distinct (map wp_project_id ps) \<and> distinct (map (\<lambda>p. path_components (wp_local_path p)) ps)"

lemma find_SomeD: "find P xs = Some x \<Longrightarrow> x \<in> set xs \<and> P x"
  by (auto simp: find_Some_iff)

lemma returns_resolve_projects: "returns (resolve_projects E ps) (\<lambda>qs. snd ` set qs \<subseteq> set ps)"
proof (induction ps)
  case Nil
  show ?case by (auto intro: returns_ret)
next
  case (Cons p ps)
  show ?case unfolding resolve_projects.simps
    by (fastforce intro!: returns_bind returns_andThen [OF Cons.IH] returns_weaken [OF Cons.IH] returns_rules
        split: sum.split io_error.split)
qed

lemma returns_configured_project:
  "returns (configured_project E root subscribed entry) (\<lambda>w. inside root (wp_local_path w) \<and> subscribed_as subscribed w
     \<and> (\<forall>i. we_project_id entry = Some i \<longrightarrow> wp_project_id w = i))"
  by (fastforce simp: returns_def configured_project_def run inside_def subscribed_as_def ok_or_def
      split: sum.splits prod.splits option.splits dest!: find_SomeD)

lemma returns_configured:
  "returns (foldEach (add_configured E root subscribed) ps entries) (\<lambda>ws.
     (distinct_projects ps \<longrightarrow> distinct_projects ws)
     \<and> (\<exists>new. ws = ps @ new \<and> list_all2 (\<lambda>entry w. inside root (wp_local_path w) \<and> subscribed_as subscribed w
          \<and> (\<forall>i. we_project_id entry = Some i \<longrightarrow> wp_project_id w = i)) entries new))"
proof (induction entries arbitrary: ps)
  case Nil
  show ?case by (auto intro!: returns_ret)
next
  case (Cons e es)
  have one: "returns (add_configured E root subscribed ps e) (\<lambda>qs. \<exists>w. qs = ps @ [w]
      \<and> inside root (wp_local_path w) \<and> subscribed_as subscribed w \<and> (\<forall>i. we_project_id e = Some i \<longrightarrow> wp_project_id w = i)
      \<and> (distinct_projects ps \<longrightarrow> distinct_projects qs))"
    unfolding add_configured_def
    by (rule returns_andThen [OF returns_configured_project])
      (auto simp: returns_def run distinct_projects_def same_path_def split: sum.splits prod.splits)
  show ?case unfolding foldEach.simps
    by (rule returns_andThen [OF one], clarify, rule returns_weaken [OF Cons.IH]) auto
qed


text \<open>The hooks of a workspace are merged as those of a project.\<close>

lemma workspace_original_table:
  assumes "is_object hooks"
  shows "\<exists>t. jget ''hooks'' (workspace_original hooks) = Some t \<and> is_object t" and "is_object (workspace_original hooks)"
  using assms by (auto simp: workspace_original_def jget_jset indexable_def jset_object jobj_def)

theorem workspace_hooks_merge:
  assumes "is_object hooks" and table: "jget ''hooks'' hooks = Some t" "is_object t"
    and merged: "jget ''hooks'' (workspace_hooks command hooks) = Some t'"
  shows "(\<forall>event. if event \<in> {''PreToolUse'', ''PostToolUse''}
      then filter (\<lambda>h. \<not> reposync_handler is_reposync_workspace_command command h) (handlers (event_groups event t'))
             = filter (\<lambda>h. \<not> reposync_handler is_reposync_workspace_command command h) (handlers (event_groups event t))
         \<and> (\<exists>h. filter (reposync_handler is_reposync_workspace_command command) (handlers (event_groups event t')) = [h]
              \<and> jget_str ''command'' h = Some command)
      else event_groups event t' = event_groups event t)
    \<and> (\<forall>k. k \<noteq> ''hooks'' \<longrightarrow> jget k (workspace_hooks command hooks) = jget k hooks)
    \<and> workspace_original (workspace_hooks command hooks) = workspace_hooks command hooks
    \<and> workspace_hooks command (workspace_hooks command hooks) = workspace_hooks command hooks"
proof -
  let ?m = "merge_events is_reposync_workspace_command command workspace_status"
  have ix: "indexable hooks" "indexable t" using assms by (simp_all add: indexable_def)
  have t': "t' = ?m t" using merged ix table by (simp add: workspace_hooks_def jget_jset)
  have obj: "is_object t'" unfolding t' merge_events_eq merge_event_def
    by (intro jset_object) (use ix(2) indexable_merge_event [OF ix(2)] in \<open>simp add: merge_event_def\<close>)
  have again: "?m t' = t'" unfolding t' by (rule merge_events_again [OF ix(2)])
  have "\<forall>event. if event \<in> {''PreToolUse'', ''PostToolUse''}
      then filter (\<lambda>h. \<not> reposync_handler is_reposync_workspace_command command h) (handlers (event_groups event t'))
             = filter (\<lambda>h. \<not> reposync_handler is_reposync_workspace_command command h) (handlers (event_groups event t))
         \<and> (\<exists>h. filter (reposync_handler is_reposync_workspace_command command) (handlers (event_groups event t')) = [h]
              \<and> jget_str ''command'' h = Some command)
      else event_groups event t' = event_groups event t"
    using merge_groups_own [unfolded current_handler_def]
    by (simp add: t' event_groups_merge_events [OF ix(2)] tool_events_def merge_groups_foreign)
  moreover have "\<forall>k. k \<noteq> ''hooks'' \<longrightarrow> jget k (workspace_hooks command hooks) = jget k hooks"
    using ix by (simp add: workspace_hooks_def jget_jset)
  moreover have "workspace_original (workspace_hooks command hooks) = workspace_hooks command hooks"
    using merged obj by (simp add: workspace_original_def)
  moreover have "workspace_hooks command (workspace_hooks command hooks) = workspace_hooks command hooks"
    using merged again table t' unfolding workspace_hooks_def [of command "workspace_hooks command hooks"]
    by simp (simp add: workspace_hooks_def jset_jset)
  ultimately show ?thesis by blast
qed

end
