(* ===== verification/Codex_Hook.thy ===== *)
theory Codex_Hook
  imports Daemon_Client Shell_Commands Workspace
begin

section \<open>The agent's tool hook\<close>

text \<open>
  \<open>codex_hook_for_input\<close> and \<open>codex_workspace_hook\<close> of \<open>src/src/cli.rs\<close>: what runs before and
  after every tool call of an agent. Before the call the daemon is asked for access and the lease
  is kept in a file, after it the lease is given back; the model is told once when a project enters
  and once when it leaves reconciliation mode. A file marks that the session knows about it.
\<close>

subsection \<open>Files and messages\<close>

definition field :: "string \<Rightarrow> json \<Rightarrow> json" where
  "field k input = (case jget k input of Some v \<Rightarrow> v | None \<Rightarrow> JNull)"

definition hook_directory :: "'x env \<Rightarrow> json \<Rightarrow> path" where
  "hook_directory E input =
     path_join (path_join (sp_root (state_paths_of E)) ''codex-leases'') (safe_hook_part (jget_str ''session_id'' input))"

definition legacy_lease_path :: "path \<Rightarrow> json \<Rightarrow> path" where
  "legacy_lease_path directory input =
     path_join directory (safe_hook_part (jget_str ''tool_use_id'' input) @ ''.json'')"

definition lease_path :: "path \<Rightarrow> string \<Rightarrow> json \<Rightarrow> path" where
  "lease_path directory project_id input = path_join directory
     (safe_hook_part (Some project_id) @ ''-'' @ safe_hook_part (jget_str ''tool_use_id'' input) @ ''.json'')"

definition reconciliation_marker :: "path \<Rightarrow> string \<Rightarrow> path" where
  "reconciliation_marker directory project_id =
     path_join directory (''reconciliation-'' @ safe_hook_part (Some project_id) @ ''.json'')"

type_synonym messages = "string option \<times> string option"

definition entered_message :: "string \<Rightarrow> string \<Rightarrow> string" where
  "entered_message branch remote =
     ''RepoSync entered reconciliation mode after automatic reconciliation failed. Your workspace remains usable, but publication is paused. Before continuing with the user''
     @ [quote] @ ''s task, reconcile `'' @ branch @ ''` with the latest `'' @ remote
     @ ''`. After resolving any conflicts, run `resync project sync` to verify the result and leave reconciliation mode. Do not perform unrelated work until synchronization succeeds or reconciliation requires user input.''"

definition reminder_message :: "string \<Rightarrow> string" where
  "reminder_message remote =
     ''RepoSync reconciliation mode: prioritize reconciling the latest `'' @ remote
     @ ''` and run `resync project sync` before unrelated work.''"

definition left_message :: string where
  "left_message = ''RepoSync reconciliation succeeded. Normal synchronization and publication have resumed.''"

definition in_reconciliation :: "json \<Rightarrow> bool" where
  "in_reconciliation state \<longleftrightarrow> Option.bind (jget ''reconciliation_mode'' state) as_bool = Some True"

definition default_str :: "string \<Rightarrow> string \<Rightarrow> json \<Rightarrow> string" where
  "default_str d k j = (case jget_str k j of Some v \<Rightarrow> v | None \<Rightarrow> d)"

definition reconciliation_messages :: "'x env \<Rightarrow> json codec \<Rightarrow> path \<Rightarrow> json \<Rightarrow> json \<Rightarrow>
    (('x, 'z) world_scheme, string, messages) prog" where
  "reconciliation_messages E J marker input state =
     andThen (path_exists marker) (\<lambda>marked.
     if in_reconciliation state then
       let branch = default_str ''current branch'' ''branch'' state;
           remote = default_str ''the RepoSync remote branch'' ''remote_ref'' state in
       if \<not> marked then
         andThen (write_json E J marker (jobj [(''branch'', JStr branch), (''remoteRef'', JStr remote)]) private_mode) (\<lambda>_.
         ret (Some (entered_message branch remote), Some (entered_message branch remote)))
       else if (case hook_command input of Some c \<Rightarrow> command_invokes_git c | None \<Rightarrow> False)
       then ret (None, Some (reminder_message remote))
       else ret (None, None)
     else if marked then andThen (io (remove_file E marker)) (\<lambda>_. ret (Some left_message, Some left_message))
     else ret (None, None))"

definition hook_output :: "string option \<Rightarrow> string option \<Rightarrow> json" where
  "hook_output system_message additional_context = jobj
     ((case system_message of Some m \<Rightarrow> [(''systemMessage'', JStr m)] | None \<Rightarrow> [])
      @ (case additional_context of
           Some c \<Rightarrow> [(''hookSpecificOutput'', jobj [(''hookEventName'', JStr ''PreToolUse''), (''additionalContext'', JStr c)])]
         | None \<Rightarrow> []))"

definition as_post_output :: "json \<Rightarrow> json" where
  "as_post_output output = (case jget ''hookSpecificOutput'' output of
       Some v \<Rightarrow> jset ''hookSpecificOutput'' (jset ''hookEventName'' (JStr ''PostToolUse'') v) output
     | None \<Rightarrow> output)"

definition only_message :: "string \<Rightarrow> json" where
  "only_message m = jobj [(''systemMessage'', JStr m)]"

subsection \<open>One project\<close>

definition state_request :: "string \<Rightarrow> json" where
  "state_request project_id = jobj [(''method'', JStr ''accessState''), (''project_id'', JStr project_id)]"

definition access_request :: "string \<Rightarrow> json \<Rightarrow> json" where
  "access_request project_id input = jobj
     [(''method'', JStr ''acquireAccess''), (''project_id'', JStr project_id), (''session_id'', field ''session_id'' input),
      (''call_id'', field ''tool_use_id'' input), (''access_hint'', JStr ''unknown'')]"

definition release_request :: "json \<Rightarrow> json" where
  "release_request lease_id = jobj
     [(''method'', JStr ''releaseAccess''), (''lease_id'', lease_id), (''outcome'', JStr ''success''),
      (''mutation_hint'', JStr ''possible'')]"

definition lease_record :: "string \<Rightarrow> string \<Rightarrow> json \<Rightarrow> json" where
  "lease_record lease_id project_id input = jobj
     [(''leaseId'', JStr lease_id), (''projectId'', JStr project_id), (''toolUseId'', field ''tool_use_id'' input)]"

definition before_sync :: "'x os \<Rightarrow> json codec \<Rightarrow> string \<Rightarrow> json \<Rightarrow> (('x, 'z) world_scheme, string, json) prog" where
  "before_sync S J project_id input =
     (let directory = hook_directory (os_env S) input in
     andThen (attempt (daemon_rpc S (state_request project_id))) (\<lambda>r. case r of
       Inl e \<Rightarrow> ret (only_message (''RepoSync state is unavailable; the tool call will continue: '' @ e))
     | Inr state \<Rightarrow>
         andThen (io (create_dir_all (os_env S) directory)) (\<lambda>_.
         andThen (reconciliation_messages (os_env S) J (reconciliation_marker directory project_id) input state) (\<lambda>(m, c).
         ret (hook_output m c)))))"

definition before_tool :: "'x os \<Rightarrow> json codec \<Rightarrow> string \<Rightarrow> json \<Rightarrow> (('x, 'z) world_scheme, string, json) prog" where
  "before_tool S J project_id input =
     (let directory = hook_directory (os_env S) input in
     andThen (attempt (daemon_rpc S (access_request project_id input))) (\<lambda>r. case r of
       Inl e \<Rightarrow> ret (only_message (''RepoSync access coordination is unavailable; the tool call will continue: '' @ e))
     | Inr result \<Rightarrow>
         andThen (io (create_dir_all (os_env S) directory)) (\<lambda>_.
         andThen (case jget_str ''lease_id'' result of
             Some lease_id \<Rightarrow> write_json (os_env S) J (lease_path directory project_id input)
               (lease_record lease_id project_id input) private_mode
           | None \<Rightarrow> ret ()) (\<lambda>_.
         andThen (reconciliation_messages (os_env S) J (reconciliation_marker directory project_id) input result) (\<lambda>(m, c).
         ret (hook_output m (case c of Some t \<Rightarrow> Some t | None \<Rightarrow> jget_str ''model_message'' result)))))))"

definition after_sync :: "'x os \<Rightarrow> json codec \<Rightarrow> string \<Rightarrow> json \<Rightarrow> (('x, 'z) world_scheme, string, json) prog" where
  "after_sync S J project_id input =
     andThen (attempt (daemon_rpc S (state_request project_id))) (\<lambda>r. case r of
       Inl e \<Rightarrow> ret (only_message (''RepoSync could not verify reconciliation state: '' @ e))
     | Inr state \<Rightarrow>
         andThen (reconciliation_messages (os_env S) J
           (reconciliation_marker (hook_directory (os_env S) input) project_id) input state) (\<lambda>(m, c).
         ret (as_post_output (hook_output m c))))"

definition return_lease :: "'x os \<Rightarrow> json codec \<Rightarrow> path \<Rightarrow> (('x, 'z) world_scheme, string, unit) prog" where
  "return_lease S J p =
     andThen (io (read_file (os_env S) p)) (\<lambda>c.
     andThen (lift (ok_or ''invalid lease file'' (dec J c))) (\<lambda>lease.
     andThen (daemon_rpc S (release_request (field ''leaseId'' lease))) (\<lambda>_.
     io (remove_file (os_env S) p))))"

definition after_tool :: "'x os \<Rightarrow> json codec \<Rightarrow> string \<Rightarrow> json \<Rightarrow> (('x, 'z) world_scheme, string, json) prog" where
  "after_tool S J project_id input =
     (let directory = hook_directory (os_env S) input;
          current = lease_path directory project_id input; legacy = legacy_lease_path directory input in
     andThen (path_exists current) (\<lambda>has_current.
     andThen (path_exists legacy) (\<lambda>has_legacy.
     if \<not> has_current \<and> \<not> has_legacy then ret (jobj [])
     else
     andThen (attempt (return_lease S J (if has_current then current else legacy))) (\<lambda>r. case r of
       Inr _ \<Rightarrow> ret (jobj [])
     | Inl e \<Rightarrow> ret (only_message (''RepoSync could not release the tool lease: '' @ e))))))"

definition codex_hook_for_input :: "'x os \<Rightarrow> json codec \<Rightarrow> string \<Rightarrow> json \<Rightarrow> (('x, 'z) world_scheme, string, json) prog" where
  "codex_hook_for_input S J project_id input =
     (let event = jget_str ''hook_event_name'' input in
      if event = Some ''PreToolUse'' \<and> is_project_sync_command input then before_sync S J project_id input
      else if event = Some ''PreToolUse'' then before_tool S J project_id input
      else if event = Some ''PostToolUse'' \<and> is_project_sync_command input then after_sync S J project_id input
      else if event = Some ''PostToolUse'' then after_tool S J project_id input
      else ret (jobj []))"

subsection \<open>The projects of a workspace\<close>

definition tagged :: "string \<Rightarrow> string option \<Rightarrow> string list" where
  "tagged project_id text = (case text of Some t \<Rightarrow> [''['' @ project_id @ ''] '' @ t] | None \<Rightarrow> [])"

definition merge_workspace_hook_outputs :: "string \<Rightarrow> (string \<times> json) list \<Rightarrow> json" where
  "merge_workspace_hook_outputs event_name outputs =
     (let system_messages = concat (map (\<lambda>(pid, out). tagged pid (jget_str ''systemMessage'' out)) outputs);
          contexts = concat (map (\<lambda>(pid, out). tagged pid
            (Option.bind (jget ''hookSpecificOutput'' out) (jget_str ''additionalContext''))) outputs) in
      jobj ((if system_messages \<noteq> [] then [(''systemMessage'', JStr (join_with [newline] system_messages))] else [])
       @ (if contexts \<noteq> [] then [(''hookSpecificOutput'', jobj [(''hookEventName'', JStr event_name),
            (''additionalContext'', JStr (join_with [newline] contexts))])] else [])))"

definition project_output :: "'x os \<Rightarrow> json codec \<Rightarrow> json \<Rightarrow> workspace_project \<Rightarrow>
    (('x, 'z) world_scheme, string, string \<times> json) prog" where
  "project_output S J input project =
     andThen (attempt (codex_hook_for_input S J (wp_project_id project) input)) (\<lambda>r.
     ret (wp_project_id project, case r of
       Inr output \<Rightarrow> output
     | Inl e \<Rightarrow> only_message (''RepoSync workspace coordination failed; the tool call will continue: '' @ e)))"

fun project_outputs :: "'x os \<Rightarrow> json codec \<Rightarrow> json \<Rightarrow> workspace_project list \<Rightarrow>
    (('x, 'z) world_scheme, string, (string \<times> json) list) prog" where
  "project_outputs S J input [] = ret []"
| "project_outputs S J input (p # ps) =
     andThen (project_output S J input p) (\<lambda>out. andThen (project_outputs S J input ps) (\<lambda>outs. ret (out # outs)))"

definition hook_order :: "string \<Rightarrow> 'a list \<Rightarrow> 'a list" where
  "hook_order event_name projects = (if event_name = ''PostToolUse'' then List.rev projects else projects)"

definition codex_workspace_hook :: "'x os \<Rightarrow> json codec \<Rightarrow> local_catalog codec \<Rightarrow>
    (string \<Rightarrow> (string, workspace_document) result) \<Rightarrow> path \<Rightarrow> json \<Rightarrow> (('x, 'z) world_scheme, string, json) prog" where
  "codex_workspace_hook S J C toml manifest input =
     (let event_name = (case jget_str ''hook_event_name'' input of Some e \<Rightarrow> e | None \<Rightarrow> []) in
     andThen (load_workspace (os_env S) C toml manifest) (\<lambda>w.
     andThen (project_outputs S J input (hook_order event_name (ws_projects w))) (\<lambda>outputs.
     ret (merge_workspace_hook_outputs event_name outputs))))"

definition read_codex_hook_input :: "'x env \<Rightarrow> string \<Rightarrow> (string, json) result" where
  "read_codex_hook_input E source =
     (if length source > max_line then Inl ''hook input exceeds 1 MiB''
      else ok_or ''invalid JSON'' (parse_json E source))"

subsection \<open>A session hears of a reconciliation once\<close>

text \<open>The session is told once that reconciliation mode began and once that it ended, exactly
  when the marker file appears and disappears; in between only tool calls that invoke Git get a
  reminder.\<close>

theorem reconciliation_is_told_once:
  assumes ran: "reconciliation_messages E J marker input state s = (Inr (m, c), s')"
    and tmp: "temporary_path E marker \<noteq> marker"
  shows "(let marked = (fs_get (files s) marker \<noteq> None); marked' = (fs_get (files s') marker \<noteq> None) in
    if in_reconciliation state
    then marked' \<and> (m \<noteq> None \<longleftrightarrow> \<not> marked) \<and> (\<not> marked \<longrightarrow> c = m)
      \<and> (c \<noteq> None \<longleftrightarrow> \<not> marked \<or> (\<exists>k. hook_command input = Some k \<and> command_invokes_git k))
    else \<not> marked' \<and> (m \<noteq> None \<longleftrightarrow> marked) \<and> c = m)"
proof (cases "in_reconciliation state")
  case True
  show ?thesis
  proof (cases "fs_get (files s) marker = None")
    case unmarked: True
    obtain doc where "write_json E J marker doc private_mode s = (Inr (), s')" and "m \<noteq> None" "c = m"
      using ran True unmarked
      by (auto simp: reconciliation_messages_def path_exists_def Let_def run split: prod.splits sum.splits)
    then show ?thesis using write_json_document(1) [OF _ tmp] True unmarked by fastforce
  next
    case False
    then show ?thesis using ran True
      by (auto simp: reconciliation_messages_def path_exists_def Let_def run split: option.splits if_splits)
  qed
next
  case False
  then show ?thesis using ran
    by (auto simp: reconciliation_messages_def path_exists_def remove_file_def file_op_def Let_def run
        split: prod.splits sum.splits option.splits node.splits if_splits)
qed

subsection \<open>A lease is kept until it has been given back\<close>


lemma make_dirs_keeps: "fs_get fs p = Some n \<Longrightarrow> fs_get (make_dirs d fs) p = Some n"
proof -
  assume there: "fs_get fs p = Some n"
  have "fs_get (foldr make_dir ds fs) p = Some n" for ds
    by (induction ds) (auto simp: make_dir_def there split: option.splits)
  then show ?thesis unfolding make_dirs_def .
qed

lemma write_json_elsewhere:
  assumes ran: "write_json E J p v mode s = (Inr (), s')" and there: "fs_get (files s) q = Some n"
    and q: "q \<noteq> p" "q \<noteq> temporary_path E p"
  shows "fs_get (files s') q = Some n"
proof -
  have "new_events (write_json E J p v mode) s = document_script E p (json_text J v) mode"
    by (rule script_new_events_ok [OF script_write_json ran])
  then have "files s' = replay (document_script E p (json_text J v) mode) (files s)"
    using replays_new_events [OF replays_write_json, of E J p v mode s] ran by simp
  then show ?thesis using there q
    by (auto simp: document_script_def make_dirs_keeps split: option.splits)
qed

lemma reconciliation_messages_elsewhere:
  assumes ran: "reconciliation_messages E J marker input state s = (Inr mc, s')" and there: "fs_get (files s) q = Some n"
    and q: "q \<noteq> marker" "q \<noteq> temporary_path E marker"
  shows "fs_get (files s') q = Some n"
  using ran there q write_json_elsewhere [OF _ there q]
  by (auto simp: reconciliation_messages_def path_exists_def remove_file_def file_op_def Let_def run
      split: prod.splits sum.splits option.splits node.splits if_splits)

text \<open>A granted lease is on disk before the hook answers.\<close>

theorem granted_lease_is_stored:
  fixes s s' :: "('x, 'z) world_scheme"
  assumes given: "jget_str ''hook_event_name'' input = Some ''PreToolUse''" "\<not> is_project_sync_command input"
    and rpc: "daemon_rpc S (access_request project_id input) s = (Inr reply, s1)"
    and granted: "jget_str ''lease_id'' reply = Some lease_id"
    and ran: "codex_hook_for_input S J project_id input s = (Inr out, s')"
    and p: "p = lease_path (hook_directory (os_env S) input) project_id input" "temporary_path (os_env S) p \<noteq> p"
    and marker: "marker = reconciliation_marker (hook_directory (os_env S) input) project_id"
      "p \<noteq> marker" "p \<noteq> temporary_path (os_env S) marker"
  shows "fs_get (files s') p = Some (File (json_text J (lease_record lease_id project_id input)))"
proof -
  have ran': "before_tool S J project_id input s = (Inr out, s')"
    using ran given by (simp add: codex_hook_for_input_def Let_def)
  obtain t s2 m c where
    wr: "write_json (os_env S) J p (lease_record lease_id project_id input) private_mode t = (Inr (), s2)"
    and msg: "reconciliation_messages (os_env S) J marker input reply s2 = (Inr (m, c), s')"
    using ran' rpc granted p(1) marker(1) by (auto simp: before_tool_def Let_def run split: prod.splits sum.splits)
  show ?thesis by (rule reconciliation_messages_elsewhere [OF msg write_json_document(1) [OF wr p(2)] marker(2,3)])
qed

subsection \<open>The hook never stops a tool call\<close>

lemma project_output_total: "\<exists>out s'. project_output S J input p s = (Inr (wp_project_id p, out), s')"
  by (cases "codex_hook_for_input S J (wp_project_id p) input s") (auto simp: project_output_def run)

lemma project_outputs_total:
  "\<exists>outs s'. project_outputs S J input ps s = (Inr outs, s') \<and> map fst outs = map wp_project_id ps"
proof (induction ps arbitrary: s)
  case Nil
  then show ?case by (simp add: run)
next
  case (Cons p ps)
  obtain out t where "project_output S J input p s = (Inr (wp_project_id p, out), t)"
    using project_output_total by blast
  then show ?case using Cons.IH [of t] by (auto simp: run)
qed

text \<open>Once the manifest is loaded, the workspace hook answers with one output for each of its
  projects, in order before a tool call and in reverse order after it, whatever fails for a
  project.\<close>

theorem workspace_hook_never_fails:
  fixes s s1 :: "('x, 'z) world_scheme"
  assumes loaded: "load_workspace (os_env S) C toml manifest s = (Inr w, s1)"
  shows "\<exists>outputs s'. codex_workspace_hook S J C toml manifest input s
      = (Inr (merge_workspace_hook_outputs (case jget_str ''hook_event_name'' input of Some e \<Rightarrow> e | None \<Rightarrow> []) outputs), s')
    \<and> map fst outputs = map wp_project_id
        (if jget_str ''hook_event_name'' input = Some ''PostToolUse'' then List.rev (ws_projects w) else ws_projects w)"
proof -
  let ?e = "case jget_str ''hook_event_name'' input of Some e \<Rightarrow> e | None \<Rightarrow> []"
  obtain outs s' where "project_outputs S J input (hook_order ?e (ws_projects w)) s1 = (Inr outs, s')"
    and "map fst outs = map wp_project_id (hook_order ?e (ws_projects w))"
    using project_outputs_total by blast
  then show ?thesis using loaded
    by (auto simp: codex_workspace_hook_def Let_def run hook_order_def split: option.splits if_splits)
qed

text \<open>When the daemon cannot be reached, the tool call goes on.\<close>

theorem unreachable_daemon_does_not_block:
  assumes "jget_str ''hook_event_name'' input = Some ''PreToolUse''"
    and "\<And>request. fst (daemon_rpc S request s) = Inl e"
  shows "\<exists>m. fst (codex_hook_for_input S J project_id input s) = Inr (jobj [(''systemMessage'', JStr m)])
    \<and> (\<exists>request. snd (codex_hook_for_input S J project_id input s) = snd (daemon_rpc S request s))"
proof -
  have rpc: "daemon_rpc S request s = (Inl e, snd (daemon_rpc S request s))" for request
    using assms(2) [of request] by (metis prod.collapse)
  show ?thesis
  proof (cases "is_project_sync_command input")
    case True
    then show ?thesis using assms(1) rpc [of "state_request project_id"]
      by (auto simp: codex_hook_for_input_def before_sync_def only_message_def Let_def run split: prod.splits) (metis snd_conv)
  next
    case False
    then show ?thesis using assms(1) rpc [of "access_request project_id input"]
      by (auto simp: codex_hook_for_input_def before_tool_def only_message_def Let_def run split: prod.splits) (metis snd_conv)
  qed
qed

end
