(* ===== verification/Client_Examples.thy ===== *)
theory Client_Examples
  imports Codex_Hook Daemon_Examples
begin

section \<open>Examples of the client\<close>

text \<open>Runs of the hooks, the adapters and the daemon's client in the scripted world.\<close>

subsection \<open>Hook files and Git hooks\<close>

definition user_hooks :: json where
  "user_hooks = JObj [(''hooks'', JObj [(''PreToolUse'', JArr [JObj [(''hooks'', JArr [JObj [(''command'', JStr ''lint'')]])]])])]"

theorem project_hooks_merge_witness:
  "\<exists>hooks. project_hooks ''m'' user_hooks = Inr hooks \<and> project_hooks ''m'' hooks = Inr hooks
     \<and> (\<exists>h. own_handlers ''m'' (event_groups ''PreToolUse'' (hook_table hooks)) = [h])"
proof -
  obtain hooks where h: "project_hooks ''m'' user_hooks = Inr hooks"
    by (simp add: project_hooks_ok user_hooks_def indexable_def hook_table_def)
  from project_hooks_merge [OF h] have "\<exists>h. own_handlers ''m'' (event_groups ''PreToolUse'' (hook_table hooks)) = [h]"
    and "project_hooks ''m'' hooks = Inr hooks"
    by (auto simp: Let_def dest!: spec [of _ "''PreToolUse''"])
  then show ?thesis using h by blast
qed

definition hook_world :: "run_result list world" where
  "hook_world = scripted_world [(''/h/post-commit'', File ''lint''), (''/h'', Dir)] []"

lemma hook_runs:
  "\<exists>s1 s2. install_git_hook scripted_env ''/h'' ''post-commit'' (commit_script ''/b/r'' ''p'') hook_world = (Inr ''/h/post-commit'', s1)
     \<and> install_git_hook scripted_env ''/h'' ''post-commit'' ''new'' s1 = (Inr ''/h/post-commit'', s2)"
proof -
  have c: "\<not> contains ''lint'' dispatcher_mark"
    by (auto simp: contains_def dispatcher_mark_def dest: sublist_length_le)
  show ?thesis
    by (simp add: install_git_hook_def running hook_world_def path_join_def is_absolute_def slash_def c scripts_marked cong: lazy)
qed

theorem user_hook_survives_reinstallation_witness:
  "\<exists>s1 s2. install_git_hook scripted_env ''/h'' ''post-commit'' (commit_script ''/b/r'' ''p'') hook_world = (Inr ''/h/post-commit'', s1)
     \<and> install_git_hook scripted_env ''/h'' ''post-commit'' ''new'' s1 = (Inr ''/h/post-commit'', s2)
     \<and> fs_get (files s2) ''/h/post-commit.pre-resync'' = Some (File ''lint'')"
proof -
  obtain s1 s2 where r1: "install_git_hook scripted_env ''/h'' ''post-commit'' (commit_script ''/b/r'' ''p'') hook_world = (Inr ''/h/post-commit'', s1)"
    and r2: "install_git_hook scripted_env ''/h'' ''post-commit'' ''new'' s1 = (Inr ''/h/post-commit'', s2)"
    using hook_runs by blast
  have c: "\<not> contains ''lint'' dispatcher_mark"
    by (auto simp: contains_def dispatcher_mark_def dest: sublist_length_le)
  have u: "fs_get (files hook_world) (path_join ''/h'' ''post-commit'') = Some (File ''lint'')"
    by (simp add: hook_world_def scripted_world_def path_join_def is_absolute_def slash_def fs_get_def)
  have p: "path_join ''/h'' (''post-commit'' @ ''.pre-resync'') = ''/h/post-commit.pre-resync''"
    by (simp add: path_join_def is_absolute_def slash_def)
  show ?thesis
    using user_hook_survives_reinstallation [OF r1 r2 u c, of "''/b/r''" "''p''"] r1 r2 unfolding p by auto
qed

subsection \<open>A workspace\<close>

definition one_project_catalog :: "local_project \<Rightarrow> local_catalog codec" where
  "one_project_catalog p = \<lparr>enc = (\<lambda>c. ''c''), dec = (\<lambda>t. Some \<lparr>lc_catalog_generation = 0, lc_projects = [p]\<rparr>)\<rparr>"

definition workspace_project_a :: local_project where
  "workspace_project_a = \<lparr>lp_project_id = ''prj_1'', lp_local_path = ''/w/a'', lp_remote_url = ''u'', lp_remote_name = ''origin'',
     lp_default_branch = ''main'', lp_server_generation = 1, lp_advertised_heads = [],
     lp_last_applied_heads = [], lp_active_branch = None, lp_workspace_generation = 4,
     lp_state = ''CURRENT'', lp_durability = ''REMOTELY_DURABLE'', lp_conflict = None, lp_last_error = None,
     lp_service = None, lp_checkout_id = None, lp_extra = []\<rparr>"

definition one_entry :: "string \<Rightarrow> (string, workspace_document) result" where
  "one_entry t = Inr \<lparr>wd_version = 1, wd_project = [\<lparr>we_path = ''a'', we_project_id = None\<rparr>]\<rparr>"

definition workspace_world :: "run_result list world" where
  "workspace_world = scripted_world [(''/w/m.toml'', File ''t''), (''/s/catalog.json'', File ''c'')] []"

definition loaded_workspace :: workspace where
  "loaded_workspace = \<lparr>ws_root = ''/w'', ws_manifest_path = ''/w/m.toml'',
     ws_projects = [\<lparr>wp_project_id = ''prj_1'', wp_local_path = ''/w/a''\<rparr>]\<rparr>"

lemma loads_workspace:
  "\<exists>s'. load_workspace scripted_env (one_project_catalog workspace_project_a) one_entry ''/w/m.toml'' workspace_world
     = (Inr loaded_workspace, s')"
  by (simp add: load_workspace_def running path_steps workspace_world_def canonicalize_def one_entry_def
      load_catalog_def state_paths_of_def state_directory_def absolute_path_def paths_below_def one_project_catalog_def
      configured_project_def add_configured_def same_path_def path_starts_with_def path_components_def prefix_def
      workspace_project_a_def loaded_workspace_def ok_or_def cong: lazy)


subsection \<open>The daemon's client\<close>

text \<open>Each conversation takes the next scripted answer; an exit code other than zero is a refused connection.\<close>

definition answer_next :: "run_result list \<Rightarrow> (socket_error, string) result \<times> run_result list" where
  "answer_next xs = (case xs of [] \<Rightarrow> (Inl (Unavailable ''refused''), [])
     | x # rest \<Rightarrow> (if code x = 0 then Inr (stdout x) else Inl (Unavailable ''refused''), rest))"

definition pong :: "string \<Rightarrow> json" where
  "pong binary = JObj [(''ok'', JBool True), (''result'', JObj [(''binaryId'', JStr binary), (''pid'', JInt 9)])]"

definition granted_reply :: json where
  "granted_reply = JObj [(''lease_id'', JStr ''lse_1'')]"

definition example_input :: "string \<Rightarrow> json" where
  "example_input event = JObj [(''hook_event_name'', JStr event), (''session_id'', JStr ''s1''),
     (''tool_name'', JStr ''Edit''), (''tool_use_id'', JStr ''c1'')]"

definition example_lease :: json where
  "example_lease = lease_record ''lse_1'' ''prj_1'' (example_input ''PostToolUse'')"

definition client_replies :: "string \<Rightarrow> json option" where
  "client_replies t =
     (if t = ''own'' then Some (pong ''64'') else if t = ''other'' then Some (pong ''65'')
      else if t = ''granted'' then Some (JObj [(''ok'', JBool True), (''result'', granted_reply)])
      else if t = ''done'' then Some (JObj [(''ok'', JBool True)]) else None)"

definition client_env :: "run_result list env" where
  "client_env = scripted_env\<lparr>parse_json := client_replies,
     print_json := (\<lambda>j. if j = ping_request then ''ping'' else ''request'')\<rparr>"

lemma client_env_simps [simp]:
  "io_fault client_env ev fs xs = None" "sha256 client_env v = ''d''" "current_exe client_env = Some ''/bin/resync''"
  "parse_json client_env = client_replies" "print_json client_env j = (if j = ping_request then ''ping'' else ''request'')"
  "var client_env v = (if v = ''RESYNC_STATE_DIR'' then Some ''/s'' else None)" "process_id client_env = 7"
  by (simp_all add: client_env_def scripted_env_def)

definition client_os :: "run_result list os" where
  "client_os = \<lparr>os_env = client_env, os_talk = (\<lambda>p l fs xs. case answer_next xs of (r, rest) \<Rightarrow> (r, fs, rest)),
     os_alive = (\<lambda>pid fs xs. pid = 12), os_terminate = (\<lambda>pid fs xs. (Delivered, fs, xs)),
     os_sleep = (\<lambda>fs xs. (fs, xs)), os_read_link = (\<lambda>p fs xs. None), os_start = (\<lambda>p fs xs. (Inr (), fs, xs))\<rparr>"

lemma client_os_simps [simp]:
  "os_env client_os = client_env" "os_talk client_os p l fs xs = (case answer_next xs of (r, rest) \<Rightarrow> (r, fs, rest))"
  "os_alive client_os pid fs xs = (pid = 12)" "os_terminate client_os k fs xs = (Delivered, fs, xs)"
  "os_sleep client_os fs xs = (fs, xs)" "os_start client_os p fs xs = (Inr (), fs, xs)"
  by (simp_all add: client_os_def)

lemma client_paths: "sp_root (state_paths_of client_env) = ''/s''" "sp_socket (state_paths_of client_env) = ''/s/daemon.sock''"
  by (simp_all add: state_paths_of_def state_directory_def absolute_path_def paths_below_def path_steps Let_def)

definition client_world :: "fs \<Rightarrow> run_result list \<Rightarrow> run_result list world" where
  "client_world fs answers = scripted_world ((''/bin/resync'', File ''d'') # (''/s'', Dir) # fs) answers"

lemma hex_d: "hex_text ''d'' = ''64''"
  by (simp add: hex_text_def hex_digit_def byte_of_def digit_chars)

lemmas client_steps = daemon_rpc_def executable_fingerprint_def rpc_def exchange_def answer_next_def client_paths hex_d
  read_reply_def ok_or_def client_replies_def pong_def daemon_matches_client_def jget_str_def socket_message_def
  client_world_def request_line_def

lemma ask_own_daemon:
  "\<exists>s'. daemon_rpc client_os (release_request (JStr ''lse_1'')) (client_world [] [says ''own'', says ''done'']) = (Inr JNull, s')"
  by (simp add: running client_steps cong: lazy)

theorem answers_come_from_own_build_witness:
  "\<exists>reply. \<exists>s1 s2 s3 :: run_result list world. rpc client_os ping_request None s1 = (Inr reply, s2)
     \<and> daemon_matches_client reply ''64'' \<and> rpc client_os (release_request (JStr ''lse_1'')) None s2 = (Inr JNull, s3)"
proof -
  obtain s' where r: "daemon_rpc client_os (release_request (JStr ''lse_1'')) (client_world [] [says ''own'', says ''done'']) = (Inr JNull, s')"
    using ask_own_daemon by blast
  have fp: "fst (executable_fingerprint client_env (client_world [] [says ''own'', says ''done''])) = Inr ''64''"
    by (simp add: running client_steps cong: lazy)
  obtain binary_id reply and s1 s2 :: "run_result list world" where
    "fst (executable_fingerprint (os_env client_os) (client_world [] [says ''own'', says ''done''])) = Inr binary_id"
    "rpc client_os ping_request None s1 = (Inr reply, s2)" "daemon_matches_client reply binary_id"
    "rpc client_os (release_request (JStr ''lse_1'')) None s2 = (Inr JNull, s')"
    using answers_come_from_own_build [OF r] by blast
  then show ?thesis using fp by (intro exI conjI) auto
qed



definition other_os :: "run_result list os" where
  "other_os = client_os\<lparr>os_env := client_env\<lparr>process_id := 8\<rparr>\<rparr>"

theorem two_daemons_take_a_stale_lock_witness:
  "\<exists>s1 s2 s3. probe_lock client_os ''/l'' (scripted_world [(''/l'', File [])] []) = (Inr False, s1)
     \<and> lock_attempts other_os ''/l'' 2 s1 = (Inr (), s2)
     \<and> andThen (ignore (remove_file client_env ''/l'')) (\<lambda>_. lock_attempts client_os ''/l'' 1) s2 = (Inr (), s3)"
proof -
  let ?w = "scripted_world [(''/l'', File [])] []"
  have 1: "fs_get (files ?w) ''/l'' = Some (File [])" by (simp add: scripted_world_def fs_get_def)
  have 2: "parse_i32 (trim []) = None" by (simp add: parse_i32_def trim_def read_digits_def)
  have 3: "io_fault (os_env client_os) ev fs x = None" "io_fault (os_env other_os) ev fs x = None" for ev fs x
    by (simp_all add: other_os_def)
  show ?thesis
    using two_daemons_take_a_stale_lock [OF 1 _ 3] 2 by auto
qed

definition example_pong :: json where
  "example_pong = jobj [(''protocol'', JStr protocol_version), (''pid'', JInt 7), (''binaryId'', JStr ''bin'')]"

definition rpc_env :: "run_result list env" where
  "rpc_env = scripted_env\<lparr>
     parse_json := (\<lambda>t. Some (if t = ''ping'' @ [newline] then ping_request else response_value (Inr example_pong))),
     print_json := (\<lambda>j. if j = ping_request then ''ping'' else ''pong'')\<rparr>"

definition rpc_denv :: "run_result list denv" where
  "rpc_denv = example_denv\<lparr>dv_env := rpc_env\<rparr>"

definition rpc_os :: "run_result list os" where
  "rpc_os = client_os\<lparr>os_env := rpc_env\<rparr>"

lemma rpc_texts:
  "print_json rpc_env ping_request = ''ping''" "print_json rpc_env (response_value r) = ''pong''"
  "parse_json rpc_env (''ping'' @ [newline]) = Some ping_request"
  "parse_json rpc_env (''pong'' @ [newline]) = Some (response_value (Inr example_pong))"
  by (auto simp: rpc_env_def response_value_def ping_request_def jobj_def newline_def split: sum.split)

lemma rpc_ping: "handle rpc_denv ping_request st = (Inr example_pong, st)"
  by (simp add: handle_def ping_request_def jobj_def jget_str_def ping_def rpc_denv_def rpc_env_def example_denv_def
      scripted_env_def example_pong_def run)

theorem rpc_returns_what_handle_answers_witness:
  "fst (rpc rpc_os ping_request (Some ''/s/sock'') (scripted_world [] [says (''pong'' @ [newline])])) = Inr example_pong"
proof -
  let ?w = "scripted_world [] [says (''pong'' @ [newline])]" and ?st = "example_daemon example_project [] [] []"
  have env: "dv_env rpc_denv = rpc_env" "os_env rpc_os = rpc_env" by (simp_all add: rpc_denv_def rpc_os_def)
  have parsed: "parse_json rpc_env t = Some (if t = ''ping'' @ [newline] then ping_request else response_value (Inr example_pong))" for t
    by (simp add: rpc_env_def)
  have served: "serve_line rpc_denv (request_line rpc_env ping_request) ?st = (Inr (Some (''pong'' @ [newline])), ?st)"
    by (simp add: serve_line_def request_line_def response_line_def rpc_texts(2) rpc_texts(1) parsed rpc_ping max_line_def run
        trim_def string_steps env newline_def)
  have sent: "parse_json rpc_env (request_line rpc_env ping_request) = Some ping_request"
    by (simp only: request_line_def rpc_texts)
  have talk: "os_talk rpc_os ''/s/sock'' (request_line rpc_env ping_request) (files ?w) (ext ?w) = (Inr (''pong'' @ [newline]), [], [])"
    by (simp add: rpc_os_def scripted_world_def answer_next_def says_def)
  have "map_sum Fails id (fst (rpc rpc_os ping_request (Some ''/s/sock'') ?w)) = Inr example_pong"
  proof (subst rpc_returns_what_handle_answers [OF served env sent talk])
    show "parse_json rpc_env (response_line rpc_env r) = Some (response_value r)" if "map_sum Fails id r = fst (handle rpc_denv ping_request ?st)" for r
      using that by (cases r) (simp_all only: rpc_ping response_line_def rpc_texts fst_conv map_sum.simps id_apply sum.inject sum.distinct)
  qed (simp add: rpc_ping)
  then show ?thesis
    by (cases "fst (rpc rpc_os ping_request (Some ''/s/sock'') ?w)") (simp_all only: map_sum.simps sum.inject sum.distinct id_apply)
qed

subsection \<open>Hooks\<close>

lemma example_files_of_hooks:
  "hook_directory client_env (example_input e) = ''/s/codex-leases/s1''"
  "lease_path ''/s/codex-leases/s1'' ''prj_1'' (example_input e) = ''/s/codex-leases/s1/prj_1-c1.json''"
  "legacy_lease_path ''/s/codex-leases/s1'' (example_input e) = ''/s/codex-leases/s1/c1.json''"
  "reconciliation_marker ''/s/codex-leases/s1'' ''prj_1'' = ''/s/codex-leases/s1/reconciliation-prj_1.json''"
  by (simp_all add: hook_directory_def lease_path_def legacy_lease_path_def reconciliation_marker_def client_paths
      path_steps Let_def safe_hook_part_def safe_hook_char_def string_steps ascii_class_defs example_input_def jget_str_def)

lemma example_not_sync: "\<not> is_project_sync_command (example_input e)"
  by (simp add: is_project_sync_command_def hook_command_def example_input_def jget_str_def)

lemma example_event: "jget_str ''hook_event_name'' (example_input e) = Some e"
  by (simp add: example_input_def jget_str_def)

lemma example_lease_id: "field ''leaseId'' example_lease = JStr ''lse_1''"
  by (simp add: example_lease_def field_def lease_record_def jobj_def)

lemma release_not_ping: "release_request v \<noteq> ping_request"
  by (simp add: release_request_def ping_request_def jobj_def)

definition lease_codec :: "json codec" where
  "lease_codec = \<lparr>enc = (\<lambda>j. ''l''), dec = (\<lambda>t. Some example_lease)\<rparr>"

lemma lease_codec_simps: "enc lease_codec j = ''l''" "dec lease_codec t = Some example_lease"
  by (simp_all add: lease_codec_def)

definition leased_world :: "run_result list \<Rightarrow> run_result list world" where
  "leased_world answers = client_world [(''/s/codex-leases/s1/prj_1-c1.json'', File (json_text lease_codec example_lease))] answers"


theorem reconciliation_is_told_once_witness:
  "\<exists>m s'. reconciliation_messages client_env lease_codec ''/s/m.json'' JNull (JObj [(''reconciliation_mode'', JBool True)])
        (scripted_world [(''/s'', Dir)] []) = (Inr (Some m, Some m), s')
     \<and> fs_get (files s') ''/s/m.json'' \<noteq> None"
proof -
  have tmp: "temporary_path client_env ''/s/m.json'' \<noteq> ''/s/m.json''"
    by (simp add: path_steps string_steps Let_def)
  obtain m s' where ran: "reconciliation_messages client_env lease_codec ''/s/m.json'' JNull (JObj [(''reconciliation_mode'', JBool True)])
        (scripted_world [(''/s'', Dir)] []) = (Inr (Some m, Some m), s')"
    by (simp add: reconciliation_messages_def in_reconciliation_def running path_steps cong: lazy)
  from reconciliation_is_told_once [OF ran tmp] show ?thesis
    using ran by (auto simp: in_reconciliation_def Let_def)
qed

definition client_workspace_env :: "run_result list os" where
  "client_workspace_env = client_os\<lparr>os_env := scripted_env\<rparr>"

theorem workspace_hook_never_fails_witness:
  "\<exists>out s'. codex_workspace_hook client_workspace_env lease_codec (one_project_catalog workspace_project_a) one_entry ''/w/m.toml''
     (example_input ''PreToolUse'') workspace_world = (Inr out, s')"
proof -
  obtain s' where "load_workspace (os_env client_workspace_env) (one_project_catalog workspace_project_a) one_entry ''/w/m.toml'' workspace_world
     = (Inr loaded_workspace, s')"
    using loads_workspace by (auto simp: client_workspace_env_def)
  from workspace_hook_never_fails [OF this] show ?thesis by blast
qed

end
