(* ===== verification/Gate_Refinement.thy ===== *)
theory Gate_Refinement
  imports Lease_Gate
begin

section \<open>The gate as a fair lock\<close>

text \<open>
  What the rest of the daemon relies on, without tickets, tables and timers: a lock that is shared by
  any number of leases or held by one task, and whose waiting tasks get it in the order in which they
  came. Every interleaving of the code's gate is a run of this lock.
\<close>

subsection \<open>Simulation\<close>

locale simulation = inductive_invariant start step inv
  for start :: "'s" and step :: "'s \<Rightarrow> 's \<Rightarrow> bool" and inv :: "'s \<Rightarrow> bool" +
  fixes abstract_start :: "'a" and abstract_step :: "'a \<Rightarrow> 'a \<Rightarrow> bool" and abstraction :: "'s \<Rightarrow> 'a"
  assumes simulates_start: "abstraction start = abstract_start"
    and simulates_step: "step s s' \<Longrightarrow> inv s \<Longrightarrow>
      abstract_step (abstraction s) (abstraction s') \<or> abstraction s' = abstraction s"
begin

lemma abstract_run: "step\<^sup>*\<^sup>* s s' \<Longrightarrow> inv s \<Longrightarrow> abstract_step\<^sup>*\<^sup>* (abstraction s) (abstraction s')"
proof (induction rule: rtranclp_induct)
  case base
  then show ?case by simp
next
  case (step t u)
  then have "abstract_step (abstraction t) (abstraction u) \<or> abstraction u = abstraction t"
    using run simulates_step by blast
  then show ?case using step by (auto intro: rtranclp.rtrancl_into_rtrancl)
qed

lemma abstract_reachable: "step\<^sup>*\<^sup>* start s \<Longrightarrow> abstract_step\<^sup>*\<^sup>* abstract_start (abstraction s)"
  using abstract_run [OF _ start] by (simp add: simulates_start)

end

subsection \<open>The fair lock\<close>

record fair_lock =
  fl_holder :: "nat option"
  fl_queue :: "nat list"
  fl_arrived :: nat
  fl_leases :: "string set"

definition free_lock :: fair_lock where
  "free_lock = \<lparr>fl_holder = None, fl_queue = [], fl_arrived = 0, fl_leases = {}\<rparr>"

inductive lock_step :: "fair_lock \<Rightarrow> fair_lock \<Rightarrow> bool" where
  join: "lock_step l (l\<lparr>fl_queue := fl_queue l @ [fl_arrived l], fl_arrived := fl_arrived l + 1\<rparr>)"
| hold: "fl_holder l = None \<Longrightarrow> fl_leases l = {} \<Longrightarrow> fl_queue l = n # rest \<Longrightarrow>
    lock_step l (l\<lparr>fl_holder := Some n, fl_queue := rest\<rparr>)"
| free: "fl_holder l = Some n \<Longrightarrow> lock_step l (l\<lparr>fl_holder := None\<rparr>)"
| share: "fl_holder l = None \<Longrightarrow> lease \<notin> fl_leases l \<Longrightarrow> lock_step l (l\<lparr>fl_leases := insert lease (fl_leases l)\<rparr>)"
| give_back: "lease \<in> fl_leases l \<Longrightarrow> lock_step l (l\<lparr>fl_leases := fl_leases l - {lease}\<rparr>)"

inductive_cases lock_stepE: "lock_step l l'"

text \<open>The lock never lets a holder and a lease in together.\<close>

definition exclusive_or_shared :: "fair_lock \<Rightarrow> bool" where
  "exclusive_or_shared l \<longleftrightarrow> fl_holder l = None \<or> fl_leases l = {}"

interpretation lock: inductive_invariant free_lock lock_step exclusive_or_shared
  by unfold_locales (auto simp: exclusive_or_shared_def free_lock_def elim!: lock_stepE)

subsection \<open>The gate implements it\<close>

definition lock_of :: "gate_system \<Rightarrow> fair_lock" where
  "lock_of s = \<lparr>fl_holder = (case sy_owners s of [] \<Rightarrow> None | n # _ \<Rightarrow> Some n),
     fl_queue = map fst (sy_waiting s), fl_arrived = sy_arrived s,
     fl_leases = dom (map_of (gt_leases (sy_gate s)))\<rparr>"

definition gate_ok :: "gate_system \<Rightarrow> bool" where
  "gate_ok s \<longleftrightarrow> tickets_ok s \<and> leases_ok s"

lemma lock_of_release:
  assumes "release_lease lease (sy_gate s) = (removed, g)"
  shows "lock_step (lock_of s) (lock_of (s\<lparr>sy_gate := g\<rparr>)) \<or> lock_of (s\<lparr>sy_gate := g\<rparr>) = lock_of s"
proof (cases "map_of (gt_leases (sy_gate s)) lease")
  case None
  then have "g = sy_gate s" using assms by (simp add: release_lease_def)
  then show ?thesis by simp
next
  case (Some m)
  have "map_of (gt_leases g) = (map_of (gt_leases (sy_gate s))) (lease := None)"
    using leases_release [of lease "sy_gate s"] assms by simp
  then have "lock_of (s\<lparr>sy_gate := g\<rparr>) = (lock_of s)\<lparr>fl_leases := fl_leases (lock_of s) - {lease}\<rparr>"
    by (auto simp: lock_of_def)
  moreover have "lease \<in> fl_leases (lock_of s)" using Some by (auto simp: lock_of_def)
  ultimately show ?thesis using lock_step.give_back by metis
qed

lemma gate_simulates:
  assumes "gate_step s s'" and "gate_ok s"
  shows "lock_step (lock_of s) (lock_of s') \<or> lock_of s' = lock_of s"
  using assms
proof (induction rule: gate_step.induct)
  case (arrive s ticket g)
  then have "lock_of (s\<lparr>sy_gate := g, sy_arrived := sy_arrived s + 1, sy_waiting := sy_waiting s @ [(sy_arrived s, ticket)]\<rparr>)
      = (lock_of s)\<lparr>fl_queue := fl_queue (lock_of s) @ [fl_arrived (lock_of s)], fl_arrived := fl_arrived (lock_of s) + 1\<rparr>"
    by (auto simp: lock_of_def take_ticket_def)
  then show ?case using lock_step.join by metis
next
  case (enter n ticket s g)
  have ok: "tickets_ok s" using enter.prems by (simp add: gate_ok_def)
  note first = enter_is_first [OF ok enter.hyps(1,2)]
  have g: "gt_leases g = []" "gt_leases (sy_gate s) = []" "\<not> gt_exclusive (sy_gate s)"
    using enter.hyps(2) by (auto simp: try_exclusive_def split: if_splits)
  have free: "sy_owners s = []" using ok g(3) by (simp add: tickets_ok_def)
  have q: "fl_queue (lock_of s) = n # map fst (tl (sy_waiting s))"
    by (subst lock_of_def) (simp, subst first(2), simp)
  have "lock_of (s\<lparr>sy_gate := g, sy_waiting := filter (\<lambda>w. fst w \<noteq> n) (sy_waiting s), sy_owners := n # sy_owners s,
      sy_served := sy_served s @ [n]\<rparr>) = (lock_of s)\<lparr>fl_holder := Some n, fl_queue := map fst (tl (sy_waiting s))\<rparr>"
    using g by (simp add: lock_of_def first(3))
  moreover have "fl_holder (lock_of s) = None" "fl_leases (lock_of s) = {}"
    using free g by (simp_all add: lock_of_def)
  ultimately show ?case using lock_step.hold q by metis
next
  case (leave n s)
  then have owner: "sy_owners s = [n]" by (auto simp: gate_ok_def tickets_ok_def split: if_splits)
  then have "lock_of (s\<lparr>sy_gate := end_exclusive (sy_gate s), sy_owners := remove1 n (sy_owners s)\<rparr>)
      = (lock_of s)\<lparr>fl_holder := None\<rparr>"
    by (simp add: lock_of_def end_exclusive_def)
  moreover have "fl_holder (lock_of s) = Some n" using owner by (simp add: lock_of_def)
  ultimately show ?case using lock_step.free by metis
next
  case (reuse fresh metadata s lease g)
  then have "g = sy_gate s" by (auto simp: activity_def split: if_splits option.splits)
  then show ?case by simp
next
  case (admit fresh metadata s lease g)
  have g: "lease = fresh" "dom (map_of (gt_leases g)) = insert fresh (dom (map_of (gt_leases (sy_gate s))))"
    "\<not> gt_exclusive (sy_gate s)"
    using admit.hyps(1) by (auto simp: activity_def split: if_splits option.splits)
  have "lock_of (s\<lparr>sy_gate := g, sy_timers := sy_timers s @ [lease], sy_issued := sy_issued s @ [lease]\<rparr>)
      = (lock_of s)\<lparr>fl_leases := insert lease (fl_leases (lock_of s))\<rparr>"
    using g by (simp add: lock_of_def)
  moreover have "fl_holder (lock_of s) = None" "lease \<notin> fl_leases (lock_of s)"
    using admit g by (auto simp: lock_of_def gate_ok_def tickets_ok_def leases_ok_def)
  ultimately show ?case using lock_step.share by metis
next
  case (release lease s removed g)
  then show ?case by (intro lock_of_release)
next
  case (expire lease s removed g)
  have "lock_of (s\<lparr>sy_gate := g, sy_timers := remove1 lease (sy_timers s)\<rparr>) = lock_of (s\<lparr>sy_gate := g\<rparr>)"
    by (simp add: lock_of_def)
  then show ?case using lock_of_release [OF expire.hyps(2)] by simp
qed

interpretation gate: simulation initial_system gate_step gate_ok free_lock lock_step lock_of
proof unfold_locales
  show "gate_ok initial_system" using tickets.start tables.start by (simp add: gate_ok_def)
  show "gate_ok s'" if "gate_step s s'" "gate_ok s" for s s'
    using that tickets_step leases_step by (simp add: gate_ok_def)
  show "lock_of initial_system = free_lock"
    by (simp add: lock_of_def initial_system_def new_gate_def free_lock_def)
qed (rule gate_simulates)

text \<open>C25. Every run of the gate's code, with its tickets, tables and timers under any interleaving,
  is a run of an abstract fair lock: every step of the code is a step of the lock or leaves it
  as it is, and the lock never has a holder while a lease is out.\<close>

theorem gate_refines_fair_lock:
  assumes "reachable_gate s" and "gate_step s s'"
  shows "lock_step\<^sup>*\<^sup>* free_lock (lock_of s)
    \<and> (lock_step (lock_of s) (lock_of s') \<or> lock_of s' = lock_of s)
    \<and> (fl_holder (lock_of s) = None \<or> fl_leases (lock_of s) = {})"
proof -
  have run: "lock_step\<^sup>*\<^sup>* free_lock (lock_of s)"
    using assms(1) unfolding reachable_gate_def gate_runs_def by (rule gate.abstract_reachable)
  moreover have "gate_ok s"
    using assms(1) unfolding reachable_gate_def gate_runs_def by (rule gate.reachable)
  ultimately show ?thesis
    using gate_simulates [OF assms(2)] lock.reachable [OF run] by (simp add: exclusive_or_shared_def)
qed

text \<open>In the example a lease is out and one task waits; giving the lease back is a step of the lock.\<close>

theorem gate_refines_fair_lock_witness:
  "lock_step\<^sup>*\<^sup>* free_lock (lock_of example_system) \<and> fl_leases (lock_of example_system) = {''u1''}"
proof -
  obtain removed g where "release_lease ''u1'' (sy_gate example_system) = (removed, g)" by fastforce
  then have "gate_step example_system (example_system\<lparr>sy_gate := g\<rparr>)" by (rule gate_step.release)
  from gate_refines_fair_lock [OF example_reachable this] show ?thesis
    by (simp add: lock_of_def example_system_def)
qed

end
