(* ===== verification/Gc_Examples.thy ===== *)
theory Gc_Examples
  imports Transaction_Examples
begin

section \<open>Examples of the collection\<close>

text \<open>A finished record with one recovery reference that nothing needs any more.\<close>

definition before_gc :: "run_result list world" where
  "before_gc = scripted_world [(''/s/transactions'', Dir), (''/s/transactions/0-u1.json'', File ''COMPLETED'')]
     [says (''refs/resync/recovery/0-u1/head'' @ [newline]), says [], says ''/g'']"

lemmas gc_steps = gc_transactions_def gc_scan_root_def gc_scan_entry_def is_json_path_def must_retain_def
  gc_decide_def gc_collect_refs_def gc_project_paths_def gc_project_refs_def list_recovery_refs_def
  required_refs_def gc_apply_def gc_prune_project_def delete_recovery_refs_batch_def delete_script_def
  validate_recovery_ref_def recovery_prefix_def remove_empty_recovery_directories_def gc_apply_entry_def
  before_gc_def path_set_insert_def same_path_def path_components_def str_lines_def strip_cr_def

lemma example_scan:
  "\<exists>s'. gc_scan_root scripted_env example_records ''/s/transactions'' [] before_gc
     = (Inr \<lparr>gs_scanned = 1, gs_invalid = 0, gs_entries = [\<lparr>ge_transaction = example_transaction\<lparr>tx_phase := ''COMPLETED''\<rparr>,
          ge_original_bytes = 9, ge_compact_bytes = 10, ge_retain = False\<rparr>]\<rparr>, s')"
  by (simp add: running path_steps example_steps gc_steps cong: lazy)

lemma example_gc:
  "\<exists>s'. gc_transactions scripted_env example_records ''/s/transactions'' [] [] default_retention False before_gc
     = (Inr \<lparr>gr_dry_run = False, gr_debug_history = False, gr_scanned = 1, gr_retained = 0, gr_removed = 1,
          gr_compacted = 0, gr_invalid_retained = 0, gr_recovery_refs_prunable = 1,
          gr_recovery_refs_removed = 1, gr_recovery_refs_skipped = 0, gr_bytes_reclaimed = 9\<rparr>, s')"
  by (simp add: running path_steps example_steps gc_steps reclaimed_by_def cong: lazy)

theorem gc_report_adds_up_witness:
  "\<exists>report. fst (gc_transactions scripted_env example_records ''/s/transactions'' [] [] default_retention False before_gc) = Inr report
     \<and> gr_scanned report = gr_retained report + gr_removed report"
proof -
  obtain s' report where ran: "gc_transactions scripted_env example_records ''/s/transactions'' [] [] default_retention False before_gc
      = (Inr report, s')"
    using example_gc by blast
  from gc_report_adds_up [OF ran] ran show ?thesis by simp
qed

definition example_deletion :: event where
  "example_deletion = git_event ''/p'' [''update-ref'', ''--stdin'']
     (default_options\<lparr>ro_input := Some (delete_script [''refs/resync/recovery/0-u1/head''])\<rparr>)"

lemma example_gc_deletes:
  "example_deletion \<in> set (new_events (gc_transactions scripted_env example_records ''/s/transactions'' [] [] default_retention False) before_gc)"
  by (simp add: new_events_def running path_steps example_steps gc_steps example_deletion_def cong: lazy)

theorem gc_deletes_only_unneeded_witness:
  "\<exists>refs. Some (delete_script [''refs/resync/recovery/0-u1/head'']) = Some (delete_script refs)
     \<and> (\<forall>r\<in>set refs. is_ok (validate_recovery_ref r))"
proof -
  obtain scan s1 where scan: "gc_scan_root scripted_env example_records ''/s/transactions'' [] before_gc = (Inr scan, s1)"
    using example_scan by blast
  have "ref_deletion example_deletion = Some (''/p'', Some (delete_script [''refs/resync/recovery/0-u1/head'']))"
    by (simp add: ref_deletion_def example_deletion_def default_options_def)
  from gc_deletes_only_unneeded [OF scan example_gc_deletes this] show ?thesis by blast
qed

theorem gc_dry_run_only_lists_witness: "listing_event (ReadDir ''/s/transactions'')"
proof -
  have "ReadDir ''/s/transactions'' \<in> set (new_events (gc_transactions scripted_env example_records ''/s/transactions'' [] [] default_retention True)
      before_gc)"
    by (simp add: new_events_def running path_steps example_steps gc_steps cong: lazy)
  from gc_dry_run_only_lists [OF this] show ?thesis .
qed

definition example_entry :: gc_entry where
  "example_entry = \<lparr>ge_transaction = example_transaction, ge_original_bytes = 9, ge_compact_bytes = 7, ge_retain = False\<rparr>"

theorem gc_decide_budget_witness:
  "length (gc_decide \<lparr>debug_history = True\<rparr> [example_entry]) = 1
     \<and> same_entry (gc_decide \<lparr>debug_history = True\<rparr> [example_entry] ! 0) example_entry
     \<and> card (newly_retained \<lparr>debug_history = True\<rparr> [example_entry]) \<le> debug_history_max_records"
  using gc_decide_budget [of "\<lparr>debug_history = True\<rparr>" "[example_entry]"] by simp

definition example_history :: "(nat \<times> transaction) list" where
  "example_history = [(9, example_transaction)]"

theorem prune_keeps_within_budget_witness:
  "\<exists>keep. length keep = 1 \<and> keep ! 0
     \<and> (prune_loop scripted_env 1 0 example_history :: (run_result list world, string, unit) prog)
         = forEach (\<lambda>h. remove_transaction_artifacts scripted_env (snd h)) (chosen (map Not keep) example_history)"
proof -
  have len: "length example_history = 1" and sizes: "fst (example_history ! 0) = 9"
    by (simp_all add: example_history_def)
  from prune_keeps_within_budget [of example_history scripted_env 1]
  obtain keep where "length keep = length example_history"
    and "(prune_loop scripted_env 1 0 example_history :: (run_result list world, string, unit) prog)
         = forEach (\<lambda>h. remove_transaction_artifacts scripted_env (snd h)) (chosen (map Not keep) example_history)"
    and "\<forall>i<length example_history. keep ! i \<longleftrightarrow>
          1 + length (chosen (take i keep) example_history) < debug_history_max_records
          \<and> sum_list (map fst (chosen (take i keep) example_history)) + fst (example_history ! i) \<le> debug_history_max_bytes"
    by blast
  then show ?thesis
    by (intro exI [of _ keep]) (simp add: len sizes debug_history_max_records_def debug_history_max_bytes_def)
qed

end
