(* ===== verification/Directory_Walk.thy ===== *)
theory Directory_Walk
  imports Gc_Examples
begin

section \<open>The directory walk ends\<close>

text \<open>
  \<open>remove_empty_recovery_directories\<close> walks the loose references with a stack. Every directory has
  one parent, so it is pushed once, and the walk visits at most the directories of the store: more
  fuel than the model gives it changes nothing.
\<close>

definition directories :: "fs \<Rightarrow> path set" where
  "directories fs = {p. fs_get fs p = Some Dir}"

lemma finite_directories: "finite (directories fs)" and card_directories: "card (directories fs) \<le> length fs"
proof -
  have sub: "directories fs \<subseteq> set (map fst fs)"
    by (force simp: directories_def fs_get_def dest!: map_of_SomeD)
  then show "finite (directories fs)" using finite_subset by blast
  have "card (directories fs) \<le> card (set (map fst fs))" by (rule card_mono [OF _ sub]) simp
  also have "\<dots> \<le> length fs" using card_length [of "map fst fs"] by simp
  finally show "card (directories fs) \<le> length fs" .
qed

text \<open>What holds while the walk runs: \<open>visited\<close> are the directories taken from the stack.\<close>

definition walking :: "path \<Rightarrow> fs \<Rightarrow> path set \<Rightarrow> path list \<Rightarrow> bool" where
  "walking root fs visited pending \<longleftrightarrow>
     distinct pending \<and> set pending \<inter> visited = {} \<and> set pending \<subseteq> insert root (directories fs)
     \<and> (\<forall>p\<in>set pending \<union> visited. p = root \<or> (length root < length p \<and> (\<exists>d\<in>visited. path_parent p = Some d)))"

lemma walking_step:
  assumes ok: "walking root fs visited (d # pending)" and keys: "distinct (map fst fs)"
    and below: "below = filter (\<lambda>p. fs_get fs p = Some Dir) (children d fs)"
  shows "walking root fs (insert d visited) (List.rev below @ pending)"
proof -
  have parent: "path_parent p = Some d" and dir: "p \<in> directories fs" if "p \<in> set below" for p
    using that by (auto simp: below children_def directories_def)
  have depth: "length root \<le> length p" if "p \<in> set (d # pending) \<union> visited" for p
    using ok that unfolding walking_def by (auto dest!: bspec [of _ _ p])
  have longer: "length root < length p" if "p \<in> set below" for p
    using path_parent_shorter [OF parent [OF that]] depth [of d] by simp
  have new: "p \<notin> set (d # pending) \<union> visited" if "p \<in> set below" for p
  proof
    assume "p \<in> set (d # pending) \<union> visited"
    then have "\<exists>e\<in>visited. path_parent p = Some e"
      using ok longer [OF that] unfolding walking_def by (metis less_irrefl)
    then show False using parent [OF that] ok by (auto simp: walking_def)
  qed
  have "distinct below" using keys by (simp add: below children_def)
  then show ?thesis
    using ok new parent dir longer unfolding walking_def by auto
qed

lemma walk_fuel:
  fixes s :: "('x, 'z) world_scheme"
  assumes "walking root (files s) visited pending" and "distinct (map fst (files s))" and "finite visited"
    and "card (insert root (directories (files s)) - visited) \<le> fuel"
  shows "walk_directories E (fuel + k) pending found s = walk_directories E fuel pending found s"
  using assms
proof (induction fuel arbitrary: visited pending found s)
  case 0
  have "insert root (directories (files s)) - visited = {}"
    using 0 finite_directories by simp
  then have "pending = []" using "0.prems"(1) by (cases pending) (auto simp: walking_def)
  then show ?case by (cases k) simp_all
next
  case (Suc fuel)
  show ?case
  proof (cases pending)
    case Nil
    then show ?thesis by simp
  next
    case (Cons d rest)
    let ?below = "filter (\<lambda>p. fs_get (files s) p = Some Dir)"
    have d: "d \<in> insert root (directories (files s)) - visited" using Suc.prems(1) Cons by (auto simp: walking_def)
    have "insert root (directories (files s)) - insert d visited = (insert root (directories (files s)) - visited) - {d}"
      by auto
    then have card: "card (insert root (directories (files s)) - insert d visited) \<le> fuel"
      using Suc.prems(4) d finite_directories [of "files s"] by simp
    show ?thesis
    proof (cases "read_dir E d s")
      case (Pair r t)
      show ?thesis
      proof (cases r)
        case (Inl e)
        then show ?thesis using Cons Pair by (simp add: run)
      next
        case (Inr paths)
        then have t: "files t = files s" and paths: "paths = children d (files s)"
          using Pair by (auto simp: read_dir_def file_op_def split: option.splits node.splits)
        have "walking root (files t) (insert d visited) (List.rev (?below paths) @ rest)"
          using walking_step [OF _ Suc.prems(2)] Suc.prems(1) Cons t paths by simp
        then have "walk_directories E (fuel + k) (List.rev (?below paths) @ rest) (found @ ?below paths) t
            = walk_directories E fuel (List.rev (?below paths) @ rest) (found @ ?below paths) t"
          by (rule Suc.IH) (use Suc.prems card t in simp_all)
        then show ?thesis using Cons Pair Inr t by (simp add: run)
      qed
    qed
  qed
qed


definition nested_world :: "run_result list world" where
  "nested_world = scripted_world [(''/r'', Dir), (''/r/a'', Dir), (''/r/a/b'', Dir), (''/r/f'', File [])] []"


end
