(* ===== verification/Cli_Arguments.thy ===== *)
theory Cli_Arguments
  imports Named_Lease
begin

section \<open>Arguments of the command line\<close>

text \<open>
  The pure part of \<open>src/src/cli.rs\<close>: the shortcuts that are expanded before the argument parser
  sees the words, durations and lease times, and the command \<open>resync lease\<close> with the JSON of its
  answers. The argument parser (clap) and the texts of the standard library's parse errors are not
  modelled: one text stands for every malformed number. A duration is a number of milliseconds.
\<close>

subsection \<open>Shortcuts\<close>

definition state_dir_flag :: string where
  "state_dir_flag = ''--state-dir''"

text \<open>The loop over the global options in front of the command.\<close>

function command_index :: "string list \<Rightarrow> nat \<Rightarrow> nat" where
  "command_index args i =
     (if i < length args then
        if args ! i = state_dir_flag then command_index args (i + 2)
        else if starts_with (args ! i) (state_dir_flag @ ''='') then command_index args (i + 1)
        else i
      else i)"
  by pat_completeness auto
termination by (relation "measure (\<lambda>(args, i). length args - i)") auto

declare command_index.simps [simp del]

definition known_commands :: "string list" where
  "known_commands = [''auth'', ''project'', ''device'', ''lease'', ''peer'', ''daemon'', ''doctor'', ''upgrade'',
     ''activate-upgrade'', ''gc'', ''transaction-debug'', ''install-adapters'', ''workspace'', ''acquire'',
     ''release'', ''codex-hook'', ''codex-workspace-hook'', ''report-commit'', ''report-checkout'', ''help'']"

definition shortcuts :: "(string \<times> string list) list" where
  "shortcuts = [(''login'', [''auth'', ''login'']), (''init'', [''project'', ''init'']),
     (''join'', [''project'', ''join'']), (''subscribe'', [''project'', ''join'']),
     (''fork'', [''project'', ''fork'']), (''unsubscribe'', [''project'', ''leave'']),
     (''status'', [''project'', ''status'']), (''sync'', [''project'', ''sync'']),
     (''publish'', [''project'', ''publish'']), (''conflicts'', [''project'', ''conflicts'']),
     (''recover'', [''project'', ''recover'']), (''devices'', [''device'', ''list''])]"

definition preprocess_arguments :: "string list \<Rightarrow> string list" where
  "preprocess_arguments args =
     (if length args < 2 then args
      else let i = command_index args 1 in
        if i \<ge> length args then args
        else case map_of shortcuts (args ! i) of
            Some replacement \<Rightarrow> take i args @ replacement @ drop (i + 1) args
          | None \<Rightarrow>
              if args ! i \<notin> set known_commands \<and> \<not> starts_with (args ! i) ''-''
              then take i args @ [''peer'', ''sync''] @ drop i args else args)"

subsection \<open>Durations\<close>

definition number :: "string \<Rightarrow> (string, nat) result" where
  "number t = ok_or ''invalid number'' (parse_u64 t)"

definition scaled :: "nat \<Rightarrow> string \<Rightarrow> (string, nat) result" where
  "scaled factor t = bindR (number t) (\<lambda>n.
     bindR (ok_or ''duration overflow'' (checked_mul_u64 n factor)) (\<lambda>seconds. Inr (1000 * seconds)))"

definition parse_duration :: "string \<Rightarrow> (string, nat) result" where
  "parse_duration v =
     (case strip_suffix ''ms'' v of Some ms \<Rightarrow> number ms
      | None \<Rightarrow> (case strip_suffix ''s'' v of Some seconds \<Rightarrow> bindR (number seconds) (\<lambda>n. Inr (1000 * n))
      | None \<Rightarrow> (case strip_suffix ''m'' v of Some minutes \<Rightarrow> scaled 60 minutes
      | None \<Rightarrow> (case strip_suffix ''h'' v of Some hours \<Rightarrow> scaled 3600 hours
      | None \<Rightarrow> bindR (number v) (\<lambda>n. Inr (1000 * n))))))"

definition parse_lease_ttl :: "string \<Rightarrow> (string, nat) result" where
  "parse_lease_ttl v = bindR (parse_duration v) (\<lambda>ms.
     if ms mod 1000 \<noteq> 0 \<or> ms div 1000 = 0 then Inl ''named-lease TTL must be a positive whole number of seconds''
     else Inr (ms div 1000))"

subsection \<open>Named leases\<close>

text \<open>The derived \<open>Serialize\<close> instances; \<open>P\<close> prints a time.\<close>

definition encode_lease :: "(int \<Rightarrow> string) \<Rightarrow> named_lease \<Rightarrow> json" where
  "encode_lease P l = jobj ([(''lease_id'', JStr (nl_lease_id l)), (''project_id'', JStr (nl_project_id l)),
     (''resource_key'', JStr (nl_resource_key l)), (''holder_device_id'', JStr (nl_holder_device_id l))]
     @ (case nl_holder_device_name l of None \<Rightarrow> [] | Some n \<Rightarrow> [(''holder_device_name'', JStr n)])
     @ [(''holder_id'', JStr (nl_holder_id l)), (''generation'', JInt (int (nl_generation l))),
     (''acquired_at'', JStr (P (nl_acquired_at l))), (''expires_at'', JStr (P (nl_expires_at l)))])"

definition encode_response :: "(int \<Rightarrow> string) \<Rightarrow> mutation_response \<Rightarrow> json" where
  "encode_response P r = jobj ((''outcome'', JStr (outcome_as_str (mr_outcome r)))
     # (case mr_lease r of None \<Rightarrow> [] | Some l \<Rightarrow> [(''lease'', encode_lease P l)]))"

datatype cli_error = Structured int json string | Other failure

definition named_lease_result :: "(int \<Rightarrow> string) \<Rightarrow> (failure, mutation_response) result \<Rightarrow> (cli_error, json) result" where
  "named_lease_result P r = (case r of
     Inr response \<Rightarrow> Inr (encode_response P response)
   | Inl (OutcomeFailure status response) \<Rightarrow>
       Inl (Structured (if mr_outcome response = Held then 3 else 1) (encode_response P response)
         (failure_message (OutcomeFailure status response)))
   | Inl e \<Rightarrow> Inl (Other e))"

datatype lease_command =
    LeaseAcquire string "string option" "string option" "string option"
  | LeaseGet string "string option"
  | LeaseList "string option" string
  | LeaseRenew string string "string option" "string option"
  | LeaseRelease string string "string option"

definition optional_ttl :: "string option \<Rightarrow> (string, nat option) result" where
  "optional_ttl t = (case t of None \<Rightarrow> Inr None | Some v \<Rightarrow> map_sum id Some (parse_lease_ttl v))"

abbreviation plainly :: "('s, string, 'a) prog \<Rightarrow> ('s, cli_error, 'a) prog" where
  "plainly m \<equiv> mapErr (\<lambda>e. Other (Msg e)) m"

definition answer_lease :: "(int \<Rightarrow> string) \<Rightarrow> ('s, failure, mutation_response) prog \<Rightarrow> ('s, cli_error, json) prog" where
  "answer_lease P m = andThen (attempt m) (\<lambda>r. lift (named_lease_result P r))"

definition lease :: "'x env \<Rightarrow> local_catalog codec \<Rightarrow> config codec \<Rightarrow> credential_file codec \<Rightarrow> receipt codec \<Rightarrow>
    receipt option codec \<Rightarrow> (int \<Rightarrow> string) \<Rightarrow> lease_command \<Rightarrow> (('x, 'z) world_scheme, cli_error, json) prog" where
  "lease E CL CF CC CR CA P command =
     andThen (plainly (lift (ok_or ''current directory is unavailable'' (current_dir E)))) (\<lambda>dir.
     let project_of = (\<lambda>selected. plainly (resolve_project E CL CF CC selected dir)) in
     case command of
       LeaseAcquire resource_key selected holder ttl \<Rightarrow>
         andThen (project_of selected) (\<lambda>project.
         andThen (plainly (lift (optional_ttl ttl))) (\<lambda>seconds.
         answer_lease P (acquire_lease E CR project resource_key holder seconds)))
     | LeaseGet resource_key selected \<Rightarrow>
         andThen (project_of selected) (\<lambda>project.
         andThen (mapErr Other (get_lease E project resource_key)) (\<lambda>found.
         ret (jobj [(''lease'', case found of None \<Rightarrow> JNull | Some l \<Rightarrow> encode_lease P l)])))
     | LeaseList selected start \<Rightarrow>
         andThen (project_of selected) (\<lambda>project.
         andThen (mapErr Other (list_leases E project start)) (\<lambda>leases.
         ret (jobj [(''leases'', JArr (map (encode_lease P) leases))])))
     | LeaseRenew lease_id holder selected ttl \<Rightarrow>
         andThen (project_of selected) (\<lambda>project.
         andThen (plainly (lift (optional_ttl ttl))) (\<lambda>seconds.
         answer_lease P (renew_lease E CA project lease_id holder seconds)))
     | LeaseRelease lease_id holder selected \<Rightarrow>
         andThen (project_of selected) (\<lambda>project.
         answer_lease P (release_lease E CA project lease_id holder)))"

subsection \<open>Shortcuts are expanded once\<close>

lemma command_index_after: "i \<le> command_index args i"
  by (induction args i rule: command_index.induct) (subst command_index.simps, auto)

lemma command_index_stops:
  "command_index args i < length args \<Longrightarrow> args ! command_index args i \<noteq> state_dir_flag
    \<and> \<not> starts_with (args ! command_index args i) (state_dir_flag @ ''='')"
proof (induction args i rule: command_index.induct)
  case (1 args i)
  then show ?case by (subst (asm) (3) command_index.simps, subst (1 2) command_index.simps) (auto split: if_splits)
qed

text \<open>What follows the command does not matter, nor does the command as long as it is no option.\<close>

lemma command_index_replace:
  assumes "command_index args i = k" and "k < length args" and "rest \<noteq> []"
    and "hd rest \<noteq> state_dir_flag" and "\<not> starts_with (hd rest) (state_dir_flag @ ''='')"
  shows "command_index (take k args @ rest) i = k"
  using assms
proof (induction args i rule: command_index.induct)
  case (1 args i)
  have at: "(take k args @ rest) ! i = args ! i" if "i < k" using that 1(4) by (simp add: nth_append)
  have k: "i \<le> k" using command_index_after [of i args] 1(3) by simp
  have l: "k < length (take k args @ rest)" using 1(4,5) by (cases rest) auto
  show ?case
  proof (cases "i = k")
    case True
    then show ?thesis using 1(4-7) l by (subst command_index.simps) (simp add: nth_append hd_conv_nth)
  next
    case False
    then have ik: "i < k" using k by simp
    have i: "i < length args" using ik 1(4) by simp
    have "args ! i = state_dir_flag \<or> starts_with (args ! i) (state_dir_flag @ ''='')"
      using 1(3) i False by (subst (asm) command_index.simps) (auto split: if_splits)
    then show ?thesis
    proof (cases "args ! i = state_dir_flag")
      case True
      then have "command_index args (i + 2) = k" using 1(3) i by (subst (asm) command_index.simps) simp
      then have "command_index (take k args @ rest) (i + 2) = k" by (rule 1(1) [OF i True]) (use 1 in auto)
      then show ?thesis using True at [OF ik] l ik by (subst command_index.simps) simp
    next
      case no: False
      then have s: "starts_with (args ! i) (state_dir_flag @ ''='')"
        using \<open>args ! i = state_dir_flag \<or> starts_with (args ! i) (state_dir_flag @ ''='')\<close> by simp
      then have "command_index args (i + 1) = k" using 1(3) i no by (subst (asm) command_index.simps) simp
      then have "command_index (take k args @ rest) (i + 1) = k" by (rule 1(2) [OF i no s]) (use 1 in auto)
      then show ?thesis using no s at [OF ik] l ik by (subst command_index.simps) simp
    qed
  qed
qed


lemma shortcut_known:
  assumes "map_of shortcuts w = Some words"
  shows "words \<noteq> [] \<and> hd words \<in> set known_commands"
  using map_of_SomeD [OF assms] by (auto simp: shortcuts_def known_commands_def)

lemma known_list:
  "list_all (\<lambda>w. map_of shortcuts w = None \<and> w \<noteq> state_dir_flag \<and> \<not> starts_with w (state_dir_flag @ ''='')) known_commands"
  by (simp add: known_commands_def shortcuts_def state_dir_flag_def starts_with_def)

lemma known_not_shortcut: "w \<in> set known_commands \<Longrightarrow> map_of shortcuts w = None"
  using known_list by (auto simp: list_all_iff)

lemma known_not_option:
  "w \<in> set known_commands \<Longrightarrow> w \<noteq> state_dir_flag \<and> \<not> starts_with w (state_dir_flag @ ''='')"
  using known_list by (auto simp: list_all_iff)

text \<open>A command is left alone.\<close>

lemma preprocess_command:
  assumes "command_index args 1 = k" and "k < length args" and "1 \<le> k" and "rest \<noteq> []" and "hd rest \<in> set known_commands"
  shows "preprocess_arguments (take k args @ rest) = take k args @ rest"
proof -
  have "command_index (take k args @ rest) 1 = k"
    by (rule command_index_replace [OF assms(1,2,4)]) (use known_not_option [OF assms(5)] in auto)
  moreover have "(take k args @ rest) ! k = hd rest" using assms by (simp add: nth_append hd_conv_nth)
  ultimately show ?thesis using assms known_not_shortcut [OF assms(5)]
    by (simp add: preprocess_arguments_def Let_def)
qed

theorem preprocess_idempotent: "preprocess_arguments (preprocess_arguments args) = preprocess_arguments args"
proof -
  let ?k = "command_index args 1"
  have k: "1 \<le> ?k" by (rule command_index_after)
  show ?thesis
  proof (cases "2 \<le> length args \<and> ?k < length args")
    case False
    then have "preprocess_arguments args = args" by (auto simp only: preprocess_arguments_def Let_def split: if_split)
    then show ?thesis by simp
  next
    case True
    show ?thesis
    proof (cases "map_of shortcuts (args ! ?k)")
      case (Some words)
      then have "preprocess_arguments args = take ?k args @ words @ drop (?k + 1) args"
        using True by (simp add: preprocess_arguments_def Let_def)
      then show ?thesis
        using preprocess_command [OF refl _ k, of "words @ drop (?k + 1) args"] shortcut_known [OF Some] True by simp
    next
      case None
      show ?thesis
      proof (cases "args ! ?k \<notin> set known_commands \<and> \<not> starts_with (args ! ?k) ''-''")
        case inserted: True
        then have "preprocess_arguments args = take ?k args @ [''peer'', ''sync''] @ drop ?k args"
          using True None by (simp add: preprocess_arguments_def Let_def)
        moreover have "''peer'' \<in> set known_commands" by (simp add: known_commands_def)
        ultimately show ?thesis
          using preprocess_command [OF refl _ k, of "[''peer'', ''sync''] @ drop ?k args"] True by simp
      next
        case False
        then have "preprocess_arguments args = args" using True None by (auto simp: preprocess_arguments_def Let_def)
        then show ?thesis by simp
      qed
    qed
  qed
qed

text \<open>A first word that is no command, shortcut or option is the target of \<open>peer sync\<close>.\<close>

lemma target_is_synchronized:
  assumes "w \<notin> set known_commands" and "map_of shortcuts w = None" and "\<not> starts_with w ''-''"
  shows "preprocess_arguments (program # w # rest) = program # ''peer'' # ''sync'' # w # rest"
proof -
  have "w \<noteq> state_dir_flag \<and> \<not> starts_with w (state_dir_flag @ ''='')"
    using assms(3) by (cases w) (auto simp: state_dir_flag_def starts_with_def)
  then have "command_index (program # w # rest) 1 = 1" by (subst command_index.simps) simp
  then show ?thesis using assms by (simp add: preprocess_arguments_def Let_def)
qed

subsection \<open>Times\<close>

definition unit_seconds :: "(string \<times> nat) list" where
  "unit_seconds = [(''s'', 1), (''m'', 60), (''h'', 3600), ([], 1)]"

lemma digits_suffix: "strip_suffix (c # cs) (show_digits n) = None" if "\<not> is_ascii_digit (List.last (c # cs))"
proof (cases "strip_suffix (c # cs) (show_digits n)")
  case (Some r)
  then have "List.last (c # cs) \<in> set (show_digits n)" by (auto simp: strip_suffix_Some)
  then show ?thesis using show_digits_digits that by blast
qed

lemma digits_unit: "strip_suffix x (show_digits n @ u) = (if u = x then Some (show_digits n) else None)"
  if "x \<in> {''ms'', ''s'', ''m'', ''h''}" "u \<in> {''s'', ''m'', ''h''}"
proof (cases "x = ''ms''")
  case True
  have "strip_suffix ''ms'' (show_digits n @ u) = None"
  proof (rule ccontr)
    assume "strip_suffix ''ms'' (show_digits n @ u) \<noteq> None"
    then obtain r where "show_digits n @ u = r @ ''ms''" by (auto simp: strip_suffix_Some)
    then have "CHR ''m'' \<in> set (show_digits n)" using that(2) by (auto simp: append_eq_append_conv2 append_eq_Cons_conv)
    then show False using show_digits_digits [of "CHR ''m''" n] by (simp add: is_ascii_digit_def byte_of_def)
  qed
  then show ?thesis using True that by auto
next
  case False
  then show ?thesis using that by (auto simp: strip_suffix_def)
qed

lemma plain_digits: "x \<in> {''ms'', ''s'', ''m'', ''h''} \<Longrightarrow> strip_suffix x (show_digits n) = None"
  using digits_suffix by (auto simp: is_ascii_digit_def byte_of_def)


lemma number_digits [simp]: "n \<le> u64_max \<Longrightarrow> number (show_digits n) = Inr n"
  by (simp add: number_def parse_u64_show)

theorem lease_ttl_of_text:
  assumes unit: "(u, factor) \<in> set unit_seconds" and n: "n \<le> u64_max"
  shows "parse_lease_ttl (show_digits n @ u) =
    (if n * factor > u64_max then Inl ''duration overflow''
     else if n = 0 then Inl ''named-lease TTL must be a positive whole number of seconds''
     else Inr (n * factor))"
proof -
  have "parse_duration (show_digits n @ u) = (if n * factor > u64_max then Inl ''duration overflow'' else Inr (1000 * (n * factor)))"
    using unit n by (auto simp: unit_seconds_def parse_duration_def digits_unit plain_digits scaled_def checked_mul_u64_def)
  moreover have "factor \<noteq> 0" using unit by (auto simp: unit_seconds_def)
  ultimately show ?thesis by (simp add: parse_lease_ttl_def)
qed

theorem lease_ttl_of_text_witness:
  "parse_lease_ttl (show_digits 15 @ ''m'') = Inr 900
    \<and> parse_lease_ttl (show_digits 18446744073709551615 @ ''h'') = Inl ''duration overflow''"
  using lease_ttl_of_text [of "''m''" 60 15] lease_ttl_of_text [of "''h''" 3600 18446744073709551615]
  by (simp add: unit_seconds_def u64_max_def)

subsection \<open>Answers\<close>

lemma decode_encode_lease:
  assumes "T (P (nl_acquired_at l)) = Some (nl_acquired_at l)" "T (P (nl_expires_at l)) = Some (nl_expires_at l)"
    and "nl_generation l \<le> u64_max"
  shows "decode_lease T (encode_lease P l) = Some l"
  using assms
  by (cases l; cases "nl_holder_device_name l")
    (simp_all add: decode_lease_def encode_lease_def jobj_def struct_fields_def lease_fields_def req_str_def req_u64_def optional_str_def)


text \<open>What \<open>resync lease\<close> prints is read back as the provider's answer.\<close>

theorem printed_answer_is_read_back:
  assumes times: "\<And>l t. mr_lease r = Some l \<Longrightarrow> t \<in> {nl_acquired_at l, nl_expires_at l} \<Longrightarrow> T (P t) = Some t"
    and generation: "\<And>l. mr_lease r = Some l \<Longrightarrow> nl_generation l \<le> u64_max"
  shows "decode_response T (encode_response P r) = Some r"
proof (cases "mr_lease r")
  case None
  then show ?thesis
    by (cases r) (simp add: encode_response_def decode_response_def jobj_def struct_fields_def req_str_def outcome.parse_print)
next
  case (Some l)
  have lease: "decode_lease T (encode_lease P l) = Some l"
    by (rule decode_encode_lease) (simp_all add: times [OF Some] generation [OF Some])
  obtain m where "encode_lease P l = JObj m" by (simp add: encode_lease_def jobj_def)
  then show ?thesis using lease Some
    by (cases r) (simp add: encode_response_def decode_response_def jobj_def struct_fields_def req_str_def outcome.parse_print)
qed

theorem printed_answer_is_read_back_witness:
  "decode_response (\<lambda>t. Some (int (length t))) (encode_response (\<lambda>t. replicate (nat t) CHR ''i'')
      \<lparr>mr_outcome = Held, mr_lease = Some \<lparr>nl_lease_id = ''l'', nl_project_id = ''p'', nl_resource_key = ''db'',
        nl_holder_device_id = ''d'', nl_holder_device_name = None, nl_holder_id = ''h'', nl_generation = 1,
        nl_acquired_at = 2, nl_expires_at = 5\<rparr>\<rparr>) \<noteq> None"
  by (subst printed_answer_is_read_back) (auto simp: u64_max_def)

end
