(* ===== verification/Managed_Builds.thy ===== *)
theory Managed_Builds
  imports Daemon_Client
begin

section \<open>Builds on one machine\<close>

text \<open>
  The commands of \<open>src/src/cli.rs\<close> that converge a machine onto one build: a build is staged below
  \<open>share/resync/bin\<close> under a name made of version and fingerprint, the launcher \<open>bin/resync\<close> is a
  symbolic link to it, older installations and unused builds are removed, and \<open>doctor\<close> checks that
  one build is left. \<open>version\<close> is the package version of the build. The Unix branches.
\<close>

record managed_build =
  mb_executable :: path
  mb_build_id :: string

definition file_fingerprint :: "'x env \<Rightarrow> path \<Rightarrow> (('x, 'z) world_scheme, string, string) prog" where
  "file_fingerprint E p =
     andThen (mapErr (\<lambda>e. ''open RepoSync executable '' @ p @ '': '' @ io_message e) (read_file E p)) (\<lambda>bytes.
     ret (hex_text (sha256 E bytes)))"

definition builds_directory :: "path \<Rightarrow> path" where
  "builds_directory install_root = path_join install_root ''share/resync/bin''"

definition launcher_path :: "path \<Rightarrow> path" where
  "launcher_path install_root = path_join (path_join install_root ''bin'') ''resync''"

definition process_suffix :: "'x env \<Rightarrow> string" where
  "process_suffix E = ''resync.tmp.'' @ show_digits (process_id E)"

subsection \<open>Staging\<close>

definition activate_managed_launcher :: "'x env \<Rightarrow> path \<Rightarrow> path \<Rightarrow> (('x, 'z) world_scheme, string, unit) prog" where
  "activate_managed_launcher E install_root executable =
     (let bin = path_join install_root ''bin''; launcher = path_join bin ''resync'';
          temporary = path_join bin (process_suffix E) in
     andThen (io (create_dir_all E bin)) (\<lambda>_.
     andThen (remove_if_present E temporary) (\<lambda>_.
     andThen (io (make_symlink E executable temporary)) (\<lambda>_.
     mapErr (\<lambda>e. ''activate stable RepoSync launcher '' @ launcher @ '': '' @ io_message e)
       (rename_file E temporary launcher)))))"

definition stage_copy :: "'x env \<Rightarrow> path \<Rightarrow> path \<Rightarrow> path \<Rightarrow> string \<Rightarrow> (('x, 'z) world_scheme, string, unit) prog" where
  "stage_copy E source directory executable fingerprint =
     (let temporary = path_join directory (process_suffix E) in
     andThen (remove_if_present E temporary) (\<lambda>_.
     andThen (mapErr (\<lambda>e. ''stage RepoSync build from '' @ source @ '' to '' @ temporary @ '': '' @ io_message e)
       (copy_file E source temporary)) (\<lambda>_.
     andThen (io (set_permissions E temporary executable_mode)) (\<lambda>_.
     andThen (file_fingerprint E temporary) (\<lambda>staged.
     if staged \<noteq> fingerprint then bail ''staged RepoSync build failed fingerprint validation''
     else mapErr (\<lambda>e. ''activate RepoSync build '' @ executable @ '': '' @ io_message e)
       (rename_file E temporary executable))))))"

definition stage_managed_build :: "'x env \<Rightarrow> string \<Rightarrow> path \<Rightarrow> path \<Rightarrow> (('x, 'z) world_scheme, string, managed_build) prog" where
  "stage_managed_build E version source install_root =
     andThen (file_fingerprint E source) (\<lambda>fingerprint.
     let build_id = version @ ''-'' @ take 16 fingerprint;
         directory = path_join (builds_directory install_root) build_id;
         executable = path_join directory ''resync'' in
     andThen (io (create_dir_all E directory)) (\<lambda>_.
     andThen (attempt (file_fingerprint E executable)) (\<lambda>present.
     andThen (onlyIf (present \<noteq> Inr fingerprint) (stage_copy E source directory executable fingerprint)) (\<lambda>_.
     andThen (activate_managed_launcher E install_root executable) (\<lambda>_.
     ret \<lparr>mb_executable = executable, mb_build_id = build_id\<rparr>)))))"

subsection \<open>Removing what is obsolete\<close>

definition remove_tree :: "'x env \<Rightarrow> path \<Rightarrow> (('x, 'z) world_scheme, io_error, unit) prog" where
  "remove_tree E p = andThen (is_dir p) (\<lambda>directory. if directory then remove_dir_all E p else remove_file E p)"

definition prune_managed_builds :: "'x env \<Rightarrow> path \<Rightarrow> path \<Rightarrow> path list \<Rightarrow> (('x, 'z) world_scheme, string, path list) prog" where
  "prune_managed_builds E install_root keep_executable referenced =
     andThen (lift (ok_or ''managed RepoSync executable has no parent directory'' (path_parent keep_executable))) (\<lambda>keep.
     andThen (attempt (read_dir E (builds_directory install_root))) (\<lambda>r. case r of
       Inl _ \<Rightarrow> ret []
     | Inr entries \<Rightarrow>
         let obsolete = sort_key path_components (filter (\<lambda>p. \<not> same_path p keep) entries) in
         andThen (forEach (\<lambda>p. if \<exists>x\<in>set referenced. path_starts_with x p
             then bail (''obsolete RepoSync build '' @ p @ '' is still referenced by a running process'')
             else ret ()) obsolete) (\<lambda>_.
         andThen (forEach (\<lambda>p. io (remove_tree E p)) obsolete) (\<lambda>_. ret obsolete))))"

definition entry_name :: "path \<Rightarrow> string" where
  "entry_name p = name_part (strip_slashes p)"

definition running_executables :: "'x os \<Rightarrow> (('x, 'z) world_scheme, 'e, path list) prog" where
  "running_executables S =
     andThen (attempt (read_dir (os_env S) ''/proc'')) (\<lambda>r. case r of
       Inl _ \<Rightarrow> ret []
     | Inr processes \<Rightarrow>
         gets (\<lambda>s. List.map_filter (\<lambda>p. os_read_link S (path_join p ''exe'') (files s) (ext s))
           (filter (\<lambda>p. \<forall>c\<in>set (entry_name p). is_ascii_digit c) processes)))"

text \<open>The default is computed before the variable is looked at, so \<open>HOME\<close> is needed in any case.\<close>

definition managed_install_root :: "'x env \<Rightarrow> (string, path) result" where
  "managed_install_root E =
     bindR (ok_or ''HOME is unavailable'' (var E ''HOME'')) (\<lambda>home.
     Inr (case var E ''RESYNC_INSTALL_ROOT'' of Some root \<Rightarrow> root | None \<Rightarrow> path_join home ''.local''))"

definition package_name :: string where
  "package_name = ''@tyrlabs-ai/resync''"

definition package_manifest :: "path \<Rightarrow> path" where
  "package_manifest root = path_join root ''lib/node_modules/@tyrlabs-ai/resync/package.json''"

definition join_paths :: "path list \<Rightarrow> (string, string) result" where
  "join_paths ps = (if \<exists>p\<in>set ps. CHR '':'' \<in> set p then Inl ''path segment contains separator `:`''
     else Inr (join_with '':'' ps))"

definition search_path :: "'x env \<Rightarrow> path list" where
  "search_path E = (case var E ''PATH'' of None \<Rightarrow> [] | Some p \<Rightarrow> split_at_char (CHR '':'') p)"

definition uninstall_node_version :: "'x env \<Rightarrow> path \<Rightarrow> (('x, 'z) world_scheme, string, string list) prog" where
  "uninstall_node_version E node =
     (let manifest = package_manifest node; node_bin = path_join node ''bin'' in
     andThen (path_exists manifest) (\<lambda>present.
     if \<not> present then ret []
     else
     andThen (lift (join_paths (node_bin # search_path E))) (\<lambda>search.
     andThen (run_process E (path_join node_bin ''npm'') [''uninstall'', ''--global'', package_name]
       (allow_failure_options\<lparr>ro_env := [(''PATH'', search)]\<rparr>)) (\<lambda>res.
     andThen (path_exists manifest) (\<lambda>left.
     if code res \<noteq> 0 \<or> left
     then bail (''could not remove obsolete NVM RepoSync installation at '' @ manifest @ '': '' @ trim (stderr res))
     else ret [''npm:'' @ node])))))"

definition uninstall_prefix :: "'x env \<Rightarrow> path \<Rightarrow> (('x, 'z) world_scheme, string, string list) prog" where
  "uninstall_prefix E install_root =
     (let manifest = package_manifest install_root in
     andThen (path_exists manifest) (\<lambda>present.
     if \<not> present then ret []
     else
     andThen (run_process E ''npm'' [''--prefix'', install_root, ''uninstall'', ''--global'', package_name]
       allow_failure_options) (\<lambda>res.
     andThen (path_exists manifest) (\<lambda>left.
     if code res \<noteq> 0 \<or> left
     then bail (''could not remove obsolete npm RepoSync installation at '' @ manifest @ '': '' @ trim (stderr res))
     else ret [''npm-prefix:'' @ install_root]))))"

definition uninstall_vite_plus :: "'x env \<Rightarrow> (('x, 'z) world_scheme, string, string list) prog" where
  "uninstall_vite_plus E =
     andThen (attempt (run_process E ''vp'' [''list'', ''--global''] allow_failure_options)) (\<lambda>listed.
     if \<not> (case listed of Inr res \<Rightarrow> contains (stdout res) package_name | Inl _ \<Rightarrow> False) then ret []
     else
     andThen (run_process E ''vp'' [''remove'', ''--global'', package_name] allow_failure_options) (\<lambda>res.
     if code res \<noteq> 0 then bail ''could not remove Vite Plus RepoSync installation'' else ret [''vite-plus'']))"

definition node_versions :: "'x env \<Rightarrow> path \<Rightarrow> (('x, 'z) world_scheme, 'e, path list) prog" where
  "node_versions E home = andThen (attempt (read_dir E (path_join home ''.nvm/versions/node''))) (\<lambda>r.
     ret (case r of Inl _ \<Rightarrow> [] | Inr versions \<Rightarrow> versions))"

definition remove_legacy_package_installs :: "'x env \<Rightarrow> path \<Rightarrow> (('x, 'z) world_scheme, string, string list) prog" where
  "remove_legacy_package_installs E install_root =
     andThen (lift (ok_or ''HOME is unavailable'' (var E ''HOME''))) (\<lambda>home.
     andThen (node_versions E home) (\<lambda>versions.
     andThen (foldEach (\<lambda>removed node. andThen (uninstall_node_version E node) (\<lambda>r. ret (removed @ r))) [] versions) (\<lambda>nvm.
     andThen (uninstall_prefix E install_root) (\<lambda>prefixed.
     andThen (uninstall_vite_plus E) (\<lambda>vite.
     ret (nvm @ prefixed @ vite))))))"

subsection \<open>Upgrading\<close>

definition upgrade_command :: "'x env \<Rightarrow> string \<Rightarrow> (('x, 'z) world_scheme, string, json) prog" where
  "upgrade_command E version =
     andThen (lift (managed_install_root E)) (\<lambda>install_root.
     andThen (lift (ok_or ''current executable is unavailable'' (current_exe E))) (\<lambda>current.
     andThen (stage_managed_build E version current install_root) (\<lambda>managed.
     andThen (run_process E (mb_executable managed) [''activate-upgrade'', ''--install-root'', install_root] default_options) (\<lambda>res.
     lift (ok_or ''activated RepoSync build returned invalid JSON'' (parse_json E (stdout res)))))))"


definition install_project_adapters :: "'x env \<Rightarrow> json codec \<Rightarrow> adapter_texts \<Rightarrow> local_project \<Rightarrow>
    (('x, 'z) world_scheme, abort, json) prog" where
  "install_project_adapters E J T project =
     install_project_adapters_in_state E J T project (sp_root (state_paths_of E))"

definition install_adapters :: "'x os \<Rightarrow> local_catalog codec \<Rightarrow> json codec \<Rightarrow> adapter_texts \<Rightarrow> string \<Rightarrow>
    (('x, 'z) world_scheme, abort, json) prog" where
  "install_adapters S CL J T project_id =
     andThen (fallible (load_catalog (os_env S) CL)) (\<lambda>catalog.
     andThen (lift (ok_or (Failed (''project '' @ project_id @ '' is not subscribed''))
       (find (\<lambda>p. lp_project_id p = project_id) (lc_projects catalog)))) (\<lambda>project.
     andThen (install_project_adapters (os_env S) J T project) (\<lambda>result.
     andThen (fallible (ensure_daemon_supervision S False)) (\<lambda>supervision.
     ret (jset ''daemonSupervision'' (JStr supervision) result)))))"

definition with_project :: "string \<Rightarrow> abort \<Rightarrow> abort" where
  "with_project project_id e = (case e of
     Failed m \<Rightarrow> Failed (''install adapters for '' @ project_id @ '': '' @ m) | Panic m \<Rightarrow> Panic m)"

definition install_adapters_command :: "'x os \<Rightarrow> local_catalog codec \<Rightarrow> json codec \<Rightarrow> adapter_texts \<Rightarrow> string option \<Rightarrow>
    (('x, 'z) world_scheme, abort, json) prog" where
  "install_adapters_command S CL J T project_id = (case project_id of
     Some p \<Rightarrow> install_adapters S CL J T p
   | None \<Rightarrow>
       andThen (fallible (load_catalog (os_env S) CL)) (\<lambda>catalog.
       andThen (foldEach (\<lambda>done_so_far project.
           andThen (mapErr (with_project (lp_project_id project)) (install_project_adapters (os_env S) J T project)) (\<lambda>v.
           ret (done_so_far @ [v]))) [] (lc_projects catalog)) (\<lambda>projects.
       andThen (fallible (ensure_daemon_supervision S False)) (\<lambda>supervision.
       ret (jobj [(''projectCount'', JInt (int (length projects))), (''projects'', JArr projects),
         (''daemonSupervision'', JStr supervision),
         (''requiresCodexTrustReview'', JBool (\<exists>v\<in>set projects. jget ''requiresCodexTrustReview'' v = Some (JBool True)))])))))"

definition activate_upgrade :: "'x os \<Rightarrow> local_catalog codec \<Rightarrow> json codec \<Rightarrow> adapter_texts \<Rightarrow> string \<Rightarrow> path \<Rightarrow>
    (('x, 'z) world_scheme, abort, json) prog" where
  "activate_upgrade S CL J T version install_root =
     (let E = os_env S in
     andThen (fallible (lift (ok_or ''current executable is unavailable'' (current_exe E)))) (\<lambda>current.
     andThen (fallible (stage_managed_build E version current install_root)) (\<lambda>managed.
     andThen (fallible (io (canonicalize E current))) (\<lambda>a.
     andThen (fallible (io (canonicalize E (mb_executable managed)))) (\<lambda>b.
     if \<not> same_path a b then bail (Failed ''upgrade activation must run from the staged canonical build'')
     else
     andThen (fallible (ensure_daemon_supervision S True)) (\<lambda>supervision.
     andThen (fallible (daemon_rpc S ping_request)) (\<lambda>reply.
     andThen (fallible (file_fingerprint E (mb_executable managed))) (\<lambda>fingerprint.
     if jget_str ''binaryId'' reply \<noteq> Some fingerprint
     then bail (Failed ''RepoSync daemon did not activate the staged build identity'')
     else
     andThen (install_adapters_command S CL J T None) (\<lambda>adapters.
     andThen (fallible (remove_legacy_package_installs E install_root)) (\<lambda>removed_packages.
     andThen (fallible (activate_managed_launcher E install_root (mb_executable managed))) (\<lambda>_.
     andThen (running_executables S) (\<lambda>referenced.
     andThen (fallible (prune_managed_builds E install_root (mb_executable managed) referenced)) (\<lambda>removed_builds.
     ret (jobj [(''version'', JStr version), (''protocol'', JStr protocol_version),
       (''buildId'', JStr (mb_build_id managed)), (''binaryId'', JStr fingerprint),
       (''executable'', JStr (mb_executable managed)), (''launcher'', JStr (path_join install_root ''bin/resync'')),
       (''daemonPid'', case jget ''pid'' reply of None \<Rightarrow> JNull | Some v \<Rightarrow> v),
       (''daemonSupervision'', JStr supervision), (''adapterRepair'', adapters),
       (''removedPackageInstalls'', JArr (map JStr removed_packages)),
       (''removedBuilds'', JArr (map JStr removed_builds))]))))))))))))))"

subsection \<open>Health\<close>

text \<open>\<open>Path::exists\<close> follows symbolic links, as \<open>canonicalize\<close> does.\<close>

fun other_executable :: "'x env \<Rightarrow> path \<Rightarrow> path list \<Rightarrow> (('x, 'z) world_scheme, 'e, bool) prog" where
  "other_executable E current [] = ret False"
| "other_executable E current (d # ds) =
     andThen (resolved E (path_join d ''resync'')) (\<lambda>found. case found of
       Some q \<Rightarrow> if \<not> same_path q current then ret True else other_executable E current ds
     | None \<Rightarrow> other_executable E current ds)"

definition staged_builds :: "'x env \<Rightarrow> path \<Rightarrow> (('x, 'z) world_scheme, string, path list) prog" where
  "staged_builds E install_root =
     andThen (io (read_dir E (builds_directory install_root))) (\<lambda>entries.
     gets (\<lambda>s. filter (\<lambda>p. case fs_get (files s) (path_join p ''resync'') of Some (File _) \<Rightarrow> True | _ \<Rightarrow> False) entries))"

definition daemon_executable_differs :: "'x os \<Rightarrow> json \<Rightarrow> path \<Rightarrow> (('x, 'z) world_scheme, string, bool) prog" where
  "daemon_executable_differs S reply current = (case reported_pid reply of
     None \<Rightarrow> ret False
   | Some pid \<Rightarrow>
       andThen (gets (\<lambda>s. os_read_link S (''/proc/'' @ show_digits pid @ ''/exe'') (files s) (ext s))) (\<lambda>link.
       andThen (lift (ok_or ''cannot read the executable of the daemon'' link)) (\<lambda>daemon.
       andThen (io (canonicalize (os_env S) daemon)) (\<lambda>q. ret (\<not> same_path q current)))))"

definition single_build_health :: "'x os \<Rightarrow> (('x, 'z) world_scheme, string, string) prog" where
  "single_build_health S =
     (let E = os_env S in
     andThen (lift (managed_install_root E)) (\<lambda>install_root.
     andThen (lift (ok_or ''current executable is unavailable'' (current_exe E))) (\<lambda>executable.
     andThen (io (canonicalize E executable)) (\<lambda>current.
     andThen (io (canonicalize E (path_join install_root ''bin/resync''))) (\<lambda>launcher.
     if \<not> same_path launcher current then bail ''stable launcher and current executable resolve to different builds''
     else
     andThen (staged_builds E install_root) (\<lambda>builds.
     if length builds \<noteq> 1 then bail (''managed build cache contains '' @ show_digits (length builds) @ '' RepoSync builds'')
     else
     andThen (file_fingerprint E current) (\<lambda>fingerprint.
     andThen (rpc S ping_request None) (\<lambda>reply.
     if jget_str ''binaryId'' reply \<noteq> Some fingerprint
     then bail ''daemon and stable launcher have different build identities''
     else
     andThen (daemon_executable_differs S reply current) (\<lambda>differs.
     if differs then bail ''daemon executable and stable launcher resolve to different builds''
     else
     andThen (other_executable E current (search_path E)) (\<lambda>other.
     if other then bail ''PATH contains a different RepoSync executable''
     else
     andThen (lift (ok_or ''HOME is unavailable'' (var E ''HOME''))) (\<lambda>home.
     andThen (path_exists (package_manifest install_root)) (\<lambda>npm.
     if npm then bail ''obsolete npm RepoSync installation remains under the install prefix''
     else
     andThen (node_versions E home) (\<lambda>versions.
     andThen (gets (\<lambda>s. \<exists>v\<in>set versions. fs_get (files s) (package_manifest v) \<noteq> None)) (\<lambda>nvm.
     if nvm then bail ''obsolete NVM RepoSync installation remains''
     else ret (current @ '' ('' @ fingerprint @ '')'')))))))))))))))"

definition health_check :: "string \<Rightarrow> (string, string option) result \<Rightarrow> json" where
  "health_check name r = jobj ((''name'', JStr name) # (case r of
     Inr None \<Rightarrow> [(''ok'', JBool True)]
   | Inr (Some detail) \<Rightarrow> [(''ok'', JBool True), (''detail'', JStr detail)]
   | Inl e \<Rightarrow> [(''ok'', JBool False), (''detail'', JStr e)]))"

definition doctor :: "'x os \<Rightarrow> config codec \<Rightarrow> credential_file codec \<Rightarrow> (('x, 'z) world_scheme, 'e, json) prog" where
  "doctor S CF CC =
     (let E = os_env S in
     andThen (attempt (run_process E ''git'' [''--version''] allow_failure_options)) (\<lambda>version.
     andThen (attempt (andThen (resolved_config E CF CC) (fetch_catalog E))) (\<lambda>hosted.
     andThen (attempt (rpc S ping_request None)) (\<lambda>daemon.
     andThen (attempt (single_build_health S)) (\<lambda>build.
     ret (JArr [
       (case version of
          Inr res \<Rightarrow> jobj [(''name'', JStr ''git''), (''ok'', JBool (code res = 0)), (''detail'', JStr (trim (stdout res @ stderr res)))]
        | Inl e \<Rightarrow> health_check ''git'' (Inl e)),
       health_check ''hosted catalog'' (map_sum id (\<lambda>_. None) hosted),
       health_check ''daemon'' (map_sum id (\<lambda>_. None) daemon),
       health_check ''single RepoSync build'' (map_sum id Some build)]))))))"


subsection \<open>Pruning spares what is in use\<close>

lemma forEach_guard:
  "forEach (\<lambda>p. if P p then bail (e p) else ret ()) ps s = (Inr (), s') \<longleftrightarrow> s' = s \<and> (\<forall>p\<in>set ps. \<not> P p)"
  by (induction ps) (auto simp: run)

lemma forEach_guard_state: "snd (forEach (\<lambda>p. if P p then bail (e p) else ret ()) ps s) = s"
  by (induction ps) (auto simp: run)

lemma path_starts_with_refl [simp]: "path_starts_with p p"
  by (simp add: path_starts_with_def)

lemma remove_tree_spares:
  assumes "remove_tree E p s = (r, s')" and "\<not> path_starts_with x p"
  shows "fs_get (files s') x = fs_get (files s) x"
proof -
  have "x \<noteq> p" using assms(2) by auto
  moreover have "map_of (filter (\<lambda>q. \<not> path_starts_with (fst q) p) fs) x = map_of fs x" for fs :: fs
    using assms(2) by (induction fs) auto
  ultimately show ?thesis using assms(1)
    by (auto simp: remove_tree_def is_dir_def remove_dir_all_def remove_file_def file_op_def run fs_get_def fs_del_def
        delete_conv' split: if_splits option.splits node.splits sum.splits)
qed

lemma remove_tree_removes:
  assumes "remove_tree E p s = (Inr u, s')"
  shows "fs_get (files s') p = None"
proof -
  have "map_of (filter (\<lambda>q. \<not> path_starts_with (fst q) p) fs) p = None" for fs :: fs
    by (induction fs) auto
  then show ?thesis using assms
    by (auto simp: remove_tree_def is_dir_def remove_dir_all_def remove_file_def file_op_def run fs_get_def fs_del_def
        delete_conv' split: if_splits option.splits node.splits sum.splits)
qed

lemma remove_tree_keeps_absent:
  assumes "remove_tree E p s = (r, s')" and "fs_get (files s) x = None"
  shows "fs_get (files s') x = None"
proof -
  have "map_of (filter f fs) x = None" if "map_of fs x = None" for f and fs :: fs
    using that by (induction fs) (auto split: if_splits)
  then show ?thesis using assms
    by (auto simp: remove_tree_def is_dir_def remove_dir_all_def remove_file_def file_op_def run fs_get_def fs_del_def
        delete_conv' split: if_splits option.splits node.splits sum.splits)
qed

lemma remove_trees_spare:
  assumes "forEach (\<lambda>p. io (remove_tree E p)) ps s = (r, s')" and "\<forall>p\<in>set ps. \<not> path_starts_with x p"
  shows "fs_get (files s') x = fs_get (files s) x"
  using assms
proof (induction ps arbitrary: s)
  case (Cons p ps)
  obtain q t where q: "remove_tree E p s = (q, t)" by fastforce
  then show ?case using Cons remove_tree_spares [OF q] by (auto simp: run split: sum.splits)
qed (simp add: run)

lemma remove_trees_remove:
  assumes "forEach (\<lambda>p. io (remove_tree E p)) ps s = (Inr u, s')" and "p \<in> set ps \<or> fs_get (files s) p = None"
  shows "fs_get (files s') p = None"
  using assms
proof (induction ps arbitrary: s)
  case (Cons q ps)
  have "andThen (io (remove_tree E q)) (\<lambda>_. forEach (\<lambda>p. io (remove_tree E p)) ps) s = (Inr u, s')"
    using Cons.prems(1) by simp
  then obtain u' t where "io (remove_tree E q) s = (Inr u', t)" and rest: "forEach (\<lambda>p. io (remove_tree E p)) ps t = (Inr u, s')"
    by (rule andThen_okE)
  then have v: "remove_tree E q s = (Inr u', t)" by (auto simp: run_mapErr split: prod.splits sum.splits)
  have "p \<in> set ps \<or> fs_get (files t) p = None"
    using Cons.prems(2) remove_tree_removes [OF v] remove_tree_keeps_absent [OF v] by auto
  then show ?case by (rule Cons.IH [OF rest])
qed (simp add: run)



text \<open>C40. Removing obsolete builds touches no executable that a running process uses; if an obsolete
  build is in use, nothing is removed, and otherwise every obsolete build is gone.\<close>

theorem prune_spares_builds_in_use:
  assumes ran: "prune_managed_builds E install_root keep_executable referenced s = (r, s')"
    and keep: "path_parent keep_executable = Some keep"
  shows "(\<forall>x\<in>set referenced. fs_get (files s') x = fs_get (files s) x)
    \<and> ((\<exists>p\<in>set (children (builds_directory install_root) (files s)). \<not> same_path p keep
          \<and> (\<exists>x\<in>set referenced. path_starts_with x p)) \<longrightarrow> files s' = files s)
    \<and> (\<forall>removed p. r = Inr removed \<and> fst (read_dir E (builds_directory install_root) s) = Inr (children (builds_directory install_root) (files s))
          \<and> p \<in> set (children (builds_directory install_root) (files s)) \<and> \<not> same_path p keep
        \<longrightarrow> p \<in> set removed \<and> fs_get (files s') p = None)"
proof -
  let ?dir = "builds_directory install_root"
  obtain q t where q: "read_dir E ?dir s = (q, t)" by fastforce
  then have t: "files t = files s" and entries: "q = Inr ps \<Longrightarrow> ps = children ?dir (files s)" for ps
    by (auto simp: read_dir_def file_op_def split: option.splits node.splits)
  show ?thesis
  proof (cases q)
    case (Inl e)
    then show ?thesis using ran keep q t by (auto simp: prune_managed_builds_def run)
  next
    case (Inr ps)
    let ?obsolete = "sort_key path_components (filter (\<lambda>p. \<not> same_path p keep) ps)"
    let ?guard = "\<lambda>p. if \<exists>x\<in>set referenced. path_starts_with x p
        then bail (''obsolete RepoSync build '' @ p @ '' is still referenced by a running process'') else ret ()"
    have run: "andThen (forEach ?guard ?obsolete) (\<lambda>_. andThen (forEach (\<lambda>p. io (remove_tree E p)) ?obsolete) (\<lambda>_. ret ?obsolete)) t = (r, s')"
      using ran keep q Inr by (simp add: prune_managed_builds_def run Let_def)
    have ps: "ps = children ?dir (files s)" using entries Inr by simp
    obtain g t' where g: "forEach ?guard ?obsolete t = (g, t')" by fastforce
    have "snd (forEach ?guard ?obsolete t) = t" by (rule forEach_guard_state)
    then have t': "t' = t" using g by simp
    have guard: "forEach ?guard ?obsolete t = (Inr (), t) \<longleftrightarrow> t = t \<and> (\<forall>p\<in>set ?obsolete. \<not> (\<exists>x\<in>set referenced. path_starts_with x p))"
      by (rule forEach_guard)
    show ?thesis
    proof (cases "\<forall>p\<in>set ?obsolete. \<not> (\<exists>x\<in>set referenced. path_starts_with x p)")
      case False
      then have "g \<noteq> Inr ()" using g t' guard by auto
      then obtain e where "g = Inl e" by (cases g) auto
      then have "s' = t" "r = Inl e" using run g t' by (auto simp: run_andThen)
      then show ?thesis using t by simp
    next
      case True
      then have "g = Inr ()" using g t' guard by auto
      then obtain v where v: "forEach (\<lambda>p. io (remove_tree E p)) ?obsolete t = (v, s')"
          and r: "\<And>removed. r = Inr removed \<Longrightarrow> removed = ?obsolete \<and> (\<exists>u. v = Inr u)"
        using run g t' by (auto simp: run_andThen run_simps split: prod.splits sum.splits)
      have "fs_get (files s') x = fs_get (files s) x" if "x \<in> set referenced" for x
        using remove_trees_spare [OF v, of x] True that t by auto
      moreover have "p \<in> set removed \<and> fs_get (files s') p = None"
        if "r = Inr removed" "p \<in> set ps" "\<not> same_path p keep" for removed p
        using r [OF that(1)] remove_trees_remove [of E ?obsolete t _ s' p] v that by auto
      ultimately show ?thesis using True ps by auto
    qed
  qed
qed


subsection \<open>Staging installs the build\<close>

definition base :: "path \<Rightarrow> path" where
  "base p = (if p = [] \<or> last p = slash then p else p @ [slash])"

lemma path_join_base: "\<not> is_absolute q \<Longrightarrow> path_join p q = base p @ q"
  by (simp add: path_join_def base_def)

lemma relative_names [simp]:
  "\<not> is_absolute ''resync''" "\<not> is_absolute ''bin''" "\<not> is_absolute ''share/resync/bin''"
  "\<not> is_absolute (process_suffix E)"
  by (simp_all add: is_absolute_def slash_def process_suffix_def)

lemma base_bin: "base (base p @ ''bin'') = base p @ ''bin/''" "base (base p @ ''share/resync/bin'') = base p @ ''share/resync/bin/''"
  by (simp_all add: base_def slash_def)

lemma staged_paths:
  fixes root :: path and name :: string
  assumes "\<not> is_absolute version"
  defines "directory \<equiv> path_join (builds_directory root) (version @ ''-'' @ name)"
  shows "path_join directory ''resync'' \<noteq> launcher_path root"
    and "path_join directory ''resync'' \<noteq> path_join (path_join root ''bin'') (process_suffix E)"
    and "path_join directory ''resync'' \<noteq> path_join directory (process_suffix E)"
    and "path_join (path_join root ''bin'') (process_suffix E) \<noteq> launcher_path root"
proof -
  have relative: "\<not> is_absolute (version @ ''-'' @ name)" using assms(1) by (cases version) (simp_all add: is_absolute_def slash_def)
  have "builds_directory root = base root @ ''share/resync/bin''" by (simp add: builds_directory_def path_join_base)
  then have "directory = base root @ ''share/resync/bin/'' @ version @ ''-'' @ name"
    by (simp only: directory_def path_join_base [OF relative] base_bin append_assoc)
  moreover obtain t where "base directory = directory @ t"
    by (cases "directory = [] \<or> last directory = slash") (auto simp: base_def)
  ultimately obtain rest where "base directory = base root @ ''share/resync/bin/'' @ rest"
    by (simp only: append_assoc)
  then show "path_join directory ''resync'' \<noteq> launcher_path root"
    and "path_join directory ''resync'' \<noteq> path_join (path_join root ''bin'') (process_suffix E)"
    by (simp_all add: launcher_path_def path_join_base base_bin)
  have "base d @ ''resync'' \<noteq> base d @ process_suffix E" for d by (simp add: process_suffix_def)
  then show "path_join directory ''resync'' \<noteq> path_join directory (process_suffix E)"
    and "path_join (path_join root ''bin'') (process_suffix E) \<noteq> launcher_path root"
    by (simp_all add: launcher_path_def path_join_base not_sym)
qed

lemma fs_get_make_dirs_some: "fs_get fs p = Some n \<Longrightarrow> fs_get (make_dirs d fs) p = Some n"
proof -
  have "fs_get fs p = Some n \<Longrightarrow> fs_get (foldr make_dir ds fs) p = Some n" for ds
    by (induction ds) (auto simp: make_dir_def split: option.splits)
  then show "fs_get fs p = Some n \<Longrightarrow> fs_get (make_dirs d fs) p = Some n" unfolding make_dirs_def by blast
qed

lemma file_op_files: "file_op E ev f s = (r, s') \<Longrightarrow> (\<And>a fs. f (files s) = Inr (a, fs) \<Longrightarrow> fs = files s) \<Longrightarrow> files s' = files s"
  by (auto simp: file_op_def split: option.splits sum.splits)

lemma fingerprint_frame: "file_fingerprint E p s = (r, s') \<Longrightarrow> files s' = files s"
  by (auto simp: file_fingerprint_def read_file_def file_op_def run split: option.splits node.splits sum.splits prod.splits)

lemma fingerprint_of: "file_fingerprint E p s = (Inr f, s') \<Longrightarrow> \<exists>b. fs_get (files s) p = Some (File b) \<and> f = hex_text (sha256 E b)"
  by (auto simp: file_fingerprint_def read_file_def file_op_def run split: option.splits node.splits sum.splits prod.splits)

lemma stage_copy_installs:
  assumes "stage_copy E source directory executable fingerprint s = (Inr u, s')"
    and "path_join directory (process_suffix E) \<noteq> executable"
  shows "\<exists>b. fs_get (files s') executable = Some (File b) \<and> hex_text (sha256 E b) = fingerprint"
proof -
  let ?t = "path_join directory (process_suffix E)"
  obtain s1 s2 f where f: "file_fingerprint E ?t s1 = (Inr f, s2)" "f = fingerprint"
      and mv: "rename_file E ?t executable s2 = (Inr u, s')"
    using assms(1) unfolding stage_copy_def Let_def
    by (auto simp: run split: prod.splits sum.splits if_splits)
  obtain b where "fs_get (files s2) ?t = Some (File b)" "fingerprint = hex_text (sha256 E b)"
    using fingerprint_of [OF f(1)] fingerprint_frame [OF f(1)] f(2) by auto
  then show ?thesis using mv assms(2) by (auto simp: rename_file_def file_op_def split: option.splits if_splits)
qed

lemma activate_links:
  fixes s s' :: "('a, 'b) world_scheme"
  assumes "activate_managed_launcher E root executable s = (Inr u, s')"
  shows "fs_get (files s') (launcher_path root) = Some (Symlink executable)"
    and "fs_get (files s) p = Some n \<Longrightarrow> p \<noteq> launcher_path root \<Longrightarrow> p \<noteq> path_join (path_join root ''bin'') (process_suffix E)
      \<Longrightarrow> fs_get (files s') p = Some n"
proof -
  let ?bin = "path_join root ''bin''"
  let ?t = "path_join ?bin (process_suffix E)"
  obtain a b c :: "('a, 'b) world_scheme" where steps: "create_dir_all E ?bin s = (Inr (), a)" "remove_if_present E ?t a = (Inr (), b)"
      "make_symlink E executable ?t b = (Inr (), c)" "rename_file E ?t (launcher_path root) c = (Inr u, s')"
    using assms unfolding activate_managed_launcher_def launcher_path_def Let_def
    by (auto simp: run split: prod.splits sum.splits)
  have apart: "?t \<noteq> launcher_path root" by (rule staged_paths(4) [of "[]"]) (simp add: is_absolute_def)
  have kept_a: "fs_get (files a) p = Some n" if "fs_get (files s) p = Some n"
    using steps(1) that by (auto simp: create_dir_all_def file_op_def fs_get_make_dirs_some split: option.splits)
  have kept_b: "fs_get (files b) p = fs_get (files a) p" if "p \<noteq> ?t"
    using steps(2) that by (auto simp: remove_if_present_def remove_file_def file_op_def run
      split: option.splits sum.splits prod.splits node.splits io_error.splits)
  have c: "fs_get (files c) ?t = Some (Symlink executable)" "p \<noteq> ?t \<Longrightarrow> fs_get (files c) p = fs_get (files b) p"
    using steps(3) by (auto simp: make_symlink_def file_op_def split: option.splits)
  show "fs_get (files s') (launcher_path root) = Some (Symlink executable)"
    using steps(4) c(1) apart by (auto simp: rename_file_def file_op_def split: option.splits)
  show "fs_get (files s) p = Some n \<Longrightarrow> p \<noteq> launcher_path root \<Longrightarrow> p \<noteq> ?t \<Longrightarrow> fs_get (files s') p = Some n"
    using steps(4) c(2) kept_a kept_b apart by (auto simp: rename_file_def file_op_def split: option.splits)
qed

theorem stage_installs_the_build:
  assumes ran: "stage_managed_build E version source install_root s = (Inr mb, s')" and version: "\<not> is_absolute version"
  shows "\<exists>original staged. fs_get (files s) source = Some (File original)
    \<and> fs_get (files s') (mb_executable mb) = Some (File staged)
    \<and> hex_text (sha256 E staged) = hex_text (sha256 E original)
    \<and> fs_get (files s') (launcher_path install_root) = Some (Symlink (mb_executable mb))
    \<and> mb_build_id mb = version @ ''-'' @ take 16 (hex_text (sha256 E original))"
proof -
  obtain f s1 where f: "file_fingerprint E source s = (Inr f, s1)"
    using ran by (auto simp: stage_managed_build_def run split: prod.splits sum.splits)
  let ?d = "path_join (builds_directory install_root) (version @ ''-'' @ take 16 f)"
  let ?x = "path_join ?d ''resync''"
  note paths = staged_paths(1-3) [OF version, where root = install_root and name = "take 16 f"]
  obtain s2 present s3 s4 u u' where present: "file_fingerprint E ?x s2 = (present, s3)"
      and copy: "onlyIf (present \<noteq> Inr f) (stage_copy E source ?d ?x f) s3 = (Inr u, s4)"
      and activate: "activate_managed_launcher E install_root ?x s4 = (Inr u', s')"
      and mb: "mb = \<lparr>mb_executable = ?x, mb_build_id = version @ ''-'' @ take 16 f\<rparr>"
    using ran f unfolding stage_managed_build_def Let_def
    by (auto simp: run_andThen run_mapErr run_attempt run_simps split: prod.splits sum.splits)
  obtain b where b: "fs_get (files s4) ?x = Some (File b)" "hex_text (sha256 E b) = f"
  proof (cases "present = Inr f")
    case True
    then show ?thesis using that copy present fingerprint_of [of E ?x s2 f s3] fingerprint_frame [OF present]
      by (auto simp: onlyIf_def run_simps)
  next
    case False
    then show ?thesis using that copy stage_copy_installs [of E source ?d ?x f s3 u s4] paths(3) [of E] by (auto simp: onlyIf_def)
  qed
  have "fs_get (files s') ?x = Some (File b)"
    by (rule activate_links(2) [OF activate b(1) paths(1) paths(2)])
  then show ?thesis using fingerprint_of [OF f] b(2) activate_links(1) [OF activate] mb by auto
qed


subsection \<open>What a healthy installation is\<close>

lemma canonicalize_ok: "canonicalize E p s = (Inr q, s') \<Longrightarrow> s' = s \<and> realpath E p (files s) (ext s) = Some q"
  by (auto simp: canonicalize_def split: option.splits)

lemma is_file_iff: "(case n of Some (File _) \<Rightarrow> True | _ \<Rightarrow> False) \<longleftrightarrow> (\<exists>c. n = Some (File c))"
  by (auto split: option.splits node.splits)

lemma staged_builds_ok:
  assumes "staged_builds E root s = (Inr builds, s')"
  shows "files s' = files s \<and> ext s' = ext s
    \<and> builds = filter (\<lambda>p. \<exists>c. fs_get (files s) (path_join p ''resync'') = Some (File c)) (children (builds_directory root) (files s))"
  using assms unfolding staged_builds_def is_file_iff
  by (auto simp: read_dir_def file_op_def run split: option.splits node.splits prod.splits sum.splits)

theorem healthy_build_is_the_only_one:
  fixes s s' :: "('x, 'z) world_scheme"
  assumes ran: "single_build_health S s = (Inr detail, s')"
  defines "E \<equiv> os_env S"
  shows "\<exists>root executable current launcher bytes. managed_install_root E = Inr root \<and> current_exe E = Some executable
    \<and> realpath E executable (files s) (ext s) = Some current
    \<and> realpath E (path_join root ''bin/resync'') (files s) (ext s) = Some launcher \<and> same_path launcher current
    \<and> (\<exists>b. filter (\<lambda>p. \<exists>c. fs_get (files s) (path_join p ''resync'') = Some (File c)) (children (builds_directory root) (files s)) = [b])
    \<and> fs_get (files s) current = Some (File bytes)
    \<and> (\<exists>reply. \<exists>s1 s2 :: ('x, 'z) world_scheme. rpc S ping_request None s1 = (Inr reply, s2)
        \<and> jget_str ''binaryId'' reply = Some (hex_text (sha256 E bytes)))
    \<and> detail = current @ '' ('' @ hex_text (sha256 E bytes) @ '')''"
proof -
  obtain root executable where root: "managed_install_root E = Inr root" and executable: "current_exe E = Some executable"
    using ran by (auto simp: single_build_health_def Let_def run E_def ok_or_def split: prod.splits sum.splits option.splits)
  obtain current where current: "realpath E executable (files s) (ext s) = Some current"
    using ran root executable by (auto simp: single_build_health_def Let_def run E_def canonicalize_def split: option.splits)
  obtain launcher where launcher: "realpath E (path_join root ''bin/resync'') (files s) (ext s) = Some launcher" "same_path launcher current"
    using ran root executable current
    by (auto simp: single_build_health_def Let_def run E_def canonicalize_def split: option.splits if_splits)
  obtain builds s1 where builds: "staged_builds E root s = (Inr builds, s1)" "length builds = 1"
    using ran root executable current launcher
    by (auto simp: single_build_health_def Let_def run E_def canonicalize_def split: option.splits if_splits prod.splits sum.splits)
  obtain f s2 where f: "file_fingerprint E current s1 = (Inr f, s2)"
    using ran root executable current launcher builds
    by (auto simp: single_build_health_def Let_def run E_def canonicalize_def split: option.splits if_splits prod.splits sum.splits)
  obtain reply s3 where reply: "rpc S ping_request None s2 = (Inr reply, s3)" "jget_str ''binaryId'' reply = Some f"
      "detail = current @ '' ('' @ f @ '')''"
    using ran root executable current launcher builds f
    by (auto simp: single_build_health_def Let_def run E_def canonicalize_def split: option.splits if_splits prod.splits sum.splits)
  obtain bytes where bytes: "fs_get (files s) current = Some (File bytes)" "f = hex_text (sha256 E bytes)"
    using fingerprint_of [OF f] staged_builds_ok [OF builds(1)] by auto
  obtain b where "builds = [b]" using builds(2) by (cases builds) auto
  then have "filter (\<lambda>p. \<exists>c. fs_get (files s) (path_join p ''resync'') = Some (File c)) (children (builds_directory root) (files s)) = [b]"
    using staged_builds_ok [OF builds(1)] by simp
  then show ?thesis using root executable current launcher reply bytes by blast
qed

end
