(* ===== verification/Local_Documents.thy ===== *)
theory Local_Documents
  imports Daemon Provider
begin

section \<open>Documents of the local state\<close>

text \<open>
  The \<open>Serialize\<close> and \<open>Deserialize\<close> instances that \<open>src/src/state.rs\<close> derives for projects and
  provider entries, as the daemon's socket and the output of the command line use them. A project
  keeps the members it does not know (\<open>flatten\<close>), so it is read from an object only.
\<close>

definition local_project_fields :: "string list" where
  "local_project_fields = [''projectId'', ''localPath'', ''remoteUrl'', ''remoteName'', ''defaultBranch'',
     ''serverGeneration'', ''advertisedHeads'', ''lastAppliedHeads'', ''activeBranch'', ''workspaceGeneration'',
     ''state'', ''durability'', ''conflict'', ''lastError'', ''service'', ''checkoutId'']"

definition encode_heads :: "heads \<Rightarrow> json" where
  "encode_heads heads = JObj (map (\<lambda>(name, oid). (name, JStr oid)) heads)"

definition encode_conflict :: "conflict \<Rightarrow> json" where
  "encode_conflict c = jobj [(''kind'', JStr (cf_kind c)), (''detail'', JStr (cf_detail c)),
     (''paths'', JArr (map JStr (cf_paths c)))]"

definition project_members :: "local_project \<Rightarrow> (string \<times> json) list" where
  "project_members p = [(''projectId'', JStr (lp_project_id p)), (''localPath'', JStr (lp_local_path p)),
     (''remoteUrl'', JStr (lp_remote_url p)), (''remoteName'', JStr (lp_remote_name p)),
     (''defaultBranch'', JStr (lp_default_branch p)), (''serverGeneration'', JInt (int (lp_server_generation p))),
     (''advertisedHeads'', encode_heads (lp_advertised_heads p)),
     (''lastAppliedHeads'', encode_heads (lp_last_applied_heads p)), (''activeBranch'', jopt (lp_active_branch p)),
     (''workspaceGeneration'', JInt (int (lp_workspace_generation p))), (''state'', JStr (lp_state p)),
     (''durability'', JStr (lp_durability p)),
     (''conflict'', case lp_conflict p of None \<Rightarrow> JNull | Some c \<Rightarrow> encode_conflict c),
     (''lastError'', jopt (lp_last_error p)), (''service'', jopt (lp_service p)),
     (''checkoutId'', jopt (lp_checkout_id p))]"

definition encode_local_project :: "local_project \<Rightarrow> json" where
  "encode_local_project p = jobj (project_members p @ lp_extra p)"

definition encode_provider_config :: "provider_config \<Rightarrow> json" where
  "encode_provider_config c = jobj [(''origin'', JStr (pc_origin c)), (''serviceId'', jopt (pc_service_id c)),
     (''deviceId'', jopt (pc_device_id c)), (''deviceName'', jopt (pc_device_name c)),
     (''publicKeyPath'', jopt (pc_public_key_path c)), (''loggedInAt'', jopt (pc_logged_in_at c))]"

text \<open>Fields with a default of their own.\<close>

definition str_or :: "string \<Rightarrow> string \<Rightarrow> (string \<times> json) list \<Rightarrow> string option" where
  "str_or fallback k m = (case map_of m k of None \<Rightarrow> Some fallback | Some v \<Rightarrow> as_str v)"

definition u64_or :: "nat \<Rightarrow> string \<Rightarrow> (string \<times> json) list \<Rightarrow> nat option" where
  "u64_or fallback k m = (case map_of m k of None \<Rightarrow> Some fallback | Some v \<Rightarrow> as_u64 v)"

definition decode_heads :: "string \<Rightarrow> (string \<times> json) list \<Rightarrow> heads option" where
  "decode_heads k m = (case map_of m k of None \<Rightarrow> Some [] | Some v \<Rightarrow> decode_string_map v)"

definition decode_conflict :: "json \<Rightarrow> conflict option" where
  "decode_conflict j =
     Option.bind (struct_fields [''kind'', ''detail'', ''paths''] j) (\<lambda>m.
     Option.bind (str_or [] ''kind'' m) (\<lambda>kind.
     Option.bind (str_or [] ''detail'' m) (\<lambda>detail.
     Option.bind (default_strings ''paths'' m) (\<lambda>paths.
     Some \<lparr>cf_kind = kind, cf_detail = detail, cf_paths = paths\<rparr>))))"

definition optional_conflict :: "(string \<times> json) list \<Rightarrow> conflict option option" where
  "optional_conflict m = (case map_of m ''conflict'' of None \<Rightarrow> Some None | Some JNull \<Rightarrow> Some None
     | Some v \<Rightarrow> map_option Some (decode_conflict v))"

definition decode_local_project :: "json \<Rightarrow> local_project option" where
  "decode_local_project j = (case j of
       JObj m \<Rightarrow>
         Option.bind (req_str ''projectId'' m) (\<lambda>project_id.
         Option.bind (req_str ''localPath'' m) (\<lambda>local_path.
         Option.bind (str_or [] ''remoteUrl'' m) (\<lambda>remote_url.
         Option.bind (str_or ''resync'' ''remoteName'' m) (\<lambda>remote_name.
         Option.bind (str_or ''main'' ''defaultBranch'' m) (\<lambda>default_branch.
         Option.bind (u64_or 0 ''serverGeneration'' m) (\<lambda>server_generation.
         Option.bind (decode_heads ''advertisedHeads'' m) (\<lambda>advertised.
         Option.bind (decode_heads ''lastAppliedHeads'' m) (\<lambda>applied.
         Option.bind (optional_str ''activeBranch'' m) (\<lambda>active_branch.
         Option.bind (u64_or 1 ''workspaceGeneration'' m) (\<lambda>workspace_generation.
         Option.bind (str_or ''CURRENT'' ''state'' m) (\<lambda>state.
         Option.bind (str_or ''REMOTELY_DURABLE'' ''durability'' m) (\<lambda>durability.
         Option.bind (optional_conflict m) (\<lambda>conflict.
         Option.bind (optional_str ''lastError'' m) (\<lambda>last_error.
         Option.bind (optional_str ''service'' m) (\<lambda>service.
         Option.bind (optional_str ''checkoutId'' m) (\<lambda>checkout_id.
         Some \<lparr>lp_project_id = project_id, lp_local_path = local_path, lp_remote_url = remote_url,
           lp_remote_name = remote_name, lp_default_branch = default_branch, lp_server_generation = server_generation,
           lp_advertised_heads = advertised, lp_last_applied_heads = applied, lp_active_branch = active_branch,
           lp_workspace_generation = workspace_generation, lp_state = state, lp_durability = durability,
           lp_conflict = conflict, lp_last_error = last_error, lp_service = service, lp_checkout_id = checkout_id,
           lp_extra = filter (\<lambda>e. fst e \<notin> set local_project_fields) m\<rparr>))))))))))))))))
     | _ \<Rightarrow> None)"

subsection \<open>Objects that are built member by member\<close>

lemma foldl_obj_insert_map_of:
  "map_of (foldl (\<lambda>m (k, v). obj_insert k v m) m ms) k = (case map_of (List.rev ms) k of None \<Rightarrow> map_of m k | Some v \<Rightarrow> Some v)"
proof (induction ms arbitrary: m)
  case (Cons p ms)
  obtain k' v where "p = (k', v)" by (cases p)
  then show ?case using Cons [of "obj_insert k' v m"]
    by (auto simp: map_of_obj_insert map_add_def split: option.split)
qed simp

lemma jget_jobj: "jget k (jobj ms) = map_of (List.rev ms) k"
  by (simp add: jobj_def foldl_obj_insert_map_of split: option.split)

lemma map_of_rev_distinct: "distinct (map fst ms) \<Longrightarrow> map_of (List.rev ms) = map_of ms"
  by (simp add: map_of_inject_set rev_map [symmetric])

lemma jget_jobj_distinct: "distinct (map fst ms) \<Longrightarrow> jget k (jobj ms) = map_of ms k"
  by (simp add: jget_jobj map_of_rev_distinct)

lemma obj_wf_foldl: "obj_wf m \<Longrightarrow> obj_wf (foldl (\<lambda>m (k, v). obj_insert k v m) m ms)"
  by (induction ms arbitrary: m) (auto simp: obj_wf_insert)

lemma obj_insert_Cons_less: "obj_wf ((k, v) # m) \<Longrightarrow> obj_insert k v m = (k, v) # m"
  by (cases m) (auto simp: obj_wf_def)

lemma filter_obj_insert:
  assumes "obj_wf m"
  shows "filter (\<lambda>e. P (fst e)) (obj_insert k v m)
    = (if P k then obj_insert k v (filter (\<lambda>e. P (fst e)) m) else filter (\<lambda>e. P (fst e)) m)"
  using assms
proof (induction m)
  case (Cons e m)
  obtain k' v' where e: "e = (k', v')" by (cases e)
  have wf: "obj_wf m" and below: "\<forall>b\<in>set m. k' < fst b" using Cons.prems by (auto simp: obj_wf_def e)
  have ins: "obj_insert k v (filter (\<lambda>e. P (fst e)) m) = (k, v) # filter (\<lambda>e. P (fst e)) m" if "k < k'"
  proof (cases "filter (\<lambda>e. P (fst e)) m")
    case (Cons b bs)
    then have "b \<in> set (filter (\<lambda>e. P (fst e)) m)" by simp
    then have "b \<in> set m" by simp
    then have "k < fst b" using that below by (meson less_trans)
    then show ?thesis unfolding Cons by (cases b) simp
  qed simp
  show ?case using Cons.IH [OF wf] ins by (auto simp: e)
qed simp

lemma filter_foldl_obj_insert:
  assumes "obj_wf m"
  shows "filter (\<lambda>e. P (fst e)) (foldl (\<lambda>m (k, v). obj_insert k v m) m ms)
    = foldl (\<lambda>m (k, v). obj_insert k v m) (filter (\<lambda>e. P (fst e)) m) (filter (\<lambda>e. P (fst e)) ms)"
  using assms
proof (induction ms arbitrary: m)
  case (Cons e ms)
  obtain k v where e: "e = (k, v)" by (cases e)
  show ?case using Cons.IH [OF obj_wf_insert [OF Cons.prems], of k v] filter_obj_insert [OF Cons.prems, of P k v]
    by (simp add: e)
qed simp

lemma obj_insert_last: "\<forall>e\<in>set m. fst e < k \<Longrightarrow> obj_insert k v m = m @ [(k, v)]"
  by (induction m) auto

lemma foldl_obj_insert_sorted: "obj_wf (m @ ms) \<Longrightarrow> foldl (\<lambda>m (k, v). obj_insert k v m) m ms = m @ ms"
proof (induction ms arbitrary: m)
  case (Cons e ms)
  obtain k v where e: "e = (k, v)" by (cases e)
  have "\<forall>x\<in>set m. fst x < k" using Cons.prems by (auto simp: obj_wf_def sorted_wrt_append e)
  then have "obj_insert k v m = m @ [(k, v)]" by (rule obj_insert_last)
  then show ?case using Cons.IH [of "m @ [(k, v)]"] Cons.prems by (simp add: e)
qed simp

subsection \<open>A project survives its document\<close>

definition document_ok :: "local_project \<Rightarrow> bool" where
  "document_ok p \<longleftrightarrow> lp_server_generation p \<le> u64_max \<and> lp_workspace_generation p \<le> u64_max
     \<and> obj_wf (lp_extra p) \<and> (\<forall>e\<in>set (lp_extra p). fst e \<notin> set local_project_fields)"

lemma decode_encode_heads: "decode_string_map (encode_heads heads) = Some heads"
proof -
  have "decode_all (\<lambda>(k, v). map_option (Pair k) (as_str v)) (map (\<lambda>(n, v). (n, JStr v)) heads) = Some heads"
    by (induction heads) auto
  then show ?thesis by (simp add: decode_string_map_def encode_heads_def)
qed

lemma decode_all_JStr: "decode_all as_str (map JStr xs) = Some xs"
  by (induction xs) auto

lemma decode_encode_conflict: "decode_conflict (encode_conflict c) = Some c"
  by (cases c) (simp add: decode_conflict_def encode_conflict_def jobj_def struct_fields_def str_or_def
      default_strings_def decode_all_JStr)

lemma optional_conflict_read:
  assumes "map_of m ''conflict'' = Some (case c of None \<Rightarrow> JNull | Some c \<Rightarrow> encode_conflict c)"
  shows "optional_conflict m = Some c"
proof (cases c)
  case (Some d)
  obtain e where "encode_conflict d = JObj e" by (simp add: encode_conflict_def jobj_def)
  then show ?thesis using assms decode_encode_conflict [of d] by (simp add: optional_conflict_def Some)
qed (use assms in \<open>simp add: optional_conflict_def\<close>)

lemma optional_str_jopt: "map_of m k = Some (jopt v) \<Longrightarrow> optional_str k m = Some v"
  by (cases v) (simp_all add: optional_str_def jopt_def)

lemma document_reads:
  "map_of m k = Some (JStr s) \<Longrightarrow> req_str k m = Some s"
  "map_of m k = Some (JStr s) \<Longrightarrow> str_or fallback k m = Some s"
  "map_of m k = Some (JInt (int n)) \<Longrightarrow> n \<le> u64_max \<Longrightarrow> u64_or first k m = Some n"
  "map_of m k = Some (encode_heads heads) \<Longrightarrow> decode_heads k m = Some heads"
  by (simp_all add: req_str_def str_or_def u64_or_def decode_heads_def decode_encode_heads)

lemma project_members_fields: "map fst (project_members p) = local_project_fields"
  by (simp add: project_members_def local_project_fields_def)

lemma distinct_fields: "distinct local_project_fields"
  by (simp add: local_project_fields_def)

lemma obj_wf_distinct: "obj_wf m \<Longrightarrow> distinct (map fst m)"
  by (induction m) (auto simp: obj_wf_def)

lemma document_distinct: "document_ok p \<Longrightarrow> distinct (map fst (project_members p @ lp_extra p))"
  using distinct_fields obj_wf_distinct [of "lp_extra p"] by (auto simp: project_members_fields document_ok_def)

lemma document_member:
  assumes ok: "document_ok p" and m: "encode_local_project p = JObj m" and k: "k \<in> set local_project_fields"
  shows "map_of m k = map_of (project_members p) k"
proof -
  have "jget k (JObj m) = map_of (project_members p @ lp_extra p) k"
    unfolding m [symmetric] encode_local_project_def by (rule jget_jobj_distinct [OF document_distinct [OF ok]])
  moreover have "k \<in> fst ` set (project_members p)" using k project_members_fields [of p] by (metis list.set_map)
  ultimately show ?thesis
    by (auto simp: map_add_def dom_map_of_conv_image_fst split: option.split dest!: weak_map_of_SomeI)
qed

lemma document_extra:
  assumes ok: "document_ok p" and m: "encode_local_project p = JObj m"
  shows "filter (\<lambda>e. fst e \<notin> set local_project_fields) m = lp_extra p"
proof -
  have none: "filter (\<lambda>e. fst e \<notin> set local_project_fields) (project_members p) = []"
    unfolding filter_empty_conv project_members_fields [of p, symmetric] by auto
  have all: "filter (\<lambda>e. fst e \<notin> set local_project_fields) (lp_extra p) = lp_extra p"
    using ok by (auto simp: document_ok_def intro!: filter_True)
  have "m = foldl (\<lambda>m (k, v). obj_insert k v m) [] (project_members p @ lp_extra p)"
    using m by (simp add: encode_local_project_def jobj_def)
  then have "filter (\<lambda>e. fst e \<notin> set local_project_fields) m = foldl (\<lambda>m (k, v). obj_insert k v m) [] (lp_extra p)"
    using filter_foldl_obj_insert [of "[]" "\<lambda>k. k \<notin> set local_project_fields" "project_members p @ lp_extra p"] none all
    by (simp add: obj_wf_def)
  then show ?thesis using foldl_obj_insert_sorted [of "[]" "lp_extra p"] ok by (simp add: document_ok_def)
qed

lemma project_read_back:
  assumes ok: "document_ok p"
  shows "decode_local_project (encode_local_project p) = Some p"
proof -
  obtain m where m: "encode_local_project p = JObj m" by (simp add: encode_local_project_def jobj_def)
  note known = document_member [OF ok m]
  note fetched = known [of "''projectId''"] known [of "''localPath''"] known [of "''remoteUrl''"] known [of "''remoteName''"]
    known [of "''defaultBranch''"] known [of "''serverGeneration''"] known [of "''advertisedHeads''"]
    known [of "''lastAppliedHeads''"] known [of "''activeBranch''"] known [of "''workspaceGeneration''"]
    known [of "''state''"] known [of "''durability''"] known [of "''conflict''"] known [of "''lastError''"]
    known [of "''service''"] known [of "''checkoutId''"]
  note members = fetched [unfolded local_project_fields_def project_members_def, simplified]
  have "lp_server_generation p \<le> u64_max" "lp_workspace_generation p \<le> u64_max"
    using ok by (simp_all add: document_ok_def)
  note reads = members(1,2) [THEN document_reads(1)] members(3,4,5,11,12) [THEN document_reads(2)]
    members(7,8) [THEN document_reads(4)]
    members(6) [THEN document_reads(3), OF this(1)] members(10) [THEN document_reads(3), OF this(2)]
    members(9,14,15,16) [THEN optional_str_jopt] members(13) [THEN optional_conflict_read]
  show ?thesis by (simp add: m decode_local_project_def reads document_extra [OF ok m])
qed


end
