(* ===== verification/Project_Commands.thy ===== *)
theory Project_Commands
  imports Managed_Builds Cli_Arguments Codex_Hook Local_Documents
begin

section \<open>Commands on logins and projects\<close>

text \<open>
  The commands of \<open>src/src/cli.rs\<close> for logins, projects, devices and transactions. \<open>cli\<close> bundles what
  they run with: the operating system, the documents that serde reads and writes, the texts of the
  skill, the name of the host and the version of the build. A command fails with \<open>abort\<close>, because
  indexing a JSON value that is no object panics.
\<close>

record 'x cli =
  cl_os :: "'x os"
  cl_catalog :: "local_catalog codec"
  cl_config :: "config codec"
  cl_credentials :: "credential_file codec"
  cl_transactions :: "transaction codec"
  cl_json :: "json codec"
  cl_texts :: adapter_texts
  cl_host_name :: string
  cl_version :: string

abbreviation cl_env :: "'x cli \<Rightarrow> 'x env" where
  "cl_env K \<equiv> os_env (cl_os K)"

subsection \<open>Logins\<close>

record configured =
  cv_origin :: string
  cv_token :: string
  cv_discovery :: discovery

definition chosen_provider :: "'x env \<Rightarrow> config \<Rightarrow> string option \<Rightarrow> string" where
  "chosen_provider E config provider = (case provider of Some p \<Rightarrow> p
     | None \<Rightarrow> (case cfg_active_provider config of Some p \<Rightarrow> p | None \<Rightarrow> default_provider E))"

definition configured_provider :: "'x cli \<Rightarrow> string option \<Rightarrow> (('x, 'z) world_scheme, string, configured) prog" where
  "configured_provider K provider =
     (let E = cl_env K in
     andThen (load_config_raw E (cl_config K)) (\<lambda>config.
     andThen (lift (canonical_origin E (chosen_provider E config provider))) (\<lambda>origin.
     andThen (load_credential E (cl_credentials K) origin) (\<lambda>stored.
     andThen (lift (ok_or (''not logged in to '' @ origin @ ''; run `resync auth login '' @ origin @ ''`'')
       (case stored of Some t \<Rightarrow> Some t
        | None \<Rightarrow> if cfg_server config = Some origin then cfg_token config else None))) (\<lambda>token.
     andThen (discover E (Some origin)) (\<lambda>d.
     ret \<lparr>cv_origin = origin, cv_token = token, cv_discovery = d\<rparr>))))))"

record login_args =
  la_provider :: "string option"
  la_legacy_token :: "string option"
  la_token :: "string option"
  la_token_command :: "string option"
  la_device_name :: "string option"

definition first_some :: "'a option list \<Rightarrow> 'a option" where
  "first_some xs = (case filter (\<lambda>x. x \<noteq> None) xs of [] \<Rightarrow> None | x # _ \<Rightarrow> x)"

definition login_token :: "'x env \<Rightarrow> login_args \<Rightarrow> (('x, 'z) world_scheme, string, string) prog" where
  "login_token E args = (case la_token_command args of
     Some command \<Rightarrow> andThen (run_process E ''/bin/sh'' [''-c'', command] default_options) (\<lambda>res. ret (trim (stdout res)))
   | None \<Rightarrow> lift (ok_or ''login requires --token, --token-command, or RESYNC_BOOTSTRAP_TOKEN''
       (first_some [la_token args, la_legacy_token args, var E ''RESYNC_BOOTSTRAP_TOKEN''])))"

definition auth_login :: "'x cli \<Rightarrow> login_args \<Rightarrow> (('x, 'z) world_scheme, string, json) prog" where
  "auth_login K args =
     (let E = cl_env K; provider = (case la_provider args of Some p \<Rightarrow> p | None \<Rightarrow> default_provider E) in
     andThen (login_token E args) (\<lambda>token.
     enroll_with_token E (cl_credentials K) (cl_config K) (Some provider) token
       (case la_device_name args of Some n \<Rightarrow> n | None \<Rightarrow> cl_host_name K)))"

definition provider_status :: "'x cli \<Rightarrow> config \<Rightarrow> string \<Rightarrow> (('x, 'z) world_scheme, string, json) prog" where
  "provider_status K config origin =
     andThen (load_credential (cl_env K) (cl_credentials K) origin) (\<lambda>token.
     ret (jset ''credentialAvailable'' (JBool (token \<noteq> None))
       (jset ''active'' (JBool (cfg_active_provider config = Some origin))
       (jset ''origin'' (JStr origin) (encode_provider_config (case map_of (cfg_providers config) origin of
          Some c \<Rightarrow> c | None \<Rightarrow> default_provider_config))))))"

definition auth_status :: "'x cli \<Rightarrow> string option \<Rightarrow> (('x, 'z) world_scheme, string, json) prog" where
  "auth_status K provider =
     andThen (load_config_raw (cl_env K) (cl_config K)) (\<lambda>config.
     andThen (case provider of
         Some v \<Rightarrow> andThen (lift (canonical_origin (cl_env K) v)) (\<lambda>origin. ret [origin])
       | None \<Rightarrow> ret (map fst (cfg_providers config))) (\<lambda>origins.
     andThen (foldEach (\<lambda>vs origin. andThen (provider_status K config origin) (\<lambda>v. ret (vs @ [v]))) [] origins) (\<lambda>providers.
     ret (jobj [(''activeProvider'', jopt (cfg_active_provider config)), (''providers'', JArr providers)]))))"

text \<open>What the command makes of the configuration that is left, and of the one it has read.\<close>

definition settled :: "string list \<Rightarrow> config \<Rightarrow> config" where
  "settled origins left = left\<lparr>cfg_active_provider := (case cfg_active_provider left of
       Some a \<Rightarrow> if a \<in> set origins then (case cfg_providers left of [] \<Rightarrow> None | p # _ \<Rightarrow> Some (fst p)) else Some a
     | None \<Rightarrow> None), cfg_server := None, cfg_token := None\<rparr>"

definition logged_out :: "string list \<Rightarrow> config \<Rightarrow> config" where
  "logged_out origins config =
     settled origins (config\<lparr>cfg_providers := filter (\<lambda>p. fst p \<notin> set origins) (cfg_providers config)\<rparr>)"

definition log_out_origin :: "'x cli \<Rightarrow> config \<Rightarrow> string \<Rightarrow> (('x, 'z) world_scheme, string, config) prog" where
  "log_out_origin K config origin =
     andThen (erase_credential (cl_env K) (cl_credentials K) origin) (\<lambda>_.
     andThen (remove_device_identity (cl_env K) (Option.bind (map_of (cfg_providers config) origin) pc_public_key_path)) (\<lambda>_.
     ret (config\<lparr>cfg_providers := filter (\<lambda>p. fst p \<noteq> origin) (cfg_providers config)\<rparr>)))"

definition auth_logout :: "'x cli \<Rightarrow> string option \<Rightarrow> bool \<Rightarrow> (('x, 'z) world_scheme, string, json) prog" where
  "auth_logout K provider every =
     (let E = cl_env K in
     andThen (load_config_raw E (cl_config K)) (\<lambda>config.
     andThen (if every then ret (map fst (cfg_providers config))
       else andThen (lift (canonical_origin E (chosen_provider E config provider))) (\<lambda>origin. ret [origin])) (\<lambda>origins.
     andThen (foldEach (log_out_origin K) config origins) (\<lambda>left.
     let final = settled origins left in
     andThen (write_json E (cl_config K) (sp_config (state_paths_of E)) final private_mode) (\<lambda>_.
     ret (jobj [(''loggedOut'', JArr (map JStr origins)), (''activeProvider'', jopt (cfg_active_provider final))]))))))"

subsection \<open>Projects of the account\<close>

definition project_id_or_identity :: "'x env \<Rightarrow> string option \<Rightarrow> (('x, 'z) world_scheme, string, string) prog" where
  "project_id_or_identity E given = (case given of
     Some p \<Rightarrow> ret p
   | None \<Rightarrow>
       andThen (lift (ok_or ''current directory is unavailable'' (current_dir E))) (\<lambda>dir.
       andThen (read_identity E dir) (\<lambda>identity.
       lift (ok_or ''current checkout has no RepoSync project identity'' (id_project_id identity)))))"

definition account_config :: "configured \<Rightarrow> config" where
  "account_config auth = default_config\<lparr>cfg_server := Some (cv_origin auth), cfg_token := Some (cv_token auth)\<rparr>"

definition register_request :: "local_project \<Rightarrow> nat option \<Rightarrow> json" where
  "register_request project generation =
     (let request = jobj [(''method'', JStr ''registerProject''), (''project'', encode_local_project project)] in
     case generation of None \<Rightarrow> request | Some g \<Rightarrow> jset ''catalog_generation'' (JInt (int g)) request)"

definition register_project_with_daemon :: "'x os \<Rightarrow> local_project \<Rightarrow> nat option \<Rightarrow> (('x, 'z) world_scheme, string, unit) prog" where
  "register_project_with_daemon S project generation =
     andThen (ensure_daemon_supervision S False) (\<lambda>_.
     andThen (daemon_rpc S (register_request project generation)) (\<lambda>_. ret ()))"

text \<open>The last steps of init, fork, join and of accepting an invitation.\<close>

definition settle_checkout :: "'x cli \<Rightarrow> path \<Rightarrow> local_project \<Rightarrow> nat option \<Rightarrow> string \<Rightarrow>
    (('x, 'z) world_scheme, abort, json) prog" where
  "settle_checkout K root local generation project_id =
     andThen (fallible (ensure_project_config (cl_env K) root)) (\<lambda>_.
     andThen (fallible (register_project_with_daemon (cl_os K) local generation)) (\<lambda>_.
     install_adapters (cl_os K) (cl_catalog K) (cl_json K) (cl_texts K) project_id))"

subsection \<open>Init and fork\<close>

definition no_access :: "string \<Rightarrow> string" where
  "no_access project_id = ''ACCESS_LOST: '' @ project_id
     @ '' is not owned by the active device account; verify the provider login and device registration''"

definition belongs_already :: "string \<Rightarrow> string \<Rightarrow> string \<Rightarrow> string" where
  "belongs_already service project_id advice = ''checkout already belongs to '' @ service @ '' / '' @ project_id @ advice"

definition same_provider :: "'x env \<Rightarrow> string option \<Rightarrow> string \<Rightarrow> string \<Rightarrow> (string, unit) result" where
  "same_provider E requested service project_id = (case requested of
     None \<Rightarrow> Inr ()
   | Some r \<Rightarrow>
       bindR (canonical_origin E r) (\<lambda>a.
       bindR (canonical_origin E service) (\<lambda>b.
       ensure (a = b) (belongs_already service project_id ''; use `resync project fork` to separate it''))))"

definition existing_checkout :: "string \<Rightarrow> path \<Rightarrow> local_catalog \<Rightarrow> local_project option" where
  "existing_checkout project_id root catalog =
     find (\<lambda>p. lp_project_id p = project_id \<and> same_path (lp_local_path p) root) (lc_projects catalog)"

text \<open>\<open>project init\<close> in a checkout that belongs to a project repairs it.\<close>

definition repair_checkout :: "'x cli \<Rightarrow> path \<Rightarrow> identity \<Rightarrow> string \<Rightarrow> string option \<Rightarrow>
    (('x, 'z) world_scheme, abort, json) prog" where
  "repair_checkout K root prior project_id requested =
     (let E = cl_env K in
     andThen (fallible (lift (ok_or ''existing RepoSync identity has no provider'' (id_service prior)))) (\<lambda>service.
     andThen (fallible (lift (same_provider E requested service project_id))) (\<lambda>_.
     andThen (fallible (configured_provider K (Some service))) (\<lambda>auth.
     andThen (fallible (fetch_catalog E (account_config auth))) (\<lambda>remote.
     andThen (fallible (lift (ok_or (no_access project_id)
       (find (\<lambda>p. cp_project_id p = project_id) (ct_projects remote))))) (\<lambda>selected.
     andThen (fallible (load_catalog E (cl_catalog K))) (\<lambda>catalog.
     andThen (case existing_checkout project_id root catalog of
         Some local \<Rightarrow> ret local
       | None \<Rightarrow> fallible (materialize_project E (cl_transactions K) selected root (Some (cv_token auth)) ''resync'')) (\<lambda>found.
     let local = found\<lparr>lp_remote_url := cp_remote_url selected, lp_default_branch := cp_default_branch selected,
           lp_server_generation := cp_project_generation selected, lp_service := id_service prior,
           lp_checkout_id := id_checkout_id prior\<rparr> in
     andThen (settle_checkout K root local (Some (ct_catalog_generation remote)) project_id) (\<lambda>_.
     andThen (fallible (daemon_rpc (cl_os K) (jobj [(''method'', JStr ''sync''), (''project_id'', JStr project_id)]))) (\<lambda>_.
     andThen (fallible (daemon_rpc (cl_os K) (jobj [(''method'', JStr ''publish''), (''project_id'', JStr project_id)]))) (\<lambda>_.
     ret (jset ''identityPreserved'' (JBool True) (jset ''operation'' (JStr ''repaired'')
       (encode_local_project local))))))))))))))"

definition creation_path :: "'x env \<Rightarrow> string \<Rightarrow> path \<Rightarrow> bool \<Rightarrow> path" where
  "creation_path E origin root fork =
     path_join (path_join (sp_root (state_paths_of E)) ''project-creations'')
       (hex_text (sha256 E (origin @ [nul] @ root @ [nul] @ (if fork then ''fork'' else ''init''))) @ ''.json'')"

definition set_members :: "(string \<times> json) list \<Rightarrow> json \<Rightarrow> (abort, json) result" where
  "set_members ms j = bindR (index_mut ''idempotencyKey'' j) (\<lambda>_.
     Inr (foldl (\<lambda>v (k, m). jset k m v) j ms))"

text \<open>The record of a creation that is under way: its key is kept, so a repeated request creates
  nothing twice.\<close>

definition creation_key :: "'x cli \<Rightarrow> path \<Rightarrow> string \<Rightarrow> path \<Rightarrow> (('x, 'z) world_scheme, abort, string) prog" where
  "creation_key K p origin root =
     (let E = cl_env K; J = cl_json K in
     andThen (fallible (read_json E J p (jobj []))) (\<lambda>creation.
     andThen (case jget_str ''idempotencyKey'' creation of
         Some key \<Rightarrow> ret key
       | None \<Rightarrow> andThen (new_uuid E) (\<lambda>u. ret (''pcr_'' @ filter (\<lambda>c. c \<noteq> CHR ''-'') u))) (\<lambda>key.
     andThen (lift (set_members [(''idempotencyKey'', JStr key), (''provider'', JStr origin), (''repository'', JStr root)] creation)) (\<lambda>updated.
     andThen (fallible (write_json E J p updated private_mode)) (\<lambda>_. ret key)))))"

definition create_request :: "string \<Rightarrow> string \<Rightarrow> string \<Rightarrow> json" where
  "create_request name default_branch key = jobj [(''name'', JStr name), (''default_branch'', JStr default_branch),
     (''idempotency_key'', JStr key)]"

record create_args =
  ca_name :: "string option"
  ca_provider :: "string option"

definition create_project :: "'x cli \<Rightarrow> path \<Rightarrow> identity \<Rightarrow> create_args \<Rightarrow> bool \<Rightarrow>
    (('x, 'z) world_scheme, abort, json) prog" where
  "create_project K root prior args fork =
     (let E = cl_env K in
     andThen (fallible (configured_provider K (ca_provider args))) (\<lambda>auth.
     andThen (fallible (git_text E root [''symbolic-ref'', ''--short'', ''HEAD''] default_options)) (\<lambda>default_branch.
     let name = (case ca_name args of Some n \<Rightarrow> n
       | None \<Rightarrow> (case file_name root of Some n \<Rightarrow> n | None \<Rightarrow> [])) in
     andThen (fallible (lift (endpoint ''projects'' (cv_discovery auth)))) (\<lambda>url.
     let p = creation_path E (cv_origin auth) root fork in
     andThen (creation_key K p (cv_origin auth) root) (\<lambda>key.
     andThen (fallible (provider_fetch E url (Some (cv_token auth)) ''POST'' (Some (create_request name default_branch key)))) (\<lambda>created.
     andThen (fallible (lift (ok_or ''invalid project'' (decode_project created)))) (\<lambda>selected.
     andThen (fallible (materialize_project E (cl_transactions K) selected root (Some (cv_token auth)) ''resync'')) (\<lambda>found.
     andThen (fallible (write_identity E root (cv_origin auth) (cp_project_id selected) None)) (\<lambda>identity.
     let local = found\<lparr>lp_service := id_service identity, lp_checkout_id := id_checkout_id identity\<rparr> in
     andThen (settle_checkout K root local None (lp_project_id local)) (\<lambda>_.
     andThen (fallible (io (remove_file E p))) (\<lambda>_.
     andThen (fallible (io (sync_parent E p))) (\<lambda>_.
     ret (jset ''previousProjectId'' (jopt (id_project_id prior))
       (jset ''operation'' (JStr (if fork then ''forked'' else ''initialized'')) (encode_local_project local)))))))))))))))"

definition project_create :: "'x cli \<Rightarrow> create_args \<Rightarrow> bool \<Rightarrow> (('x, 'z) world_scheme, abort, json) prog" where
  "project_create K args fork =
     (let E = cl_env K in
     andThen (fallible (lift (ok_or ''current directory is unavailable'' (current_dir E)))) (\<lambda>dir.
     andThen (fallible (repository_root E dir)) (\<lambda>root.
     andThen (fallible (read_identity E root)) (\<lambda>prior.
     case (if fork then None else id_project_id prior) of
       Some project_id \<Rightarrow> repair_checkout K root prior project_id (ca_provider args)
     | None \<Rightarrow> create_project K root prior args fork))))"

subsection \<open>Join and leave\<close>

definition join_destination :: "'x env \<Rightarrow> path option \<Rightarrow> path \<Rightarrow> (('x, 'z) world_scheme, string, path) prog" where
  "join_destination E given dir = (case given of Some p \<Rightarrow> ret p | None \<Rightarrow> repository_root E dir)"

definition check_destination :: "'x env \<Rightarrow> path \<Rightarrow> string \<Rightarrow> string \<Rightarrow> (('x, 'z) world_scheme, string, unit) prog" where
  "check_destination E destination project_id origin =
     andThen (path_exists destination) (\<lambda>present.
     if \<not> present then ret ()
     else
     andThen (attempt (read_identity E destination)) (\<lambda>r. case r of
       Inl _ \<Rightarrow> ret ()
     | Inr existing \<Rightarrow> (case (id_project_id existing, id_service existing) of
         (Some i, Some service) \<Rightarrow>
           if i \<noteq> project_id \<or> service \<noteq> origin
           then bail (belongs_already service i ''; use `resync project fork` for an independent project'') else ret ()
       | _ \<Rightarrow> ret ())))"

definition not_listed :: string where
  "not_listed = ''project is not in the active device account'' @ [CHR 0x27] @ ''s catalog''"

definition project_join :: "'x cli \<Rightarrow> string \<Rightarrow> path option \<Rightarrow> string option \<Rightarrow> (('x, 'z) world_scheme, abort, json) prog" where
  "project_join K project_id given provider =
     (let E = cl_env K in
     andThen (fallible (configured_provider K provider)) (\<lambda>auth.
     andThen (fallible (fetch_catalog E (account_config auth))) (\<lambda>remote.
     andThen (fallible (lift (ok_or not_listed
       (find (\<lambda>p. cp_project_id p = project_id) (ct_projects remote))))) (\<lambda>selected.
     andThen (fallible (lift (ok_or ''current directory is unavailable'' (current_dir E)))) (\<lambda>dir.
     andThen (fallible (join_destination E given dir)) (\<lambda>destination.
     andThen (fallible (check_destination E destination project_id (cv_origin auth))) (\<lambda>_.
     andThen (fallible (materialize_project E (cl_transactions K) selected destination (Some (cv_token auth)) ''resync'')) (\<lambda>found.
     andThen (fallible (write_identity E (lp_local_path found) (cv_origin auth) project_id None)) (\<lambda>identity.
     let local = found\<lparr>lp_service := id_service identity, lp_checkout_id := id_checkout_id identity\<rparr> in
     andThen (settle_checkout K (lp_local_path local) local (Some (ct_catalog_generation remote)) project_id) (\<lambda>_.
     ret (encode_local_project local)))))))))))"

definition forget_identity :: "'x env \<Rightarrow> string \<Rightarrow> (('x, 'z) world_scheme, string, unit) prog" where
  "forget_identity E project_id =
     andThen (lift (ok_or ''current directory is unavailable'' (current_dir E))) (\<lambda>dir.
     andThen (attempt (read_identity E dir)) (\<lambda>r. case r of
       Inr identity \<Rightarrow> if id_project_id identity = Some project_id then clear_identity E (id_root identity) else ret ()
     | Inl _ \<Rightarrow> ret ()))"

definition unsubscribe :: "'x cli \<Rightarrow> string option \<Rightarrow> (('x, 'z) world_scheme, string, json) prog" where
  "unsubscribe K given =
     (let E = cl_env K in
     andThen (project_id_or_identity E given) (\<lambda>project_id.
     andThen (load_catalog E (cl_catalog K)) (\<lambda>catalog.
     let left = filter (\<lambda>p. lp_project_id p \<noteq> project_id) (lc_projects catalog) in
     if length left = length (lc_projects catalog) then bail (''project '' @ project_id @ '' is not subscribed'')
     else
     andThen (write_json E (cl_catalog K) (sp_catalog (state_paths_of E)) (catalog\<lparr>lc_projects := left\<rparr>) private_mode) (\<lambda>_.
     andThen (forget_identity E project_id) (\<lambda>_.
     ret (jobj [(''unsubscribed'', JStr project_id), (''filesPreserved'', JBool True)]))))))"

subsection \<open>The other commands\<close>

datatype project_command =
    ProjectInit create_args
  | ProjectJoin string "path option" "string option"
  | ProjectFork create_args
  | ProjectStatus "string option"
  | ProjectSync "string option"
  | ProjectPublish "string option"
  | ProjectConflicts "string option"
  | ProjectRecover
  | ProjectLeave "string option"

definition conflict_report :: "string option \<Rightarrow> local_catalog \<Rightarrow> json" where
  "conflict_report selected catalog = JArr (map (\<lambda>p. jobj [(''projectId'', JStr (lp_project_id p)),
       (''localPath'', JStr (lp_local_path p)),
       (''conflict'', case lp_conflict p of None \<Rightarrow> JNull | Some c \<Rightarrow> encode_conflict c)])
     (filter (\<lambda>p. lp_state p = ''CONFLICTED'' \<and> (\<forall>i. selected = Some i \<longrightarrow> i = lp_project_id p)) (lc_projects catalog)))"

definition recover_all :: "'x cli \<Rightarrow> (('x, 'z) world_scheme, string, json) prog" where
  "recover_all K =
     (let E = cl_env K; paths = state_paths_of E; root = sp_transactions paths in
     andThen (read_retention (sp_root paths)) (\<lambda>retention.
     andThen (path_exists root) (\<lambda>present.
     andThen (if present then io (read_dir E root) else ret []) (\<lambda>entries.
     andThen (foldEach (\<lambda>vs p.
         andThen (recover_transaction E (cl_transactions K) p retention) (\<lambda>t.
         ret (vs @ [jobj [(''id'', JStr (tx_id t)), (''phase'', JStr (tx_phase t))]]))) []
       (filter (\<lambda>p. extension p = Some ''json'') entries)) (\<lambda>recovered.
     ret (JArr recovered))))))"

definition project_request :: "string \<Rightarrow> json \<Rightarrow> json" where
  "project_request m project_id = jobj [(''method'', JStr m), (''project_id'', project_id)]"

definition project :: "'x cli \<Rightarrow> project_command \<Rightarrow> (('x, 'z) world_scheme, abort, json) prog" where
  "project K command = (case command of
     ProjectInit args \<Rightarrow> project_create K args False
   | ProjectFork args \<Rightarrow> project_create K args True
   | ProjectJoin project_id p provider \<Rightarrow> project_join K project_id p provider
   | ProjectLeave project_id \<Rightarrow> fallible (unsubscribe K project_id)
   | ProjectStatus selected \<Rightarrow> fallible (daemon_rpc (cl_os K) (project_request ''status'' (jopt selected)))
   | ProjectSync selected \<Rightarrow> fallible (andThen (project_id_or_identity (cl_env K) selected) (\<lambda>i.
       daemon_rpc (cl_os K) (project_request ''sync'' (JStr i))))
   | ProjectPublish selected \<Rightarrow> fallible (andThen (project_id_or_identity (cl_env K) selected) (\<lambda>i.
       daemon_rpc (cl_os K) (project_request ''publish'' (JStr i))))
   | ProjectConflicts selected \<Rightarrow> fallible (andThen (load_catalog (cl_env K) (cl_catalog K)) (\<lambda>catalog.
       ret (conflict_report selected catalog)))
   | ProjectRecover \<Rightarrow> fallible (recover_all K))"

definition devices_endpoint :: "configured \<Rightarrow> string" where
  "devices_endpoint auth = (case map_of (ds_endpoints (cv_discovery auth)) ''devices'' of
     Some url \<Rightarrow> url | None \<Rightarrow> cv_origin auth @ ''/v1/devices'')"

datatype device_command = DeviceList "string option" | DeviceRevoke string "string option"

definition trim_end_slashes :: "string \<Rightarrow> string" where
  "trim_end_slashes s = List.rev (dropWhile (\<lambda>c. c = slash) (List.rev s))"

definition device :: "'x cli \<Rightarrow> device_command \<Rightarrow> (('x, 'z) world_scheme, string, json) prog" where
  "device K command = (case command of
     DeviceList provider \<Rightarrow>
       andThen (configured_provider K provider) (\<lambda>auth.
       provider_fetch (cl_env K) (devices_endpoint auth) (Some (cv_token auth)) ''GET'' None)
   | DeviceRevoke device_id provider \<Rightarrow>
       andThen (configured_provider K provider) (\<lambda>auth.
       provider_fetch (cl_env K) (trim_end_slashes (devices_endpoint auth) @ ''/'' @ device_id @ ''/revoke'')
         (Some (cv_token auth)) ''POST'' (Some (jobj []))))"

definition encode_gc_report :: "gc_report \<Rightarrow> json" where
  "encode_gc_report r = jobj [(''dryRun'', JBool (gr_dry_run r)), (''debugHistory'', JBool (gr_debug_history r)),
     (''scanned'', JInt (int (gr_scanned r))), (''retained'', JInt (int (gr_retained r))),
     (''removed'', JInt (int (gr_removed r))), (''compacted'', JInt (int (gr_compacted r))),
     (''invalidRetained'', JInt (int (gr_invalid_retained r))),
     (''recoveryRefsPrunable'', JInt (int (gr_recovery_refs_prunable r))),
     (''recoveryRefsRemoved'', JInt (int (gr_recovery_refs_removed r))),
     (''recoveryRefsSkipped'', JInt (int (gr_recovery_refs_skipped r))),
     (''bytesReclaimed'', JInt (int (gr_bytes_reclaimed r)))]"

definition path_set :: "path list \<Rightarrow> path list" where
  "path_set ps = foldl (\<lambda>acc p. path_set_insert p acc) [] ps"

definition transaction_gc :: "'x cli \<Rightarrow> bool \<Rightarrow> (('x, 'z) world_scheme, string, json) prog" where
  "transaction_gc K dry_run =
     (let E = cl_env K; paths = state_paths_of E in
     andThen (load_catalog E (cl_catalog K)) (\<lambda>catalog.
     andThen (read_retention (sp_root paths)) (\<lambda>retention.
     andThen (gc_transactions E (cl_transactions K) (sp_transactions paths)
       (path_set (map lp_local_path (lc_projects catalog)))
       (path_set (map lp_local_path (filter (\<lambda>p. lp_state p = ''CONFLICTED'') (lc_projects catalog)))) retention dry_run) (\<lambda>r.
     ret (encode_gc_report r)))))"

datatype transaction_debug_command = DebugEnable | DebugDisable | DebugStatus

definition debug_value :: "bool \<Rightarrow> json" where
  "debug_value enabled = jobj [(''enabled'', JBool enabled), (''maxRecords'', JInt (int debug_history_max_records)),
     (''maxBytes'', JInt (int debug_history_max_bytes))]"

definition transaction_debug :: "'x cli \<Rightarrow> transaction_debug_command \<Rightarrow> (('x, 'z) world_scheme, string, json) prog" where
  "transaction_debug K command =
     (let E = cl_env K; marker = path_join (sp_root (state_paths_of E)) ''transaction-debug'' in
     andThen (case command of
         DebugEnable \<Rightarrow> write_json E (cl_json K) marker (debug_value True) private_mode
       | DebugDisable \<Rightarrow> remove_if_present E marker
       | DebugStatus \<Rightarrow> ret ()) (\<lambda>_.
     andThen (is_file marker) (\<lambda>enabled. ret (debug_value enabled))))"

subsection \<open>The marker selects the retention\<close>

lemma remove_if_present_file:
  "remove_if_present E p s = (Inr u, s') \<Longrightarrow> (case fs_get (files s') p of Some (File _) \<Rightarrow> False | _ \<Rightarrow> True)"
  by (auto simp: remove_if_present_def remove_file_def file_op_def run
      split: option.splits node.splits sum.splits io_error.splits prod.splits)

theorem debug_marker_selects_retention:
  fixes K :: "'x cli" and s :: "('x, 'z) world_scheme"
  defines "root \<equiv> sp_root (state_paths_of (cl_env K))"
  assumes ran: "transaction_debug K command s = (Inr v, s')" and change: "command \<noteq> DebugStatus"
    and tmp: "temporary_path (cl_env K) (path_join root ''transaction-debug'') \<noteq> path_join root ''transaction-debug''"
  shows "v = debug_value (command = DebugEnable)
    \<and> read_retention root s' = (Inr \<lparr>debug_history = (command = DebugEnable)\<rparr> :: (string, transaction_retention) result, s')"
proof (cases command)
  case DebugEnable
  let ?m = "path_join root ''transaction-debug''"
  obtain t where w: "write_json (cl_env K) (cl_json K) ?m (debug_value True) private_mode s = (Inr (), t)"
      and s': "s' = t" "v = debug_value (case fs_get (files t) ?m of Some (File _) \<Rightarrow> True | _ \<Rightarrow> False)"
    using ran by (auto simp: transaction_debug_def DebugEnable root_def is_file_def Let_def run split: prod.splits sum.splits)
  show ?thesis using write_json_document(1) [OF w] tmp s' by (simp add: DebugEnable read_retention_def is_file_def run)
next
  case DebugDisable
  let ?m = "path_join root ''transaction-debug''"
  obtain t u where w: "remove_if_present (cl_env K) ?m s = (Inr u, t)"
      and s': "s' = t" "v = debug_value (case fs_get (files t) ?m of Some (File _) \<Rightarrow> True | _ \<Rightarrow> False)"
    using ran by (auto simp: transaction_debug_def DebugDisable root_def is_file_def Let_def run split: prod.splits sum.splits)
  show ?thesis using remove_if_present_file [OF w] s'
    by (auto simp: DebugDisable read_retention_def is_file_def run split: option.splits node.splits)
qed (use change in simp)

subsection \<open>Logging out\<close>

lemma log_out_origins:
  "foldEach (log_out_origin K) config origins s = (Inr left, s')
    \<Longrightarrow> left = config\<lparr>cfg_providers := filter (\<lambda>p. fst p \<notin> set origins) (cfg_providers config)\<rparr>"
proof (induction origins arbitrary: config s)
  case (Cons a origins)
  have "andThen (log_out_origin K config a) (\<lambda>c. foldEach (log_out_origin K) c origins) s = (Inr left, s')"
    using Cons.prems by simp
  then obtain c t where c: "log_out_origin K config a s = (Inr c, t)"
      and rest: "foldEach (log_out_origin K) c origins t = (Inr left, s')" by (rule andThen_okE)
  have "c = config\<lparr>cfg_providers := filter (\<lambda>p. fst p \<noteq> a) (cfg_providers config)\<rparr>"
    using c by (auto simp: log_out_origin_def run split: prod.splits sum.splits)
  then show ?case using Cons.IH [OF rest] by (simp add: filter_filter conj_commute)
qed (simp add: run)

theorem logout_forgets_the_origins:
  fixes K :: "'x cli" and s :: "('x, 'z) world_scheme"
  defines "E \<equiv> cl_env K"
  assumes ran: "auth_logout K provider every s = (Inr j, s')"
    and tmp: "temporary_path E (sp_config (state_paths_of E)) \<noteq> sp_config (state_paths_of E)"
  shows "\<exists>config origins. fst (load_config_raw E (cl_config K) s) = Inr config
    \<and> (if every then origins = map fst (cfg_providers config)
       else \<exists>o1. canonical_origin E (chosen_provider E config provider) = Inr o1 \<and> origins = [o1])
    \<and> fs_get (files s') (sp_config (state_paths_of E)) = Some (File (json_text (cl_config K) (logged_out origins config)))
    \<and> j = jobj [(''loggedOut'', JArr (map JStr origins)), (''activeProvider'', jopt (cfg_active_provider (logged_out origins config)))]"
proof -
  obtain config s1 where config: "load_config_raw E (cl_config K) s = (Inr config, s1)"
    using ran by (auto simp: auth_logout_def E_def Let_def run_andThen split: prod.splits sum.splits)
  let ?finish = "\<lambda>origins final. andThen (write_json E (cl_config K) (sp_config (state_paths_of E)) final private_mode) (\<lambda>_.
     ret (jobj [(''loggedOut'', JArr (map JStr origins)), (''activeProvider'', jopt (cfg_active_provider final))]))"
  obtain origins where origins: "if every then origins = map fst (cfg_providers config)
       else \<exists>o1. canonical_origin E (chosen_provider E config provider) = Inr o1 \<and> origins = [o1]"
      and rest: "andThen (foldEach (log_out_origin K) config origins) (\<lambda>left. ?finish origins (settled origins left)) s1 = (Inr j, s')"
    using ran config by (cases every; cases "canonical_origin E (chosen_provider E config provider)")
      (simp_all add: auth_logout_def E_def [symmetric] run_andThen run_simps Let_def del: map_map)
  obtain left s2 where left: "foldEach (log_out_origin K) config origins s1 = (Inr left, s2)"
    and final: "?finish origins (settled origins left) s2 = (Inr j, s')" using rest by (rule andThen_okE)
  have "settled origins left = logged_out origins config" by (simp add: log_out_origins [OF left] logged_out_def)
  then have "?finish origins (logged_out origins config) s2 = (Inr j, s')" using final by simp
  then have "write_json E (cl_config K) (sp_config (state_paths_of E)) (logged_out origins config) private_mode s2 = (Inr (), s')"
      and "j = jobj [(''loggedOut'', JArr (map JStr origins)), (''activeProvider'', jopt (cfg_active_provider (logged_out origins config)))]"
    by (auto simp: run split: prod.splits sum.splits)
  moreover from this(1) have "fs_get (files s') (sp_config (state_paths_of E))
      = Some (File (json_text (cl_config K) (logged_out origins config)))"
    using tmp by (simp add: E_def write_json_document(1))
  ultimately show ?thesis using origins config by (intro exI [of _ config] exI [of _ origins]) (simp only: fst_conv simp_thms)
qed

subsection \<open>A creation that is repeated\<close>

lemma key_of_members:
  assumes "set_members [(''idempotencyKey'', JStr key), (''provider'', JStr origin), (''repository'', JStr root)] j = Inr v"
  shows "jget_str ''idempotencyKey'' v = Some key"
  using assms by (cases j) (auto simp: set_members_def jget_str_def map_of_obj_insert)

lemma creation_key_recorded:
  assumes ran: "creation_key K p origin root s = (Inr key, s')" and tmp: "temporary_path (cl_env K) p \<noteq> p"
  shows "\<exists>v. jget_str ''idempotencyKey'' v = Some key \<and> fs_get (files s') p = Some (File (json_text (cl_json K) v))"
proof -
  obtain creation t v where v: "set_members [(''idempotencyKey'', JStr key), (''provider'', JStr origin),
        (''repository'', JStr root)] creation = Inr v"
      and w: "write_json (cl_env K) (cl_json K) p v private_mode t = (Inr (), s')"
    using ran by (auto simp: creation_key_def Let_def run_andThen run_simps run_mapErr split: prod.splits sum.splits)
  show ?thesis using key_of_members [OF v] write_json_document(1) [OF w tmp] by blast
qed


subsection \<open>Checkouts of other projects\<close>

lemma check_destination_foreign:
  assumes "fs_get (files s) destination \<noteq> None" and "read_identity E destination s = (Inr existing, s')"
    and "id_project_id existing = Some i" and "id_service existing = Some service" and "i \<noteq> project_id \<or> service \<noteq> origin"
  shows "check_destination E destination project_id origin s
    = (Inl (belongs_already service i ''; use `resync project fork` for an independent project''), s')"
  using assms by (auto simp: check_destination_def path_exists_def run)

theorem join_refuses_foreign_checkout:
  assumes auth: "configured_provider K provider s = (Inr auth, s1)"
    and catalog: "fetch_catalog (cl_env K) (account_config auth) s1 = (Inr remote, s2)"
    and listed: "\<exists>p\<in>set (ct_projects remote). cp_project_id p = project_id"
    and dir: "current_dir (cl_env K) = Some dir"
    and destination: "join_destination (cl_env K) given dir s2 = (Inr destination, s3)"
    and checkout: "fs_get (files s3) destination \<noteq> None" "read_identity (cl_env K) destination s3 = (Inr existing, s4)"
    and owner: "id_project_id existing = Some i" "id_service existing = Some service"
    and foreign: "i \<noteq> project_id \<or> service \<noteq> cv_origin auth"
  shows "project_join K project_id given provider s
    = (Inl (Failed (belongs_already service i ''; use `resync project fork` for an independent project'')), s4)"
proof -
  obtain p where p: "find (\<lambda>p. cp_project_id p = project_id) (ct_projects remote) = Some p"
    using listed by (cases "find (\<lambda>p. cp_project_id p = project_id) (ct_projects remote)") (auto simp: find_None_iff)
  show ?thesis using auth catalog p dir destination check_destination_foreign [OF checkout owner foreign]
    by (simp add: project_join_def Let_def run_andThen run_mapErr run_simps)
qed

theorem init_refuses_another_provider:
  assumes dir: "current_dir (cl_env K) = Some dir"
    and root: "repository_root (cl_env K) dir s = (Inr root, s1)"
    and prior: "read_identity (cl_env K) root s1 = (Inr prior, s2)"
    and owner: "id_project_id prior = Some project_id" "id_service prior = Some service"
    and requested: "ca_provider args = Some r" "canonical_origin (cl_env K) r = Inr a"
    and other: "canonical_origin (cl_env K) service = Inr b" "a \<noteq> b"
  shows "project_create K args False s
    = (Inl (Failed (belongs_already service project_id ''; use `resync project fork` to separate it'')), s2)"
  using assms by (simp add: project_create_def repair_checkout_def same_provider_def Let_def run_andThen run_mapErr run_simps)

subsection \<open>Leaving a project\<close>

theorem leaving_keeps_the_other_projects:
  fixes K :: "'x cli" and project_id :: string and catalog :: local_catalog and s :: "('x, 'z) world_scheme"
  defines "E \<equiv> cl_env K"
  assumes loaded: "load_catalog E (cl_catalog K) s = (Inr catalog, s1)"
  defines "left \<equiv> filter (\<lambda>p. lp_project_id p \<noteq> project_id) (lc_projects catalog)"
  assumes tmp: "temporary_path E (sp_catalog (state_paths_of E)) \<noteq> sp_catalog (state_paths_of E)"
  shows "if \<forall>p\<in>set (lc_projects catalog). lp_project_id p \<noteq> project_id
    then unsubscribe K (Some project_id) s = (Inl (''project '' @ project_id @ '' is not subscribed''), s1)
    else \<forall>j s'. unsubscribe K (Some project_id) s = (Inr j, s') \<longrightarrow>
      (\<exists>s2. fs_get (files s2) (sp_catalog (state_paths_of E)) = Some (File (json_text (cl_catalog K) (catalog\<lparr>lc_projects := left\<rparr>)))
        \<and> forget_identity E project_id s2 = (Inr (), s'))"
proof (cases "\<forall>p\<in>set (lc_projects catalog). lp_project_id p \<noteq> project_id")
  case True
  then have "left = lc_projects catalog" by (simp add: left_def)
  then show ?thesis using True loaded
    by (simp add: unsubscribe_def project_id_or_identity_def E_def left_def Let_def run_andThen run_simps)
next
  case False
  then have "length left \<noteq> length (lc_projects catalog)"
    unfolding left_def by (metis (mono_tags, lifting) length_filter_less less_irrefl)
  moreover have "\<exists>s2. fs_get (files s2) (sp_catalog (state_paths_of E))
        = Some (File (json_text (cl_catalog K) (catalog\<lparr>lc_projects := left\<rparr>)))
      \<and> forget_identity E project_id s2 = (Inr (), s')" if ran: "unsubscribe K (Some project_id) s = (Inr j, s')" for j s'
  proof -
    obtain s2 where w: "write_json E (cl_catalog K) (sp_catalog (state_paths_of E)) (catalog\<lparr>lc_projects := left\<rparr>) private_mode s1 = (Inr (), s2)"
        and "forget_identity E project_id s2 = (Inr (), s')"
      using ran loaded calculation unfolding unsubscribe_def project_id_or_identity_def Let_def E_def [symmetric]
      by (auto simp: left_def [symmetric] run_andThen run_simps split: prod.splits sum.splits)
    then show ?thesis using write_json_document(1) [OF w] tmp by (auto simp: E_def)
  qed
  ultimately show ?thesis using False by (simp only: if_False) blast
qed

end
