(* ===== verification/Registration.thy ===== *)
theory Registration
  imports Project_Commands Daemon_Safety
begin

section \<open>Registering a project\<close>

text \<open>
  The command line and the daemon together: \<open>register_project_with_daemon\<close> of \<open>src/src/cli.rs\<close> sends the
  document of a project, and the daemon's handler enters exactly this project into its catalog.
\<close>

subsection \<open>Registration\<close>

lemma request_fields:
  "jget_str ''method'' (register_request p g) = Some ''registerProject''"
  "jget ''project'' (register_request p g) = Some (encode_local_project p)"
  "(\<And>n. g = Some n \<Longrightarrow> n \<le> u64_max) \<Longrightarrow> Option.bind (jget ''catalog_generation'' (register_request p g)) as_u64 = g"
  by (cases g; simp add: register_request_def jobj_def jget_str_def)+

text \<open>C20. The request that the command line builds to register a project makes the daemon's handler
  enter exactly this project into its catalog, in place of every project with the same id or
  path, and the catalog on disk is the one in memory.\<close>

theorem registration_reaches_the_catalog:
  assumes ran: "handle D (register_request p g) s = (Inr reply, s')"
    and reader: "dv_project_of_json D = (\<lambda>j. ok_or e (decode_local_project j))"
    and document: "document_ok p" and generation: "\<And>n. g = Some n \<Longrightarrow> n \<le> u64_max"
    and tmp: "temporary_path (dv_env D) (sp_catalog (dv_paths D)) \<noteq> sp_catalog (dv_paths D)"
  shows "dm_catalog s' = insert_project p g (dm_catalog (snd ((await D :: ('x daemon, stop, unit) prog) s)))
    \<and> fs_get (files s') (sp_catalog (dv_paths D)) = Some (File (json_text (dv_catalog D) (dm_catalog s')))
    \<and> p \<in> set (lc_projects (dm_catalog s'))
    \<and> (\<forall>q\<in>set (lc_projects (dm_catalog s')). lp_project_id q = lp_project_id p \<or> same_path (lp_local_path q) (lp_local_path p) \<longrightarrow> q = p)"
proof -
  let ?s = "snd ((await D :: ('x daemon, stop, unit) prog) s)"
  have parsed: "dv_project_of_json D (encode_local_project p) = Inr p"
    by (simp add: reader project_read_back [OF document])
  have "register_project D (register_request p g) s = (Inr reply, s')"
    using ran by (simp add: handle_def Let_def request_fields)
  then obtain u where "persist D (?s\<lparr>dm_catalog := insert_project p g (dm_catalog ?s)\<rparr>) = (Inr u, s')"
    by (auto simp: register_project_def request_fields generation parsed run await_def modify_def gets_def
        split: prod.splits sum.splits)
  note stored = persist_ok [OF this tmp]
  show ?thesis using stored by (auto simp: insert_project_def)
qed

end
