(* ===== verification/Peer.thy ===== *)
theory Peer
  imports Project_Commands
begin

section \<open>Peers\<close>

text \<open>
  \<open>src/src/peer.rs\<close>: enrolling a checkout on another machine over SSH (\<open>peer_sync\<close>) and accepting such an
  enrolment (\<open>peer_accept\<close>). \<open>peer_host\<close> adds to \<open>cli\<close> what only this file uses: temporary files, the platform
  the program was built for, and the text that the HTTP library gives an error status.
\<close>

record 'x peer_host =
  pr_cli :: "'x cli"
  pr_temp_file :: "'x \<Rightarrow> (string, path) result \<times> 'x"
  pr_platform :: string
  pr_architecture :: string
  pr_status_error :: "nat \<Rightarrow> string \<Rightarrow> string"

abbreviation pr_env :: "'x peer_host \<Rightarrow> 'x env" where
  "pr_env P \<equiv> cl_env (pr_cli P)"

subsection \<open>Targets and tickets\<close>

definition ticket_endpoint :: "discovery \<Rightarrow> string \<Rightarrow> string" where
  "ticket_endpoint d project_id = (case map_of (ds_endpoints d) ''join_tickets'' of
     Some template \<Rightarrow> str_replace ''%7Bproject_id%7D'' project_id (str_replace ''{project_id}'' project_id template)
   | None \<Rightarrow> ds_origin d @ ''/v1/projects/'' @ project_id @ ''/join-tickets'')"

definition parse_target :: "string \<Rightarrow> path option \<Rightarrow> (string, string \<times> path option) result" where
  "parse_target v explicit_path =
     (if v = [] then Inl ''peer sync requires an SSH target''
      else case explicit_path of
        Some p \<Rightarrow> Inr (v, Some p)
      | None \<Rightarrow> (case split_once CHR '':'' v of
            Some (host, p) \<Rightarrow>
              if \<not> starts_with v ''ssh://'' \<and> host \<noteq> [] then Inr (host, if p = [] then None else Some p) else Inr (v, None)
          | None \<Rightarrow> Inr (v, None)))"

definition remote_home_path :: "string \<Rightarrow> string" where
  "remote_home_path relative = [double_quote] @ ''$HOME'' @ [double_quote] @ ''/'' @ shell_quote relative"

definition remote_install_script :: "string \<Rightarrow> string" where
  "remote_install_script remote =
     ''set -eu'' @ [newline]
     @ ''chmod 755 '' @ remote_home_path (remote @ ''.tmp'') @ [newline]
     @ ''mv '' @ remote_home_path (remote @ ''.tmp'') @ '' '' @ remote_home_path remote @ [newline]
     @ ''mkdir -p '' @ remote_home_path ''.local/bin'' @ [newline]
     @ ''ln -sfn '' @ remote_home_path remote @ '' '' @ remote_home_path ''.local/bin/resync'' @ [newline]
     @ remote_home_path remote @ '' upgrade >/dev/null'' @ [newline]"

definition script_options :: "string \<Rightarrow> run_options" where
  "script_options text = default_options\<lparr>ro_input := Some text\<rparr>"

definition platform_query :: string where
  "platform_query = ''printf '' @ [quote] @ ''%s'' @ [backslash] @ ''n%s'' @ [backslash] @ ''n'' @ [quote] @ '' ''
     @ [double_quote] @ ''$(uname -s)'' @ [double_quote] @ '' '' @ [double_quote] @ ''$(uname -m)'' @ [double_quote] @ [newline]"

definition platform_target :: "string \<Rightarrow> string \<Rightarrow> (string, string) result" where
  "platform_target os arch =
     (if os = ''darwin'' \<and> (arch = ''arm64'' \<or> arch = ''aarch64'') then Inr ''aarch64-apple-darwin''
      else if os = ''darwin'' \<and> arch = ''x86_64'' then Inr ''x86_64-apple-darwin''
      else if os = ''linux'' \<and> (arch = ''arm64'' \<or> arch = ''aarch64'') then Inr ''aarch64-unknown-linux-gnu''
      else if os = ''linux'' \<and> (arch = ''x86_64'' \<or> arch = ''amd64'') then Inr ''x86_64-unknown-linux-gnu''
      else Inl (''unsupported peer platform '' @ os @ ''/'' @ arch))"

definition remote_target_with_ssh :: "'x env \<Rightarrow> path \<Rightarrow> string \<Rightarrow> (('x, 'z) world_scheme, string, string) prog" where
  "remote_target_with_ssh E ssh host =
     andThen (run_process E ssh [host, ''sh'', ''-s''] (script_options platform_query)) (\<lambda>res.
     let values = str_lines (stdout res);
         os = to_ascii_lowercase (if length values > 0 then values ! 0 else []);
         arch = to_ascii_lowercase (if length values > 1 then values ! 1 else []) in
     lift (platform_target os arch))"

definition remote_target :: "'x env \<Rightarrow> string \<Rightarrow> (('x, 'z) world_scheme, string, string) prog" where
  "remote_target E host = remote_target_with_ssh E ''ssh'' host"

definition current_target :: "string \<Rightarrow> string \<Rightarrow> string option" where
  "current_target os arch =
     (if os = ''macos'' \<and> arch = ''aarch64'' then Some ''aarch64-apple-darwin''
      else if os = ''macos'' \<and> arch = ''x86_64'' then Some ''x86_64-apple-darwin''
      else if os = ''linux'' \<and> arch = ''aarch64'' then Some ''aarch64-unknown-linux-gnu''
      else if os = ''linux'' \<and> arch = ''x86_64'' then Some ''x86_64-unknown-linux-gnu''
      else None)"

subsection \<open>The program table of an ELF binary\<close>

text \<open>\<open>binary.get(i..j)\<close>, and \<open>from_le_bytes\<close>.\<close>

definition byte_range :: "string \<Rightarrow> nat \<Rightarrow> nat \<Rightarrow> string option" where
  "byte_range b i j = (if i \<le> j \<and> j \<le> length b then Some (take (j - i) (drop i b)) else None)"

definition from_le_bytes :: "string \<Rightarrow> nat" where
  "from_le_bytes bs = foldr (\<lambda>c n. byte_of c + 256 * n) bs 0"

definition checked_add_u64 :: "nat \<Rightarrow> nat \<Rightarrow> nat option" where
  "checked_add_u64 a b = (if a + b \<le> u64_max then Some (a + b) else None)"

definition elf_magic :: string where
  "elf_magic = [CHR 0x7F, CHR ''E'', CHR ''L'', CHR ''F'', CHR 0x02, CHR 0x01]"

text \<open>\<open>offset + 4\<close> wraps around in a release build; the range is then empty and \<open>get\<close> gives nothing.\<close>

definition program_type :: "string \<Rightarrow> nat \<Rightarrow> nat \<Rightarrow> nat \<Rightarrow> (string, nat) result" where
  "program_type binary table entry_size index =
     bindR (ok_or ''ELF program table overflow'' (checked_mul_u64 index entry_size)) (\<lambda>distance.
     bindR (ok_or ''ELF program table overflow'' (checked_add_u64 table distance)) (\<lambda>offset.
     bindR (ok_or ''ELF program table is truncated'' (byte_range binary offset ((offset + 4) mod (u64_max + 1)))) (\<lambda>t.
     Inr (from_le_bytes t))))"

fun no_interpreter :: "string \<Rightarrow> nat \<Rightarrow> nat \<Rightarrow> nat list \<Rightarrow> (string, bool) result" where
  "no_interpreter binary table entry_size [] = Inr True"
| "no_interpreter binary table entry_size (index # rest) =
     bindR (program_type binary table entry_size index) (\<lambda>t.
     if t = 3 then Inr False else no_interpreter binary table entry_size rest)"

definition linux_binary_is_static :: "string \<Rightarrow> (string, bool) result" where
  "linux_binary_is_static binary =
     (if byte_range binary 0 6 \<noteq> Some elf_magic
      then Inl ''Linux peer bootstrap requires a 64-bit little-endian ELF binary''
      else
        bindR (ok_or ''ELF header is missing the program table offset'' (byte_range binary 32 40)) (\<lambda>a.
        bindR (ok_or ''ELF header is missing the program entry size'' (byte_range binary 54 56)) (\<lambda>b.
        bindR (ok_or ''ELF header is missing the program entry count'' (byte_range binary 56 58)) (\<lambda>c.
        if from_le_bytes b < 4 then Inl ''ELF program entries are too small''
        else no_interpreter binary (from_le_bytes a) (from_le_bytes b) [0..<from_le_bytes c]))))"

subsection \<open>The release binary\<close>

definition http_get :: "'x peer_host \<Rightarrow> string \<Rightarrow> (('x, 'z) world_scheme, string, string) prog" where
  "http_get P url =
     andThen (http_send (pr_env P) \<lparr>req_method = ''GET'', req_url = url, req_token = None, req_body = None\<rparr>) (\<lambda>res.
     if 400 \<le> res_status res \<and> res_status res < 600 then bail (pr_status_error P (res_status res) url)
     else ret (res_text res))"

definition digest_of_line :: "string \<Rightarrow> string \<Rightarrow> string option" where
  "digest_of_line name line = (case split_whitespace line of
     digest # file # _ \<Rightarrow> if dropWhile (\<lambda>c. c = CHR ''*'') file = name then Some digest else None
   | _ \<Rightarrow> None)"

definition listed_digest :: "string \<Rightarrow> string \<Rightarrow> string option" where
  "listed_digest name sums = (case List.map_filter (digest_of_line name) (str_lines sums) of [] \<Rightarrow> None | d # _ \<Rightarrow> Some d)"

definition release_base :: "'x peer_host \<Rightarrow> string" where
  "release_base P = (case var (pr_env P) ''RESYNC_RELEASE_BASE'' of Some v \<Rightarrow> v
     | None \<Rightarrow> ''https://github.com/tyrlabs-ai/resync/releases/download/v'' @ cl_version (pr_cli P))"

definition download_binary :: "'x peer_host \<Rightarrow> string \<Rightarrow> (('x, 'z) world_scheme, string, string) prog" where
  "download_binary P target =
     (let name = ''resync-'' @ target in
      andThen (http_get P (release_base P @ ''/'' @ name)) (\<lambda>binary.
      andThen (http_get P (release_base P @ ''/SHA256SUMS'')) (\<lambda>sums.
      andThen (lift (ok_or (''release checksum is missing '' @ name) (listed_digest name sums))) (\<lambda>expected.
      if hex_text (sha256 (pr_env P) binary) \<noteq> expected then bail (''release checksum mismatch for '' @ name)
      else ret binary))))"

definition release_binary :: "'x peer_host \<Rightarrow> string \<Rightarrow> (('x, 'z) world_scheme, string, string) prog" where
  "release_binary P target =
     (let E = pr_env P in
      if current_target (pr_platform P) (pr_architecture P) = Some target
      then
        andThen (lift (ok_or ''current executable is unavailable'' (current_exe E))) (\<lambda>executable.
        andThen (io (read_file E executable)) (\<lambda>binary.
        if pr_platform P = ''linux''
        then andThen (lift (linux_binary_is_static binary)) (\<lambda>static.
             if static then ret binary else download_binary P target)
        else ret binary))
      else download_binary P target)"

subsection \<open>Installing on the peer\<close>

text \<open>\<open>NamedTempFile\<close>: the file is there while the body runs, and is removed when it is over.\<close>

definition with_temp_file :: "'x peer_host \<Rightarrow> (path \<Rightarrow> (('x, 'z) world_scheme, string, 'a) prog) \<Rightarrow>
    (('x, 'z) world_scheme, string, 'a) prog" where
  "with_temp_file P body =
     andThen (ext_call (pr_temp_file P)) (\<lambda>p.
     andThen (io (write_file (pr_env P) p [] private_mode)) (\<lambda>_.
     andThen (attempt (body p)) (\<lambda>r.
     andThen (ignore (remove_file (pr_env P) p)) (\<lambda>_. lift r))))"

definition remote_directory :: "string \<Rightarrow> string \<Rightarrow> string" where
  "remote_directory version fingerprint = ''.local/share/resync/bin/'' @ version @ ''-'' @ take 16 fingerprint"

definition install_remote_binary :: "'x peer_host \<Rightarrow> string \<Rightarrow> (('x, 'z) world_scheme, string, string) prog" where
  "install_remote_binary P host =
     (let E = pr_env P in
     andThen (remote_target E host) (\<lambda>target.
     andThen (release_binary P target) (\<lambda>binary.
     let directory = remote_directory (cl_version (pr_cli P)) (hex_text (sha256 E binary));
         remote = directory @ ''/resync'' in
     andThen (run_process E ''ssh'' [host, ''sh'', ''-s'']
       (script_options (''set -eu'' @ [newline] @ ''mkdir -p '' @ remote_home_path directory @ [newline]))) (\<lambda>_.
     andThen (with_temp_file P (\<lambda>local.
       andThen (io (write_file E local binary private_mode)) (\<lambda>_.
       andThen (run_process E ''rsync'' [''--'', local, host @ '':'' @ remote @ ''.tmp''] default_options) (\<lambda>_.
       run_process E ''ssh'' [host, ''sh'', ''-s''] (script_options (remote_install_script remote)))))) (\<lambda>_.
     ret (remote_home_path remote))))))"

subsection \<open>Enrolling a peer\<close>

definition service_credential :: "'x cli \<Rightarrow> config \<Rightarrow> string \<Rightarrow> (('x, 'z) world_scheme, string, string) prog" where
  "service_credential K config service =
     andThen (load_credential (cl_env K) (cl_credentials K) service) (\<lambda>stored.
     lift (ok_or (''no credential for '' @ service) (case stored of Some t \<Rightarrow> Some t
       | None \<Rightarrow> if cfg_server config = Some service then cfg_token config else None)))"

definition service_catalog :: "'x cli \<Rightarrow> config \<Rightarrow> string \<Rightarrow> string \<Rightarrow> (('x, 'z) world_scheme, string, catalog) prog" where
  "service_catalog K config service token =
     fetch_catalog (cl_env K) (config\<lparr>cfg_server := Some service, cfg_token := Some token\<rparr>)"

definition listed_project :: "string \<Rightarrow> string \<Rightarrow> catalog \<Rightarrow> (string, catalog_project) result" where
  "listed_project message project_id catalog =
     ok_or message (find (\<lambda>p. cp_project_id p = project_id) (ct_projects catalog))"

definition advertised_at :: "string \<Rightarrow> catalog_project \<Rightarrow> string option" where
  "advertised_at branch item = map_option ah_oid (find (\<lambda>h. ah_name h = branch) (cp_advertised_heads item))"

text \<open>The hosted branch is brought to the local commit before anything is asked of the provider.\<close>

definition publish_head :: "'x cli \<Rightarrow> config \<Rightarrow> string \<Rightarrow> string \<Rightarrow> string \<Rightarrow> string \<Rightarrow> string \<Rightarrow> catalog_project \<Rightarrow>
    (('x, 'z) world_scheme, string, unit) prog" where
  "publish_head K config service token project_id branch local_head item =
     (if advertised_at branch item = Some local_head then ret ()
      else
      andThen (daemon_rpc (cl_os K) (project_request ''publish'' (JStr project_id))) (\<lambda>_.
      andThen (service_catalog K config service token) (\<lambda>catalog.
      andThen (lift (listed_project ''project disappeared after publication'' project_id catalog)) (\<lambda>published.
      if advertised_at branch published \<noteq> Some local_head
      then bail (''hosted branch '' @ branch @ '' did not advance to the current commit'') else ret ()))))"

definition remote_arguments :: "string \<Rightarrow> string \<Rightarrow> string \<Rightarrow> string \<Rightarrow> path option \<Rightarrow> string list" where
  "remote_arguments service ticket project_id device_name target_path =
     [''peer'', ''accept'', ''--provider'', service, ''--ticket'', ticket, ''--project'', project_id,
      ''--device-name'', device_name] @ (case target_path of None \<Rightarrow> [] | Some p \<Rightarrow> [''--into'', p])"

definition remote_script :: "string \<Rightarrow> string list \<Rightarrow> string" where
  "remote_script executable arguments = ''set -eu'' @ [newline] @ ''exec '' @ executable @ '' ''
     @ join_with '' '' (map shell_quote arguments) @ [newline]"

definition check_remote :: "string \<Rightarrow> string \<Rightarrow> json \<Rightarrow> (string, unit) result" where
  "check_remote project_id service remote =
     ensure (jget_str ''projectId'' remote = Some project_id \<and> jget_str ''service'' remote = Some service)
       ''peer enrolled into an unexpected project identity''"

definition member_or_null :: "string \<Rightarrow> json \<Rightarrow> json" where
  "member_or_null k j = (case jget k j of Some v \<Rightarrow> v | None \<Rightarrow> JNull)"

definition peer_report :: "identity \<Rightarrow> string \<Rightarrow> string \<Rightarrow> string \<Rightarrow> json \<Rightarrow> string \<Rightarrow> bool \<Rightarrow> json" where
  "peer_report identity project_id service host remote local_head dirty = jobj
     [(''projectId'', JStr project_id), (''service'', JStr service), (''localCheckoutId'', jopt (id_checkout_id identity)),
      (''peer'', JStr host), (''peerPath'', member_or_null ''localPath'' remote),
      (''peerCheckoutId'', member_or_null ''checkoutId'' remote), (''committedHead'', JStr local_head),
      (''warning'', if dirty then JStr ''local uncommitted work remains only on this checkout'' else JNull)]"

definition enroll_over_ssh :: "'x peer_host \<Rightarrow> string \<Rightarrow> string \<Rightarrow> string list \<Rightarrow> (('x, 'z) world_scheme, string, json) prog" where
  "enroll_over_ssh P host executable arguments =
     andThen (run_process (pr_env P) ''ssh'' [host, ''sh'', ''-s''] (script_options (remote_script executable arguments))) (\<lambda>response.
     lift (ok_or ''peer returned an invalid response'' (parse_json (pr_env P) (stdout response))))"

definition sync_with_peer :: "'x peer_host \<Rightarrow> identity \<Rightarrow> string \<Rightarrow> string \<Rightarrow> string \<Rightarrow> path option \<Rightarrow> string option \<Rightarrow> bool \<Rightarrow>
    (('x, 'z) world_scheme, string, json) prog" where
  "sync_with_peer P identity project_id service host target_path name no_bootstrap =
     (let K = pr_cli P; E = cl_env K in
     andThen (resolved_config E (cl_config K) (cl_credentials K)) (\<lambda>config.
     andThen (service_credential K config service) (\<lambda>token.
     andThen (discover E (Some service)) (\<lambda>discovery.
     andThen (service_catalog K config service token) (\<lambda>catalog.
     andThen (lift (listed_project ''current device is no longer authorized for this project'' project_id catalog)) (\<lambda>item.
     andThen (current_branch E (id_root identity)) (\<lambda>branch.
     andThen (git_text E (id_root identity) [''rev-parse'', ''HEAD''] default_options) (\<lambda>local_head.
     andThen (publish_head K config service token project_id branch local_head item) (\<lambda>_.
     andThen (provider_fetch E (ticket_endpoint discovery project_id) (Some token) ''POST''
       (Some (jobj [(''ttl_seconds'', JInt 300)]))) (\<lambda>ticket.
     andThen (if no_bootstrap then ret (shell_quote ''resync'') else install_remote_binary P host) (\<lambda>executable.
     andThen (lift (ok_or ''provider returned no join ticket'' (jget_str ''ticket'' ticket))) (\<lambda>secret.
     andThen (enroll_over_ssh P host executable (remote_arguments service secret project_id
       (case name of Some n \<Rightarrow> n | None \<Rightarrow> host) target_path)) (\<lambda>remote.
     andThen (lift (check_remote project_id service remote)) (\<lambda>_.
     andThen (git_text E (id_root identity) [''status'', ''--porcelain''] default_options) (\<lambda>changes.
     ret (peer_report identity project_id service host remote local_head (changes \<noteq> [])))))))))))))))))"

text \<open>\<open>unwrap\<close> on the service of an identity panics when there is none.\<close>

definition peer_sync :: "'x peer_host \<Rightarrow> string \<Rightarrow> path option \<Rightarrow> string option \<Rightarrow> bool \<Rightarrow> (('x, 'z) world_scheme, abort, json) prog" where
  "peer_sync P target_value into name no_bootstrap =
     (let E = pr_env P in
     andThen (fallible (lift (parse_target target_value into))) (\<lambda>(host, target_path).
     andThen (fallible (lift (ok_or ''current directory is unavailable'' (current_dir E)))) (\<lambda>dir.
     andThen (fallible (read_identity E dir)) (\<lambda>identity.
     andThen (fallible (lift (ok_or ''current checkout is not enrolled; run `resync project init` first''
       (id_project_id identity)))) (\<lambda>project_id.
     case id_service identity of
       None \<Rightarrow> bail (Panic ''called unwrap on a None value'')
     | Some service \<Rightarrow>
         fallible (sync_with_peer P identity project_id service host target_path name no_bootstrap))))))"

subsection \<open>Accepting an enrolment\<close>

record accept_options =
  ao_provider :: string
  ao_ticket :: string
  ao_project_id :: string
  ao_into :: "path option"
  ao_device_name :: string

definition enrollment_token :: "json \<Rightarrow> string option \<Rightarrow> (string, string \<times> bool) result" where
  "enrollment_token enrollment existing_token =
     (if jget ''reused_device'' enrollment = Some (JBool True)
      then bindR (ok_or ''provider reused a device without an existing credential'' existing_token) (\<lambda>t. Inr (t, False))
      else bindR (ok_or ''ticket enrollment returned no token'' (jget_str ''token'' enrollment)) (\<lambda>t. Inr (t, True)))"

definition peer_destination :: "path option \<Rightarrow> path option \<Rightarrow> path option \<Rightarrow> string \<Rightarrow> string \<Rightarrow> path" where
  "peer_destination explicit managed home project_id project_name = (case explicit of Some p \<Rightarrow> p
     | None \<Rightarrow> (case managed of Some p \<Rightarrow> p
       | None \<Rightarrow> path_join (path_join (path_join (case home of Some h \<Rightarrow> h | None \<Rightarrow> ''.'')
           ''.local/share/resync/checkouts'') project_id) project_name))"

definition membership_kept :: "discovery \<Rightarrow> string option \<Rightarrow> (string, unit) result" where
  "membership_kept d existing_token = ensure (existing_token = None \<or> ''membership-extension-v1'' \<in> set (ds_capabilities d))
     ''provider cannot guarantee membership extension; refusing to replace the active device identity''"

definition redeem_ticket :: "'x cli \<Rightarrow> discovery \<Rightarrow> string option \<Rightarrow> string \<Rightarrow> string \<Rightarrow> (('x, 'z) world_scheme, string, string) prog" where
  "redeem_ticket K d existing_token ticket device_name =
     (let E = cl_env K in
     andThen (generate_device_identity E device_name) (\<lambda>key.
     andThen (lift (ok_or ''provider discovery is missing ticket redemption endpoint''
       (map_of (ds_endpoints d) ''redeem_join_ticket''))) (\<lambda>url.
     andThen (provider_fetch E url existing_token ''POST'' (Some (jobj [(''ticket'', JStr ticket),
       (''device_name'', JStr device_name), (''public_key'', JStr (di_public_key key))]))) (\<lambda>enrollment.
     andThen (lift (enrollment_token enrollment existing_token)) (\<lambda>(token, replaced_device).
     andThen (if replaced_device then store_provider_login E (cl_credentials K) (cl_config K) d enrollment key
       else remove_device_identity E (Some (di_public_key_path key))) (\<lambda>_. ret token))))))"

definition accept_destination :: "'x env \<Rightarrow> path \<Rightarrow> string \<Rightarrow> string \<Rightarrow> (('x, 'z) world_scheme, string, unit) prog" where
  "accept_destination E destination origin project_id =
     andThen (path_exists destination) (\<lambda>present.
     if present
     then andThen (attempt (read_identity E destination)) (\<lambda>r. case r of
         Inl _ \<Rightarrow> ret ()
       | Inr current \<Rightarrow>
           if id_project_id current = None then ret ()
           else andThen (lift (same_project E current \<lparr>id_root = destination, id_service = Some origin,
               id_project_id = Some project_id, id_checkout_id = None\<rparr>)) (\<lambda>same.
             if \<not> same then bail ''target path belongs to another RepoSync project; refusing to relink it'' else ret ()))
     else (case path_parent destination of None \<Rightarrow> ret () | Some parent \<Rightarrow> io (create_dir_all E parent)))"

definition enrolled_destination :: "'x env \<Rightarrow> accept_options \<Rightarrow> string \<Rightarrow> path" where
  "enrolled_destination E options name = peer_destination (ao_into options)
     (case var E ''RESYNC_PEER_PROJECT_PATH'' of Some p \<Rightarrow> Some p | None \<Rightarrow> var E ''YOLOPODS_PROJECT_PATH'')
     (var E ''HOME'') (ao_project_id options) name"

definition peer_accept :: "'x cli \<Rightarrow> accept_options \<Rightarrow> (('x, 'z) world_scheme, abort, json) prog" where
  "peer_accept K options =
     (let E = cl_env K; project_id = ao_project_id options in
     andThen (fallible (discover E (Some (ao_provider options)))) (\<lambda>d.
     andThen (fallible (load_credential E (cl_credentials K) (ds_origin d))) (\<lambda>existing_token.
     andThen (fallible (lift (membership_kept d existing_token))) (\<lambda>_.
     andThen (fallible (redeem_ticket K d existing_token (ao_ticket options) (ao_device_name options))) (\<lambda>token.
     andThen (fallible (fetch_catalog E (default_config\<lparr>cfg_server := Some (ds_origin d), cfg_token := Some token\<rparr>))) (\<lambda>catalog.
     andThen (fallible (lift (listed_project ''join ticket did not authorize the expected project'' project_id catalog))) (\<lambda>selected.
     let destination = enrolled_destination E options (cp_name selected) in
     andThen (fallible (accept_destination E destination (ds_origin d) project_id)) (\<lambda>_.
     andThen (fallible (materialize_project E (cl_transactions K) selected destination (Some token) ''resync'')) (\<lambda>found.
     andThen (fallible (write_identity E (lp_local_path found) (ds_origin d) project_id None)) (\<lambda>identity.
     let local = found\<lparr>lp_service := id_service identity, lp_checkout_id := id_checkout_id identity\<rparr> in
     andThen (settle_checkout K (lp_local_path local) local (Some (ct_catalog_generation catalog)) project_id) (\<lambda>_.
     ret (jobj [(''projectId'', JStr project_id), (''service'', JStr (ds_origin d)),
       (''checkoutId'', jopt (id_checkout_id identity)), (''localPath'', JStr (lp_local_path local))]))))))))))))"

subsection \<open>Static binaries\<close>

text \<open>The field of the header between two positions, and the type of an entry of the program table.\<close>

definition header_field :: "string \<Rightarrow> nat \<Rightarrow> nat \<Rightarrow> nat" where
  "header_field b i j = from_le_bytes (take (j - i) (drop i b))"

definition entry_type :: "string \<Rightarrow> nat \<Rightarrow> nat" where
  "entry_type b i = header_field b (header_field b 32 40 + i * header_field b 54 56)
     (header_field b 32 40 + i * header_field b 54 56 + 4)"

lemma byte_range_Some: "byte_range b i j = Some t \<longleftrightarrow> i \<le> j \<and> j \<le> length b \<and> t = take (j - i) (drop i b)"
  by (auto simp: byte_range_def)

lemma program_type_ok:
  assumes "length b \<le> u64_max"
  shows "program_type b table width i = Inr t
    \<longleftrightarrow> table + i * width + 4 \<le> length b \<and> t = header_field b (table + i * width) (table + i * width + 4)"
proof (cases "table + i * width + 4 \<le> u64_max")
  case True
  then have "(table + i * width + 4) mod (u64_max + 1) = table + i * width + 4" by simp
  moreover have "i * width \<le> u64_max" "table + i * width \<le> u64_max" using True by simp_all
  ultimately show ?thesis
    by (auto simp: program_type_def checked_mul_u64_def checked_add_u64_def byte_range_def header_field_def)
next
  case False
  have "byte_range b (table + i * width) ((table + i * width + 4) mod (u64_max + 1)) = None" if "table + i * width \<le> u64_max"
  proof -
    have "(table + i * width + 4) mod (u64_max + 1) = table + i * width + 4 - (u64_max + 1)"
      using False that by (simp add: mod_if u64_max_def)
    then show ?thesis using False that by (simp add: byte_range_def u64_max_def)
  qed
  then have "program_type b table width i \<noteq> Inr t"
    by (auto simp: program_type_def checked_mul_u64_def checked_add_u64_def)
  then show ?thesis using False assms by auto
qed

lemma no_interpreter_ok:
  "no_interpreter b table width is = Inr True \<longleftrightarrow> (\<forall>i\<in>set is. \<exists>t. program_type b table width i = Inr t \<and> t \<noteq> 3)"
proof (induction "is")
  case (Cons i rest)
  then show ?case by (cases "program_type b table width i") auto
qed simp

text \<open>C38. The check of a Linux binary before it is copied to a peer accepts exactly the 64-bit
  little-endian ELF files whose program table lies inside the file and has no entry of type
  PT_INTERP.\<close>

theorem static_binary_has_no_interpreter:
  assumes "length b \<le> u64_max"
  shows "linux_binary_is_static b = Inr True \<longleftrightarrow>
    take 6 b = elf_magic \<and> 58 \<le> length b \<and> 4 \<le> header_field b 54 56
    \<and> (\<forall>i<header_field b 56 58. header_field b 32 40 + i * header_field b 54 56 + 4 \<le> length b \<and> entry_type b i \<noteq> 3)"
proof -
  have magic: "byte_range b 0 6 = Some elf_magic \<longleftrightarrow> take 6 b = elf_magic"
    by (auto simp: byte_range_def elf_magic_def dest: arg_cong [where f = length])
  show ?thesis
  proof (cases "take 6 b = elf_magic \<and> 58 \<le> length b")
    case True
    then show ?thesis
      by (simp add: linux_binary_is_static_def magic byte_range_def bindR_eq_Inr no_interpreter_ok program_type_ok [OF assms]
          header_field_def [symmetric] entry_type_def) (auto simp: header_field_def)
  next
    case False
    then show ?thesis by (auto simp: linux_binary_is_static_def magic bindR_eq_Inr ok_or_def byte_range_def split: if_splits)
  qed
qed

subsection \<open>Downloads match the list of checksums\<close>

definition plain_get :: "string \<Rightarrow> request" where
  "plain_get url = \<lparr>req_method = ''GET'', req_url = url, req_token = None, req_body = None\<rparr>"

lemma http_get_ok:
  assumes "http_get P url s = (Inr text, s')"
  shows "(\<exists>res. fst (http (pr_env P) (plain_get url) (ext s)) = Inr res \<and> res_text res = text)
    \<and> ext s' = snd (http (pr_env P) (plain_get url) (ext s)) \<and> trace s' = trace s @ [Http (plain_get url)]"
  using assms by (auto simp: http_get_def http_send_def plain_get_def run split: prod.splits sum.splits if_splits)

text \<open>C39. A release binary is handed on only if its SHA-256 is the one that the release's SHA256SUMS
  lists for its name, and both files come from the same release.\<close>

theorem downloaded_binary_is_listed:
  fixes P :: "'x peer_host" and target :: string
  defines "name \<equiv> ''resync-'' @ target" and "E \<equiv> pr_env P"
  assumes ran: "download_binary P target s = (Inr binary, s')"
  shows "\<exists>listing x. fst (http E (plain_get (release_base P @ ''/SHA256SUMS'')) x) = Inr listing
    \<and> listed_digest name (res_text listing) = Some (hex_text (sha256 E binary))
    \<and> trace s' = trace s @ [Http (plain_get (release_base P @ ''/'' @ name)), Http (plain_get (release_base P @ ''/SHA256SUMS''))]"
proof -
  obtain sums s1 where b: "http_get P (release_base P @ ''/'' @ name) s = (Inr binary, s1)"
      and sums: "http_get P (release_base P @ ''/SHA256SUMS'') s1 = (Inr sums, s')"
      and listed: "listed_digest name sums = Some (hex_text (sha256 E binary))"
    using ran unfolding download_binary_def name_def [symmetric] Let_def E_def [symmetric]
    by (auto simp: run ok_or_def split: prod.splits sum.splits option.splits if_splits)
  show ?thesis using http_get_ok [OF b] http_get_ok [OF sums] listed by (auto simp: E_def)
qed

subsection \<open>Only published commits are offered\<close>

text \<open>A catalog fetched with this token lists the project with the commit as head of the branch.\<close>

definition hosted_at :: "'x cli \<Rightarrow> config \<Rightarrow> string \<Rightarrow> string \<Rightarrow> string \<Rightarrow> string \<Rightarrow> string \<Rightarrow> ('x, 'z) world_scheme \<Rightarrow> bool" where
  "hosted_at K config service token project_id branch head s =
     (case fst (service_catalog K config service token s) of
       Inl _ \<Rightarrow> False
     | Inr catalog \<Rightarrow> (case find (\<lambda>p. cp_project_id p = project_id) (ct_projects catalog) of
         None \<Rightarrow> False
       | Some p \<Rightarrow> advertised_at branch p = Some head))"

lemma publish_head_ok:
  fixes s :: "('x, 'z) world_scheme"
  assumes "publish_head K config service token project_id branch local_head item s = (Inr u, s')"
    and "advertised_at branch item \<noteq> Some local_head"
  shows "\<exists>t :: ('x, 'z) world_scheme. hosted_at K config service token project_id branch local_head t"
proof -
  obtain r s1 where "daemon_rpc (cl_os K) (project_request ''publish'' (JStr project_id)) s = (Inr r, s1)"
    using assms by (auto simp: publish_head_def run split: prod.splits sum.splits)
  then have "hosted_at K config service token project_id branch local_head s1"
    using assms by (auto simp: publish_head_def hosted_at_def listed_project_def ok_or_def run
        split: prod.splits sum.splits if_splits option.splits)
  then show ?thesis by blast
qed

theorem peer_gets_a_hosted_commit:
  fixes s :: "('x, 'z) world_scheme"
  assumes ran: "sync_with_peer P identity project_id service host target_path name no_bootstrap s = (Inr report, s')"
  shows "\<exists>config token branch head. \<exists>t :: ('x, 'z) world_scheme.
    hosted_at (pr_cli P) config service token project_id branch head t
    \<and> jget_str ''committedHead'' report = Some head \<and> jget_str ''projectId'' report = Some project_id"
proof -
  let ?K = "pr_cli P"
  obtain config token catalog item branch head u and s1 s2 s3 s4 :: "('x, 'z) world_scheme"
    where fetched: "service_catalog ?K config service token s1 = (Inr catalog, s2)"
      and item: "find (\<lambda>p. cp_project_id p = project_id) (ct_projects catalog) = Some item"
      and published: "publish_head ?K config service token project_id branch head item s3 = (Inr u, s4)"
      and report: "jget_str ''committedHead'' report = Some head" "jget_str ''projectId'' report = Some project_id"
    using ran unfolding sync_with_peer_def Let_def listed_project_def peer_report_def
    by (fastforce simp: run_andThen run_simps jobj_def jget_str_def ok_or_def split: prod.splits sum.splits option.splits)
  show ?thesis
  proof (cases "advertised_at branch item = Some head")
    case True
    then have "hosted_at ?K config service token project_id branch head s1" by (simp add: hosted_at_def fetched item)
    then show ?thesis using report by blast
  qed (use publish_head_ok [OF published] report in blast)
qed

subsection \<open>Identities\<close>

lemma read_identity_service:
  "read_identity E p s = (Inr found, s') \<Longrightarrow> id_project_id found \<noteq> None \<Longrightarrow> id_service found \<noteq> None"
  by (auto simp: read_identity_def canonical_option_def run bindR_eq_Inr split: prod.splits sum.splits if_splits option.splits)

theorem peer_sync_never_panics:
  "fst (peer_sync P target_value into name no_bootstrap s) \<noteq> Inl (Panic message)"
proof -
  have "\<exists>service. id_service found = Some service"
    if "read_identity (pr_env P) dir s = (Inr found, s')" "ok_or e (id_project_id found) = Inr project_id" for dir found s' e project_id
    using read_identity_service [OF that(1)] that(2) by (cases "id_project_id found") auto
  then show ?thesis by (fastforce simp: peer_sync_def Let_def run split: prod.splits sum.splits option.splits)
qed

subsection \<open>Accepting keeps what is there\<close>

theorem accept_keeps_the_device_without_membership:
  assumes "discover (cl_env K) (Some (ao_provider options)) s = (Inr d, s1)"
    and "load_credential (cl_env K) (cl_credentials K) (ds_origin d) s1 = (Inr (Some token), s2)"
    and "''membership-extension-v1'' \<notin> set (ds_capabilities d)"
  shows "peer_accept K options s = (Inl (Failed
    ''provider cannot guarantee membership extension; refusing to replace the active device identity''), s2)"
  using assms by (simp add: peer_accept_def Let_def membership_kept_def run_andThen run_mapErr run_simps ensure_def)

lemma accept_destination_foreign:
  assumes "fs_get (files s) destination \<noteq> None" and "read_identity E destination s = (Inr current, s')"
    and "id_project_id current = Some i" and "id_service current = Some service"
    and "canonical_origin E service = Inr a" and "canonical_origin E origin = Inr b" and "i \<noteq> project_id \<or> a \<noteq> b"
  shows "accept_destination E destination origin project_id s
    = (Inl ''target path belongs to another RepoSync project; refusing to relink it'', s')"
  using assms by (auto simp: accept_destination_def path_exists_def same_project_def run_andThen run_attempt run_simps)

theorem accept_refuses_foreign_checkout:
  fixes options :: accept_options and d :: discovery and K :: "'x cli"
  defines "E \<equiv> cl_env K" and "wanted \<equiv> ao_project_id options" and "origin \<equiv> ds_origin d"
  assumes found: "discover E (Some (ao_provider options)) s = (Inr d, s1)"
    and credential: "load_credential E (cl_credentials K) origin s1 = (Inr existing_token, s2)"
    and membership: "existing_token = None \<or> ''membership-extension-v1'' \<in> set (ds_capabilities d)"
    and redeemed: "redeem_ticket K d existing_token (ao_ticket options) (ao_device_name options) s2 = (Inr token, s3)"
    and catalog: "fetch_catalog E (default_config\<lparr>cfg_server := Some origin, cfg_token := Some token\<rparr>) s3 = (Inr catalog, s4)"
    and listed: "find (\<lambda>p. cp_project_id p = wanted) (ct_projects catalog) = Some selected"
  defines "destination \<equiv> enrolled_destination E options (cp_name selected)"
  assumes checkout: "fs_get (files s4) destination \<noteq> None" "read_identity E destination s4 = (Inr current, s5)"
    and owner: "id_project_id current = Some i" "id_service current = Some service"
    and origins: "canonical_origin E service = Inr a" "canonical_origin E origin = Inr b"
    and foreign: "i \<noteq> wanted \<or> a \<noteq> b"
  shows "peer_accept K options s
    = (Inl (Failed ''target path belongs to another RepoSync project; refusing to relink it''), s5)"
  using found credential membership redeemed catalog listed accept_destination_foreign [OF checkout owner origins foreign]
  by (simp add: peer_accept_def Let_def membership_kept_def listed_project_def E_def wanted_def origin_def destination_def
      ensure_def run_andThen run_mapErr run_simps)

subsection \<open>The script of an enrolment\<close>

lemma newline_step: "sh_quote st = None \<Longrightarrow> \<not> sh_escaped st \<Longrightarrow> shell_step st [newline] = flush_word st"
  by (simp add: shell_step_def ws_char_def code_point_def lead_bits_def byte_of_def is_whitespace_def
      quote_def double_quote_def backslash_def newline_def)

lemma finish_newline: "sh_quote st = None \<Longrightarrow> \<not> sh_escaped st \<Longrightarrow> shell_finish (shell_step st [newline]) = shell_finish st"
  by (simp add: newline_step shell_finish_def flush_word_def)

lemma calm_joined:
  "sh_quote st = None \<Longrightarrow> \<not> sh_escaped st
    \<Longrightarrow> sh_quote (foldl shell_step st (joined_chars ws)) = None \<and> \<not> sh_escaped (foldl shell_step st (joined_chars ws))"
proof (induction ws arbitrary: st)
  case (Cons w ws)
  have "foldl shell_step st (joined_chars (w # ws)) = foldl shell_step (push_char w (flush_word st)) (joined_chars ws)"
    using Cons.prems by (simp add: joined_chars_def steps_blank steps_quoted_word flush_word_def)
  moreover have "sh_quote (push_char w (flush_word st)) = None" "\<not> sh_escaped (push_char w (flush_word st))"
    using Cons.prems by (simp_all add: push_char_def flush_word_def)
  ultimately show ?case using Cons.IH by simp
qed (simp add: joined_chars_def)

definition script_head :: string where
  "script_head = ''set -eu'' @ [newline] @ ''exec ''"

lemma script_head_steps: "foldl shell_step shell_start (map (\<lambda>c. [c]) script_head) = shell_start\<lparr>sh_segment := [''set'', ''-eu'', ''exec'']\<rparr>"
  by (simp add: script_head_def newline_def shell_start_def shell_step_def ws_char_def code_point_def lead_bits_def byte_of_def
      is_whitespace_def quote_def double_quote_def backslash_def separators_def push_char_def flush_word_def)

lemma calm_start: "sh_quote (shell_start\<lparr>sh_segment := ws\<rparr>) = None" "\<not> sh_escaped (shell_start\<lparr>sh_segment := ws\<rparr>)"
  by (simp_all add: shell_start_def)

lemma script_groups: "\<forall>g\<in>set (map (\<lambda>c. [c]) script_head). char_group g"
  by (simp add: script_head_def newline_def char_group_def continuation_def byte_of_def)

lemma joined_concat:
  assumes "\<forall>w\<in>set ws. rust_text w"
  shows "concat (joined_chars ws) = concat (map (\<lambda>v. '' '' @ shell_quote v) ws)"
  using assms by (induction ws) (simp_all add: joined_chars_def shell_quote_chars)

lemma joined_groups: "\<forall>w\<in>set ws. rust_text w \<Longrightarrow> \<forall>g\<in>set (joined_chars ws). char_group g"
  by (auto simp: joined_chars_def byte_of_def intro!: group_ascii dest: groups_quoted)


end
