(* ===== verification/Command_Line.thy ===== *)
theory Command_Line
  imports Peer
begin

section \<open>The command line\<close>

text \<open>
  The dispatch of \<open>src/src/cli.rs\<close> and \<open>main\<close> of \<open>src/src/main.rs\<close>: from the arguments of the process to what
  it prints and the code it exits with. The parser that \<open>clap\<close> derives from the declarations, the pretty
  printer of serde and the file of the host name are members of \<open>program\<close>. The command \<open>daemon\<close> ends the
  dispatch with \<open>RunDaemon\<close> and the interval of its polls; the daemon itself has its own theories.
\<close>

subsection \<open>Commands\<close>

datatype auth_command =
    AuthLogin login_args
  | AuthStatus "string option"
  | AuthLogout "string option" bool

datatype peer_command =
    PeerSync string "path option" "string option" bool
  | PeerAccept accept_options

datatype workspace_command = InstallHooks "path option"

datatype command =
    CmdAuth auth_command
  | CmdProject project_command
  | CmdDevice device_command
  | CmdLease lease_command
  | CmdPeer peer_command
  | CmdDaemon string
  | CmdDoctor
  | CmdUpgrade
  | CmdActivateUpgrade path
  | CmdGc bool
  | CmdTransactionDebug transaction_debug_command
  | CmdInstallAdapters "string option"
  | CmdWorkspace workspace_command
  | CmdAcquire string "string option" "string option"
  | CmdRelease string
  | CmdCodexHook string
  | CmdCodexWorkspaceHook path
  | CmdReportCommit string string string
  | CmdReportCheckout string string string string

text \<open>\<open>pg_parse\<close> is \<open>Cli::parse_from\<close>: it ends the process itself when the arguments are wrong or ask for help,
  with a text and a code. \<open>pg_input\<close> is what standard input holds.\<close>

record 'x program =
  pg_peer :: "'x peer_host"
  pg_receipts :: "receipt codec"
  pg_active_receipts :: "receipt option codec"
  pg_number :: "int \<Rightarrow> string"
  pg_manifest :: "string \<Rightarrow> (string, workspace_document) result"
  pg_input :: string
  pg_parse :: "string list \<Rightarrow> (string \<times> int, path option \<times> command) result"
  pg_pretty :: "json \<Rightarrow> string"

abbreviation pg_cli :: "'x program \<Rightarrow> 'x cli" where "pg_cli G \<equiv> pr_cli (pg_peer G)"
abbreviation pg_os :: "'x program \<Rightarrow> 'x os" where "pg_os G \<equiv> cl_os (pg_cli G)"
abbreviation pg_env :: "'x program \<Rightarrow> 'x env" where "pg_env G \<equiv> cl_env (pg_cli G)"

datatype command_error = Reported int json string | Unreported string | Panicked string

fun of_abort :: "abort \<Rightarrow> command_error" where
  "of_abort (Failed m) = Unreported m"
| "of_abort (Panic m) = Panicked m"

fun of_cli_error :: "cli_error \<Rightarrow> command_error" where
  "of_cli_error (Structured exit_code v diagnostic) = Reported exit_code v diagnostic"
| "of_cli_error (Other f) = Unreported (failure_message f)"

datatype action = Answer json | RunDaemon nat

abbreviation answers :: "('s, string, json) prog \<Rightarrow> ('s, command_error, action) prog" where
  "answers m \<equiv> andThen (mapErr Unreported m) (\<lambda>v. ret (Answer v))"

abbreviation answers_or_aborts :: "('s, abort, json) prog \<Rightarrow> ('s, command_error, action) prog" where
  "answers_or_aborts m \<equiv> andThen (mapErr of_abort m) (\<lambda>v. ret (Answer v))"

subsection \<open>Dispatch\<close>

definition auth :: "'x cli \<Rightarrow> auth_command \<Rightarrow> (('x, 'z) world_scheme, string, json) prog" where
  "auth K command = (case command of
     AuthLogin args \<Rightarrow> auth_login K args
   | AuthStatus provider \<Rightarrow> auth_status K provider
   | AuthLogout provider every \<Rightarrow> auth_logout K provider every)"

definition peer :: "'x peer_host \<Rightarrow> peer_command \<Rightarrow> (('x, 'z) world_scheme, abort, json) prog" where
  "peer P command = (case command of
     PeerSync target into name no_bootstrap \<Rightarrow> peer_sync P target into name no_bootstrap
   | PeerAccept options \<Rightarrow> peer_accept (pr_cli P) options)"

definition workspace_do :: "'x program \<Rightarrow> workspace_command \<Rightarrow> (('x, 'z) world_scheme, string, json) prog" where
  "workspace_do G command = (case command of
     InstallHooks root \<Rightarrow>
       andThen (lift (ok_or ''current directory is unavailable'' (current_dir (pg_env G)))) (\<lambda>dir.
       install_hooks (pg_env G) (cl_catalog (pg_cli G)) (cl_json (pg_cli G)) (pg_manifest G)
         (case root of Some r \<Rightarrow> r | None \<Rightarrow> dir)))"

definition codex_hook :: "'x program \<Rightarrow> string \<Rightarrow> (('x, 'z) world_scheme, string, json) prog" where
  "codex_hook G project_id =
     andThen (lift (read_codex_hook_input (pg_env G) (pg_input G))) (\<lambda>i.
     codex_hook_for_input (pg_os G) (cl_json (pg_cli G)) project_id i)"

definition workspace_hook :: "'x program \<Rightarrow> path \<Rightarrow> (('x, 'z) world_scheme, string, json) prog" where
  "workspace_hook G manifest =
     andThen (lift (read_codex_hook_input (pg_env G) (pg_input G))) (\<lambda>i.
     codex_workspace_hook (pg_os G) (cl_json (pg_cli G)) (cl_catalog (pg_cli G)) (pg_manifest G) manifest i)"

definition acquire_call :: "'x program \<Rightarrow> string \<Rightarrow> string option \<Rightarrow> string option \<Rightarrow> (('x, 'z) world_scheme, string, json) prog" where
  "acquire_call G project_id session_id call_id =
     andThen (case call_id of Some c \<Rightarrow> ret c | None \<Rightarrow> new_uuid (pg_env G)) (\<lambda>call.
     daemon_rpc (pg_os G) (jobj [(''method'', JStr ''acquireAccess''), (''project_id'', JStr project_id),
       (''session_id'', JStr (case session_id of Some t \<Rightarrow> t | None \<Rightarrow> ''cli-'' @ show_digits (process_id (pg_env G)))),
       (''call_id'', JStr call), (''access_hint'', JStr ''unknown'')]))"

definition release_lease_request :: "string \<Rightarrow> json" where
  "release_lease_request lease_id = jobj [(''method'', JStr ''releaseAccess''), (''lease_id'', JStr lease_id),
     (''outcome'', JStr ''success''), (''mutation_hint'', JStr ''possible'')]"

definition commit_request :: "string \<Rightarrow> string \<Rightarrow> string \<Rightarrow> json" where
  "commit_request project_id commit_oid branch = jobj [(''method'', JStr ''reportCommit''), (''project_id'', JStr project_id),
     (''commit_oid'', JStr commit_oid), (''branch'', JStr branch)]"

definition checkout_request :: "string \<Rightarrow> string \<Rightarrow> string \<Rightarrow> string \<Rightarrow> json" where
  "checkout_request project_id previous_oid new_oid new_branch = jobj [(''method'', JStr ''reportCheckout''),
     (''project_id'', JStr project_id), (''previous_oid'', JStr previous_oid), (''new_oid'', JStr new_oid),
     (''new_branch'', JStr new_branch)]"

definition dispatch :: "'x program \<Rightarrow> command \<Rightarrow> (('x, 'z) world_scheme, command_error, action) prog" where
  "dispatch G command = (let K = pg_cli G; S = pg_os G; E = pg_env G in case command of
     CmdAuth c \<Rightarrow> answers (auth K c)
   | CmdProject c \<Rightarrow> answers_or_aborts (project K c)
   | CmdDevice c \<Rightarrow> answers (device K c)
   | CmdLease c \<Rightarrow> andThen (mapErr of_cli_error (lease E (cl_catalog K) (cl_config K) (cl_credentials K) (pg_receipts G)
         (pg_active_receipts G) (pg_number G) c)) (\<lambda>v. ret (Answer v))
   | CmdPeer c \<Rightarrow> answers_or_aborts (peer (pg_peer G) c)
   | CmdDaemon poll_interval \<Rightarrow> andThen (mapErr Unreported (lift (parse_duration poll_interval))) (\<lambda>d. ret (RunDaemon d))
   | CmdDoctor \<Rightarrow> andThen (doctor S (cl_config K) (cl_credentials K)) (\<lambda>v. ret (Answer v))
   | CmdUpgrade \<Rightarrow> answers (upgrade_command E (cl_version K))
   | CmdActivateUpgrade install_root \<Rightarrow>
       answers_or_aborts (activate_upgrade S (cl_catalog K) (cl_json K) (cl_texts K) (cl_version K) install_root)
   | CmdGc dry_run \<Rightarrow> answers (transaction_gc K dry_run)
   | CmdTransactionDebug c \<Rightarrow> answers (transaction_debug K c)
   | CmdInstallAdapters project_id \<Rightarrow> answers_or_aborts (install_adapters_command S (cl_catalog K) (cl_json K) (cl_texts K) project_id)
   | CmdWorkspace c \<Rightarrow> answers (workspace_do G c)
   | CmdAcquire project_id session_id call_id \<Rightarrow> answers (acquire_call G project_id session_id call_id)
   | CmdRelease lease_id \<Rightarrow> answers (daemon_rpc S (release_lease_request lease_id))
   | CmdCodexHook project_id \<Rightarrow> answers (codex_hook G project_id)
   | CmdCodexWorkspaceHook manifest \<Rightarrow> answers (workspace_hook G manifest)
   | CmdReportCommit project_id commit_oid branch \<Rightarrow> answers (daemon_rpc S (commit_request project_id commit_oid branch))
   | CmdReportCheckout project_id previous_oid new_oid new_branch \<Rightarrow>
       answers (daemon_rpc S (checkout_request project_id previous_oid new_oid new_branch)))"

subsection \<open>The process\<close>

text \<open>What a run comes to: a text, a daemon to run, or an end that the argument parser decides.\<close>

datatype outcome = Shows string | Serves "path option" nat | Leaves string int

definition in_state_dir :: "path option \<Rightarrow> 'x program \<Rightarrow> 'x program" where
  "in_state_dir given G = (case given of None \<Rightarrow> G
     | Some p \<Rightarrow>
         let E = pg_env G;
             E' = E\<lparr>var := (var E)(''RESYNC_STATE_DIR'' \<mapsto> absolute_path E p)\<rparr> in
         G\<lparr>pg_peer := (pg_peer G)\<lparr>pr_cli := (pg_cli G)\<lparr>cl_os := (pg_os G)\<lparr>os_env := E'\<rparr>\<rparr>\<rparr>\<rparr>)"

definition version_text :: "'x program \<Rightarrow> string" where
  "version_text G = ''resync '' @ cl_version (pg_cli G) @ '' (protocol '' @ protocol_version @ '')'' @ [newline]"

definition run_command :: "'x program \<Rightarrow> string list \<Rightarrow> (('x, 'z) world_scheme, command_error, outcome) prog" where
  "run_command G given =
     (let args = preprocess_arguments given in
      if \<exists>a\<in>set args. a = ''--version'' \<or> a = ''-V'' then ret (Shows (version_text G))
      else case pg_parse G args of
        Inl (text, exit_code) \<Rightarrow> ret (Leaves text exit_code)
      | Inr (state_dir, command) \<Rightarrow>
          andThen (dispatch (in_state_dir state_dir G) command) (\<lambda>a. case a of
            Answer v \<Rightarrow> ret (Shows (pg_pretty G v @ [newline]))
          | RunDaemon interval \<Rightarrow> ret (Serves state_dir interval)))"

text \<open>\<open>main\<close>: standard output, standard error and the exit code. A panic ends a Rust process with code 101.\<close>

record ending =
  en_stdout :: string
  en_stderr :: string
  en_code :: int

definition ending_of :: "'x program \<Rightarrow> (command_error, outcome) result \<Rightarrow> ending option" where
  "ending_of G r = (case r of
     Inr (Shows text) \<Rightarrow> Some \<lparr>en_stdout = text, en_stderr = [], en_code = 0\<rparr>
   | Inr (Leaves text exit_code) \<Rightarrow> Some (if exit_code = 0 then \<lparr>en_stdout = text, en_stderr = [], en_code = 0\<rparr>
       else \<lparr>en_stdout = [], en_stderr = text, en_code = exit_code\<rparr>)
   | Inr (Serves _ _) \<Rightarrow> None
   | Inl (Reported exit_code v diagnostic) \<Rightarrow> Some \<lparr>en_stdout = pg_pretty G v @ [newline],
       en_stderr = ''resync: '' @ diagnostic @ [newline], en_code = exit_code\<rparr>
   | Inl (Unreported m) \<Rightarrow> Some \<lparr>en_stdout = [], en_stderr = ''resync: '' @ m @ [newline], en_code = 1\<rparr>
   | Inl (Panicked m) \<Rightarrow> Some \<lparr>en_stdout = [], en_stderr = m, en_code = 101\<rparr>)"

definition resync_main :: "'x program \<Rightarrow> string list \<Rightarrow> ('x, 'z) world_scheme \<Rightarrow> ending option" where
  "resync_main G args s = ending_of G (fst (run_command G args s))"

subsection \<open>What the exit codes mean\<close>

text \<open>A report on standard output is the answer to a change of a named lease; the code says whether another
  holder has it.\<close>

definition mutation_report :: "(int \<Rightarrow> string) \<Rightarrow> int \<Rightarrow> json \<Rightarrow> bool" where
  "mutation_report N exit_code v \<longleftrightarrow>
     (\<exists>response. v = encode_response N response \<and> exit_code = (if mr_outcome response = Held then 3 else 1))"

lemma answer_lease_reported:
  assumes "fst (answer_lease N m s) = Inl (Structured exit_code v diagnostic)"
  shows "mutation_report N exit_code v"
  using assms unfolding mutation_report_def
  by (auto simp: answer_lease_def named_lease_result_def run split: prod.splits sum.splits failure.splits if_splits)

lemma lease_structured:
  assumes "fst (lease E CL CF CC CR CA N command s) = Inl (Structured exit_code v diagnostic)"
  shows "mutation_report N exit_code v"
  using assms
  by (cases command) (auto simp: lease_def Let_def run_andThen run_mapErr run_simps split: prod.splits sum.splits dest: answer_lease_reported)

lemma of_cli_error_Reported: "of_cli_error e = Reported exit_code v diagnostic \<longleftrightarrow> e = Structured exit_code v diagnostic"
  by (cases e) auto

lemma doctor_answers: "doctor S CF CC s \<noteq> (Inl e, s')"
  by (auto simp: doctor_def Let_def run split: prod.splits)

lemma dispatch_reports:
  assumes "fst (dispatch G command s) = Inl (Reported exit_code v diagnostic)"
  shows "(\<exists>c. command = CmdLease c) \<and> mutation_report (pg_number G) exit_code v"
proof -
  have plain: "of_abort e \<noteq> Reported exit_code v diagnostic" for e by (cases e) auto
  have structured: "lease E CL CF CC CR CA N c s = (Inl (Structured exit_code v diagnostic), s') \<Longrightarrow> mutation_report N exit_code v"
    for E CL CF CC CR CA N c s' using lease_structured [of E CL CF CC CR CA N c s] by simp
  show ?thesis using assms plain
    by (cases command) (auto simp: dispatch_def Let_def run_andThen run_mapErr run_simps of_cli_error_Reported doctor_answers
        split: prod.splits sum.splits dest: structured)
qed

theorem exit_code_three_means_held:
  assumes ended: "resync_main G args s = Some e" and code: "en_code e = 3"
    and parser: "\<And>given text exit_code. pg_parse G given = Inl (text, exit_code) \<Longrightarrow> exit_code \<noteq> 3"
  shows "\<exists>state_dir c response. pg_parse G (preprocess_arguments args) = Inr (state_dir, CmdLease c)
    \<and> mr_outcome response = Held \<and> en_stdout e = pg_pretty G (encode_response (pg_number G) response) @ [newline]"
proof -
  obtain v diagnostic where r: "fst (run_command G args s) = Inl (Reported 3 v diagnostic)"
      and out: "en_stdout e = pg_pretty G v @ [newline]"
    using ended code parser
    by (auto simp: resync_main_def ending_of_def run_command_def Let_def run
        split: prod.splits sum.splits outcome.splits action.splits command_error.splits if_splits)
  obtain state_dir command where parsed: "pg_parse G (preprocess_arguments args) = Inr (state_dir, command)"
      and d: "fst (dispatch (in_state_dir state_dir G) command s) = Inl (Reported 3 v diagnostic)"
    using r by (auto simp: run_command_def Let_def run split: prod.splits sum.splits action.splits if_splits)
  have "pg_number (in_state_dir state_dir G) = pg_number G" by (simp add: in_state_dir_def Let_def split: option.split)
  then show ?thesis using dispatch_reports [OF d] parsed out by (auto simp: mutation_report_def split: if_splits)
qed

subsection \<open>The chosen state directory\<close>

lemma absolute_join: "is_absolute d \<Longrightarrow> is_absolute (path_join d q)"
  by (auto simp: path_join_def is_absolute_def hd_append)

lemma absolute_path_absolute:
  assumes "is_absolute p \<or> (\<exists>d. current_dir E = Some d \<and> is_absolute d)"
  shows "is_absolute (absolute_path E p)"
  using assms absolute_join by (auto simp: absolute_path_def)

theorem state_dir_option_selects_the_directory:
  assumes "is_absolute p \<or> (\<exists>d. current_dir (pg_env G) = Some d \<and> is_absolute d)"
  shows "state_paths_of (pg_env (in_state_dir (Some p) G))
    = paths_below (absolute_path (pg_env G) p)
        (case var (pg_env G) ''RESYNC_SOCKET'' of Some q \<Rightarrow> q | None \<Rightarrow> path_join (absolute_path (pg_env G) p) ''daemon.sock'')"
  using absolute_path_absolute [OF assms]
  by (simp add: state_paths_of_def state_directory_def in_state_dir_def Let_def absolute_path_def [of "_\<lparr>var := _\<rparr>"])

end
