(* ===== verification/Daemon_Process.thy ===== *)
theory Daemon_Process
  imports Daemon_Client Daemon_Safety
begin

section \<open>The daemon as a process\<close>

text \<open>
  \<open>ResyncDaemon::load\<close> and \<open>run_daemon\<close> of \<open>src/src/daemon.rs\<close>: loading the state, taking the process lock,
  opening the socket, and then the loop. What happens to a running daemon is a list of events: its
  clock ticks, a spawned task gets its turn, a client connects and sends lines, accepting fails, or a
  signal arrives. Between the steps of an event the other tasks run as \<open>dv_others\<close> lets them.
\<close>

record 'x process =
  dp_os :: "'x os"
  dp_config :: "config codec"
  dp_credentials :: "credential_file codec"
  dp_json :: "json codec"
  dp_texts :: adapter_texts
  dp_version :: string
  dp_bind :: "path \<Rightarrow> fs \<Rightarrow> 'x \<Rightarrow> (string, unit) result \<times> fs \<times> 'x"

abbreviation dp_env :: "'x process \<Rightarrow> 'x env" where
  "dp_env P \<equiv> os_env (dp_os P)"

subsection \<open>Start\<close>

definition migrated_catalog :: "local_catalog \<Rightarrow> local_catalog" where
  "migrated_catalog c = c\<lparr>lc_projects := migrate_local_projects (lc_projects c)\<rparr>"

definition load_daemon :: "'x process \<Rightarrow> 'x denv \<Rightarrow> ('x daemon, stop, 'x denv) prog" where
  "load_daemon P D =
     (let E = dp_env P; paths = dv_paths D in
     andThen (op (resolved_config E (dp_config P) (dp_credentials P))) (\<lambda>config.
     andThen (op (read_json E (dv_catalog D) (sp_catalog paths) default_catalog)) (\<lambda>catalog.
     andThen (op (load_queue E (dv_queue D) paths)) (\<lambda>queue.
     andThen (op (write_json E (dv_catalog D) (sp_catalog paths) (migrated_catalog catalog) private_mode)) (\<lambda>_.
     andThen (op (executable_fingerprint E)) (\<lambda>binary_id.
     andThen (modify (\<lambda>s. s\<lparr>dm_catalog := migrated_catalog catalog, dm_publications := queue, dm_gates := [],
       dm_background := [], dm_tasks := []\<rparr>)) (\<lambda>_.
     ret (D\<lparr>dv_config := config, dv_binary_id := binary_id\<rparr>))))))))"

definition repair_at_start :: "'x process \<Rightarrow> 'x denv \<Rightarrow> local_project list \<Rightarrow> ('x daemon, abort, bool) prog" where
  "repair_at_start P D projects =
     andThen (fallible (lift (current_adapter_build_id (dp_env P) (dp_version P) (dv_binary_id D)))) (\<lambda>build_id.
     repair_adapters_for_build (dp_env P) (dp_json P) (dp_texts P) (dp_version P) (dv_paths D) projects build_id)"

definition bind_socket :: "'x process \<Rightarrow> path \<Rightarrow> ('x daemon, string, unit) prog" where
  "bind_socket P socket = (\<lambda>s. case dp_bind P socket (files s) (ext s) of
     (r, fs, x) \<Rightarrow> (map_sum (\<lambda>e. ''bind '' @ socket @ '': '' @ e) id r, s\<lparr>files := fs, ext := x\<rparr>))"

definition open_socket :: "'x process \<Rightarrow> path \<Rightarrow> ('x daemon, string, unit) prog" where
  "open_socket P socket =
     (let E = dp_env P in
     andThen (path_exists socket) (\<lambda>present.
     andThen (onlyIf present (io (remove_file E socket))) (\<lambda>_.
     andThen (case path_parent socket of None \<Rightarrow> ret () | Some parent \<Rightarrow> io (create_dir_all E parent)) (\<lambda>_.
     andThen (bind_socket P socket) (\<lambda>_.
     io (set_permissions E socket private_mode))))))"

definition start_process :: "'x process \<Rightarrow> 'x denv \<Rightarrow> ('x daemon, stop, 'x denv) prog" where
  "start_process P D0 =
     andThen (load_daemon P D0) (\<lambda>D.
     andThen (op (acquire_process_lock (dp_os P) (dv_paths D))) (\<lambda>_.
     andThen (lock_catalog D) (\<lambda>catalog.
     andThen (ignore (repair_at_start P D (lc_projects catalog))) (\<lambda>_.
     andThen (op (open_socket P (sp_socket (dv_paths D)))) (\<lambda>_.
     andThen (ignore (refresh D)) (\<lambda>_.
     andThen (spawn_task (PublishTask True)) (\<lambda>_. ret D)))))))"

subsection \<open>The loop\<close>

datatype daemon_event = Tick | Turn | Client "string list" | AcceptFails string | Stop

definition tick :: "'x denv \<Rightarrow> ('x daemon, stop, unit) prog" where
  "tick D = andThen (ignore (refresh D)) (\<lambda>_. ignore (process_publications D False))"

definition run_task :: "'x denv \<Rightarrow> spawned_task \<Rightarrow> ('x daemon, stop, unit) prog" where
  "run_task D t = (case t of ReconcileTask pid \<Rightarrow> background_reconcile D pid | PublishTask force \<Rightarrow> process_publications D force)"

definition next_task :: "'x denv \<Rightarrow> ('x daemon, stop, unit) prog" where
  "next_task D =
     andThen (gets dm_tasks) (\<lambda>tasks. case tasks of
       [] \<Rightarrow> ret ()
     | t # rest \<Rightarrow>
         andThen (modify (\<lambda>s. s\<lparr>dm_tasks := rest\<rparr>)) (\<lambda>_. ignore (run_task D t)))"

text \<open>Whether the process has ended: \<open>False\<close> when the events are over and it still waits for the next one.\<close>

fun daemon_loop :: "'x process \<Rightarrow> 'x denv \<Rightarrow> daemon_event list \<Rightarrow> ('x daemon, stop, bool) prog" where
  "daemon_loop P D [] = ret False"
| "daemon_loop P D (event # events) = (case event of
     Stop \<Rightarrow>
       andThen (ignore (remove_file (dp_env P) (sp_socket (dv_paths D)))) (\<lambda>_.
       andThen (ignore (remove_file (dp_env P) (sp_daemon_lock (dv_paths D)))) (\<lambda>_. ret True))
   | AcceptFails e \<Rightarrow> bail (Fails e)
   | Tick \<Rightarrow> andThen (tick D) (\<lambda>_. daemon_loop P D events)
   | Turn \<Rightarrow> andThen (next_task D) (\<lambda>_. daemon_loop P D events)
   | Client lines \<Rightarrow> andThen (serve_connection D lines) (\<lambda>_. daemon_loop P D events))"

definition run_daemon :: "'x process \<Rightarrow> 'x denv \<Rightarrow> daemon_event list \<Rightarrow> ('x daemon, stop, bool) prog" where
  "run_daemon P D0 events =
     andThen (start_process P (D0\<lparr>dv_paths := state_paths_of (dp_env P)\<rparr>)) (\<lambda>D. daemon_loop P D events)"

subsection \<open>Asking the daemon directly\<close>

definition reconcile_now :: "'x denv \<Rightarrow> string \<Rightarrow> ('x daemon, stop, reconcile_result) prog" where
  "reconcile_now D pid = reconcile_exclusive D pid"

definition project_snapshot :: "'x denv \<Rightarrow> string \<Rightarrow> ('x daemon, stop, local_project) prog" where
  "project_snapshot D pid = andThen (lock_catalog D) (\<lambda>catalog. op (lift (find_project catalog pid)))"

subsection \<open>A stopped daemon leaves no files behind\<close>

lemma remove_file_gone:
  assumes "ignore (remove_file E p) s = (r, s')" and "\<And>ev fs x. io_fault E ev fs x = None"
  shows "fs_get (files s') p \<in> {None, Some Dir} \<and> (\<forall>q. fs_get (files s) q \<in> {None, Some Dir} \<longrightarrow> fs_get (files s') q \<in> {None, Some Dir})"
  using assms by (auto simp: remove_file_def file_op_def run split: option.splits node.splits if_splits)

theorem stopped_daemon_leaves_nothing_behind:
  assumes ran: "daemon_loop P D events s = (Inr ended, s')"
    and faultless: "\<And>ev fs x. io_fault (dp_env P) ev fs x = None"
  shows "(ended \<longleftrightarrow> Stop \<in> set events)
    \<and> (ended \<longrightarrow> fs_get (files s') (sp_socket (dv_paths D)) \<in> {None, Some Dir}
        \<and> fs_get (files s') (sp_daemon_lock (dv_paths D)) \<in> {None, Some Dir})"
  using ran
proof (induction events arbitrary: s)
  case (Cons event events)
  show ?case
  proof (cases event)
    case Stop
    let ?remove = "\<lambda>p. ignore (remove_file (dp_env P) p) :: ('a daemon, stop, unit) prog"
    obtain r t where first: "?remove (sp_socket (dv_paths D)) s = (r, t)" by fastforce
    obtain r' t' where second: "?remove (sp_daemon_lock (dv_paths D)) t = (r', t')" by fastforce
    have "s' = t'" "ended" using Cons.prems Stop first second by (auto simp: run_andThen run_ignore run_simps)
    then show ?thesis using remove_file_gone [OF first faultless] remove_file_gone [OF second faultless] by (auto simp: Stop)
  next
    case Tick
    then show ?thesis using Cons by (auto simp: run_andThen split: prod.splits sum.splits)
  next
    case Turn
    then show ?thesis using Cons by (auto simp: run_andThen split: prod.splits sum.splits)
  next
    case (Client lines)
    then show ?thesis using Cons by (auto simp: run_andThen split: prod.splits sum.splits)
  next
    case (AcceptFails e)
    then show ?thesis using Cons.prems by (simp add: run)
  qed
qed (simp add: run)

subsection \<open>A daemon that is refused\<close>

lemma load_daemon_ok:
  fixes s :: "'a daemon"
  assumes "load_daemon P D s = (Inr D', s')"
    and tmp: "temporary_path (dp_env P) (sp_catalog (dv_paths D)) \<noteq> sp_catalog (dv_paths D)"
  shows "dv_paths D' = dv_paths D"
    and "fs_get (files s') (sp_catalog (dv_paths D)) = Some (File (json_text (dv_catalog D) (dm_catalog s')))"
    and "\<exists>c. dm_catalog s' = migrated_catalog c"
proof -
  let ?E = "dp_env P"
  obtain c b and t t1 u :: "'a daemon" where w: "write_json ?E (dv_catalog D) (sp_catalog (dv_paths D)) (migrated_catalog c) private_mode t = (Inr (), t1)"
      and f: "executable_fingerprint ?E t1 = (Inr b, u)"
      and s': "files s' = files u" "dm_catalog s' = migrated_catalog c" "dv_paths D' = dv_paths D"
    using assms(1) by (auto simp: load_daemon_def Let_def run split: prod.splits sum.splits)
  have "files u = files t1"
    using f by (auto simp: executable_fingerprint_def read_file_def file_op_def run split: prod.splits sum.splits option.splits node.splits)
  then show "fs_get (files s') (sp_catalog (dv_paths D)) = Some (File (json_text (dv_catalog D) (dm_catalog s')))"
    using write_json_document(1) [OF w tmp] s' by simp
  show "dv_paths D' = dv_paths D" "\<exists>c. dm_catalog s' = migrated_catalog c" using s' by auto
qed

lemma emits_modify: "(\<And>s. trace (f s) = trace s) \<Longrightarrow> emits P (modify f)"
  by (rule emits_silent) (simp add: modify_def)

lemma emits_load_daemon: "emits (\<lambda>ev. ev \<noteq> RemoveFile p) (load_daemon P D)"
  by (auto simp: load_daemon_def Let_def resolved_config_def load_config_raw_def load_credential_def helper_def load_queue_def
      executable_fingerprint_def run_process_def document_event_def
      intro!: effects emits_modify split: event.splits)

lemma emits_process_lock: "p \<noteq> sp_daemon_lock paths \<Longrightarrow> emits (\<lambda>ev. ev \<noteq> RemoveFile p) (acquire_process_lock S paths)"
proof -
  assume "p \<noteq> sp_daemon_lock paths"
  then have "emits (\<lambda>ev. ev \<noteq> RemoveFile p) (lock_attempts S (sp_daemon_lock paths) n)" for n
    by (induction n) (auto simp: probe_lock_def create_new_def recorded_pid_def intro!: effects)
  then show ?thesis by (auto simp: acquire_process_lock_def intro!: effects)
qed

text \<open>C36. A daemon that is refused because another one holds the process lock has already replaced
  catalog.json by its own migrated copy; it ends with the error of the lock and leaves the
  socket alone.\<close>

theorem refused_daemon_has_written_the_catalog:
  assumes loaded: "load_daemon P D s = (Inr D', s1)"
    and refused: "acquire_process_lock (dp_os P) (dv_paths D) s1 = (Inl e, s2)"
    and apart: "sp_socket (dv_paths D) \<noteq> sp_daemon_lock (dv_paths D)"
    and tmp: "temporary_path (dp_env P) (sp_catalog (dv_paths D)) \<noteq> sp_catalog (dv_paths D)"
  shows "start_process P D s = (Inl (Fails e), s2)
    \<and> (\<exists>c. fs_get (files s1) (sp_catalog (dv_paths D)) = Some (File (json_text (dv_catalog D) (migrated_catalog c))))
    \<and> RemoveFile (sp_socket (dv_paths D)) \<notin> set (new_events (start_process P D) s)"
proof -
  let ?socket = "sp_socket (dv_paths D)"
  have run: "start_process P D s = (Inl (Fails e), s2)"
    using loaded refused load_daemon_ok(1) [OF loaded tmp] by (simp add: start_process_def run_andThen run_mapErr)
  have "trace s1 = trace s @ new_events (load_daemon P D) s" using emits_trace [OF emits_load_daemon, of P D s] loaded by simp
  moreover have "trace s2 = trace s1 @ new_events (acquire_process_lock (dp_os P) (dv_paths D)) s1"
    using emits_trace [OF emits_process_lock [OF apart], of "dp_os P" s1] refused by simp
  ultimately have "new_events (start_process P D) s
      = new_events (load_daemon P D) s @ new_events (acquire_process_lock (dp_os P) (dv_paths D)) s1"
    by (simp add: new_events_def run)
  then have "RemoveFile ?socket \<notin> set (new_events (start_process P D) s)"
    using emits_new_events [OF emits_load_daemon, of "RemoveFile ?socket" P D s ?socket]
      emits_new_events [OF emits_process_lock [OF apart], of "RemoveFile ?socket" "dp_os P" s1] by auto
  then show ?thesis using run load_daemon_ok(2,3) [OF loaded tmp] by auto
qed

end
