(* ===== verification/Command_Examples.thy ===== *)
theory Command_Examples
  imports Client_Examples "HOL-Library.Countable" Command_Line Registration Daemon_Process
begin

section \<open>Examples of the command line\<close>

text \<open>Runs of the commands, of peers and of the daemon's process in the scripted world.\<close>

subsection \<open>Documents\<close>


text \<open>JSON values written in unary, so that they can be read back.\<close>

instance json :: countable by countable_datatype

definition unary_json :: "json codec" where
  "unary_json = \<lparr>enc = (\<lambda>j. replicate (to_nat j) CHR ''1''), dec = (\<lambda>t. Some (from_nat (length t - 1)))\<rparr>"

lemma unary_json: "dec unary_json (json_text unary_json v) = Some v"
  by (simp add: unary_json_def json_text_def)

subsection \<open>A command line in the scripted world\<close>

lemma made_dir: "fs_get (make_dirs d fs) d \<noteq> None"
proof -
  have "fs_get (make_dir d fs') d \<noteq> None" for fs' by (simp add: make_dir_def split: option.split)
  then show ?thesis by (simp add: make_dirs_def)
qed

text \<open>A run that returns, with what holds of the world after it.\<close>

definition ends :: "(('x, 'z) world_scheme, 'e, 'a) prog \<Rightarrow> ('x, 'z) world_scheme \<Rightarrow> 'a \<Rightarrow> (fs \<Rightarrow> bool) \<Rightarrow> bool" where
  "ends m s a Q \<longleftrightarrow> (\<exists>s'. m s = (Inr a, s') \<and> Q (files s'))"

lemma ends_andThen:
  "ends m s a P \<Longrightarrow> (\<And>s1. P (files s1) \<Longrightarrow> ends (f a) s1 b Q) \<Longrightarrow> ends (andThen m f) s b Q"
  by (auto simp: ends_def executes)

lemma ends_file_op:
  assumes "\<And>ev fs x. io_fault E ev fs x = None" and "f (files s) = Inr (a, fs)" and "Q fs"
  shows "ends (file_op E ev f) s a Q"
  using assms by (simp add: ends_def file_op_def)

lemma write_succeeds:
  fixes s :: "('x, 'z) world_scheme"
  assumes ok: "\<And>ev fs x. io_fault E ev fs x = None" and parent: "path_parent p = Some d"
    and other: "temporary_path E p \<noteq> p" and free: "fs_get (make_dirs d (files s)) (temporary_path E p) \<noteq> Some Dir"
  shows "\<exists>s'. write_json E C p v mode s = (Inr (), s')"
proof -
  let ?tmp = "temporary_path E p" let ?free = "\<lambda>fs. fs_get fs ?tmp \<noteq> Some Dir"
  let ?there = "\<lambda>fs. fs_get fs ?tmp \<noteq> None"
  obtain n where n: "fs_get (make_dirs d (files s)) d = Some n" using made_dir by blast
  have parts: "ends (prepare_parent E p) s () ?free"
    unfolding prepare_parent_def parent option.case create_dir_all_def set_permissions_def
    by (rule ends_andThen [where P = "\<lambda>fs. fs = make_dirs d (files s)"])
      (rule ends_file_op [OF ok], use free n in simp_all)+
  have written: "ends (write_file E ?tmp c mode) t () ?there" if "?free (files t)" for c and t :: "('x, 'z) world_scheme"
    unfolding write_file_def
    by (rule ends_file_op [OF ok, where fs = "fs_put ?tmp (File c) (files t)"]) (use that in \<open>auto split: option.split node.split\<close>)
  have sync: "ends (sync_path E q) t () Q" if "Q (files t)" for q Q and t :: "('x, 'z) world_scheme"
    unfolding sync_path_def by (rule ends_file_op [OF ok]) (use that in simp_all)
  have chmod: "ends (set_permissions E ?tmp mode) t () ?there" if "?there (files t)" for t :: "('x, 'z) world_scheme"
    unfolding set_permissions_def by (rule ends_file_op [OF ok]) (use that in auto)
  have rename: "ends (rename_file E ?tmp p) t () (\<lambda>_. True)" if "?there (files t)" for t :: "('x, 'z) world_scheme"
    unfolding rename_file_def
    by (rule ends_file_op [OF ok, where fs = "fs_del ?tmp (fs_put p (the (fs_get (files t) ?tmp)) (files t))"])
      (use that other in auto)
  have final: "ends (sync_parent E p) t () (\<lambda>_. True)" for t :: "('x, 'z) world_scheme"
    unfolding sync_parent_def parent option.case by (rule sync) simp
  have "ends (andThen (prepare_parent E p) (\<lambda>_. let temporary = ?tmp in
     andThen (write_file E temporary (json_text C v) mode) (\<lambda>_. andThen (sync_path E temporary) (\<lambda>_.
     andThen (set_permissions E temporary mode) (\<lambda>_. andThen (rename_file E temporary p) (\<lambda>_. sync_parent E p)))))) s () (\<lambda>_. True)"
    unfolding Let_def
    by (rule ends_andThen [OF parts], rule ends_andThen [OF written], assumption, rule ends_andThen [OF sync],
        assumption, rule ends_andThen [OF chmod], assumption, rule ends_andThen [OF rename], assumption, rule final)
  then show ?thesis unfolding write_json_def by (auto simp: ends_def executes)
qed

definition example_cli :: "run_result list cli" where
  "example_cli = \<lparr>cl_os = client_os, cl_catalog = one_project_catalog workspace_project_a,
     cl_config = \<lparr>enc = (\<lambda>c. ''c''), dec = (\<lambda>t. Some default_config)\<rparr>,
     cl_credentials = \<lparr>enc = (\<lambda>c. ''c''), dec = (\<lambda>t. Some default_credentials)\<rparr>,
     cl_transactions = example_records, cl_json = unary_json,
     cl_texts = undefined, cl_host_name = ''h'', cl_version = ''1''\<rparr>"

lemma example_cli_simps [simp]:
  "cl_os example_cli = client_os" "cl_catalog example_cli = one_project_catalog workspace_project_a"
  "cl_json example_cli = unary_json" "cl_version example_cli = ''1''"
  by (simp_all add: example_cli_def)

lemma example_marker:
  "path_join (sp_root (state_paths_of client_env)) ''transaction-debug'' = ''/s/transaction-debug''"
  "path_parent ''/s/transaction-debug'' = Some ''/s''"
  "temporary_path client_env ''/s/transaction-debug'' = ''/s/transaction-debug.7.tmp''"
  by (simp_all add: client_paths path_steps string_steps Let_def)

lemma free_path: "fs_get (make_dirs ''/s'' (files (client_world fs []))) (''/s/'' @ c # p) = fs_get fs (''/s/'' @ c # p)"
  by (subst fs_get_make_dirs) (simp_all add: client_world_def scripted_world_def fs_get_def)

lemma no_faults: "io_fault client_env ev fs x = None"
  by (simp add: client_env_def scripted_env_def)

lemma debug_write:
  "\<exists>s'. write_json client_env unary_json ''/s/transaction-debug'' v private_mode (client_world [] [] :: run_result list world) = (Inr (), s')"
  by (rule write_succeeds [where d = "''/s''"])
    (use free_path [of "[]" "CHR ''t''" "''ransaction-debug.7.tmp''"] in \<open>simp_all add: no_faults example_marker fs_get_def\<close>)

theorem debug_marker_selects_retention_witness:
  "\<exists>s'. transaction_debug example_cli DebugEnable (client_world [] []) = (Inr (debug_value True), s')
     \<and> read_retention ''/s'' s' = (Inr \<lparr>debug_history = True\<rparr> :: (string, transaction_retention) result, s')"
proof -
  obtain v s' where ran: "transaction_debug example_cli DebugEnable (client_world [] []) = (Inr v, s')"
    using debug_write [of "debug_value True"]
    by (auto simp: transaction_debug_def example_marker Let_def run_andThen is_file_def run_simps split: prod.splits sum.splits)
  have "temporary_path (cl_env example_cli) (path_join (sp_root (state_paths_of (cl_env example_cli))) ''transaction-debug'')
      \<noteq> path_join (sp_root (state_paths_of (cl_env example_cli))) ''transaction-debug''"
    by (simp add: example_marker)
  from debug_marker_selects_retention [OF ran _ this] show ?thesis using ran by (simp add: client_paths)
qed

subsection \<open>Creating a project twice\<close>

lemma creation_key_succeeds:
  assumes "path_parent p = Some d" and "temporary_path client_env p \<noteq> p"
    and "fs_get (make_dirs d (files s)) (temporary_path client_env p) \<noteq> Some Dir"
    and "fs_get (files s) p \<in> {None} \<union> {Some (File (json_text unary_json v)) |v. indexable v}"
  shows "\<exists>key s'. creation_key example_cli p origin root s = (Inr key, s')"
proof -
  obtain v t where v: "indexable v" "read_json client_env unary_json p (JObj []) s = (Inr v, t)" "files t = files s"
  proof (cases "fs_get (files s) p")
    case None
    then show ?thesis using that [of "JObj []"] by (simp add: read_json_def read_file_def file_op_def run indexable_def)
  next
    case (Some n)
    then obtain v where "n = File (json_text unary_json v)" "indexable v" using assms(4) by auto
    then show ?thesis using that [of v] Some by (simp add: read_json_def read_file_def file_op_def run unary_json)
  qed
  obtain key t1 where key: "(case jget_str ''idempotencyKey'' v of Some key \<Rightarrow> ret key
      | None \<Rightarrow> andThen (new_uuid client_env) (\<lambda>u. ret (''pcr_'' @ filter (\<lambda>c. c \<noteq> CHR ''-'') u))) t
      = ((Inr key :: (abort, string) result), t1)" "files t1 = files s"
    using v(3) by (cases "jget_str ''idempotencyKey'' v"; cases "uuid client_env (ext t)") (auto simp: executes new_uuid_def ext_call_def)
  obtain u where u: "set_members [(''idempotencyKey'', JStr key), (''provider'', JStr origin), (''repository'', JStr root)] v = Inr u"
    using v(1) by (cases v) (auto simp: set_members_def indexable_def)
  obtain s' where "write_json client_env unary_json p u private_mode t1 = (Inr (), s')"
    using write_succeeds [OF no_faults assms(1,2), where s = t1 and C = unary_json and v = u and mode = private_mode] assms(3) key(2) by auto
  then show ?thesis using v(2) key(1) u
    by (simp add: creation_key_def jobj_def run_andThen run_mapErr run_simps Let_def)
qed


subsection \<open>Peers\<close>

definition tiny_elf :: string where
  "tiny_elf = elf_magic @ replicate 26 (CHR 0x00) @ [CHR 0x3A] @ replicate 7 (CHR 0x00) @ replicate 14 (CHR 0x00)
     @ [CHR 0x08, CHR 0x00, CHR 0x01, CHR 0x00] @ [CHR 0x01, CHR 0x00, CHR 0x00, CHR 0x00]"

lemma from_le_bytes_Cons: "from_le_bytes (c # t) = byte_of c + 256 * from_le_bytes t"
  by (simp add: from_le_bytes_def)

lemma from_le_bytes_zeros: "from_le_bytes [] = 0" "from_le_bytes (replicate n (CHR 0x00)) = 0"
  by (simp_all add: from_le_bytes_def byte_of_def, induction n) simp_all

theorem static_binary_has_no_interpreter_witness: "linux_binary_is_static tiny_elf = Inr True"
proof -
  have fields: "length tiny_elf = 62" "take 6 tiny_elf = elf_magic" "header_field tiny_elf 32 40 = 58"
    "header_field tiny_elf 54 56 = 8" "header_field tiny_elf 56 58 = 1" "entry_type tiny_elf 0 = 1"
    by (simp_all add: entry_type_def header_field_def tiny_elf_def elf_magic_def from_le_bytes_zeros from_le_bytes_Cons byte_of_def)
  have "length tiny_elf \<le> u64_max" by (simp add: fields u64_max_def)
  then show ?thesis by (subst static_binary_has_no_interpreter) (simp_all add: fields)
qed


end
