(* ===== verification/Daemon_Invariant.thy ===== *)
theory Daemon_Invariant
  imports Daemon_Process
begin

section \<open>What the daemon's tables always satisfy\<close>

text \<open>
  An invariant of the catalog and the publication queue that every request, every tick of the clock
  and every spawned task keeps, whatever the outcome and wherever it stops: a project is listed once,
  its state and durability are words of the protocol (\<open>WORKSPACE_STATES\<close>, \<open>DURABILITY_STATES\<close> of
  \<open>src/src/protocol.rs\<close>), and a publication that counts as acknowledged carries a durable
  acknowledgement for its own project and branch. \<open>holds I m R\<close>: \<open>m\<close> keeps \<open>I\<close> and returns values in
  \<open>R\<close>; the rules in \<open>kept\<close> follow the structure of a program.
\<close>

subsection \<open>The invariant\<close>

definition workspace_states :: "string list" where
  "workspace_states = [''MATERIALIZING'', ''CURRENT'', ''REMOTE_AHEAD'', ''WAITING_FOR_LEASES'', ''RECONCILING'',
     ''CONFLICTED'', ''OFFLINE'', ''ACCESS_LOST'', ''FAILED'']"

definition durability_states :: "string list" where
  "durability_states = [''NO_LOCAL_CHANGE'', ''DIRTY_UNCHECKPOINTED'', ''COMMITTED_UNPUBLISHED'', ''PUBLISHING'',
     ''REMOTELY_DURABLE'']"

definition project_ok :: "local_project \<Rightarrow> bool" where
  "project_ok p \<longleftrightarrow> lp_state p \<in> set workspace_states \<and> lp_durability p \<in> set durability_states"

definition ack_for :: "publication \<Rightarrow> publication_ack \<Rightarrow> bool" where
  "ack_for v a \<longleftrightarrow> pa_durable a \<and> pa_project_id a = pub_project_id v \<and> pa_branch a = pub_branch v"

definition publication_ok :: "publication \<Rightarrow> bool" where
  "publication_ok v \<longleftrightarrow> pending v \<or> (case pub_ack v of None \<Rightarrow> False | Some a \<Rightarrow> ack_for v a)"

definition catalog_ok :: "local_catalog \<Rightarrow> bool" where
  "catalog_ok c \<longleftrightarrow> distinct (map lp_project_id (lc_projects c)) \<and> list_all project_ok (lc_projects c)"

definition queue_ok :: "publication_queue \<Rightarrow> bool" where
  "queue_ok q \<longleftrightarrow> list_all publication_ok (pq_publications q)"

definition daemon_ok :: "'x daemon \<Rightarrow> bool" where
  "daemon_ok s \<longleftrightarrow> catalog_ok (dm_catalog s) \<and> queue_ok (dm_publications s)"

text \<open>What comes from outside the daemon: other tasks keep the invariant too, and documents that are
  read satisfy it.\<close>

definition tame :: "'x denv \<Rightarrow> bool" where
  "tame D \<longleftrightarrow> (\<forall>s. daemon_ok s \<longrightarrow> daemon_ok (dv_others D s))
     \<and> (\<forall>j p. dv_project_of_json D j = Inr p \<longrightarrow> project_ok p)
     \<and> (\<forall>t c. dec (dv_catalog D) t = Some c \<longrightarrow> catalog_ok c)
     \<and> (\<forall>t q. dec (dv_queue D) t = Some q \<longrightarrow> queue_ok q)"

subsection \<open>Programs that keep an invariant\<close>

definition holds :: "('x daemon \<Rightarrow> bool) \<Rightarrow> ('x daemon, 'e, 'a) prog \<Rightarrow> ('a \<Rightarrow> bool) \<Rightarrow> bool" where
  "holds I m R \<longleftrightarrow> (\<forall>s. I s \<longrightarrow> wp m (\<lambda>a s'. I s' \<and> R a) (\<lambda>_ s'. I s') s)"

abbreviation keeps :: "('x daemon \<Rightarrow> bool) \<Rightarrow> ('x daemon, 'e, 'a) prog \<Rightarrow> bool" where
  "keeps I m \<equiv> holds I m (\<lambda>_. True)"

named_theorems kept \<open>programs that keep an invariant\<close>

lemma holdsI: "(\<And>s. I s \<Longrightarrow> wp m (\<lambda>a s'. I s' \<and> R a) (\<lambda>_ s'. I s') s) \<Longrightarrow> holds I m R"
  by (simp add: holds_def)

lemma holdsD: "holds I m R \<Longrightarrow> I s \<Longrightarrow> wp m (\<lambda>a s'. I s' \<and> R a) (\<lambda>_ s'. I s') s"
  by (simp add: holds_def)

lemma holds_after: "holds I m R \<Longrightarrow> I s \<Longrightarrow> m s = (r, s') \<Longrightarrow> I s'"
  by (cases r) (auto dest!: holdsD simp: wp_def)

lemma holds_weaken: "holds I m R \<Longrightarrow> (\<And>a. R a \<Longrightarrow> S a) \<Longrightarrow> holds I m S"
  by (rule holdsI) (auto dest!: holdsD elim!: wp_conseq)

lemma holds_keeps: "holds I m R \<Longrightarrow> keeps I m"
  by (erule holds_weaken) simp

lemma holds_seq: "holds I m R \<Longrightarrow> (\<And>a. R a \<Longrightarrow> holds I (f a) S) \<Longrightarrow> holds I (andThen m f) S"
  by (rule holdsI) (auto simp: wp_andThen intro: holdsD dest!: holdsD [of I m] elim!: wp_conseq)

lemma holds_andThen [kept]: "keeps I m \<Longrightarrow> (\<And>a. holds I (f a) S) \<Longrightarrow> holds I (andThen m f) S"
  by (rule holds_seq)

lemma holds_returns: "keeps I m \<Longrightarrow> returns m R \<Longrightarrow> holds I m R"
  by (rule holdsI) (auto dest!: holdsD simp: wp_def returns_def split: prod.splits sum.splits)

lemma holds_simple [kept]:
  "R a \<Longrightarrow> holds I (ret a) R" "holds I (bail e) R" "(\<And>a. r = Inr a \<Longrightarrow> R a) \<Longrightarrow> holds I (lift r) R"
  by (auto simp: holds_def wp_simps split: sum.splits)

lemma holds_gets: "(\<And>s. I s \<Longrightarrow> R (f s)) \<Longrightarrow> holds I (gets f) R"
  by (simp add: holds_def wp_simps)

lemma keeps_gets [kept]: "keeps I (gets f)"
  by (rule holds_gets) simp

lemma holds_modify: "(\<And>s. I s \<Longrightarrow> I (f s)) \<Longrightarrow> keeps I (modify f)"
  by (simp add: holds_def wp_simps)

lemma holds_mapErr [kept]: "holds I m R \<Longrightarrow> holds I (mapErr g m) R"
  by (simp add: holds_def wp_mapErr)

lemma keeps_attempt [kept]: "keeps I m \<Longrightarrow> keeps I (attempt m)"
  by (simp add: holds_def wp_attempt)

lemma keeps_ignore [kept]: "keeps I m \<Longrightarrow> keeps I (ignore m)"
  by (simp add: holds_def wp_ignore)

lemma keeps_onlyIf [kept]: "keeps I m \<Longrightarrow> keeps I (onlyIf b m)" "keeps I m \<Longrightarrow> keeps I (unless b m)"
  by (simp_all add: onlyIf_def unless_def holds_simple)

lemma holds_if [kept]: "(b \<Longrightarrow> holds I m R) \<Longrightarrow> (\<not> b \<Longrightarrow> holds I n R) \<Longrightarrow> holds I (if b then m else n) R"
  by simp

lemma holds_case_option [kept]:
  "(v = None \<Longrightarrow> holds I m R) \<Longrightarrow> (\<And>a. v = Some a \<Longrightarrow> holds I (f a) R) \<Longrightarrow> holds I (case v of None \<Rightarrow> m | Some a \<Rightarrow> f a) R"
  by (cases v) simp_all

lemma holds_case_sum [kept]:
  "(\<And>e. v = Inl e \<Longrightarrow> holds I (g e) R) \<Longrightarrow> (\<And>a. v = Inr a \<Longrightarrow> holds I (f a) R) \<Longrightarrow>
    holds I (case v of Inl e \<Rightarrow> g e | Inr a \<Rightarrow> f a) R"
  by (cases v) simp_all

lemma holds_case_stop [kept]:
  "(\<And>e. v = Fails e \<Longrightarrow> holds I (g e) R) \<Longrightarrow> (v = Waits \<Longrightarrow> holds I m R) \<Longrightarrow> holds I (case v of Fails e \<Rightarrow> g e | Waits \<Rightarrow> m) R"
  by (cases v) simp_all

lemma holds_case_prod [kept]: "(\<And>a b. v = (a, b) \<Longrightarrow> holds I (f a b) R) \<Longrightarrow> holds I (case v of (a, b) \<Rightarrow> f a b) R"
  by (cases v) simp_all

lemma keeps_forEach [kept]: "(\<And>x. keeps I (f x)) \<Longrightarrow> keeps I (forEach f xs)"
  by (induction xs) (auto intro!: kept)

lemma holds_foldEach: "(\<And>acc x. x \<in> set xs \<Longrightarrow> R acc \<Longrightarrow> holds I (f acc x) R) \<Longrightarrow> R acc \<Longrightarrow> holds I (foldEach f acc xs) R"
  by (induction xs arbitrary: acc) (auto intro!: holds_simple holds_seq [where R = R])

text \<open>Calls into the components change neither the catalog nor the queue.\<close>

definition of_tables :: "('x daemon \<Rightarrow> bool) \<Rightarrow> bool" where
  "of_tables I \<longleftrightarrow> (\<forall>s s'. dm_catalog s' = dm_catalog s \<and> dm_publications s' = dm_publications s \<and> I s \<longrightarrow> I s')"

lemma keeps_frames: "of_tables I \<Longrightarrow> frames m \<Longrightarrow> keeps I m"
  by (rule holdsI) (auto simp: wp_def of_tables_def dest: daemon_more(1,2) framesD split: prod.splits sum.splits)

lemma of_tables_ok: "of_tables daemon_ok"
  by (simp add: of_tables_def daemon_ok_def)

lemma keeps_component: "frames m \<Longrightarrow> keeps daemon_ok m"
  by (rule keeps_frames [OF of_tables_ok])

lemma keeps_table_change [kept]:
  "(\<And>s. dm_catalog (f s) = dm_catalog s) \<Longrightarrow> (\<And>s. dm_publications (f s) = dm_publications s) \<Longrightarrow> keeps daemon_ok (modify f)"
  by (rule holds_modify) (simp add: daemon_ok_def)

subsection \<open>The daemon's own steps\<close>

lemma keeps_op: "frames m \<Longrightarrow> keeps daemon_ok (op m)"
  by (intro keeps_component frame)

lemmas keeps_calls [kept] = frames_files [THEN keeps_component] frames_queries [THEN keeps_component] frames_documents [THEN keeps_component]
  frames_process [THEN keeps_component] frames_transaction_git [THEN keeps_component] frames_git_state [THEN keeps_component]
  frames_remote [THEN keeps_component] frames_publication [THEN keeps_component] frames_clear_conflicts_of [THEN keeps_component]
  frames_snapshots [THEN keeps_component] frames_prepare [THEN keeps_component] frames_prepared [THEN keeps_component]

lemma keeps_await [kept]: "tame D \<Longrightarrow> keeps daemon_ok (await D)" "tame D \<Longrightarrow> keeps daemon_ok (await_holding_catalog D)"
  unfolding await_def await_holding_catalog_def by (auto intro!: holds_modify simp: tame_def daemon_ok_def)

lemma holds_lock_catalog: "tame D \<Longrightarrow> holds daemon_ok (lock_catalog D) catalog_ok"
  unfolding lock_catalog_def by (intro holds_andThen keeps_await holds_gets) (simp_all add: daemon_ok_def)

lemma holds_lock_publications: "tame D \<Longrightarrow> holds daemon_ok (lock_publications D) queue_ok"
  unfolding lock_publications_def by (intro holds_andThen keeps_await holds_gets) (simp_all add: daemon_ok_def)

lemmas keeps_locks [kept] = holds_lock_catalog [THEN holds_keeps] holds_lock_publications [THEN holds_keeps]

lemma found_ok: "catalog_ok c \<Longrightarrow> find_project c pid = Inr p \<Longrightarrow> project_ok p"
  by (auto simp: find_project_def catalog_ok_def list_all_iff ok_or_def find_Some_iff split: option.splits)

lemma holds_project_of: "holds daemon_ok (project_of pid) project_ok"
  unfolding project_of_def
  by (rule holds_seq [OF holds_gets [where R = catalog_ok]]) (auto simp: daemon_ok_def intro!: kept dest: found_ok)

lemma holds_read_project: "tame D \<Longrightarrow> holds daemon_ok (read_project D pid) project_ok"
  unfolding read_project_def by (intro holds_andThen kept holds_project_of)

lemmas keeps_reads [kept] = holds_project_of [THEN holds_keeps] holds_read_project [THEN holds_keeps]

lemma catalog_ok_projects:
  "catalog_ok (c\<lparr>lc_projects := ps\<rparr>) \<longleftrightarrow> distinct (map lp_project_id ps) \<and> list_all project_ok ps"
  by (simp add: catalog_ok_def)

lemma list_all_update_first: "list_all P xs \<Longrightarrow> (\<And>x. P x \<Longrightarrow> P (f x)) \<Longrightarrow> list_all P (update_first Q f xs)"
  by (induction xs) auto

lemma change_project_ok:
  assumes "catalog_ok c" and "\<And>p. project_ok p \<Longrightarrow> project_ok (f p)" and "\<And>p. lp_project_id (f p) = lp_project_id p"
  shows "catalog_ok (change_project pid f c)"
  using assms by (simp add: change_project_def catalog_ok_def map_update_first list_all_update_first)

lemma keeps_update_project [kept]:
  "(\<And>p. project_ok p \<Longrightarrow> project_ok (f p)) \<Longrightarrow> (\<And>p. lp_project_id (f p) = lp_project_id p) \<Longrightarrow> keeps daemon_ok (update_project pid f)"
  unfolding update_project_def by (rule holds_modify) (simp add: daemon_ok_def change_project_ok)

lemma keeps_publications:
  "(\<And>ps. list_all publication_ok ps \<Longrightarrow> list_all publication_ok (f ps)) \<Longrightarrow>
    keeps daemon_ok (modify (\<lambda>s. s\<lparr>dm_publications := with_publications (f (pq_publications (dm_publications s))) (dm_publications s)\<rparr>))"
  by (rule holds_modify) (simp add: daemon_ok_def queue_ok_def with_publications_def)

lemma keeps_persist [kept]: "keeps daemon_ok (persist D)" "keeps daemon_ok (persist_publications D)"
  unfolding persist_def persist_publications_def by (auto intro!: kept)

lemma keeps_tasks [kept]: "keeps daemon_ok (spawn_task t)" "keeps daemon_ok (open_gate pid)" "keeps daemon_ok (schedule_reconcile pid)"
  unfolding schedule_reconcile_def spawn_task_def open_gate_def set_gate_def by (auto intro!: kept)

lemma keeps_set_gate [kept]: "keeps daemon_ok (modify (set_gate pid g))" "keeps daemon_ok (modify (\<lambda>s. set_gate pid (h s) s))"
  by (auto intro!: kept simp: set_gate_def)

lemma keeps_wait_exclusive [kept]: "tame D \<Longrightarrow> keeps daemon_ok (wait_exclusive D pid ticket n)"
  by (induction n) (auto intro!: kept)

lemma keeps_wait_activity [kept]: "tame D \<Longrightarrow> keeps daemon_ok (wait_activity D pid metadata n)"
  by (induction n) (auto intro!: kept)

lemma keeps_release_in [kept]: "tame D \<Longrightarrow> keeps daemon_ok (release_in D lease pids)"
  by (induction pids) (auto intro!: kept)

lemma keeps_with_gate: "tame D \<Longrightarrow> keeps daemon_ok body \<Longrightarrow> keeps daemon_ok (with_gate D pid body)"
  unfolding with_gate_def begin_exclusive_def finish_exclusive_def by (auto intro!: kept)

subsection \<open>Reconciliation\<close>

lemma known_words [simp]:
  "''CURRENT'' \<in> set workspace_states" "''REMOTE_AHEAD'' \<in> set workspace_states" "''RECONCILING'' \<in> set workspace_states"
  "''CONFLICTED'' \<in> set workspace_states" "''OFFLINE'' \<in> set workspace_states" "''ACCESS_LOST'' \<in> set workspace_states"
  "''COMMITTED_UNPUBLISHED'' \<in> set durability_states" "''REMOTELY_DURABLE'' \<in> set durability_states"
  by (simp_all add: workspace_states_def durability_states_def)

lemma project_changes [simp]:
  "project_ok (set_conflict kind detail paths p) = (lp_durability p \<in> set durability_states)"
  "project_ok (set_current p) = (lp_durability p \<in> set durability_states)"
  "project_ok (set_applied branch oid p) = project_ok p"
  "project_ok (set_head branch head p) = project_ok p" "project_ok (settle_error p) = project_ok p"
  "lp_state (set_current p) = ''CURRENT''" "lp_durability (set_current p) = lp_durability p"
  "lp_state (set_conflict kind detail paths p) = ''CONFLICTED''" "lp_durability (set_conflict kind detail paths p) = lp_durability p"
  "lp_durability (set_applied branch oid p) = lp_durability p" "lp_state (set_applied branch oid p) = lp_state p"
  by (auto simp: project_ok_def set_conflict_def set_current_def set_applied_def set_head_def settle_error_def)

lemma same_ids [simp]:
  "lp_project_id (set_applied branch oid p) = lp_project_id p" "lp_project_id (set_head branch head p) = lp_project_id p"
  "lp_project_id (settle_error p) = lp_project_id p" "lp_project_id (access_lost message p) = lp_project_id p"
  "lp_project_id (merge_reconciliation_state q p) = lp_project_id p" "lp_project_id (note_failure message p) = lp_project_id p"
  "lp_project_id (published branch ack b p) = lp_project_id p"
  by (simp_all add: set_applied_def set_head_def settle_error_def access_lost_def merge_reconciliation_state_def note_failure_def
      published_def Let_def)

lemma merged_ok: "project_ok p \<Longrightarrow> project_ok (merged_project branch target result p)"
  by (auto simp: merged_project_def split: if_splits) (auto simp: project_ok_def)

lemma updates_ok:
  "project_ok q \<Longrightarrow> project_ok p \<Longrightarrow> project_ok (merge_reconciliation_state q p)"
  "project_ok p \<Longrightarrow> project_ok (note_failure message p)" "project_ok p \<Longrightarrow> project_ok (published branch ack b p)"
  "project_ok p \<Longrightarrow> project_ok (access_lost message p)"
  by (auto simp: project_ok_def merge_reconciliation_state_def note_failure_def published_def access_lost_def Let_def)

fun reconciliation_ok :: "project_reconciliation \<Rightarrow> bool" where
  "reconciliation_ok (ProjectComplete p result n branch target) = project_ok p"
| "reconciliation_ok (ProjectPrepared p prepared n branch target) = project_ok p"

lemma holds_apply_result: "project_ok p \<Longrightarrow> holds daemon_ok (apply_reconciliation_result D p branch target result) project_ok"
  unfolding apply_reconciliation_result_def by (auto intro!: kept merged_ok)

lemma holds_prepare_rebase:
  "project_ok p \<Longrightarrow> holds daemon_ok (prepare_rebase D p retention n branch target previous) reconciliation_ok"
  unfolding prepare_rebase_def
  by (rule holds_andThen [OF keeps_op [OF frames_prepare]])
    (auto intro!: holds_simple holds_seq [OF holds_apply_result] split: prepared_reconciliation.split)

lemma holds_prepare_project: "project_ok p \<Longrightarrow> holds daemon_ok (prepare_project_reconciliation D p) reconciliation_ok"
  unfolding prepare_project_reconciliation_def Let_def
  by (intro kept holds_prepare_rebase) (auto simp: project_ok_def)

lemma keeps_record_complete:
  "project_ok q \<Longrightarrow> keeps daemon_ok (record_complete D pid q result n branch target)"
  unfolding record_complete_def by (auto intro!: kept updates_ok)

lemma keeps_install_under_lock:
  assumes "project_ok q"
  shows "keeps daemon_ok (install_under_lock D pid q prepared n branch target)"
proof -
  have "keeps daemon_ok (install_and_merge D pid q prepared branch target)"
    unfolding install_and_merge_def
    by (rule holds_andThen, intro kept, rule holds_seq [OF holds_apply_result [OF assms]])
      (auto intro!: kept updates_ok)
  moreover have "keeps daemon_ok (preparation_outdated D p n branch target)" for p
    unfolding preparation_outdated_def by (auto intro!: kept)
  ultimately show ?thesis unfolding install_under_lock_def by (auto intro!: kept)
qed

lemma keeps_reconcile_exclusive [kept]:
  assumes "tame D" shows "keeps daemon_ok (reconcile_exclusive D pid)"
  unfolding reconcile_exclusive_def
proof (rule holds_seq [OF holds_read_project [OF assms]], rule holds_seq [OF holds_prepare_project], assumption)
  fix r assume "reconciliation_ok r"
  then show "keeps daemon_ok (case r of
      ProjectComplete p result n branch target \<Rightarrow> andThen (await D) (\<lambda>_. record_complete D pid p result n branch target)
    | ProjectPrepared p prepared n branch target \<Rightarrow>
        with_gate D pid (andThen (await D) (\<lambda>_. install_under_lock D pid p prepared n branch target)))"
    by (cases r) (auto intro!: kept keeps_record_complete keeps_install_under_lock keeps_with_gate assms)
qed

lemma keeps_background_reconcile [kept]: "tame D \<Longrightarrow> keeps daemon_ok (background_reconcile D pid)"
  unfolding background_reconcile_def by (auto intro!: kept updates_ok)

subsection \<open>Queueing\<close>

lemma new_publication_ok: "returns (new_publication E i c b oid e) publication_ok"
  by (auto simp: new_publication_def returns_def run publication_ok_def pending_def PENDING_def ACKNOWLEDGED_def split: prod.splits sum.splits)

lemma keeps_enqueue_new: "tame D \<Longrightarrow> keeps daemon_ok (enqueue_new D pid p branch oid)"
  unfolding enqueue_new_def
  by (rule holds_seq [OF holds_returns [OF keeps_component [OF frames_publication(1)] new_publication_ok]])
    (auto intro!: kept holds_modify simp: daemon_ok_def queue_ok_def append_publication_def project_ok_def)

lemma keeps_enqueue_publication [kept]: "tame D \<Longrightarrow> keeps daemon_ok (enqueue_publication D pid branch oid)"
  unfolding enqueue_publication_def by (auto intro!: kept keeps_enqueue_new)

subsection \<open>The heartbeat\<close>

text \<open>While the catalog lock is held the identities of the projects stay in their places.\<close>

definition listed :: "string list \<Rightarrow> 'x daemon \<Rightarrow> bool" where
  "listed ids s \<longleftrightarrow> daemon_ok s \<and> map lp_project_id (lc_projects (dm_catalog s)) = ids"

lemma of_tables_listed: "of_tables (listed ids)"
  by (simp add: of_tables_def listed_def daemon_ok_def)

lemmas keeps_listed [kept] = frames_remote [THEN keeps_frames [OF of_tables_listed]] frames_process [THEN keeps_frames [OF of_tables_listed]]
  frames_transaction_git [THEN keeps_frames [OF of_tables_listed]]

lemma keeps_put_project:
  assumes "project_ok p" and "i < length ids" and "lp_project_id p = ids ! i"
  shows "keeps (listed ids) (put_project i p)"
  unfolding put_project_def
  by (rule holds_modify) (use assms in \<open>auto simp: listed_def daemon_ok_def catalog_ok_def map_update list_all_iff
      dest: set_update_subset_insert [THEN subsetD] intro: list_update_id\<close>)

lemma holds_project_at: "i < length ids \<Longrightarrow>
    holds (listed ids) (gets (\<lambda>s. lc_projects (dm_catalog s) ! i)) (\<lambda>p. project_ok p \<and> lp_project_id p = ids ! i)"
  by (rule holds_gets) (auto simp: listed_def daemon_ok_def catalog_ok_def list_all_iff)

lemma holds_classify_head:
  "project_ok p \<Longrightarrow> holds (listed ids) (classify_head D p branch head) (\<lambda>r. project_ok (fst r) \<and> lp_project_id (fst r) = lp_project_id p)"
  unfolding classify_head_def by (auto intro!: kept simp: project_ok_def)

lemma keeps_refresh_fetched:
  assumes p: "project_ok p" "i < length ids" "lp_project_id p = ids ! i"
  shows "keeps (listed ids) (refresh_fetched D i p branch head)"
  unfolding refresh_fetched_def
proof (rule holds_andThen)
  show "keeps (listed ids) (put_project i (set_head branch head p))" using p by (intro keeps_put_project) simp_all
  have classified: "keeps (listed ids) (andThen (classify_head D (set_head branch head p) branch local_head)
      (\<lambda>(p', next_step). andThen (put_project i (settle_error p')) (\<lambda>_. ret next_step)))" for local_head
    by (rule holds_seq [OF holds_classify_head]) (use p in \<open>auto intro!: kept keeps_put_project\<close>)
  show "keeps (listed ids) (andThen (op (git_text (dv_env D) (lp_local_path p) [''rev-parse'', ''HEAD''] default_options))
      (\<lambda>local_head. andThen (classify_head D (set_head branch head p) branch local_head)
      (\<lambda>(p', next_step). andThen (put_project i (settle_error p')) (\<lambda>_. ret next_step))))"
    by (rule holds_andThen [OF _ classified]) (intro kept)
qed

lemma keeps_refresh_project:
  assumes i: "i < length ids" shows "keeps (listed ids) (refresh_project D remote work i)"
  unfolding refresh_project_def Let_def
  by (rule holds_seq [OF holds_project_at [OF i]])
    (use i in \<open>auto intro!: kept keeps_put_project keeps_refresh_fetched updates_ok simp: project_ok_def\<close>)

lemma andThen_assoc: "andThen m (\<lambda>a. andThen (f a) g) = andThen (andThen m f) g"
  by (rule ext) (auto simp: run_andThen split: prod.splits sum.splits)

lemma keeps_refresh_all:
  assumes "tame D"
  shows "keeps daemon_ok (andThen (lock_catalog D) (\<lambda>locked.
    foldEach (refresh_project D remote) [] [0..<length (lc_projects locked)]))"
proof (rule holdsI)
  fix s :: "'a daemon"
  assume "daemon_ok s"
  then have ready: "wp (lock_catalog D) (\<lambda>c s'. daemon_ok s' \<and> c = dm_catalog s') (\<lambda>_ s'. daemon_ok s') s"
    unfolding lock_catalog_def wp_andThen
    by (rule wp_conseq [OF holdsD [OF keeps_await(1) [OF assms]]]) (simp_all add: wp_gets)
  have fold: "wp (foldEach (refresh_project D remote) [] [0..<length (lc_projects (dm_catalog s'))])
      (\<lambda>_ s'. daemon_ok s' \<and> True) (\<lambda>_ s'. daemon_ok s') s'" if "daemon_ok s'" for s' :: "'a daemon"
  proof -
    let ?ids = "map lp_project_id (lc_projects (dm_catalog s'))"
    have "keeps (listed ?ids) (foldEach (refresh_project D remote) [] [0..<length (lc_projects (dm_catalog s'))])"
      by (rule holds_foldEach) (auto intro!: keeps_refresh_project)
    then show ?thesis by (rule wp_conseq [OF holdsD]) (use that in \<open>auto simp: listed_def\<close>)
  qed
  show "wp (andThen (lock_catalog D) (\<lambda>locked. foldEach (refresh_project D remote) [] [0..<length (lc_projects locked)]))
      (\<lambda>a s'. daemon_ok s' \<and> True) (\<lambda>_ s'. daemon_ok s') s"
    unfolding wp_andThen by (rule wp_conseq [OF ready]) (auto intro: fold [simplified])
qed

lemma keeps_refresh [kept]: "tame D \<Longrightarrow> keeps daemon_ok (refresh D)"
  unfolding refresh_def andThen_assoc [of "lock_catalog D"] follow_publish_def follow_reconcile_def
  by (auto intro!: kept keeps_refresh_all split: follow_up.split)

lemma keeps_branch_transition [kept]: "tame D \<Longrightarrow> keeps daemon_ok (ensure_branch_transition D pid)"
  unfolding ensure_branch_transition_def Let_def by (auto intro!: kept simp: project_ok_def)

subsection \<open>Publishing\<close>

lemma returns_acknowledgement:
  "returns (acknowledge_with_provider E service token p) (\<lambda>r. case r of Acknowledged a \<Rightarrow> ack_for p a | RemoteAdvanced h g \<Rightarrow> True)"
  unfolding acknowledge_with_provider_def
  by (intro returns_bind returns_lift)
    (auto simp: read_publication_reply_def ack_matches_def ack_for_def split: if_splits option.splits)

lemma holds_request_ack: "tame D \<Longrightarrow> holds daemon_ok (request_ack D project p head) (ack_for p)"
  unfolding request_ack_def
  by (auto intro!: kept holds_seq [OF holds_mapErr [OF holds_returns [OF keeps_component [OF frames_publication(5)] returns_acknowledgement]]]
      simp: local_ack_def ack_for_def split: option.split provider_publication.split)

lemma acknowledged_ok:
  "ack_for p a \<Longrightarrow> covered_by p v \<Longrightarrow> publication_ok (acknowledged t a v)"
  by (auto simp: publication_ok_def acknowledged_def ack_for_def covered_by_def)

lemma compact_ok: "queue_ok q \<Longrightarrow> queue_ok (compact q)"
  using list_emb_set [OF subseq_retain_after]
  by (fastforce simp: queue_ok_def compact_def Let_def list_all_iff)

lemma with_table: "daemon_ok s \<Longrightarrow> list_all publication_ok ps \<Longrightarrow> daemon_ok (s\<lparr>dm_publications := compact (with_publications ps q)\<rparr>)"
  using compact_ok [of "with_publications ps q"] by (simp add: daemon_ok_def queue_ok_def with_publications_def)

lemma keeps_acknowledge_queue:
  assumes ack: "ack_for p a"
  shows "keeps daemon_ok (acknowledge_queue D p a)"
  unfolding acknowledge_queue_def
proof (rule holds_seq [OF holds_gets [where R = queue_ok]])
  fix queue assume queue: "queue_ok queue"
  have "holds daemon_ok (acknowledge_one (dv_env D) p a acc v) (\<lambda>acc. list_all publication_ok (fst acc))"
    if "v \<in> set (pq_publications queue)" "list_all publication_ok (fst acc)" for acc v
    unfolding acknowledge_one_def using that queue acknowledged_ok [OF ack]
    by (cases acc) (auto intro!: kept simp: queue_ok_def list_all_iff)
  then have "holds daemon_ok (foldEach (acknowledge_one (dv_env D) p a) ([], []) (pq_publications queue)) (\<lambda>acc. list_all publication_ok (fst acc))"
    by (intro holds_foldEach) simp_all
  then show "keeps daemon_ok (andThen (foldEach (acknowledge_one (dv_env D) p a) ([], []) (pq_publications queue)) (\<lambda>(ps, completed).
     andThen (modify (\<lambda>s. s\<lparr>dm_publications := compact (with_publications ps queue)\<rparr>)) (\<lambda>_.
     andThen (persist_publications D) (\<lambda>_.
     andThen (gets dm_publications) (\<lambda>after.
     ret (completed, \<exists>v\<in>set (pq_publications after). pending v \<and> pub_project_id v = pub_project_id p))))))"
    by (rule holds_seq) (auto intro!: kept holds_modify simp: with_table)
qed (simp add: daemon_ok_def)

lemma keeps_complete_publication: "tame D \<Longrightarrow> ack_for p a \<Longrightarrow> keeps daemon_ok (complete_publication D p a)"
  unfolding complete_publication_def acknowledge_project_def
  by (auto intro!: kept keeps_acknowledge_queue updates_ok)

lemma ack_for_attempt: "ack_for (p\<lparr>pub_last_attempt_at := t\<rparr>) a = ack_for p a"
  by (simp add: ack_for_def)

lemma keeps_confirm_publication [kept]: "tame D \<Longrightarrow> keeps daemon_ok (confirm_publication D project p)"
  unfolding confirm_publication_def Let_def
  by (auto intro!: kept holds_seq [OF holds_request_ack] keeps_complete_publication)

lemma moved_ok: "list_all publication_ok ps \<Longrightarrow> list_all publication_ok (update_first Q (moved_candidate c h t) ps)"
  by (rule list_all_update_first) (auto simp: publication_ok_def moved_candidate_def pending_def ack_for_def split: option.splits)

lemma failed_ok: "list_all publication_ok ps \<Longrightarrow> list_all publication_ok (update_first Q (record_failure_at E t m n) ps)"
  by (rule list_all_update_first) (auto simp: publication_ok_def record_failure_at_def pending_def PENDING_def ACKNOWLEDGED_def)

lemma keeps_follow_remote [kept]: "tame D \<Longrightarrow> keeps daemon_ok (follow_remote D project p remote)"
  unfolding follow_remote_def by (auto intro!: kept keeps_publications moved_ok simp: queued_publication_def)

lemma frames_config [frame]: "frames (read_project_config E V p)"
  by (auto simp: read_project_config_def ensure_project_config_def Let_def intro!: frame)

lemma keeps_push_candidate [kept]: "keeps daemon_ok (push_candidate D project p)"
proof -
  have "frames (validate_candidate D project (pub_candidate_commit_oid p))"
    by (auto simp: validate_candidate_def validate_in_def run_validation_def Let_def intro!: frame)
  note keeps_component [OF this, kept]
  then show ?thesis unfolding push_candidate_def by (intro holds_andThen) (auto intro!: kept)
qed

lemma keeps_deliver [kept]:
  assumes "tame D" shows "keeps daemon_ok (deliver_publication D p)"
proof -
  have "keeps daemon_ok (deliver_round D i)" for i
    unfolding deliver_round_def queued_publication_def candidate_reachable_def using assms by (auto intro!: kept)
  then have "keeps daemon_ok (deliver_rounds D i n)" for i n by (induction n) (auto intro!: kept)
  then show ?thesis by (simp add: deliver_publication_def)
qed

lemma keeps_process_one [kept]: "tame D \<Longrightarrow> keeps daemon_ok (process_one D i)"
  unfolding process_one_def note_delivery_failure_def
  by (auto intro!: kept keeps_publications failed_ok simp: project_ok_def)

lemma keeps_process_publications [kept]: "tame D \<Longrightarrow> keeps daemon_ok (process_publications D force)"
  unfolding process_publications_def due_publication_def by (auto intro!: kept holds_foldEach)

subsection \<open>Requests\<close>

lemma insert_ok: "catalog_ok c \<Longrightarrow> project_ok p \<Longrightarrow> catalog_ok (insert_project p g c)"
  by (auto simp: catalog_ok_def insert_project_def list_all_iff distinct_map_filter)

lemma migrate_same [simp]:
  "lp_project_id (migrate_branch p) = lp_project_id p" "project_ok (migrate_branch p) = project_ok p"
  "lp_project_id (migrate_advertised p) = lp_project_id p" "project_ok (migrate_advertised p) = project_ok p"
  "lp_project_id (migrate_applied p) = lp_project_id p" "project_ok (migrate_applied p) = project_ok p"
  by (simp_all add: migrate_branch_def migrate_advertised_def migrate_applied_def project_ok_def split: option.split json.split)

lemma migrated_ok: "catalog_ok c \<Longrightarrow> catalog_ok (migrated_catalog c)"
  by (simp add: catalog_ok_def migrated_catalog_def migrate_local_projects_def list_all_iff comp_def)

lemma frames_load_catalog: "frames (load_catalog E C)"
  unfolding load_catalog_def by (intro frame)

lemma returns_load_catalog: "tame D \<Longrightarrow> returns (load_catalog (dv_env D) (dv_catalog D)) catalog_ok"
  by (auto simp: load_catalog_def read_json_def returns_def run tame_def default_catalog_def catalog_ok_def
      split: prod.splits sum.splits option.splits io_error.splits)

lemma keeps_requests:
  assumes "tame D"
  shows "keeps daemon_ok (register_project D r)" "keeps daemon_ok (reload D)" "keeps daemon_ok (status D r)"
    "keeps daemon_ok (acquire D r)" "keeps daemon_ok (access_state D r)" "keeps daemon_ok (release_access D r)"
    "keeps daemon_ok (sync D r)" "keeps daemon_ok (publish D r)" "keeps daemon_ok (report_commit D r)" "keeps daemon_ok (report_checkout D r)"
proof -
  show "keeps daemon_ok (register_project D r)"
    unfolding register_project_def using assms
    by (auto intro!: kept holds_seq [where R = project_ok] holds_modify simp: daemon_ok_def insert_ok) (auto simp: tame_def)
next
  show "keeps daemon_ok (reload D)"
    unfolding reload_def migrated_catalog_def [symmetric]
    by (rule holds_seq [OF holds_mapErr [OF holds_returns [OF keeps_component [OF frames_load_catalog] returns_load_catalog]]])
      (auto intro!: kept holds_modify assms simp: daemon_ok_def migrated_ok)
qed (use assms in \<open>auto simp: status_def acquire_def access_state_def release_access_def sync_def publish_def report_commit_def
   report_checkout_def acquire_lease_id_def Let_def project_ok_def intro!: kept\<close>)

lemma keeps_handle [kept]: "tame D \<Longrightarrow> keeps daemon_ok (handle D r)"
  unfolding handle_def Let_def by (intro holds_if keeps_requests holds_simple) simp_all

theorem requests_keep_the_tables:
  assumes "tame D" and "daemon_ok s"
  shows "daemon_ok (snd (handle D request s))"
  using holds_after [OF keeps_handle [OF assms(1)] assms(2)] by (metis prod.collapse)

text \<open>The assumption on other tasks is met by requests that run meanwhile, which may in turn be
  interrupted by others.\<close>

theorem interleaved_requests_are_tame:
  assumes "tame D"
  shows "tame (D\<lparr>dv_others := \<lambda>s. snd (handle D (request_at s) s)\<rparr>)"
  using assms requests_keep_the_tables [OF assms] by (simp add: tame_def)

subsection \<open>The process\<close>

lemma keeps_serve_connection [kept]: "tame D \<Longrightarrow> keeps daemon_ok (serve_connection D lines)"
  by (induction lines) (auto intro!: kept simp: serve_line_def)

lemma keeps_daemon_loop: "tame D \<Longrightarrow> keeps daemon_ok (daemon_loop P D events)"
  by (induction events)
    (auto intro!: kept simp: tick_def next_task_def run_task_def split: daemon_event.split list.split spawned_task.split)

lemma frames_adapters [frame]: "frames (repair_adapters_for_build E J T version paths projects build_id)"
proof -
  have hook: "frames (install_git_hook E d n t)" for d n t
    by (auto simp: install_git_hook_def Let_def intro!: frame)
  have "frames (install_project_adapters_in_state E J T p root)" for p root
    by (auto simp: install_project_adapters_in_state_def install_project_hooks_def load_hooks_def install_skill_def
       ensure_local_excludes_def install_git_hooks_def ensure_project_dispatcher_def ensure_dispatcher_def Let_def intro!: frame hook)
  then have "frames (adapter_failures E J T root ps)" for root ps
    by (induction ps) (auto intro!: frame split: abort.split)
  then show ?thesis by (auto simp: repair_adapters_for_build_def installed_build_def intro!: frame)
qed

lemma tame_loaded: "tame (D\<lparr>dv_config := c, dv_binary_id := b\<rparr>) = tame D"
  by (simp add: tame_def)

lemma defaults_ok: "catalog_ok default_catalog" "queue_ok default_queue"
  by (simp_all add: default_catalog_def default_queue_def catalog_ok_def queue_ok_def)

lemma load_daemon_tables:
  fixes s :: "'a daemon"
  assumes "tame D" and ran: "load_daemon P D s = (Inr D', s')"
  shows "daemon_ok s'" and "tame D'"
proof -
  obtain c q cfg b and t t1 u v :: "'a daemon" where "read_json (dp_env P) (dv_catalog D) (sp_catalog (dv_paths D)) default_catalog t = (Inr c, t1)"
      and "load_queue (dp_env P) (dv_queue D) (dv_paths D) u = (Inr q, v)"
      and s': "dm_catalog s' = migrated_catalog c" "dm_publications s' = q" and D': "D' = D\<lparr>dv_config := cfg, dv_binary_id := b\<rparr>"
    using ran by (auto simp: load_daemon_def Let_def run split: prod.splits sum.splits)
  then have "catalog_ok c" "queue_ok q"
    using assms(1) by (auto simp: read_json_def load_queue_def run tame_def defaults_ok
      split: prod.splits sum.splits option.splits io_error.splits)
  then show "daemon_ok s'" "tame D'" using s' D' assms(1) by (auto simp: daemon_ok_def migrated_ok tame_loaded)
qed

lemma keeps_start: "tame D \<Longrightarrow> keeps daemon_ok (andThen (op (acquire_process_lock S paths)) (\<lambda>_.
     andThen (lock_catalog D) (\<lambda>catalog. andThen (ignore (repair_at_start P D (lc_projects catalog))) (\<lambda>_.
     andThen (op (open_socket P socket)) (\<lambda>_. andThen (ignore (refresh D)) (\<lambda>_.
     andThen (spawn_task (PublishTask True)) (\<lambda>_. ret D)))))))"
proof -
  have "frames (lock_attempts S p n)" for p n
    by (induction n) (auto simp: probe_lock_def create_new_def recorded_pid_def intro!: frame)
  then have lock: "frames (acquire_process_lock S paths)" by (auto simp: acquire_process_lock_def intro!: frame)
  have repair: "frames (repair_at_start P D ps)" for ps by (auto simp: repair_at_start_def intro!: frame)
  have "frames (bind_socket P socket)" by (rule framesI) (auto simp: bind_socket_def split: prod.splits)
  then have "frames (open_socket P socket)" by (auto simp: open_socket_def Let_def intro!: frame)
  note components = lock [THEN keeps_component] repair [THEN keeps_component] this [THEN keeps_component]
  show "tame D \<Longrightarrow> ?thesis" by (auto intro!: kept components)
qed


end
