(* ===== verification/Process_Examples.thy ===== *)
theory Process_Examples
  imports Command_Examples Daemon_Invariant
begin

section \<open>Examples of processes that meet\<close>

text \<open>The command line, the daemon and the release server in the scripted world.\<close>

subsection \<open>Registering a project\<close>

definition registering :: "run_result list denv" where
  "registering = example_denv\<lparr>dv_project_of_json := (\<lambda>j. ok_or ''invalid project'' (decode_local_project j))\<rparr>"

lemma registering_simps [simp]:
  "dv_project_of_json registering = (\<lambda>j. ok_or ''invalid project'' (decode_local_project j))"
  "dv_env registering = scripted_env" "sp_catalog (dv_paths registering) = ''/s/catalog.json''" "dv_others registering = dv_others example_denv"
  using example_denv_simps by (simp_all add: registering_def)

lemma registers:
  assumes "document_ok p"
  shows "\<exists>reply s'. handle registering (register_request p None) (example_daemon q [] state_root []) = (Inr reply, s')"
proof -
  let ?s = "example_daemon q [] state_root []"
  obtain s' where s': "write_json scripted_env (dv_catalog registering) ''/s/catalog.json'' (insert_project p None (dm_catalog ?s)) private_mode
      (?s\<lparr>dm_catalog := insert_project p None (dm_catalog ?s)\<rparr>) = (Inr (), s')"
  proof -
    have "fs_get (make_dirs ''/s'' state_root) ''/s/catalog.7.tmp'' = None"
      by (subst fs_get_make_dirs) (simp_all add: state_root_def fs_get_def)
    then show ?thesis using that write_succeeds [where E = scripted_env and p = "''/s/catalog.json''" and d = "''/s''"
        and s = "?s\<lparr>dm_catalog := insert_project p None (dm_catalog ?s)\<rparr>" and C = "dv_catalog registering"
        and v = "insert_project p None (dm_catalog ?s)" and mode = private_mode]
      by (auto simp: example_files example_daemon_def)
  qed
  have await: "(await registering :: (_, stop, unit) prog) ?s = (Inr (), ?s)" by (simp add: await_def modify_def)
  have generation: "Option.bind (jget ''catalog_generation'' (register_request p None)) as_u64 = None"
    using request_fields(3) [of None] by simp
  show ?thesis
    using s' await generation
    by (simp add: handle_def Let_def request_fields register_project_def project_read_back [OF assms] persist_def
        run_andThen run_mapErr run_simps)
qed

theorem registration_reaches_the_catalog_witness:
  "\<exists>reply s'. handle registering (register_request workspace_project_a None) (example_daemon example_project [] state_root []) = (Inr reply, s')
     \<and> workspace_project_a \<in> set (lc_projects (dm_catalog s'))
     \<and> fs_get (files s') ''/s/catalog.json'' = Some (File (json_text (dv_catalog registering) (dm_catalog s')))"
proof -
  have document: "document_ok workspace_project_a"
    by (simp add: document_ok_def workspace_project_a_def u64_max_def obj_wf_def)
  obtain reply s' where ran: "handle registering (register_request workspace_project_a None) (example_daemon example_project [] state_root []) = (Inr reply, s')"
    using registers [OF document] by blast
  have other: "temporary_path (dv_env registering) (sp_catalog (dv_paths registering)) \<noteq> sp_catalog (dv_paths registering)"
    by (simp add: example_files)
  have generation: "n \<le> u64_max" if "None = Some n" for n using that by simp
  have "workspace_project_a \<in> set (lc_projects (dm_catalog s'))"
      "fs_get (files s') (sp_catalog (dv_paths registering)) = Some (File (json_text (dv_catalog registering) (dm_catalog s')))"
    using registration_reaches_the_catalog [OF ran registering_simps(1) document generation other] by blast+
  then show ?thesis using ran unfolding registering_simps(3) by blast
qed

subsection \<open>Stopping and refusing a daemon\<close>

definition example_process :: "run_result list process" where
  "example_process = \<lparr>dp_os = client_os, dp_config = cl_config example_cli, dp_credentials = cl_credentials example_cli,
     dp_json = unary_json, dp_texts = undefined, dp_version = ''1'', dp_bind = (\<lambda>p fs xs. (Inr (), fs_put p (File []) fs, xs))\<rparr>"

lemma example_process_simps [simp]: "dp_os example_process = client_os"
  "dp_bind example_process p fs xs = (Inr (), fs_put p (File []) fs, xs)"
  by (simp_all add: example_process_def)

lemma example_daemon_paths:
  "sp_socket (dv_paths example_denv) = ''/s/sock''" "sp_daemon_lock (dv_paths example_denv) = ''/s/daemon.lock''"
  by (simp_all add: example_denv_def paths_below_def path_steps)

theorem stopped_daemon_leaves_nothing_behind_witness:
  "\<exists>s'. daemon_loop example_process example_denv [Turn, Stop]
       (example_daemon example_project [] [(''/s/sock'', File []), (''/s/daemon.lock'', File ''7'')] []) = (Inr True, s')
     \<and> fs_get (files s') ''/s/sock'' \<in> {None, Some Dir} \<and> fs_get (files s') ''/s/daemon.lock'' \<in> {None, Some Dir}"
proof -
  obtain ended s' where ran: "daemon_loop example_process example_denv [Turn, Stop]
       (example_daemon example_project [] [(''/s/sock'', File []), (''/s/daemon.lock'', File ''7'')] []) = (Inr ended, s')"
    by (simp add: next_task_def executes example_daemon_def ignore_def split: prod.splits)
  show ?thesis using stopped_daemon_leaves_nothing_behind [OF ran] ran by (simp add: example_daemon_paths)
qed

definition starting :: "run_result list daemon" where
  "starting = example_daemon example_project [] [(''/s/daemon.lock'', File ''12''), (''/s'', Dir), (''/bin/resync'', File ''b'')] []"

lemma read_default: "fs_get (files s) p = None \<Longrightarrow> read_json client_env C p d s = (Inr d, s)"
  by (simp add: read_json_def read_file_def file_op_def executes)

lemma starting_files: "fs_get (files starting) ''/s/daemon.lock'' = Some (File ''12'')"
  "fs_get (files starting) ''/bin/resync'' = Some (File ''b'')" "fs_get (files starting) ''/s/config.json'' = None"
  "fs_get (files starting) ''/s/catalog.json'' = None" "fs_get (files starting) ''/s/publications.json'' = None"
  "fs_get (files starting) ''/s/catalog.7.tmp'' = None"
  by (simp_all add: starting_def example_daemon_def fs_get_def)

lemma write_then:
  assumes p: "path_parent p = Some d" "temporary_path client_env p \<noteq> p" "fs_get (files s) (temporary_path client_env p) = None"
    "length d < length (temporary_path client_env p)"
  obtains s' where "write_json client_env C p v mode s = (Inr (), s')" and "world.more s' = world.more s"
    and "\<And>q. q \<noteq> p \<Longrightarrow> q \<noteq> temporary_path client_env p \<Longrightarrow> length d < length q \<Longrightarrow> fs_get (files s') q = fs_get (files s) q"
proof -
  have "fs_get (make_dirs d (files s)) (temporary_path client_env p) \<noteq> Some Dir"
    using p(3) by (subst fs_get_make_dirs [OF p(4)]) simp
  then obtain s' where ran: "write_json client_env C p v mode s = (Inr (), s')"
    using write_succeeds [where E = client_env and s = s and C = C and v = v and mode = mode] p(1,2) by auto
  have "new_events (write_json client_env C p v mode) s = document_script client_env p (json_text C v) mode"
    by (rule script_new_events_ok [OF script_write_json ran])
  then have "files s' = replay (document_script client_env p (json_text C v) mode) (files s)"
    using replays_new_events [OF replays_write_json, of client_env C p v mode s] ran by simp
  then have "fs_get (files s') q = fs_get (files s) q" if "q \<noteq> p" "q \<noteq> temporary_path client_env p" "length d < length q" for q
    using that p(1) by (simp add: document_script_def fs_get_make_dirs)
  then show thesis using that [OF ran framesD [OF frames_documents(2) ran]] by blast
qed

lemma machine_paths:
  "sp_config (state_paths_of client_env) = ''/s/config.json''" "temporary_path client_env ''/s/catalog.json'' = ''/s/catalog.7.tmp''"
  "path_parent ''/s/daemon.lock'' = Some ''/s''" "path_parent ''/s/sock'' = Some ''/s''" "path_parent ''/s/adapter-build.json'' = Some ''/s''"
  "path_join ''/s'' ''adapter-build.json'' = ''/s/adapter-build.json''"
  "temporary_path client_env ''/s/adapter-build.json'' = ''/s/adapter-build.7.tmp''"
  by (simp_all add: state_paths_of_def state_directory_def absolute_path_def paths_below_def path_steps string_steps Let_def)

lemma loads_machine:
  fixes s :: "run_result list daemon"
  assumes absent: "fs_get (files s) ''/s/config.json'' = None" "fs_get (files s) ''/s/catalog.json'' = None"
      "fs_get (files s) ''/s/publications.json'' = None" "fs_get (files s) ''/s/catalog.7.tmp'' = None"
    and exe: "fs_get (files s) ''/bin/resync'' = Some (File ''b'')"
  obtains c b s1 where "load_daemon example_process example_denv s = (Inr (example_denv\<lparr>dv_config := c, dv_binary_id := b\<rparr>), s1)"
    and "lc_projects (dm_catalog s1) = []"
    and "\<And>q. q \<noteq> ''/s/catalog.json'' \<Longrightarrow> q \<noteq> ''/s/catalog.7.tmp'' \<Longrightarrow> 2 < length q \<Longrightarrow> fs_get (files s1) q = fs_get (files s) q"
proof -
  obtain c where config: "resolved_config client_env C1 C2 s = (Inr c, s)" for C1 C2
    by (simp add: resolved_config_def load_config_raw_def machine_paths read_default absent executes migrate_config_def default_config_def)
  let ?c = "migrated_catalog default_catalog"
  obtain t where t: "write_json client_env (dv_catalog example_denv) ''/s/catalog.json'' ?c private_mode s = (Inr (), t)"
    and kept: "\<And>q. q \<noteq> ''/s/catalog.json'' \<Longrightarrow> q \<noteq> ''/s/catalog.7.tmp'' \<Longrightarrow> 2 < length q \<Longrightarrow> fs_get (files t) q = fs_get (files s) q"
    by (rule write_then [where p = "''/s/catalog.json''" and d = "''/s''" and s = s and C = "dv_catalog example_denv" and v = ?c
        and mode = private_mode])
      (simp_all add: machine_paths example_files absent)
  have exe': "fs_get (files t) ''/bin/resync'' = Some (File ''b'')" using kept [of "''/bin/resync''"] exe by simp
  have queue: "load_queue client_env (dv_queue example_denv) (dv_paths example_denv) s = (Inr default_queue, s)"
    by (simp add: load_queue_def read_default absent)
  have fingerprint: "executable_fingerprint client_env t = (Inr ''64'', t\<lparr>trace := trace t @ [ReadFile ''/bin/resync'']\<rparr>)"
    by (simp add: executable_fingerprint_def read_file_def file_op_def executes exe' hex_d)
  have "load_daemon example_process example_denv s = (Inr (example_denv\<lparr>dv_config := c, dv_binary_id := ''64''\<rparr>),
      t\<lparr>trace := trace t @ [ReadFile ''/bin/resync''], dm_catalog := ?c, dm_publications := default_queue, dm_gates := [],
         dm_background := [], dm_tasks := []\<rparr>)"
    by (simp add: load_daemon_def Let_def executes config read_default absent queue t fingerprint)
  then show thesis
    by (rule that) (simp_all add: kept migrated_catalog_def migrate_local_projects_def default_catalog_def)
qed

theorem refused_daemon_has_written_the_catalog_witness:
  "\<exists>e s2. start_process example_process example_denv starting = (Inl (Fails e), s2)
     \<and> RemoveFile ''/s/sock'' \<notin> set (new_events (start_process example_process example_denv) starting)"
proof -
  obtain c b s1 where loaded: "load_daemon example_process example_denv starting = (Inr (example_denv\<lparr>dv_config := c, dv_binary_id := b\<rparr>), s1)"
    and kept: "\<And>q. q \<noteq> ''/s/catalog.json'' \<Longrightarrow> q \<noteq> ''/s/catalog.7.tmp'' \<Longrightarrow> 2 < length q \<Longrightarrow> fs_get (files s1) q = fs_get (files starting) q"
    by (rule loads_machine [of starting]) (simp_all add: starting_files)
  have lock: "fs_get (files s1) ''/s/daemon.lock'' = Some (File ''12'')" by (simp add: kept starting_files)
  have pid: "parse_i32 ''12'' = Some 12" "trim ''12'' = ''12''"
    by (simp_all add: parse_i32_def string_steps read_digits_def is_ascii_digit_def digit_value_def)
  have parent: "path_parent ''/s/daemon.lock'' = Some ''/s''" by (simp add: path_steps string_steps Let_def)
  have "fs_get (make_dirs ''/s'' (files s1)) ''/s/daemon.lock'' = Some (File ''12'')" using lock by (subst fs_get_make_dirs) simp_all
  then obtain s2 where refused: "acquire_process_lock (dp_os example_process) (dv_paths example_denv) s1 = (Inl ''RepoSync daemon is already running'', s2)"
    by (simp add: acquire_process_lock_def example_daemon_paths parent numeral_2_eq_2 create_dir_all_def probe_lock_def create_new_def
        recorded_pid_def path_exists_def read_file_def file_op_def executes pid)
  have env: "dp_env example_process = client_env" by simp
  have tmp: "temporary_path client_env ''/s/catalog.json'' \<noteq> ''/s/catalog.json''" by (simp add: path_steps string_steps Let_def)
  show ?thesis
    using refused_daemon_has_written_the_catalog [OF loaded refused] tmp by (simp add: example_daemon_paths env)
qed

subsection \<open>A daemon that runs\<close>

definition fresh_machine :: "run_result list daemon" where
  "fresh_machine = example_daemon example_project [] [(''/s/sock'', File []), (''/s'', Dir), (''/bin/resync'', File ''b'')] []"

lemma tame_example: "tame example_denv"
  by (simp add: tame_def example_denv_def)

lemma machine_files: "fs_get (files fresh_machine) ''/s/sock'' = Some (File [])"
  "fs_get (files fresh_machine) ''/bin/resync'' = Some (File ''b'')"
  "fs_get (files fresh_machine) ''/s/config.json'' = None" "fs_get (files fresh_machine) ''/s/catalog.json'' = None"
  "fs_get (files fresh_machine) ''/s/publications.json'' = None" "fs_get (files fresh_machine) ''/s/catalog.7.tmp'' = None"
  "fs_get (files fresh_machine) ''/s/daemon.lock'' = None" "fs_get (files fresh_machine) ''/s/adapter-build.json'' = None"
  "fs_get (files fresh_machine) ''/s/adapter-build.7.tmp'' = None"
  by (simp_all add: fresh_machine_def example_daemon_def fs_get_def)

lemma starts: "\<exists>D s1. start_process example_process example_denv fresh_machine = (Inr D, s1)"
proof -
  obtain c b s1 where loaded: "load_daemon example_process example_denv fresh_machine = (Inr (example_denv\<lparr>dv_config := c, dv_binary_id := b\<rparr>), s1)"
    and empty: "lc_projects (dm_catalog s1) = []"
    and kept1: "\<And>q. q \<noteq> ''/s/catalog.json'' \<Longrightarrow> q \<noteq> ''/s/catalog.7.tmp'' \<Longrightarrow> 2 < length q \<Longrightarrow> fs_get (files s1) q = fs_get (files fresh_machine) q"
    by (rule loads_machine [of fresh_machine]) (simp_all add: machine_files)
  let ?D = "example_denv\<lparr>dv_config := c, dv_binary_id := b\<rparr>"
  have lock_free: "fs_get (make_dirs ''/s'' (files s1)) ''/s/daemon.lock'' = None"
    by (subst fs_get_make_dirs) (simp_all add: kept1 machine_files)
  obtain s2 where locked: "acquire_process_lock client_os (dv_paths example_denv) s1 = (Inr (), s2)"
      and more2: "dm_catalog s2 = dm_catalog s1"
      and kept2: "\<And>q. q \<noteq> ''/s/daemon.lock'' \<Longrightarrow> fs_get (files s2) q = fs_get (make_dirs ''/s'' (files s1)) q"
    by (simp add: acquire_process_lock_def example_daemon_paths machine_paths numeral_2_eq_2 probe_lock_def create_new_def path_exists_def
        create_dir_all_def write_file_def sync_path_def file_op_def executes lock_free)
  have marker: "fs_get (files s2) ''/s/adapter-build.json'' = None" "fs_get (files s2) ''/s/adapter-build.7.tmp'' = None"
    by (simp_all add: kept2 fs_get_make_dirs kept1 machine_files)
  obtain s3 where repaired: "repair_at_start example_process ?D [] s2 = (Inr True, s3)" and sock3: "fs_get (files s3) ''/s/sock'' = Some (File [])"
  proof -
    have installed: "installed_build client_env unary_json (dv_paths example_denv) s2 = (Inr None, s2)"
      by (simp add: installed_build_def adapter_marker_def machine_paths read_default marker executes jget_str_def)
    obtain t where "write_json client_env unary_json ''/s/adapter-build.json'' (build_marker (''1:'' @ b @ '':/bin/resync'') ''1'') private_mode s2 = (Inr (), t)"
      and "\<And>q. q \<noteq> ''/s/adapter-build.json'' \<Longrightarrow> q \<noteq> ''/s/adapter-build.7.tmp'' \<Longrightarrow> 2 < length q \<Longrightarrow> fs_get (files t) q = fs_get (files s2) q"
      by (rule write_then [where p = "''/s/adapter-build.json''" and d = "''/s''" and s = s2 and C = unary_json
          and v = "build_marker (''1:'' @ b @ '':/bin/resync'') ''1''" and mode = private_mode])
        (simp_all add: machine_paths marker)
    then show thesis
      by (intro that [of t]) (simp_all add: repair_at_start_def current_adapter_build_id_def repair_adapters_for_build_def executes
        installed adapter_marker_def machine_paths example_process_def kept2 fs_get_make_dirs kept1 machine_files)
  qed
  have await: "(await ?D :: (_, stop, unit) prog) s2 = (Inr (), s2)" by (simp add: await_def modify_def)
  obtain s4 where opened: "open_socket example_process ''/s/sock'' s3 = (Inr (), s4)"
    by (simp add: open_socket_def path_exists_def remove_file_def create_dir_all_def set_permissions_def bind_socket_def file_op_def
        executes sock3 machine_paths Let_def)
  obtain r s5 where refreshed: "refresh ?D s4 = (r, s5)" by fastforce
  show ?thesis using loaded locked await repaired opened refreshed
    by (simp add: start_process_def executes lock_catalog_def empty more2 spawn_task_def example_daemon_paths)
qed


subsection \<open>A release from the server\<close>

definition example_peer :: "run_result list peer_host" where
  "example_peer = \<lparr>pr_cli = example_cli, pr_temp_file = (\<lambda>xs. (Inr ''/tmp/f'', xs)), pr_platform = ''linux'', pr_architecture = ''x86_64'',
     pr_status_error = (\<lambda>n u. ''status'')\<rparr>"

lemma example_digest: "listed_digest ''resync-t'' ''64  resync-t'' = Some ''64''"
  by (simp add: listed_digest_def digest_of_line_def str_lines_def List.map_filter_def split_whitespace_def split_where_def string_steps)

theorem downloaded_binary_is_listed_witness:
  "\<exists>s' listing x. download_binary example_peer ''t'' (client_world [] [says ''elf'', says ''64  resync-t'']) = (Inr ''elf'', s')
     \<and> fst (http client_env (plain_get (release_base example_peer @ ''/SHA256SUMS'')) x) = Inr listing
     \<and> listed_digest ''resync-t'' (res_text listing) = Some (hex_text ''d'')"
proof -
  have env: "pr_env example_peer = client_env" by (simp add: example_peer_def)
  have reply: "http client_env rq xs = next_response xs" for rq xs by (simp add: client_env_def)
  obtain s' :: "run_result list world"
    where ran: "download_binary example_peer ''t'' (client_world [] [says ''elf'', says ''64  resync-t'']) = (Inr ''elf'', s')"
    by (simp add: download_binary_def http_get_def http_send_def ext_call_def Let_def executes env reply next_response_def says_def
        client_world_def scripted_world_def example_digest hex_d)
  show ?thesis using downloaded_binary_is_listed [OF ran] ran by (simp add: env) blast
qed

subsection \<open>Builds\<close>

definition two_builds :: fs where
  "two_builds = [(''/i/share/resync/bin/b1/resync'', File ''1''), (''/i/share/resync/bin/b2/resync'', File ''2''), (''/i/share/resync/bin/b1'', Dir),
     (''/i/share/resync/bin/b2'', Dir), (''/i/share/resync/bin'', Dir), (''/i/share/resync'', Dir), (''/i/share'', Dir), (''/i'', Dir)]"

lemma two_builds_paths:
  "builds_directory ''/i'' = ''/i/share/resync/bin''" "path_parent ''/i/share/resync/bin/b2/resync'' = Some ''/i/share/resync/bin/b2''"
  "children ''/i/share/resync/bin'' two_builds = [''/i/share/resync/bin/b1'', ''/i/share/resync/bin/b2'']"
  "path_components ''/i/share/resync/bin/b1'' = [''/'', ''i'', ''share'', ''resync'', ''bin'', ''b1'']"
  "path_components ''/i/share/resync/bin/b2'' = [''/'', ''i'', ''share'', ''resync'', ''bin'', ''b2'']"
  "path_components ''/i/share/resync/bin/b2/resync'' = [''/'', ''i'', ''share'', ''resync'', ''bin'', ''b2'', ''resync'']"
  by (simp_all add: children_def two_builds_def builds_directory_def path_components_def path_steps string_steps Let_def)

theorem prune_spares_builds_in_use_witness:
  "\<exists>s'. prune_managed_builds client_env ''/i'' ''/i/share/resync/bin/b2/resync'' [''/i/share/resync/bin/b2/resync''] (scripted_world two_builds [])
      = (Inr [''/i/share/resync/bin/b1''], s')
    \<and> fs_get (files s') ''/i/share/resync/bin/b2/resync'' = Some (File ''2'')
    \<and> fs_get (files s') ''/i/share/resync/bin/b1'' = None"
proof -
  have there: "fs_get two_builds ''/i/share/resync/bin'' = Some Dir" "fs_get two_builds ''/i/share/resync/bin/b1'' = Some Dir"
    by (simp_all add: two_builds_def fs_get_def)
  have listed: "read_dir client_env ''/i/share/resync/bin'' (scripted_world two_builds [])
      = (Inr [''/i/share/resync/bin/b1'', ''/i/share/resync/bin/b2''], scripted_world two_builds [] \<lparr>trace := [ReadDir ''/i/share/resync/bin'']\<rparr>)"
    by (simp add: read_dir_def file_op_def scripted_world_def there two_builds_paths)
  obtain s' :: "run_result list world" where ran: "prune_managed_builds client_env ''/i'' ''/i/share/resync/bin/b2/resync''
      [''/i/share/resync/bin/b2/resync''] (scripted_world two_builds []) = (Inr [''/i/share/resync/bin/b1''], s')"
    by (simp add: prune_managed_builds_def two_builds_paths executes read_dir_def same_path_def path_starts_with_def Let_def
       remove_tree_def is_dir_def remove_dir_all_def file_op_def scripted_world_def there)
  have files: "files (scripted_world two_builds []) = two_builds" by (simp add: scripted_world_def)
  have "fs_get two_builds ''/i/share/resync/bin/b2/resync'' = Some (File ''2'')" by (simp add: two_builds_def fs_get_def)
  moreover note prune_spares_builds_in_use [OF ran two_builds_paths(2), unfolded files two_builds_paths listed]
  ultimately show ?thesis using ran by (simp add: two_builds_paths same_path_def)
qed

end
