(* ===== verification/Spec2Isabelle.thy ===== *)
theory Spec2Isabelle
  imports Daemon_Examples Client_Examples Gate_Refinement Directory_Walk Cli_Arguments Managed_Builds Local_Documents Project_Commands Registration Peer Command_Line Daemon_Process Command_Examples Process_Examples Daemon_Invariant
begin

text \<open>
  RepoSync keeps checkouts of a project on several machines at the hosted branch while people and
  coding agents work in them. A daemon per user owns the local catalog of projects, one lease gate
  per project and a queue of publications; the command line, the Git hooks and the agents' tool
  hooks talk to it over a local socket; the daemon talks to the provider over HTTP and to the
  repositories by running Git.

  How the program is represented.

  \<^item> A function that returns \<open>Result\<close> and touches the outside is a \<open>prog\<close> (\<open>Prelude\<close>): a function
    from a state to an error or a value, and the new state. \<open>andThen\<close> is the \<open>?\<close> operator, so
    every early return of the source is a branch.
  \<^item> The state is the record \<open>world\<close> (\<open>World\<close>): the files that the program reads and writes through
    \<open>std::fs\<close>, the trace of its effects (\<open>event\<close>), and an abstract rest. What is not in the
    repository or the standard library is a field of \<open>env\<close> (processes, HTTP, clock, randomness,
    hashes, JSON text, symbolic links), a parameter of every definition; any file operation may
    fail there. \<open>os\<close> adds sockets, signals and the passing of time for the daemon's client.
    The typed documents that serde reads and writes are codecs, except where the source's own
    rules matter (\<open>Protocol\<close> has the decoders of the provider's messages).
  \<^item> The daemon's memory extends this record (\<open>Daemon_State\<close>: catalog, queue, gates, background
    tasks). A handler is one task; \<open>dv_others\<close>, an arbitrary function of the state, runs at every
    await. Waiting for a gate takes at most \<open>dv_rounds\<close> wake-ups, after which the task is said to
    wait (\<open>Waits\<close>); that waiting requests are served is proved on the step relation of \<open>Lease_Gate\<close>.

  The theories, with the sources under \<open>src/src\<close>.

  \<^item> \<open>Prelude\<close>, \<open>Rust_Strings\<close>, \<open>Json\<close>, \<open>World\<close>: the vocabulary, UTF-8 strings and the string
    operations of the standard library, JSON values and keyed stores, files and events. The
    locales \<open>inductive_invariant\<close>, \<open>keyed_store\<close> and \<open>simulation\<close> state the interfaces that the
    components instantiate.
  \<^item> \<open>Process\<close>, \<open>Git_State\<close>, \<open>Local_State\<close>: \<open>process.rs\<close>, \<open>git_state.rs\<close>, \<open>state.rs\<close>.
  \<^item> \<open>Transaction\<close>, \<open>Transaction_Gc\<close>: \<open>transaction.rs\<close>, preparing, installing and recovering a
    reconciliation, and collecting old records. \<open>Transaction_Safety\<close> proves which events can touch
    a workspace, that the journal comes first, and what recovery does; \<open>Directory_Walk\<close> that the
    walk over reference directories ends (its fuel is one more than the number of files).
  \<^item> \<open>Credentials\<close>, \<open>Identity\<close>, \<open>Provider\<close>, \<open>Protocol\<close>, \<open>Publication\<close>, \<open>Named_Lease\<close>, \<open>Remote\<close>:
    the files of these names. Shown are validation and migration of the provider's messages,
    acknowledgements, the receipts of named leases and the time of their renewal.
  \<^item> \<open>Lease_Gate\<close>, \<open>Daemon_State\<close>, \<open>Daemon_Reconcile\<close>, \<open>Daemon_Publish\<close>, \<open>Daemon\<close>: \<open>daemon.rs\<close> up
    to its request handlers, and \<open>config.rs\<close>. \<open>Lease_Gate\<close> is a step relation over the critical
    sections of the gate with its invariants; \<open>Gate_Refinement\<close> shows that it implements a fair
    lock. \<open>Frames\<close> shows what the components leave alone. \<open>Daemon_Safety\<close>, \<open>Daemon_Promises\<close>,
    \<open>Daemon_Delivery\<close> and \<open>Daemon_Installation\<close> prove that a workspace changes only under the gate
    with current inputs, that commits are durable before they are acknowledged, that candidates
    are validated before they are pushed, and what an acknowledgement marks.
  \<^item> \<open>Daemon_Client\<close>: \<open>rpc.rs\<close> and the client's part of \<open>daemon.rs\<close> (process lock, connections,
    stale daemons, systemd). The source's own bounds are kept: 2 attempts for the lock, 50 rounds
    for a stopping daemon, 150 for a starting one; a delivery has at most 5 rounds.
  \<^item> \<open>Daemon_Process\<close>: \<open>load\<close> and \<open>run_daemon\<close> of \<open>daemon.rs\<close>. The endless \<open>select!\<close> loop is a
    recursion over the list of what happens to the daemon (clock ticks, turns of spawned tasks,
    connections, a failing accept, the signal to stop), so a statement about all lists is one
    about every moment of a run. \<open>Daemon_Invariant\<close> proves an invariant of catalog and queue for
    the whole process, from its start through every event, whatever fails.
  \<^item> \<open>Hook_Dispatcher\<close>, \<open>Hook_Merging\<close>, \<open>Adapters\<close>, \<open>Workspace\<close>, \<open>Shell_Commands\<close>, \<open>Codex_Hook\<close>:
    \<open>hook_dispatcher.rs\<close>, \<open>workspace.rs\<close> and the hooks of \<open>cli.rs\<close>: what is installed into a
    checkout, and what runs before and after a tool call of an agent.
  \<^item> \<open>Cli_Arguments\<close>, \<open>Managed_Builds\<close>, \<open>Project_Commands\<close>, \<open>Command_Line\<close>: the commands of
    \<open>cli.rs\<close> and \<open>main.rs\<close>: the rewriting of arguments, targets, durations and named leases; the
    installation and pruning of builds; login, init, fork, join, leave and creation records; the
    dispatch with its answers and exit codes. A command that clap has parsed is a value of a
    datatype. \<open>Local_Documents\<close> has the JSON documents of \<open>state.rs\<close>, and \<open>Registration\<close> composes the
    command line's request with the daemon's handler.
  \<^item> \<open>Peer\<close>: \<open>peer.rs\<close>: targets and tickets, the check of an ELF binary, the download of a release,
    the script that ssh runs on the peer, synchronising and accepting a project.
  \<^item> \<open>Scripted_World\<close> and the theories \<open>..._Examples\<close>: a closed instance of the environment, and
    complete runs in it that instantiate the theorems.

  Widths. Tickets of the gate are 64-bit words and wrap around; numbers that the source adds with
  saturation or checks are naturals or integers with the bound written out. Times are integers in
  nanoseconds.

  Not modelled: the argument parser that clap generates and the printing of answers (an answer is
  a JSON value or a text of the model), \<open>lib.rs\<close>, which lists the modules, the branches for other
  systems than Linux, the texts of the skill that the build embeds (parameters), and the contents
  of repositories: Git is run, not modelled. In a run of the daemon the awaits are the points where
  other tasks act; that they do so only between the events of one task's critical sections is part
  of the model, not a theorem about the async runtime.
\<close>

end
